(* ===== verification/Prelude.thy ===== *)
theory Prelude
  imports Main "HOL-Library.Word"
begin

text \<open>
  Shared vocabulary of the development: the machine integers of the C++ sources, byte
  buffers with an explicit out-of-bounds outcome, IEEE single precision values as their bit
  patterns, and the lemmas on lists and words that every component uses.
\<close>

unbundle bit_operations_syntax

section \<open>Machine integers and buffers\<close>

type_synonym u8 = "8 word"
type_synonym u16 = "16 word"
type_synonym u32 = "32 word"
type_synonym u64 = "64 word"
type_synonym i32 = "32 word" \<comment> \<open>a signed field is read with \<open>sint\<close>\<close>

text \<open>A byte buffer is the list of its octets; \<open>f32\<close> is the bit pattern of a C \<open>float\<close>.\<close>

type_synonym bytes = "u8 list"
type_synonym f32 = "32 word"

named_theorems buffer_simps "facts about buffer reads and writes"
named_theorems word_order "comparisons of words as comparisons of numbers"

declare word_le_nat_alt [word_order] word_less_nat_alt [word_order]

text \<open>
  \<open>memcpy\<close> into a fixed buffer: \<open>None\<close> is a write that leaves the buffer, which C++ does
  not detect and which is undefined behaviour there.
\<close>

definition mem_write :: "'a list \<Rightarrow> nat \<Rightarrow> 'a list \<Rightarrow> 'a list option" where
  "mem_write dst off src =
     (if off + length src \<le> length dst
      then Some (take off dst @ src @ drop (off + length src) dst) else None)"

lemma mem_write_Some_iff [buffer_simps]:
  "mem_write dst off src = Some dst' \<longleftrightarrow>
     off + length src \<le> length dst \<and> dst' = take off dst @ src @ drop (off + length src) dst"
  by (auto simp: mem_write_def)

lemma mem_write_None_iff [buffer_simps]:
  "mem_write dst off src = None \<longleftrightarrow> length dst < off + length src"
  by (auto simp: mem_write_def)

lemma mem_write_length: "mem_write dst off src = Some dst' \<Longrightarrow> length dst' = length dst"
  by (auto simp: buffer_simps)

text \<open>Octets below the destination are not touched.\<close>

lemma mem_write_prefix:
  "mem_write dst off src = Some dst' \<Longrightarrow> n \<le> off \<Longrightarrow> take n dst' = take n dst"
  by (auto simp: buffer_simps min_def)

section \<open>Floats\<close>

text \<open>
  The program stores, copies and compares \<open>float\<close> values. A value is its IEEE 754 bit
  pattern; \<open>float_ne\<close> is C's \<open>!=\<close>: true when either side is a NaN, false on \<open>0.0\<close>
  against \<open>-0.0\<close>.
\<close>

definition is_nan :: "f32 \<Rightarrow> bool" where
  "is_nan x = (0x7F800000 < x AND 0x7FFFFFFF)"

definition float_ne :: "f32 \<Rightarrow> f32 \<Rightarrow> bool" where
  "float_ne a b = (is_nan a \<or> is_nan b \<or>
     (a \<noteq> b \<and> \<not> (a AND 0x7FFFFFFF = 0 \<and> b AND 0x7FFFFFFF = 0)))"

lemma float_ne_irrefl: "\<not> is_nan a \<Longrightarrow> \<not> float_ne a a"
  by (simp add: float_ne_def)

text \<open>
  The conversion \<open>(float)n\<close> of an unsigned 32-bit integer, rounding to nearest with ties to
  even, on bit patterns: \<open>m\<close> is the 24-bit significand with its leading one.
\<close>

fun floor_log2 :: "nat \<Rightarrow> nat" where
  "floor_log2 n = (if n < 2 then 0 else Suc (floor_log2 (n div 2)))"

declare floor_log2.simps [simp del]

definition round_even_div :: "nat \<Rightarrow> nat \<Rightarrow> nat" where
  "round_even_div n d =
     (let q = n div d; r = n mod d in
      if 2 * r < d then q else if d < 2 * r then Suc q else if even q then q else Suc q)"

definition float_of_u32 :: "u32 \<Rightarrow> f32" where
  "float_of_u32 w =
     (let n = unat w in
      if n = 0 then 0
      else let e = floor_log2 n;
               m = (if e \<le> 23 then n * 2 ^ (23 - e) else round_even_div n (2 ^ (e - 23)))
           in of_nat ((126 + e) * 2 ^ 23 + m))"

section \<open>Lists and words\<close>

lemma nth_update_other [buffer_simps]: "i \<noteq> j \<Longrightarrow> xs[i := v] ! j = xs ! j"
  by simp

lemma unat_of_nat_u32: "n < 2 ^ 32 \<Longrightarrow> unat (of_nat n :: u32) = n"
  by (simp add: unat_of_nat)

lemma unat_u32_lt: "unat (w :: u32) < 2 ^ 32"
  using unsigned_less [of w] by simp

lemma unat_add_no_wrap:
  fixes a b :: u32
  assumes "unat a + unat b < 2 ^ 32"
  shows "unat (a + b) = unat a + unat b"
  using assms by (simp add: unat_word_ariths)

lemma unat_u32_sub: "b \<le> a \<Longrightarrow> unat (a - b) = unat a - unat (b :: u32)"
  by (rule unat_sub) 

lemma sint_u32_cases:
  fixes w :: u32
  shows "sint w = (if unat w < 2 ^ 31 then int (unat w) else int (unat w) - 2 ^ 32)"
proof -
  define n where "n = unat w"
  have lt: "n < 2 ^ 32" unfolding n_def using unsigned_less [of w] by simp
  have "sint w = signed_take_bit 31 (uint w)" by (simp add: sint_uint)
  also have "uint w = int n" by (simp add: n_def)
  finally have s: "sint w = (int n + 2 ^ 31) mod 2 ^ 32 - 2 ^ 31"
    by (simp add: signed_take_bit_eq_take_bit_shift take_bit_eq_mod)
  show ?thesis unfolding n_def [symmetric]
  proof (cases "n < 2 ^ 31")
    case True
    then have "(int n + 2 ^ 31) mod 2 ^ 32 = int n + 2 ^ 31" by simp
    with s True show "sint w = (if n < 2 ^ 31 then int n else int n - 2 ^ 32)" by simp
  next
    case False
    then have "(int n - 2 ^ 31) mod 2 ^ 32 = int n - 2 ^ 31"
      using lt by (intro mod_pos_pos_trivial) auto
    moreover have "(int n + 2 ^ 31) mod 2 ^ 32 = (int n - 2 ^ 31 + 2 ^ 32) mod 2 ^ 32"
      by (simp add: add.commute)
    ultimately have "(int n + 2 ^ 31) mod 2 ^ 32 = int n - 2 ^ 31" by (simp only: mod_add_self2)
    with s False show "sint w = (if n < 2 ^ 31 then int n else int n - 2 ^ 32)" by simp
  qed
qed

lemma unat_ucast_u8: "unat (ucast (w :: u8) :: u32) = unat w"
proof -
  have "unat w < 2 ^ 8" using unsigned_less [of w] by simp
  then show ?thesis by (simp add: unsigned_ucast_eq take_bit_nat_eq_self)
qed

lemma of_char_u32_eq_iff: "(of_char c :: u32) = of_char c' \<longleftrightarrow> c = c'"
proof -
  have u: "unat (of_char d :: u32) = (of_char d :: nat)" for d
  proof -
    have "(of_char d :: u32) = of_nat (of_char d :: nat)" by (simp only: of_nat_of_char)
    moreover have "(of_char d :: nat) < 2 ^ 32" by (rule less_trans [OF nat_of_char_less_256]) simp
    ultimately show ?thesis by (simp only: unat_of_nat_u32)
  qed
  show ?thesis by (metis u of_char_eq_iff)
qed

lemma take_drop_glue: "take n (drop k xs) @ drop (k + n) xs = drop k xs"
  by (metis add.commute append_take_drop_id drop_drop)

text \<open>\<open>find_upt p lo hi\<close>: the first index of \<open>[lo, hi)\<close> that satisfies \<open>p\<close>.\<close>

lemma find_upt_Some_iff:
  "find p [lo..<hi] = Some i \<longleftrightarrow> lo \<le> i \<and> i < hi \<and> p i \<and> (\<forall>j. lo \<le> j \<and> j < i \<longrightarrow> \<not> p j)"
proof
  assume "find p [lo..<hi] = Some i"
  then obtain k where k: "k < length [lo..<hi]" "p ([lo..<hi] ! k)" "i = [lo..<hi] ! k"
      "\<forall>j<k. \<not> p ([lo..<hi] ! j)"
    by (auto simp: find_Some_iff)
  have "\<not> p j" if "lo \<le> j" "j < i" for j
  proof -
    from k that have "j - lo < k" "j - lo < length [lo..<hi]" by auto
    with k(4) have "\<not> p ([lo..<hi] ! (j - lo))" by blast
    with that k show ?thesis by simp
  qed
  with k show "lo \<le> i \<and> i < hi \<and> p i \<and> (\<forall>j. lo \<le> j \<and> j < i \<longrightarrow> \<not> p j)" by auto
next
  assume i: "lo \<le> i \<and> i < hi \<and> p i \<and> (\<forall>j. lo \<le> j \<and> j < i \<longrightarrow> \<not> p j)"
  then show "find p [lo..<hi] = Some i"
    by (auto simp: find_Some_iff intro!: exI [of _ "i - lo"])
qed

lemma find_upt_None_iff: "find p [lo..<hi] = None \<longleftrightarrow> (\<forall>j. lo \<le> j \<and> j < hi \<longrightarrow> \<not> p j)"
  by (auto simp: find_None_iff)

end
