(* ===== verification/Bacnet_Constants.thy ===== *)
theory Bacnet_Constants
  imports Prelude
begin

text \<open>
  The numbers of the BACnet standard and of the example's configuration, under the names the
  sources give them (common/CASBACnetStackExampleConstants.h, main.cpp sections 1 and 1b,
  sc/ScNode.h, sc/ScNode.cpp). They are abbreviations: a condition on an object type reads as
  in the code and is still a comparison of numerals for the simplifier.
\<close>

section \<open>The constants header\<close>

abbreviation (input) OBJECT_TYPE_ANALOG_INPUT :: u16 where "OBJECT_TYPE_ANALOG_INPUT \<equiv> 0"
abbreviation (input) OBJECT_TYPE_ANALOG_OUTPUT :: u16 where "OBJECT_TYPE_ANALOG_OUTPUT \<equiv> 1"
abbreviation (input) OBJECT_TYPE_ANALOG_VALUE :: u16 where "OBJECT_TYPE_ANALOG_VALUE \<equiv> 2"
abbreviation (input) OBJECT_TYPE_BINARY_INPUT :: u16 where "OBJECT_TYPE_BINARY_INPUT \<equiv> 3"
abbreviation (input) OBJECT_TYPE_BINARY_OUTPUT :: u16 where "OBJECT_TYPE_BINARY_OUTPUT \<equiv> 4"
abbreviation (input) OBJECT_TYPE_DEVICE :: u16 where "OBJECT_TYPE_DEVICE \<equiv> 8"
abbreviation (input) OBJECT_TYPE_MULTI_STATE_INPUT :: u16 where "OBJECT_TYPE_MULTI_STATE_INPUT \<equiv> 13"
abbreviation (input) OBJECT_TYPE_MULTI_STATE_OUTPUT :: u16 where "OBJECT_TYPE_MULTI_STATE_OUTPUT \<equiv> 14"
abbreviation (input) OBJECT_TYPE_NOTIFICATION_CLASS :: u16 where "OBJECT_TYPE_NOTIFICATION_CLASS \<equiv> 15"
abbreviation (input) OBJECT_TYPE_NETWORK_PORT :: u16 where "OBJECT_TYPE_NETWORK_PORT \<equiv> 56"
abbreviation (input) PROPERTY_IDENTIFIER_APPLICATION_SOFTWARE_VERSION :: u32 where "PROPERTY_IDENTIFIER_APPLICATION_SOFTWARE_VERSION \<equiv> 12"
abbreviation (input) PROPERTY_IDENTIFIER_APDU_LENGTH :: u32 where "PROPERTY_IDENTIFIER_APDU_LENGTH \<equiv> 399"
abbreviation (input) PROPERTY_IDENTIFIER_DESCRIPTION :: u32 where "PROPERTY_IDENTIFIER_DESCRIPTION \<equiv> 28"
abbreviation (input) PROPERTY_IDENTIFIER_FIRMWARE_REVISION :: u32 where "PROPERTY_IDENTIFIER_FIRMWARE_REVISION \<equiv> 44"
abbreviation (input) PROPERTY_IDENTIFIER_LOCAL_DATE :: u32 where "PROPERTY_IDENTIFIER_LOCAL_DATE \<equiv> 56"
abbreviation (input) PROPERTY_IDENTIFIER_LOCAL_TIME :: u32 where "PROPERTY_IDENTIFIER_LOCAL_TIME \<equiv> 57"
abbreviation (input) PROPERTY_IDENTIFIER_LOCATION :: u32 where "PROPERTY_IDENTIFIER_LOCATION \<equiv> 58"
abbreviation (input) PROPERTY_IDENTIFIER_MODEL_NAME :: u32 where "PROPERTY_IDENTIFIER_MODEL_NAME \<equiv> 70"
abbreviation (input) PROPERTY_IDENTIFIER_IP_ADDRESS :: u32 where "PROPERTY_IDENTIFIER_IP_ADDRESS \<equiv> 400"
abbreviation (input) PROPERTY_IDENTIFIER_IP_DEFAULT_GATEWAY :: u32 where "PROPERTY_IDENTIFIER_IP_DEFAULT_GATEWAY \<equiv> 401"
abbreviation (input) PROPERTY_IDENTIFIER_BACNET_IP_MODE :: u32 where "PROPERTY_IDENTIFIER_BACNET_IP_MODE \<equiv> 408"
abbreviation (input) PROPERTY_IDENTIFIER_IP_SUBNET_MASK :: u32 where "PROPERTY_IDENTIFIER_IP_SUBNET_MASK \<equiv> 411"
abbreviation (input) PROPERTY_IDENTIFIER_BACNET_IP_UDP_PORT :: u32 where "PROPERTY_IDENTIFIER_BACNET_IP_UDP_PORT \<equiv> 412"
abbreviation (input) PROPERTY_IDENTIFIER_LINK_SPEED :: u32 where "PROPERTY_IDENTIFIER_LINK_SPEED \<equiv> 420"
abbreviation (input) PROPERTY_IDENTIFIER_MAC_ADDRESS :: u32 where "PROPERTY_IDENTIFIER_MAC_ADDRESS \<equiv> 423"
abbreviation (input) PROPERTY_IDENTIFIER_NUMBER_OF_STATES :: u32 where "PROPERTY_IDENTIFIER_NUMBER_OF_STATES \<equiv> 74"
abbreviation (input) PROPERTY_IDENTIFIER_OBJECT_IDENTIFIER :: u32 where "PROPERTY_IDENTIFIER_OBJECT_IDENTIFIER \<equiv> 75"
abbreviation (input) PROPERTY_IDENTIFIER_OBJECT_NAME :: u32 where "PROPERTY_IDENTIFIER_OBJECT_NAME \<equiv> 77"
abbreviation (input) PROPERTY_IDENTIFIER_OBJECT_TYPE :: u32 where "PROPERTY_IDENTIFIER_OBJECT_TYPE \<equiv> 79"
abbreviation (input) PROPERTY_IDENTIFIER_OUT_OF_SERVICE :: u32 where "PROPERTY_IDENTIFIER_OUT_OF_SERVICE \<equiv> 81"
abbreviation (input) PROPERTY_IDENTIFIER_POLARITY :: u32 where "PROPERTY_IDENTIFIER_POLARITY \<equiv> 84"
abbreviation (input) PROPERTY_IDENTIFIER_PRESENT_VALUE :: u32 where "PROPERTY_IDENTIFIER_PRESENT_VALUE \<equiv> 85"
abbreviation (input) PROPERTY_IDENTIFIER_PRIORITY_ARRAY :: u32 where "PROPERTY_IDENTIFIER_PRIORITY_ARRAY \<equiv> 87"
abbreviation (input) PROPERTY_IDENTIFIER_RELINQUISH_DEFAULT :: u32 where "PROPERTY_IDENTIFIER_RELINQUISH_DEFAULT \<equiv> 104"
abbreviation (input) PROPERTY_IDENTIFIER_CURRENT_COMMAND_PRIORITY :: u32 where "PROPERTY_IDENTIFIER_CURRENT_COMMAND_PRIORITY \<equiv> 431"
abbreviation (input) PROPERTY_IDENTIFIER_REFERENCE_PORT :: u32 where "PROPERTY_IDENTIFIER_REFERENCE_PORT \<equiv> 483"
abbreviation (input) PROPERTY_IDENTIFIER_ROUTING_TABLE :: u32 where "PROPERTY_IDENTIFIER_ROUTING_TABLE \<equiv> 428"
abbreviation (input) PROPERTY_IDENTIFIER_STATE_TEXT :: u32 where "PROPERTY_IDENTIFIER_STATE_TEXT \<equiv> 110"
abbreviation (input) PROPERTY_IDENTIFIER_STATUS_FLAGS :: u32 where "PROPERTY_IDENTIFIER_STATUS_FLAGS \<equiv> 111"
abbreviation (input) PROPERTY_IDENTIFIER_SYSTEM_STATUS :: u32 where "PROPERTY_IDENTIFIER_SYSTEM_STATUS \<equiv> 112"
abbreviation (input) PROPERTY_IDENTIFIER_UNITS :: u32 where "PROPERTY_IDENTIFIER_UNITS \<equiv> 117"
abbreviation (input) PROPERTY_IDENTIFIER_VENDOR_IDENTIFIER :: u32 where "PROPERTY_IDENTIFIER_VENDOR_IDENTIFIER \<equiv> 120"
abbreviation (input) PROPERTY_IDENTIFIER_VENDOR_NAME :: u32 where "PROPERTY_IDENTIFIER_VENDOR_NAME \<equiv> 121"
abbreviation (input) ENGINEERING_UNITS_DEGREES_CELSIUS :: u32 where "ENGINEERING_UNITS_DEGREES_CELSIUS \<equiv> 62"
abbreviation (input) ENGINEERING_UNITS_PERCENT :: u32 where "ENGINEERING_UNITS_PERCENT \<equiv> 98"
abbreviation (input) POLARITY_NORMAL :: u32 where "POLARITY_NORMAL \<equiv> 0"
abbreviation (input) BACNET_IP_MODE_NORMAL :: u32 where "BACNET_IP_MODE_NORMAL \<equiv> 0"
abbreviation (input) SERVICE_ACKNOWLEDGE_ALARM :: u32 where "SERVICE_ACKNOWLEDGE_ALARM \<equiv> 0"
abbreviation (input) SERVICE_CONFIRMED_EVENT_NOTIFICATION :: u32 where "SERVICE_CONFIRMED_EVENT_NOTIFICATION \<equiv> 2"
abbreviation (input) SERVICE_READ_PROPERTY :: u32 where "SERVICE_READ_PROPERTY \<equiv> 12"
abbreviation (input) SERVICE_READ_PROPERTY_MULTIPLE :: u32 where "SERVICE_READ_PROPERTY_MULTIPLE \<equiv> 14"
abbreviation (input) SERVICE_WRITE_PROPERTY :: u32 where "SERVICE_WRITE_PROPERTY \<equiv> 15"
abbreviation (input) SERVICE_WRITE_PROPERTY_MULTIPLE :: u32 where "SERVICE_WRITE_PROPERTY_MULTIPLE \<equiv> 16"
abbreviation (input) SERVICE_DEVICE_COMMUNICATION_CONTROL :: u32 where "SERVICE_DEVICE_COMMUNICATION_CONTROL \<equiv> 17"
abbreviation (input) SERVICE_REINITIALIZE_DEVICE :: u32 where "SERVICE_REINITIALIZE_DEVICE \<equiv> 20"
abbreviation (input) SERVICE_I_AM :: u32 where "SERVICE_I_AM \<equiv> 26"
abbreviation (input) SERVICE_I_HAVE :: u32 where "SERVICE_I_HAVE \<equiv> 27"
abbreviation (input) SERVICE_UNCONFIRMED_EVENT_NOTIFICATION :: u32 where "SERVICE_UNCONFIRMED_EVENT_NOTIFICATION \<equiv> 29"
abbreviation (input) SERVICE_TIME_SYNCHRONIZATION :: u32 where "SERVICE_TIME_SYNCHRONIZATION \<equiv> 32"
abbreviation (input) SERVICE_WHO_HAS :: u32 where "SERVICE_WHO_HAS \<equiv> 33"
abbreviation (input) SERVICE_WHO_IS :: u32 where "SERVICE_WHO_IS \<equiv> 34"
abbreviation (input) SERVICE_UTC_TIME_SYNCHRONIZATION :: u32 where "SERVICE_UTC_TIME_SYNCHRONIZATION \<equiv> 36"
abbreviation (input) SERVICE_GET_EVENT_INFORMATION :: u32 where "SERVICE_GET_EVENT_INFORMATION \<equiv> 39"
abbreviation (input) READ_PROPERTY_SERVICE_TYPE :: u8 where "READ_PROPERTY_SERVICE_TYPE \<equiv> 12"
abbreviation (input) READ_PROPERTY_MULTIPLE_SERVICE_TYPE :: u8 where "READ_PROPERTY_MULTIPLE_SERVICE_TYPE \<equiv> 14"
abbreviation (input) WRITE_PROPERTY_SERVICE_TYPE :: u8 where "WRITE_PROPERTY_SERVICE_TYPE \<equiv> 15"
abbreviation (input) BACNET_DATATYPE_REAL :: u8 where "BACNET_DATATYPE_REAL \<equiv> 4"
abbreviation (input) DCC_ENABLE :: u8 where "DCC_ENABLE \<equiv> 0"
abbreviation (input) DCC_DISABLE :: u8 where "DCC_DISABLE \<equiv> 1"
abbreviation (input) DCC_DISABLE_INITIATION :: u8 where "DCC_DISABLE_INITIATION \<equiv> 2"
abbreviation (input) REINITIALIZE_STATE_COLDSTART :: u32 where "REINITIALIZE_STATE_COLDSTART \<equiv> 0"
abbreviation (input) REINITIALIZE_STATE_WARMSTART :: u32 where "REINITIALIZE_STATE_WARMSTART \<equiv> 1"
abbreviation (input) NOTIFY_TYPE_ALARM :: u8 where "NOTIFY_TYPE_ALARM \<equiv> 0"
abbreviation (input) NOTIFY_TYPE_EVENT :: u8 where "NOTIFY_TYPE_EVENT \<equiv> 1"
abbreviation (input) ERROR_CODE_READ_ACCESS_DENIED :: u32 where "ERROR_CODE_READ_ACCESS_DENIED \<equiv> 27"
abbreviation (input) ERROR_CODE_PASSWORD_FAILURE :: u32 where "ERROR_CODE_PASSWORD_FAILURE \<equiv> 26"
abbreviation (input) ERROR_CODE_UNKNOWN_PROPERTY :: u32 where "ERROR_CODE_UNKNOWN_PROPERTY \<equiv> 32"
abbreviation (input) ERROR_CODE_VALUE_OUT_OF_RANGE :: u32 where "ERROR_CODE_VALUE_OUT_OF_RANGE \<equiv> 37"
abbreviation (input) ERROR_CODE_INVALID_ARRAY_INDEX :: u32 where "ERROR_CODE_INVALID_ARRAY_INDEX \<equiv> 42"
abbreviation (input) ERROR_CODE_OPTIONAL_FUNCTIONALITY_NOT_SUPPORTED :: u32 where "ERROR_CODE_OPTIONAL_FUNCTIONALITY_NOT_SUPPORTED \<equiv> 45"
abbreviation (input) ERROR_CODE_SUCCESS :: u32 where "ERROR_CODE_SUCCESS \<equiv> 84"
abbreviation (input) NETWORK_TYPE_IP :: u8 where "NETWORK_TYPE_IP \<equiv> 0"
abbreviation (input) NETWORK_PORT_NETWORK_TYPE_IPV4 :: u8 where "NETWORK_PORT_NETWORK_TYPE_IPV4 \<equiv> 5"
abbreviation (input) NETWORK_PORT_PROTOCOL_LEVEL_BACNET_APPLICATION :: u8 where "NETWORK_PORT_PROTOCOL_LEVEL_BACNET_APPLICATION \<equiv> 2"
abbreviation (input) NETWORK_PORT_REFERENCE_PORT_NONE :: u32 where "NETWORK_PORT_REFERENCE_PORT_NONE \<equiv> 4194303"
abbreviation (input) NETWORK_NUMBER_QUALITY_UNKNOWN :: u8 where "NETWORK_NUMBER_QUALITY_UNKNOWN \<equiv> 0"
abbreviation (input) NETWORK_NUMBER_QUALITY_LEARNED :: u8 where "NETWORK_NUMBER_QUALITY_LEARNED \<equiv> 1"
abbreviation (input) NETWORK_NUMBER_QUALITY_LEARNED_CONFIGURED :: u8 where "NETWORK_NUMBER_QUALITY_LEARNED_CONFIGURED \<equiv> 2"
abbreviation (input) NETWORK_NUMBER_QUALITY_CONFIGURED :: u8 where "NETWORK_NUMBER_QUALITY_CONFIGURED \<equiv> 3"
abbreviation (input) CHARACTER_STRING_ENCODING_UTF8 :: u8 where "CHARACTER_STRING_ENCODING_UTF8 \<equiv> 0"

section \<open>main.cpp\<close>

abbreviation (input) VENDOR_IDENTIFIER :: u32 where "VENDOR_IDENTIFIER \<equiv> 389"
abbreviation (input) ANALOG_INPUT_INSTANCE :: u32 where "ANALOG_INPUT_INSTANCE \<equiv> 1"
abbreviation (input) BINARY_INPUT_INSTANCE :: u32 where "BINARY_INPUT_INSTANCE \<equiv> 1"
abbreviation (input) MULTI_STATE_INPUT_INSTANCE :: u32 where "MULTI_STATE_INPUT_INSTANCE \<equiv> 1"
abbreviation (input) MULTI_STATE_INPUT_NUMBER_OF_STATES :: u32 where "MULTI_STATE_INPUT_NUMBER_OF_STATES \<equiv> 3"
abbreviation (input) NETWORK_PORT_INSTANCE :: u32 where "NETWORK_PORT_INSTANCE \<equiv> 1"
abbreviation (input) MAX_APDU_LENGTH :: u32 where "MAX_APDU_LENGTH \<equiv> 1476"
abbreviation (input) ANALOG_OUTPUT_INSTANCE :: u32 where "ANALOG_OUTPUT_INSTANCE \<equiv> 1"
abbreviation (input) BINARY_OUTPUT_INSTANCE :: u32 where "BINARY_OUTPUT_INSTANCE \<equiv> 1"
abbreviation (input) MULTI_STATE_OUTPUT_INSTANCE :: u32 where "MULTI_STATE_OUTPUT_INSTANCE \<equiv> 1"
abbreviation (input) MULTI_STATE_OUTPUT_NUMBER_OF_STATES :: u32 where "MULTI_STATE_OUTPUT_NUMBER_OF_STATES \<equiv> 3"
abbreviation (input) BACNET_PRIORITY_ARRAY_SIZE :: u32 where "BACNET_PRIORITY_ARRAY_SIZE \<equiv> 16"
abbreviation (input) ANALOG_VALUE_INSTANCE :: u32 where "ANALOG_VALUE_INSTANCE \<equiv> 1"
abbreviation (input) ANALOG_VALUE_TIME_DELAY :: u32 where "ANALOG_VALUE_TIME_DELAY \<equiv> 0"
abbreviation (input) NOTIFICATION_CLASS_INSTANCE :: u32 where "NOTIFICATION_CLASS_INSTANCE \<equiv> 1"
abbreviation (input) NC_PRIORITY_TO_OFFNORMAL :: u8 where "NC_PRIORITY_TO_OFFNORMAL \<equiv> 100"
abbreviation (input) NC_PRIORITY_TO_FAULT :: u8 where "NC_PRIORITY_TO_FAULT \<equiv> 50"
abbreviation (input) NC_PRIORITY_TO_NORMAL :: u8 where "NC_PRIORITY_TO_NORMAL \<equiv> 200"
abbreviation (input) RECIPIENT_PROCESS_IDENTIFIER :: u32 where "RECIPIENT_PROCESS_IDENTIFIER \<equiv> 1"
abbreviation (input) SCHEDULE_INSTANCE :: u32 where "SCHEDULE_INSTANCE \<equiv> 1"
abbreviation (input) CALENDAR_INSTANCE :: u32 where "CALENDAR_INSTANCE \<equiv> 1"
abbreviation (input) SCHEDULE_WRITE_PRIORITY :: u8 where "SCHEDULE_WRITE_PRIORITY \<equiv> 8"
abbreviation (input) OBJECT_TYPE_SCHEDULE :: u16 where "OBJECT_TYPE_SCHEDULE \<equiv> 17"
abbreviation (input) OBJECT_TYPE_CALENDAR :: u16 where "OBJECT_TYPE_CALENDAR \<equiv> 6"
abbreviation (input) PROPERTY_IDENTIFIER_RELIABILITY :: u32 where "PROPERTY_IDENTIFIER_RELIABILITY \<equiv> 103"
abbreviation (input) PROPERTY_IDENTIFIER_RECIPIENT_LIST :: u32 where "PROPERTY_IDENTIFIER_RECIPIENT_LIST \<equiv> 102"
abbreviation (input) PROPERTY_IDENTIFIER_DATE_LIST :: u32 where "PROPERTY_IDENTIFIER_DATE_LIST \<equiv> 23"
abbreviation (input) RELIABILITY_NO_FAULT_DETECTED :: u32 where "RELIABILITY_NO_FAULT_DETECTED \<equiv> 0"
abbreviation (input) OBJECT_TYPE_FILE :: u16 where "OBJECT_TYPE_FILE \<equiv> 10"
abbreviation (input) FILE_INSTANCE :: u32 where "FILE_INSTANCE \<equiv> 1"
abbreviation (input) FILE_ACCESS_METHOD_STREAM :: u32 where "FILE_ACCESS_METHOD_STREAM \<equiv> 1"
abbreviation (input) FILE_MAX_SIZE :: u32 where "FILE_MAX_SIZE \<equiv> 4096"
abbreviation (input) PROPERTY_IDENTIFIER_FILE_SIZE :: u32 where "PROPERTY_IDENTIFIER_FILE_SIZE \<equiv> 42"
abbreviation (input) PROPERTY_IDENTIFIER_FILE_TYPE :: u32 where "PROPERTY_IDENTIFIER_FILE_TYPE \<equiv> 43"
abbreviation (input) PROPERTY_IDENTIFIER_ARCHIVE :: u32 where "PROPERTY_IDENTIFIER_ARCHIVE \<equiv> 13"
abbreviation (input) PROPERTY_IDENTIFIER_READ_ONLY :: u32 where "PROPERTY_IDENTIFIER_READ_ONLY \<equiv> 99"
abbreviation (input) PROPERTY_IDENTIFIER_MODIFICATION_DATE :: u32 where "PROPERTY_IDENTIFIER_MODIFICATION_DATE \<equiv> 71"
abbreviation (input) REINITIALIZE_STATE_STARTBACKUP :: u32 where "REINITIALIZE_STATE_STARTBACKUP \<equiv> 2"
abbreviation (input) REINITIALIZE_STATE_ENDBACKUP :: u32 where "REINITIALIZE_STATE_ENDBACKUP \<equiv> 3"
abbreviation (input) REINITIALIZE_STATE_STARTRESTORE :: u32 where "REINITIALIZE_STATE_STARTRESTORE \<equiv> 4"
abbreviation (input) REINITIALIZE_STATE_ENDRESTORE :: u32 where "REINITIALIZE_STATE_ENDRESTORE \<equiv> 5"
abbreviation (input) REINITIALIZE_STATE_ABORTRESTORE :: u32 where "REINITIALIZE_STATE_ABORTRESTORE \<equiv> 6"
abbreviation (input) REINITIALIZE_STATE_ACTIVATE_CHANGES :: u32 where "REINITIALIZE_STATE_ACTIVATE_CHANGES \<equiv> 7"
abbreviation (input) SERVICE_ATOMIC_READ_FILE :: u32 where "SERVICE_ATOMIC_READ_FILE \<equiv> 6"
abbreviation (input) SERVICE_ATOMIC_WRITE_FILE :: u32 where "SERVICE_ATOMIC_WRITE_FILE \<equiv> 7"
abbreviation (input) REMOTE_DEVICE_INSTANCE :: u32 where "REMOTE_DEVICE_INSTANCE \<equiv> 389002"
abbreviation (input) REMOTE_ANALOG_OUTPUT_INSTANCE :: u32 where "REMOTE_ANALOG_OUTPUT_INSTANCE \<equiv> 1"
abbreviation (input) REMOTE_ANALOG_INPUT_INSTANCE :: u32 where "REMOTE_ANALOG_INPUT_INSTANCE \<equiv> 1"
abbreviation (input) REMOTE_POLL_INTERVAL_MILLISECONDS :: u32 where "REMOTE_POLL_INTERVAL_MILLISECONDS \<equiv> 1000"
abbreviation (input) REMOTE_COMMS_LOSS_MILLISECONDS :: u32 where "REMOTE_COMMS_LOSS_MILLISECONDS \<equiv> 3000"
abbreviation (input) REMOTE_LOST_POLL_INTERVAL_MILLISECONDS :: u32 where "REMOTE_LOST_POLL_INTERVAL_MILLISECONDS \<equiv> 3000"
abbreviation (input) RELIABILITY_UNRELIABLE_OTHER :: u32 where "RELIABILITY_UNRELIABLE_OTHER \<equiv> 7"
abbreviation (input) RELIABILITY_COMMUNICATION_FAILURE :: u32 where "RELIABILITY_COMMUNICATION_FAILURE \<equiv> 12"
abbreviation (input) OBJECT_TYPE_TREND_LOG :: u16 where "OBJECT_TYPE_TREND_LOG \<equiv> 20"
abbreviation (input) OBJECT_TYPE_TREND_LOG_MULTIPLE :: u16 where "OBJECT_TYPE_TREND_LOG_MULTIPLE \<equiv> 27"
abbreviation (input) TREND_LOG_INSTANCE :: u32 where "TREND_LOG_INSTANCE \<equiv> 1"
abbreviation (input) TREND_LOG_MULTIPLE_INSTANCE :: u32 where "TREND_LOG_MULTIPLE_INSTANCE \<equiv> 1"
abbreviation (input) TREND_LOG_MAX_BUFFER_SIZE :: u32 where "TREND_LOG_MAX_BUFFER_SIZE \<equiv> 200"
abbreviation (input) TREND_LOG_MULTIPLE_MAX_BUFFER_SIZE :: u32 where "TREND_LOG_MULTIPLE_MAX_BUFFER_SIZE \<equiv> 200"
abbreviation (input) TREND_LOG_POLL_INTERVAL_HUNDREDTHS :: u32 where "TREND_LOG_POLL_INTERVAL_HUNDREDTHS \<equiv> 100"
abbreviation (input) TREND_LOG_NOTIFICATION_THRESHOLD :: u32 where "TREND_LOG_NOTIFICATION_THRESHOLD \<equiv> 30"
abbreviation (input) SERVICE_READ_RANGE :: u32 where "SERVICE_READ_RANGE \<equiv> 35"
abbreviation (input) IPV6_NETWORK_PORT_INSTANCE :: u32 where "IPV6_NETWORK_PORT_INSTANCE \<equiv> 2"
abbreviation (input) MSTP_NETWORK_PORT_INSTANCE :: u32 where "MSTP_NETWORK_PORT_INSTANCE \<equiv> 3"
abbreviation (input) SC_NETWORK_PORT_INSTANCE :: u32 where "SC_NETWORK_PORT_INSTANCE \<equiv> 4"
abbreviation (input) NETWORK_PORT_NETWORK_TYPE_MSTP :: u8 where "NETWORK_PORT_NETWORK_TYPE_MSTP \<equiv> 2"
abbreviation (input) NETWORK_PORT_NETWORK_TYPE_IPV6 :: u8 where "NETWORK_PORT_NETWORK_TYPE_IPV6 \<equiv> 9"
abbreviation (input) PROPERTY_IDENTIFIER_IPV6_ADDRESS :: u32 where "PROPERTY_IDENTIFIER_IPV6_ADDRESS \<equiv> 436"
abbreviation (input) PROPERTY_IDENTIFIER_IPV6_PREFIX_LENGTH :: u32 where "PROPERTY_IDENTIFIER_IPV6_PREFIX_LENGTH \<equiv> 437"
abbreviation (input) PROPERTY_IDENTIFIER_BACNET_IPV6_UDP_PORT :: u32 where "PROPERTY_IDENTIFIER_BACNET_IPV6_UDP_PORT \<equiv> 438"
abbreviation (input) PROPERTY_IDENTIFIER_IPV6_DEFAULT_GATEWAY :: u32 where "PROPERTY_IDENTIFIER_IPV6_DEFAULT_GATEWAY \<equiv> 439"
abbreviation (input) PROPERTY_IDENTIFIER_IPV6_DNS_SERVER :: u32 where "PROPERTY_IDENTIFIER_IPV6_DNS_SERVER \<equiv> 441"
abbreviation (input) PROPERTY_IDENTIFIER_MAX_INFO_FRAMES :: u32 where "PROPERTY_IDENTIFIER_MAX_INFO_FRAMES \<equiv> 63"
abbreviation (input) PROPERTY_IDENTIFIER_MAX_MASTER :: u32 where "PROPERTY_IDENTIFIER_MAX_MASTER \<equiv> 64"
abbreviation (input) PROPERTY_IDENTIFIER_MAX_APDU_LENGTH_ACCEPTED :: u32 where "PROPERTY_IDENTIFIER_MAX_APDU_LENGTH_ACCEPTED \<equiv> 62"
abbreviation (input) PROPERTY_IDENTIFIER_NETWORK_NUMBER :: u32 where "PROPERTY_IDENTIFIER_NETWORK_NUMBER \<equiv> 425"
abbreviation (input) MSTP_MAX_APDU_LENGTH :: u32 where "MSTP_MAX_APDU_LENGTH \<equiv> 480"
abbreviation (input) NETWORK_PORT_COMMAND_DISCARD_CHANGES :: u32 where "NETWORK_PORT_COMMAND_DISCARD_CHANGES \<equiv> 1"

section \<open>The BACnet/SC node\<close>

abbreviation (input) FILE_OPERATIONAL_CERTIFICATE_INSTANCE :: u32 where "FILE_OPERATIONAL_CERTIFICATE_INSTANCE \<equiv> 2"
abbreviation (input) FILE_ISSUER_CERTIFICATE_1_INSTANCE :: u32 where "FILE_ISSUER_CERTIFICATE_1_INSTANCE \<equiv> 3"
abbreviation (input) FILE_ISSUER_CERTIFICATE_2_INSTANCE :: u32 where "FILE_ISSUER_CERTIFICATE_2_INSTANCE \<equiv> 4"
abbreviation (input) FILE_CERTIFICATE_SIGNING_REQUEST_INSTANCE :: u32 where "FILE_CERTIFICATE_SIGNING_REQUEST_INSTANCE \<equiv> 5"
abbreviation (input) NETWORK_TYPE_SECURE_CONNECT :: u8 where "NETWORK_TYPE_SECURE_CONNECT \<equiv> 11"
abbreviation (input) PROTOCOL_LEVEL_BACNET_APPLICATION :: u8 where "PROTOCOL_LEVEL_BACNET_APPLICATION \<equiv> 2"
abbreviation (input) REFERENCE_PORT_NONE :: u32 where "REFERENCE_PORT_NONE \<equiv> 4194303"
abbreviation (input) PROPERTY_IDENTIFIER_CURRENT_HEALTH :: u32 where "PROPERTY_IDENTIFIER_CURRENT_HEALTH \<equiv> 4194307"
abbreviation (input) PROPERTY_IDENTIFIER_SC_PRIMARY_HUB_CONNECTION_STATUS :: u32 where "PROPERTY_IDENTIFIER_SC_PRIMARY_HUB_CONNECTION_STATUS \<equiv> 4194324"
abbreviation (input) PROPERTY_IDENTIFIER_SC_FAILOVER_HUB_CONNECTION_STATUS :: u32 where "PROPERTY_IDENTIFIER_SC_FAILOVER_HUB_CONNECTION_STATUS \<equiv> 4194316"
abbreviation (input) NETWORK_PORT_COMMAND_GENERATE_CSR_FILE :: u32 where "NETWORK_PORT_COMMAND_GENERATE_CSR_FILE \<equiv> 9"
abbreviation (input) ERROR_CODE_INVALID_CONFIGURATION_DATA :: u32 where "ERROR_CODE_INVALID_CONFIGURATION_DATA \<equiv> 46"
abbreviation (input) SC_MAXIMUM_BVLC_LENGTH :: u16 where "SC_MAXIMUM_BVLC_LENGTH \<equiv> 1600"
abbreviation (input) SC_MAXIMUM_NPDU_LENGTH :: u16 where "SC_MAXIMUM_NPDU_LENGTH \<equiv> 1497"
abbreviation (input) SC_CONNECT_WAIT_TIMEOUT :: u16 where "SC_CONNECT_WAIT_TIMEOUT \<equiv> 10"
abbreviation (input) SC_WEBSOCKET_CONNECT_TIMEOUT :: u16 where "SC_WEBSOCKET_CONNECT_TIMEOUT \<equiv> 10"
abbreviation (input) SC_WEBSOCKET_RECONNECT_DELAY :: u16 where "SC_WEBSOCKET_RECONNECT_DELAY \<equiv> 10"
abbreviation (input) SC_HEARTBEAT_TIMEOUT :: u16 where "SC_HEARTBEAT_TIMEOUT \<equiv> 300"
abbreviation (input) STATE_MACHINE_HUB_CONNECTION_STATUS :: u8 where "STATE_MACHINE_HUB_CONNECTION_STATUS \<equiv> 1"

end
