(* ===== verification/Commandable.thy ===== *)
theory Commandable
  imports Bacnet_Constants
begin

text \<open>
  The commandable values of the three output objects (main.cpp, section 1): a 16-slot
  Priority_Array with a Relinquish_Default, its two write operations, and the read of one
  slot. The abstract view of a priority array is a partial map from priorities 1..16 to
  values; the contract a BACnet client relies on is stated once, as a locale over that view,
  and instantiated on the code's operations.

  The C++ struct keeps every value as a \<open>double\<close> and casts it per object type. Each of the
  three objects is only ever written and read with its own type, so the struct is
  polymorphic in the value here: \<open>f32\<close> bit patterns for the analog output, \<open>u32\<close> for the
  binary and multi-state outputs. Both casts to \<open>double\<close> and back are exact (a signalling
  NaN, which the conversion may quieten, is the one exception and is not modelled).
\<close>

section \<open>The struct and its operations\<close>

record 'v Commandable =
  isSet :: "bool list"
  slotValues :: "'v list"
  relinquishDefault :: 'v

definition new_Commandable :: "'v \<Rightarrow> 'v \<Rightarrow> 'v Commandable" where
  "new_Commandable zero dflt =
     \<lparr>isSet = replicate 16 False, slotValues = replicate 16 zero, relinquishDefault = dflt\<rparr>"

definition EffectivePriority :: "u8 \<Rightarrow> u8" where
  "EffectivePriority priority = (if 1 \<le> priority \<and> priority \<le> 16 then priority else 16)"

definition CommandWrite :: "'v Commandable \<Rightarrow> u8 \<Rightarrow> 'v \<Rightarrow> 'v Commandable" where
  "CommandWrite c priority v =
     (let p = unat (EffectivePriority priority) in
      c\<lparr>isSet := (isSet c)[p - 1 := True], slotValues := (slotValues c)[p - 1 := v]\<rparr>)"

definition CommandRelinquish :: "'v Commandable \<Rightarrow> u8 \<Rightarrow> 'v Commandable" where
  "CommandRelinquish c priority =
     (let p = unat (EffectivePriority priority) in c\<lparr>isSet := (isSet c)[p - 1 := False]\<rparr>)"

text \<open>\<open>ReadPrioritySlot\<close>: \<open>None\<close> is the C++ \<open>false\<close>, a value the two out parameters.\<close>

definition ReadPrioritySlot ::
  "'v Commandable \<Rightarrow> u32 \<Rightarrow> bool \<Rightarrow> u32 \<Rightarrow> (bool \<times> 'v) option" where
  "ReadPrioritySlot c propertyIdentifier useArrayIndex propertyArrayIndex =
     (if propertyIdentifier \<noteq> PROPERTY_IDENTIFIER_PRIORITY_ARRAY \<or> \<not> useArrayIndex \<or>
         propertyArrayIndex < 1 \<or> BACNET_PRIORITY_ARRAY_SIZE < propertyArrayIndex
      then None
      else Some (isSet c ! (unat propertyArrayIndex - 1),
                 slotValues c ! (unat propertyArrayIndex - 1)))"

section \<open>Invariant and functional behaviour\<close>

definition commandable_inv :: "'v Commandable \<Rightarrow> bool" where
  "commandable_inv c = (length (isSet c) = 16 \<and> length (slotValues c) = 16)"

text \<open>The abstract view: priorities 1..16 to commanded values.\<close>

definition slot :: "'v Commandable \<Rightarrow> nat \<Rightarrow> 'v option" where
  "slot c p = (if 1 \<le> p \<and> p \<le> 16 \<and> isSet c ! (p - 1) then Some (slotValues c ! (p - 1)) else None)"

text \<open>The priority a request is executed at, as a number.\<close>

definition prio :: "u8 \<Rightarrow> nat" where
  "prio priority = unat (EffectivePriority priority)"

lemma prio_range [simp]: "1 \<le> prio w" "prio w \<le> 16" "prio w - Suc 0 < 16"
proof -
  have "1 \<le> prio w \<and> prio w \<le> 16"
    by (auto simp: prio_def EffectivePriority_def word_order)
  then show "1 \<le> prio w" "prio w \<le> 16" "prio w - Suc 0 < 16" by auto
qed

lemma prio_pos [simp]: "Suc 0 \<le> prio w" "0 < prio w"
  using prio_range(1) [of w] by simp_all

lemma prio_in_range: "1 \<le> unat w \<Longrightarrow> unat w \<le> 16 \<Longrightarrow> prio w = unat w"
  by (simp add: prio_def EffectivePriority_def word_order)

lemma prio_out_of_range: "unat w = 0 \<or> 16 < unat w \<Longrightarrow> prio w = 16"
  by (auto simp: prio_def EffectivePriority_def word_order)

lemma new_Commandable_inv [simp]: "commandable_inv (new_Commandable z d)"
  by (simp add: commandable_inv_def new_Commandable_def)

lemma new_Commandable_slot [simp]: "slot (new_Commandable z d) p = None"
  by (auto simp: slot_def new_Commandable_def)

lemma CommandWrite_inv [simp]: "commandable_inv c \<Longrightarrow> commandable_inv (CommandWrite c w v)"
  by (simp add: commandable_inv_def CommandWrite_def Let_def)

lemma CommandRelinquish_inv [simp]: "commandable_inv c \<Longrightarrow> commandable_inv (CommandRelinquish c w)"
  by (simp add: commandable_inv_def CommandRelinquish_def Let_def)

lemma CommandWrite_default [simp]: "relinquishDefault (CommandWrite c w v) = relinquishDefault c"
  by (simp add: CommandWrite_def Let_def)

lemma CommandRelinquish_default [simp]:
  "relinquishDefault (CommandRelinquish c w) = relinquishDefault c"
  by (simp add: CommandRelinquish_def Let_def)

lemma CommandWrite_prio: "CommandWrite c w v =
    c\<lparr>isSet := (isSet c)[prio w - 1 := True], slotValues := (slotValues c)[prio w - 1 := v]\<rparr>"
  by (simp add: CommandWrite_def prio_def Let_def)

lemma CommandRelinquish_prio: "CommandRelinquish c w = c\<lparr>isSet := (isSet c)[prio w - 1 := False]\<rparr>"
  by (simp add: CommandRelinquish_def prio_def Let_def)

lemma slot_CommandWrite:
  assumes "commandable_inv c"
  shows "slot (CommandWrite c w v) p = ((slot c)(prio w \<mapsto> v)) p"
proof (cases "1 \<le> p \<and> p \<le> 16")
  case True
  then have "prio w - 1 = p - 1 \<longleftrightarrow> p = prio w"
    using prio_range(1) [of w] by arith
  with True assms show ?thesis
    by (simp add: slot_def CommandWrite_prio commandable_inv_def nth_list_update)
next
  case False
  with prio_range [of w] show ?thesis by (auto simp: slot_def)
qed

lemma slot_CommandRelinquish:
  assumes "commandable_inv c"
  shows "slot (CommandRelinquish c w) p = ((slot c)(prio w := None)) p"
proof (cases "1 \<le> p \<and> p \<le> 16")
  case True
  then have "prio w - 1 = p - 1 \<longleftrightarrow> p = prio w"
    using prio_range(1) [of w] by arith
  with True assms show ?thesis
    by (simp add: slot_def CommandRelinquish_prio commandable_inv_def nth_list_update)
next
  case False
  with prio_range [of w] show ?thesis by (auto simp: slot_def)
qed

lemma ReadPrioritySlot_slot:
  assumes "1 \<le> p" "p \<le> 16"
  shows "\<exists>v. ReadPrioritySlot c PROPERTY_IDENTIFIER_PRIORITY_ARRAY True (of_nat p) =
             Some (slot c p \<noteq> None, v) \<and> (\<forall>x. slot c p = Some x \<longrightarrow> v = x)"
proof -
  have "unat (of_nat p :: u32) = p" using assms by (intro unat_of_nat_u32) simp
  with assms show ?thesis by (simp add: ReadPrioritySlot_def slot_def word_order)
qed

section \<open>The contract of a priority array\<close>

text \<open>
  Clause 19.2 of the standard: the value in effect is the one at the most urgent priority
  that is set, else Relinquish_Default. \<open>resolve\<close> computes it from a view.
\<close>

definition resolve :: "(nat \<Rightarrow> 'v option) \<Rightarrow> 'v \<Rightarrow> 'v" where
  "resolve s dflt =
     (case find (\<lambda>p. s p \<noteq> None) [1..<17] of Some p \<Rightarrow> the (s p) | None \<Rightarrow> dflt)"

lemma resolve_at:
  assumes "1 \<le> p" "p \<le> 16" "s p = Some v" "\<forall>q. 1 \<le> q \<and> q < p \<longrightarrow> s q = None"
  shows "resolve s d = v"
proof -
  from assms have "find (\<lambda>p. s p \<noteq> None) [1..<17] = Some p"
    by (subst find_upt_Some_iff) auto
  with assms show ?thesis by (simp add: resolve_def)
qed

lemma resolve_default: "\<forall>p. 1 \<le> p \<and> p \<le> 16 \<longrightarrow> s p = None \<Longrightarrow> resolve s d = d"
proof -
  assume "\<forall>p. 1 \<le> p \<and> p \<le> 16 \<longrightarrow> s p = None"
  then have "find (\<lambda>p. s p \<noteq> None) [1..<17] = None"
    by (subst find_upt_None_iff) auto
  then show ?thesis by (simp add: resolve_def)
qed

text \<open>Every view has a deciding slot, or none that is set.\<close>

lemma resolve_cases:
  obtains (slot) p v where "1 \<le> p" "p \<le> 16" "s p = Some v"
      "\<forall>q. 1 \<le> q \<and> q < p \<longrightarrow> s q = None" "\<And>d. resolve s d = v"
    | (none) "\<forall>p. 1 \<le> p \<and> p \<le> 16 \<longrightarrow> s p = None" "\<And>d. resolve s d = d"
proof (cases "find (\<lambda>p. s p \<noteq> None) [1..<17]")
  case None
  then have none: "\<forall>p. 1 \<le> p \<and> p \<le> 16 \<longrightarrow> s p = None"
    by (subst (asm) find_upt_None_iff) auto
  then show ?thesis by (rule that(2)) (rule resolve_default [OF none])
next
  case (Some p)
  then have p: "1 \<le> p" "p \<le> 16" "s p \<noteq> None" "\<forall>q. 1 \<le> q \<and> q < p \<longrightarrow> s q = None"
    by (simp_all only: find_upt_Some_iff) auto
  then obtain v where v: "s p = Some v" by auto
  show ?thesis by (rule that(1) [OF p(1,2) v p(4)]) (rule resolve_at [OF p(1,2) v p(4)])
qed

lemma resolve_cong:
  assumes eq: "\<And>p. 1 \<le> p \<Longrightarrow> p \<le> 16 \<Longrightarrow> s p = t p"
  shows "resolve s d = resolve t d"
proof (cases s rule: resolve_cases)
  case (slot p v)
  then have "resolve t d = v"
    by (intro resolve_at [where p = p]) (auto simp flip: eq)
  with slot(5) show ?thesis by simp
next
  case none
  then have "resolve t d = d" by (intro resolve_default) (auto simp flip: eq)
  with none(2) show ?thesis by simp
qed

locale priority_array =
  fixes view :: "'s \<Rightarrow> nat \<Rightarrow> 'v option"
    and dflt :: "'s \<Rightarrow> 'v"
    and inv :: "'s \<Rightarrow> bool"
    and accepts :: "'v \<Rightarrow> bool"
    and put :: "'s \<Rightarrow> u8 \<Rightarrow> 'v \<Rightarrow> 's"
    and clear :: "'s \<Rightarrow> u8 \<Rightarrow> 's"
  assumes view_write: "inv s \<Longrightarrow> accepts v \<Longrightarrow> 1 \<le> p \<Longrightarrow> p \<le> 16 \<Longrightarrow>
            view (put s w v) p = ((view s)(prio w \<mapsto> v)) p"
    and view_relinquish: "inv s \<Longrightarrow> 1 \<le> p \<Longrightarrow> p \<le> 16 \<Longrightarrow>
            view (clear s w) p = ((view s)(prio w := None)) p"
    and inv_write: "inv s \<Longrightarrow> inv (put s w v)"
    and inv_relinquish: "inv s \<Longrightarrow> inv (clear s w)"
    and dflt_write: "inv s \<Longrightarrow> dflt (put s w v) = dflt s"
    and dflt_relinquish: "inv s \<Longrightarrow> dflt (clear s w) = dflt s"
begin

lemma write_takes_effect:
  assumes "inv s" "accepts v" "\<forall>q. 1 \<le> q \<and> q < prio w \<longrightarrow> view s q = None"
  shows "resolve (view (put s w v)) (dflt (put s w v)) = v"
proof (rule resolve_at [where p = "prio w"])
  show "\<forall>q. 1 \<le> q \<and> q < prio w \<longrightarrow> view (put s w v) q = None"
  proof (intro allI impI)
    fix q assume q: "1 \<le> q \<and> q < prio w"
    then have "q \<le> 16" using prio_range(2) [of w] by linarith
    with q assms show "view (put s w v) q = None" by (simp add: view_write)
  qed
qed (use assms in \<open>simp_all add: view_write\<close>)

lemma write_is_masked:
  assumes "inv s" "accepts v" "1 \<le> q" "q < prio w" "view s q = Some u"
  shows "resolve (view (put s w v)) (dflt (put s w v)) = resolve (view s) (dflt s)"
proof (cases "view s" rule: resolve_cases)
  case (slot p x)
  with assms have "p < prio w"
    by (metis not_less_iff_gr_or_eq option.distinct(1) order.strict_trans)
  with assms slot have "resolve (view (put s w v)) (dflt (put s w v)) = x"
    by (intro resolve_at [where p = p]) (auto simp: view_write)
  with slot(5) show ?thesis by simp
next
  case none
  have "q \<le> 16" using assms(4) prio_range(2) [of w] by linarith
  with none assms show ?thesis by simp
qed

lemma relinquish_all_default:
  assumes "inv s" "\<forall>q. 1 \<le> q \<and> q \<le> 16 \<and> q \<noteq> prio w \<longrightarrow> view s q = None"
  shows "resolve (view (clear s w)) (dflt (clear s w)) = dflt s"
  using assms by (subst resolve_default) (auto simp: view_relinquish dflt_relinquish)

lemma relinquish_undoes_write:
  assumes "inv s" "accepts v" "view s (prio w) = None"
  shows "resolve (view (clear (put s w v) w)) (dflt (clear (put s w v) w)) =
         resolve (view s) (dflt s)"
proof -
  have "resolve (view (clear (put s w v) w)) d = resolve (view s) d" for d
    using assms by (intro resolve_cong) (auto simp: view_relinquish view_write inv_write)
  then show ?thesis using assms by (simp add: dflt_relinquish dflt_write inv_write)
qed

end

interpretation cmd: priority_array slot relinquishDefault commandable_inv "\<lambda>_. True"
    CommandWrite CommandRelinquish
  by unfold_locales (simp_all add: slot_CommandWrite slot_CommandRelinquish)

end
