(* ===== verification/Sorted_Containers.thy ===== *)
theory Sorted_Containers
  imports Main
begin

text \<open>
  The ordered containers of the C++ library: a \<open>std::map\<close> is an association list in strictly
  ascending key order, a \<open>std::set\<close> a strictly ascending list. What the program relies on is
  stated once, for both, as the locale \<open>std_container\<close>: two containers that answer every lookup
  alike are equal, so whoever inserts the contents of one into an empty one rebuilds it.
\<close>

section \<open>The contract\<close>

locale std_container =
  fixes empty :: "'s"
    and put :: "'k \<Rightarrow> 'v \<Rightarrow> 's \<Rightarrow> 's"
    and look :: "'s \<Rightarrow> 'k \<Rightarrow> 'v option"
    and well_formed :: "'s \<Rightarrow> bool"
  assumes look_empty: "look empty k = None"
    and look_put: "look (put k v s) = (look s)(k \<mapsto> v)"
    and well_formed_empty: "well_formed empty"
    and well_formed_put: "well_formed s \<Longrightarrow> well_formed (put k v s)"
    and canonical: "well_formed s \<Longrightarrow> well_formed t \<Longrightarrow> look s = look t \<Longrightarrow> s = t"
begin

definition put_all :: "('k \<times> 'v) list \<Rightarrow> 's \<Rightarrow> 's" where
  "put_all kvs s = fold (\<lambda>(k, v). put k v) kvs s"

lemma put_all_simps [simp]:
  "put_all [] s = s" "put_all (kv # kvs) s = put_all kvs (put (fst kv) (snd kv) s)"
  "put_all (kvs @ kvs') s = put_all kvs' (put_all kvs s)"
  by (simp_all add: put_all_def case_prod_unfold)

lemma well_formed_put_all: "well_formed s \<Longrightarrow> well_formed (put_all kvs s)"
  by (induction kvs arbitrary: s) (simp_all add: well_formed_put)

lemma look_put_all: "look (put_all kvs s) = look s ++ map_of (rev kvs)"
  by (induction kvs arbitrary: s) (auto simp: look_put map_add_def fun_eq_iff split: option.split)

text \<open>Inserting exactly the contents of a container, in any order and any number of times.\<close>

lemma rebuild:
  assumes "well_formed s" "fst ` set kvs = dom (look s)" "\<And>k v. (k, v) \<in> set kvs \<Longrightarrow> look s k = Some v"
  shows "put_all kvs empty = s"
proof (rule canonical [OF well_formed_put_all [OF well_formed_empty] assms(1)])
  have "map_of (rev kvs) k = look s k" for k
  proof (cases "map_of (rev kvs) k")
    case None
    then have "k \<notin> dom (look s)" using assms(2) by (auto simp: map_of_eq_None_iff)
    with None show ?thesis by (simp add: domIff)
  next
    case (Some v)
    then show ?thesis using assms(3) [of k v] map_of_SomeD [OF Some] by simp
  qed
  then show "look (put_all kvs empty) = look s"
    by (auto simp: look_put_all look_empty map_add_def fun_eq_iff split: option.split)
qed

end

section \<open>Maps\<close>

fun map_insert :: "'k::linorder \<Rightarrow> 'v \<Rightarrow> ('k \<times> 'v) list \<Rightarrow> ('k \<times> 'v) list" where
  "map_insert k v [] = [(k, v)]"
| "map_insert k v ((k', v') # m) =
     (if k < k' then (k, v) # (k', v') # m
      else if k = k' then (k, v) # m
      else (k', v') # map_insert k v m)"

lemma map_of_map_insert [simp]: "map_of (map_insert k v m) = (map_of m)(k \<mapsto> v)"
  by (induction k v m rule: map_insert.induct) (auto simp: fun_eq_iff)

lemma fst_set_map_insert [simp]: "fst ` set (map_insert k v m) = insert k (fst ` set m)"
  by (induction k v m rule: map_insert.induct) auto

lemma distinct_map_insert:
  "distinct (map fst m) \<Longrightarrow> sorted (map fst m) \<Longrightarrow> distinct (map fst (map_insert k v m))"
proof (induction k v m rule: map_insert.induct)
  case (2 k v k' v' m)
  have "fst ` set (map_insert k v m) = insert k (fst ` set m)" by simp
  with 2 show ?case by (force simp: image_iff)
qed simp

lemma sorted_map_insert: "sorted (map fst m) \<Longrightarrow> sorted (map fst (map_insert k v m))"
proof (induction k v m rule: map_insert.induct)
  case (2 k v k' v' m)
  have "fst ` set (map_insert k v m) = insert k (fst ` set m)" by simp
  then have "x \<in> fst ` set (map_insert k v m) \<Longrightarrow> x = k \<or> x \<in> fst ` set m" for x by simp
  with 2 show ?case by (force simp: image_iff)
qed simp

definition map_ok :: "('k::linorder \<times> 'v) list \<Rightarrow> bool" where
  "map_ok m \<longleftrightarrow> sorted (map fst m) \<and> distinct (map fst m)"

lemma map_ok_insert: "map_ok m \<Longrightarrow> map_ok (map_insert k v m)"
  by (simp add: map_ok_def distinct_map_insert sorted_map_insert)

lemma map_ok_canonical:
  assumes "map_ok m" "map_ok m'" "map_of m = map_of m'"
  shows "m = m'"
proof (rule map_sorted_distinct_set_unique [where f = fst])
  show "sorted (map fst m)" "distinct (map fst m)" "sorted (map fst m')" "distinct (map fst m')"
    using assms(1,2) by (simp_all add: map_ok_def)
  then show "set m = set m'" using assms(3) map_of_inject_set by blast
  show "inj_on fst (set m \<union> set m')"
    using \<open>set m = set m'\<close> \<open>distinct (map fst m)\<close> by (simp add: distinct_map)
qed

interpretation std_map: std_container "[]" map_insert map_of map_ok
  by unfold_locales (auto simp: map_ok_insert intro: map_ok_canonical, simp add: map_ok_def)

section \<open>Sets\<close>

fun set_insert :: "'k::linorder \<Rightarrow> 'k list \<Rightarrow> 'k list" where
  "set_insert k [] = [k]"
| "set_insert k (k' # m) = (if k < k' then k # k' # m else if k = k' then k' # m else k' # set_insert k m)"

lemma set_set_insert [simp]: "set (set_insert k m) = insert k (set m)"
  by (induction k m rule: set_insert.induct) auto

definition set_ok :: "'k::linorder list \<Rightarrow> bool" where
  "set_ok m \<longleftrightarrow> sorted m \<and> distinct m"

lemma set_ok_insert: "set_ok m \<Longrightarrow> set_ok (set_insert k m)"
  by (induction k m rule: set_insert.induct) (auto simp: set_ok_def)

definition member_of :: "'k list \<Rightarrow> 'k \<Rightarrow> unit option" where
  "member_of m k = (if k \<in> set m then Some () else None)"

lemma dom_member_of [simp]: "dom (member_of m) = set m"
  by (auto simp: member_of_def split: if_splits)

lemma set_ok_canonical: "set_ok m \<Longrightarrow> set_ok m' \<Longrightarrow> set m = set m' \<Longrightarrow> m = m'"
  by (simp add: set_ok_def sorted_distinct_set_unique)

interpretation std_set: std_container "[]" "\<lambda>k (_ :: unit). set_insert k" member_of set_ok
proof
  fix m m' :: "'a list"
  assume "set_ok m" "set_ok m'" "member_of m = member_of m'"
  then show "m = m'" using dom_member_of [of m] dom_member_of [of m'] by (intro set_ok_canonical) simp_all
qed (auto simp: member_of_def fun_eq_iff set_ok_insert, simp add: set_ok_def)

end
