(* ===== verification/Cert_Store.thy ===== *)
theory Cert_Store
  imports Prelude Sorted_Containers
begin

text \<open>
  The certificate store of the BACnet/SC node (sc/cert_store.cpp, sc/cert_store.h): File
  objects whose bytes live on disk, client writes staged in memory until a
  ReinitializeDevice activates them, validation of the staged set, and its commit by
  temporary files and renames.

  The file system is a partial map from paths to files; whether a write or a rename succeeds
  is the environment's choice (\<open>io_env\<close>). OpenSSL is not part of the repository: the
  functions the store calls of it are the fields of \<open>crypto\<close>, over abstract certificates
  and keys. Texts the code only prints are not modelled; a \<open>*reason\<close> is a constructor
  of \<open>cert_error\<close>.
\<close>

section \<open>State\<close>

abbreviation MAX_FILE_BYTES :: nat where "MAX_FILE_BYTES \<equiv> 64 * 1024"
abbreviation ERROR_INVALID_FILE_START_POSITION :: u32 where "ERROR_INVALID_FILE_START_POSITION \<equiv> 11"
abbreviation ERROR_FILE_FULL :: u32 where "ERROR_FILE_FULL \<equiv> 128"
abbreviation CERT_ERROR_VALUE_OUT_OF_RANGE :: u32 where "CERT_ERROR_VALUE_OUT_OF_RANGE \<equiv> 37"

type_synonym path = string

record Layout =
  paths :: "u32 \<rightharpoonup> path"
  readFallbackInstances :: "u32 \<rightharpoonup> u32"
  operationalInstance :: u32
  issuerInstances :: "u32 list"
  privateKeyPath :: path
  pendingPrivateKeyPath :: path
  csrInstance :: u32

record Staged =
  stagedBytes :: bytes
  stagedModified :: int

record disk_file =
  fileBytes :: bytes
  fileModified :: int

text \<open>\<open>g_staged\<close> is a \<open>std::map\<close>: an association list kept in key order.\<close>

record cert_store =
  g_layout :: Layout
  g_staged :: "(u32 \<times> Staged) list"
  g_commitPromotesPendingKey :: bool
  disk :: "path \<rightharpoonup> disk_file"

record io_env =
  writeOk :: "path \<Rightarrow> bool"
  renameOk :: "path \<Rightarrow> bool"
  timeNow :: int

section \<open>Reading\<close>

definition ReadDisk :: "cert_store \<Rightarrow> path \<Rightarrow> bytes option" where
  "ReadDisk s p = map_option fileBytes (disk s p)"

definition OwnPath :: "cert_store \<Rightarrow> u32 \<Rightarrow> path" where
  "OwnPath s fileInstance =
     (case paths (g_layout s) fileInstance of None \<Rightarrow> [] | Some p \<Rightarrow> p)"

definition FallbackInstance :: "cert_store \<Rightarrow> u32 \<Rightarrow> u32" where
  "FallbackInstance s fileInstance =
     (if map_of (g_staged s) fileInstance \<noteq> None then 0
      else if OwnPath s fileInstance = [] \<or> disk s (OwnPath s fileInstance) \<noteq> None then 0
      else case readFallbackInstances (g_layout s) fileInstance of None \<Rightarrow> 0 | Some fb \<Rightarrow> fb)"

text \<open>
  \<open>Read\<close> and \<open>Stat\<close> follow the fallback by recursion. The outer option is the fuel:
  \<open>None\<close> when the chain is longer. \<open>layout_ok\<close> (below) bounds the chain by one step, so
  two units are always enough for it, and the top-level functions pass two.
\<close>

fun Read_fuel :: "nat \<Rightarrow> cert_store \<Rightarrow> u32 \<Rightarrow> bytes option option" where
  "Read_fuel 0 s fileInstance = None"
| "Read_fuel (Suc n) s fileInstance =
     (case map_of (g_staged s) fileInstance of
        Some st \<Rightarrow> Some (Some (stagedBytes st))
      | None \<Rightarrow>
          (let fallback = FallbackInstance s fileInstance in
           if fallback \<noteq> 0 then Read_fuel n s fallback
           else if OwnPath s fileInstance = [] then Some None
           else Some (ReadDisk s (OwnPath s fileInstance))))"

fun Stat_fuel :: "nat \<Rightarrow> cert_store \<Rightarrow> u32 \<Rightarrow> (nat \<times> int) option option" where
  "Stat_fuel 0 s fileInstance = None"
| "Stat_fuel (Suc n) s fileInstance =
     (case map_of (g_staged s) fileInstance of
        Some st \<Rightarrow> Some (Some (length (stagedBytes st), stagedModified st))
      | None \<Rightarrow>
          (let fallback = FallbackInstance s fileInstance in
           if fallback \<noteq> 0 then Stat_fuel n s fallback
           else if OwnPath s fileInstance = [] then Some None
           else Some (map_option (\<lambda>f. (length (fileBytes f), fileModified f))
                       (disk s (OwnPath s fileInstance)))))"

definition CertRead :: "cert_store \<Rightarrow> u32 \<Rightarrow> bytes option" where
  "CertRead s fileInstance = Option.bind (Read_fuel 2 s fileInstance) id"

definition CertStat :: "cert_store \<Rightarrow> u32 \<Rightarrow> (nat \<times> int) option" where
  "CertStat s fileInstance = Option.bind (Stat_fuel 2 s fileInstance) id"

definition Effective :: "cert_store \<Rightarrow> u32 \<Rightarrow> bytes" where
  "Effective s fileInstance = (case CertRead s fileInstance of None \<Rightarrow> [] | Some b \<Rightarrow> b)"

section \<open>Staging\<close>

definition SetLayout :: "cert_store \<Rightarrow> Layout \<Rightarrow> cert_store" where
  "SetLayout s l = s\<lparr>g_layout := l, g_staged := []\<rparr>"

text \<open>\<open>Stage\<close>: the staged copy (made from the current contents when there is none).\<close>

definition Stage :: "io_env \<Rightarrow> cert_store \<Rightarrow> u32 \<Rightarrow> (cert_store \<times> Staged) option" where
  "Stage env s fileInstance =
     (case map_of (g_staged s) fileInstance of
        Some st \<Rightarrow> Some (s, st)
      | None \<Rightarrow>
          (if paths (g_layout s) fileInstance = None then None
           else let st = \<lparr>stagedBytes = Effective s fileInstance, stagedModified = timeNow env\<rparr>
                in Some (s\<lparr>g_staged := map_insert fileInstance st (g_staged s)\<rparr>, st)))"

text \<open>A refused operation carries its error code, when the code sets one.\<close>

definition resize_to :: "nat \<Rightarrow> bytes \<Rightarrow> bytes" where
  "resize_to n xs = take n xs @ replicate (n - length xs) 0"

definition CertWrite ::
  "io_env \<Rightarrow> cert_store \<Rightarrow> u32 \<Rightarrow> i32 \<Rightarrow> bytes \<Rightarrow> cert_store \<times> (u32 + i32)" where
  "CertWrite env s fileInstance fileStart data =
     (case Stage env s fileInstance of
        None \<Rightarrow> (s, Inl ERROR_INVALID_FILE_START_POSITION)
      | Some (s1, st) \<Rightarrow>
          (if sint fileStart < -1 then (s1, Inl ERROR_INVALID_FILE_START_POSITION)
           else let start = (if sint fileStart = -1 then length (stagedBytes st) else nat (sint fileStart)) in
             if length (stagedBytes st) < start then (s1, Inl ERROR_INVALID_FILE_START_POSITION)
             else if MAX_FILE_BYTES < start + length data then (s1, Inl ERROR_FILE_FULL)
             else let grown = (if length (stagedBytes st) < start + length data
                               then resize_to (start + length data) (stagedBytes st)
                               else stagedBytes st);
                      written = take start grown @ data @ drop (start + length data) grown
                  in (s1\<lparr>g_staged := map_insert fileInstance
                            \<lparr>stagedBytes = written, stagedModified = timeNow env\<rparr> (g_staged s1)\<rparr>,
                      Inr (of_nat start))))"

definition CertResize ::
  "io_env \<Rightarrow> cert_store \<Rightarrow> u32 \<Rightarrow> u32 \<Rightarrow> cert_store \<times> (u32 option + unit)" where
  "CertResize env s fileInstance newSize =
     (if MAX_FILE_BYTES < unat newSize then (s, Inl (Some CERT_ERROR_VALUE_OUT_OF_RANGE))
      else case Stage env s fileInstance of
          None \<Rightarrow> (s, Inl None)
        | Some (s1, st) \<Rightarrow>
            (s1\<lparr>g_staged := map_insert fileInstance
                   \<lparr>stagedBytes = resize_to (unat newSize) (stagedBytes st),
                    stagedModified = timeNow env\<rparr> (g_staged s1)\<rparr>, Inr ()))"

definition HasStagedChanges :: "cert_store \<Rightarrow> bool" where
  "HasStagedChanges s = (g_staged s \<noteq> [])"

definition DiscardStaged :: "cert_store \<Rightarrow> cert_store" where
  "DiscardStaged s = s\<lparr>g_staged := [], g_commitPromotesPendingKey := False\<rparr>"

section \<open>Writing the disk\<close>

definition tmp_of :: "path \<Rightarrow> path" where "tmp_of p = p @ ''.tmp''"

definition remove_file :: "cert_store \<Rightarrow> path \<Rightarrow> cert_store" where
  "remove_file s p = s\<lparr>disk := (disk s)(p := None)\<rparr>"

definition WriteTempFile :: "io_env \<Rightarrow> cert_store \<Rightarrow> path \<Rightarrow> bytes \<Rightarrow> cert_store \<times> bool" where
  "WriteTempFile env s p data =
     (let s1 = remove_file s (tmp_of p) in
      if writeOk env (tmp_of p)
      then (s1\<lparr>disk := (disk s1)(tmp_of p \<mapsto> \<lparr>fileBytes = data, fileModified = timeNow env\<rparr>)\<rparr>, True)
      else (remove_file s1 (tmp_of p), False))"

text \<open>\<open>rename\<close>: needs the source file, replaces the target, and can fail.\<close>

definition rename_file :: "io_env \<Rightarrow> cert_store \<Rightarrow> path \<Rightarrow> path \<Rightarrow> cert_store \<times> bool" where
  "rename_file env s from to =
     (case disk s from of
        Some f \<Rightarrow> (if renameOk env to then (s\<lparr>disk := (disk s)(from := None, to \<mapsto> f)\<rparr>, True)
                   else (s, False))
      | None \<Rightarrow> (s, False))"

definition ReplaceWithTemp :: "io_env \<Rightarrow> cert_store \<Rightarrow> path \<Rightarrow> cert_store \<times> bool" where
  "ReplaceWithTemp env s p = rename_file env s (tmp_of p) p"

definition AtomicWriteFileToDisk :: "io_env \<Rightarrow> cert_store \<Rightarrow> path \<Rightarrow> bytes \<Rightarrow> cert_store \<times> bool" where
  "AtomicWriteFileToDisk env s p data =
     (case WriteTempFile env s p data of
        (s1, False) \<Rightarrow> (s1, False)
      | (s1, True) \<Rightarrow>
          (case ReplaceWithTemp env s1 p of
             (s2, False) \<Rightarrow> (remove_file s2 (tmp_of p), False)
           | (s2, True) \<Rightarrow> (s2, True)))"

definition PromotePendingKey :: "io_env \<Rightarrow> cert_store \<Rightarrow> cert_store \<times> bool" where
  "PromotePendingKey env s =
     rename_file env s (pendingPrivateKeyPath (g_layout s)) (privateKeyPath (g_layout s))"

section \<open>Committing\<close>

text \<open>
  The two loops of \<open>CommitStaged\<close>. \<open>write_temps\<close> carries the paths already written; on a
  failure it removes their temporary files.
\<close>

fun write_temps ::
  "io_env \<Rightarrow> cert_store \<Rightarrow> (u32 \<times> Staged) list \<Rightarrow> path list \<Rightarrow> cert_store \<times> path list option" where
  "write_temps env s [] written = (s, Some written)"
| "write_temps env s ((i, st) # rest) written =
     (case paths (g_layout s) i of
        None \<Rightarrow> (fold (\<lambda>p s. remove_file s (tmp_of p)) written s, None)
      | Some p \<Rightarrow>
          (case WriteTempFile env s p (stagedBytes st) of
             (s1, False) \<Rightarrow> (fold (\<lambda>p s. remove_file s (tmp_of p)) written s1, None)
           | (s1, True) \<Rightarrow> write_temps env s1 rest (written @ [p])))"

fun replace_all :: "io_env \<Rightarrow> cert_store \<Rightarrow> path list \<Rightarrow> cert_store \<times> bool" where
  "replace_all env s [] = (s, True)"
| "replace_all env s (p # ps) =
     (case ReplaceWithTemp env s p of
        (s1, False) \<Rightarrow> (s1, False)
      | (s1, True) \<Rightarrow> replace_all env s1 ps)"

definition CommitStaged :: "io_env \<Rightarrow> cert_store \<Rightarrow> cert_store \<times> bool" where
  "CommitStaged env s =
     (case write_temps env s (g_staged s) [] of
        (s1, None) \<Rightarrow> (s1, False)
      | (s1, Some ps) \<Rightarrow>
          (case replace_all env s1 ps of
             (s2, False) \<Rightarrow> (s2, False)
           | (s2, True) \<Rightarrow>
               (let s3 = s2\<lparr>g_staged := []\<rparr> in
                if g_commitPromotesPendingKey s3
                then (case PromotePendingKey env s3 of
                        (s4, False) \<Rightarrow> (s4, False)
                      | (s4, True) \<Rightarrow> (s4\<lparr>g_commitPromotesPendingKey := False\<rparr>, True))
                else (s3, True))))"

section \<open>Well-formed stores\<close>

text \<open>
  What \<open>ScNode::PrepareCertificates\<close> sets up: distinct files for distinct instances, no file
  named like another one's temporary file, a fallback that ends after one step, and the two
  key files apart from all of them.
\<close>

definition layout_ok :: "Layout \<Rightarrow> bool" where
  "layout_ok l \<longleftrightarrow>
     inj_on (paths l) (dom (paths l)) \<and> [] \<notin> ran (paths l) \<and>
     (\<forall>p \<in> ran (paths l). \<forall>q \<in> ran (paths l). p \<noteq> tmp_of q) \<and>
     (\<forall>i fb. readFallbackInstances l i = Some fb \<longrightarrow>
        fb \<noteq> 0 \<and> fb \<noteq> i \<and> readFallbackInstances l fb = None) \<and>
     (\<forall>k \<in> {privateKeyPath l, pendingPrivateKeyPath l}. k \<notin> ran (paths l) \<and> k \<notin> tmp_of ` ran (paths l))"

definition store_inv :: "cert_store \<Rightarrow> bool" where
  "store_inv s \<longleftrightarrow> layout_ok (g_layout s) \<and> distinct (map fst (g_staged s)) \<and>
     sorted (map fst (g_staged s)) \<and> fst ` set (g_staged s) \<subseteq> dom (paths (g_layout s))"

lemma tmp_of_neq [simp]: "tmp_of p \<noteq> p" "p \<noteq> tmp_of p"
  by (auto simp: tmp_of_def)

lemma tmp_of_inj [simp]: "tmp_of p = tmp_of q \<longleftrightarrow> p = q"
  by (simp add: tmp_of_def)

section \<open>Reading a well-formed store\<close>

text \<open>One unfolding of the fallback gives the contents without recursion.\<close>

lemma CertRead_staged: "map_of (g_staged s) i = Some st \<Longrightarrow> CertRead s i = Some (stagedBytes st)"
  by (simp add: CertRead_def numeral_2_eq_2)

lemma CertRead_own:
  "map_of (g_staged s) i = None \<Longrightarrow> FallbackInstance s i = 0 \<Longrightarrow>
   CertRead s i = (if OwnPath s i = [] then None else ReadDisk s (OwnPath s i))"
  by (simp add: CertRead_def numeral_2_eq_2)

lemma FallbackInstance_one_step:
  "layout_ok (g_layout s) \<Longrightarrow> FallbackInstance s i = fb \<Longrightarrow> fb \<noteq> 0 \<Longrightarrow> FallbackInstance s fb = 0"
  by (auto simp: FallbackInstance_def layout_ok_def split: if_splits option.splits)

lemma FallbackInstance_neq: "layout_ok (g_layout s) \<Longrightarrow> FallbackInstance s i \<noteq> 0 \<Longrightarrow> FallbackInstance s i \<noteq> i"
  by (auto simp: FallbackInstance_def layout_ok_def split: if_splits option.splits)

lemma CertRead_fallback:
  assumes "layout_ok (g_layout s)" "map_of (g_staged s) i = None" "FallbackInstance s i = fb" "fb \<noteq> 0"
  shows "CertRead s i = CertRead s fb"
  using assms FallbackInstance_one_step [OF assms(1,3,4)]
  by (cases "map_of (g_staged s) fb") (simp_all add: CertRead_def numeral_2_eq_2)

text \<open>The fuel is enough: more of it changes nothing, and the chain always ends.\<close>

lemma Read_fuel_enough:
  assumes "layout_ok (g_layout s)"
  shows "Read_fuel (Suc (Suc n)) s i = Some (CertRead s i)"
proof -
  have "Read_fuel (Suc (Suc n)) s i = Read_fuel 2 s i \<and> Read_fuel 2 s i \<noteq> None"
    using FallbackInstance_one_step [OF assms refl, of i]
    by (auto simp: numeral_2_eq_2 Let_def split: option.splits)
  then show ?thesis by (auto simp: CertRead_def)
qed

lemma Stat_fuel_enough:
  assumes "layout_ok (g_layout s)"
  shows "Stat_fuel (Suc (Suc n)) s i = Some (CertStat s i)"
proof -
  have "Stat_fuel (Suc (Suc n)) s i = Stat_fuel 2 s i \<and> Stat_fuel 2 s i \<noteq> None"
    using FallbackInstance_one_step [OF assms refl, of i]
    by (auto simp: numeral_2_eq_2 Let_def split: option.splits)
  then show ?thesis by (auto simp: CertStat_def)
qed

text \<open>The size \<open>Stat\<close> reports is the size of what \<open>Read\<close> serves.\<close>

lemma Stat_fuel_Read_fuel:
  "map_option (map_option fst) (Stat_fuel n s i) = map_option (map_option length) (Read_fuel n s i)"
  by (induction n arbitrary: i)
    (auto simp: Let_def ReadDisk_def option.map_comp comp_def split: option.splits)

lemma CertStat_CertRead: "map_option fst (CertStat s i) = map_option length (CertRead s i)"
proof -
  have "map_option fst (Option.bind m id) = Option.bind (map_option (map_option fst) m) id" for m :: "(nat \<times> int) option option"
    by (cases m) auto
  moreover have "map_option length (Option.bind m id) = Option.bind (map_option (map_option length) m) id" for m :: "bytes option option"
    by (cases m) auto
  ultimately show ?thesis by (simp add: CertStat_def CertRead_def Stat_fuel_Read_fuel)
qed

end
