(* ===== verification/Cert_Staging.thy ===== *)
theory Cert_Staging
  imports Cert_Store
begin

text \<open>
  What staging does to the contents a client sees: the lemmas behind the write, resize and
  commit properties of the certificate store.
\<close>

section \<open>One staged update\<close>

text \<open>The instance whose contents a File object serves: itself, or its fallback.\<close>

definition source_of :: "cert_store \<Rightarrow> u32 \<Rightarrow> u32" where
  "source_of s j = (if FallbackInstance s j = 0 then j else FallbackInstance s j)"

definition restage :: "cert_store \<Rightarrow> u32 \<Rightarrow> Staged \<Rightarrow> cert_store" where
  "restage s i st = s\<lparr>g_staged := map_insert i st (g_staged s)\<rparr>"

lemma CertRead_source: "layout_ok (g_layout s) \<Longrightarrow> CertRead s j = CertRead s (source_of s j)"
proof (cases "map_of (g_staged s) j")
  case None
  assume "layout_ok (g_layout s)"
  with None show ?thesis by (simp add: source_of_def CertRead_fallback)
next
  case (Some st)
  then have "FallbackInstance s j = 0" by (simp add: FallbackInstance_def)
  then show ?thesis by (simp add: source_of_def)
qed

lemma FallbackInstance_source: "layout_ok (g_layout s) \<Longrightarrow> FallbackInstance s (source_of s j) = 0"
  using FallbackInstance_one_step [of s j] by (cases "FallbackInstance s j = 0") (simp_all add: source_of_def)

lemma store_inv_restage:
  "store_inv s \<Longrightarrow> i \<in> dom (paths (g_layout s)) \<Longrightarrow> store_inv (restage s i st)"
  by (auto simp: store_inv_def restage_def distinct_map_insert sorted_map_insert)

lemma restage_twice [simp]: "restage (restage s i st) i st' = restage s i st'"
proof -
  have "map_insert i st' (map_insert i st m) = map_insert i st' m" for m :: "(u32 \<times> Staged) list"
    by (induction i st m rule: map_insert.induct) auto
  then show ?thesis by (simp add: restage_def)
qed

lemma restage_simps [simp]:
  "g_layout (restage s i st) = g_layout s" "disk (restage s i st) = disk s"
  "OwnPath (restage s i st) = OwnPath s" "ReadDisk (restage s i st) = ReadDisk s"
  "map_of (g_staged (restage s i st)) = (map_of (g_staged s))(i \<mapsto> st)"
  by (simp_all add: restage_def OwnPath_def ReadDisk_def fun_eq_iff)

lemma FallbackInstance_restage:
  "k \<noteq> i \<Longrightarrow> FallbackInstance (restage s i st) k = FallbackInstance s k"
  by (simp add: FallbackInstance_def)

lemma CertRead_restage_other:
  assumes "layout_ok (g_layout s)" "j \<noteq> i" "source_of s j \<noteq> i"
  shows "CertRead (restage s i st) j = CertRead s j"
proof -
  let ?s1 = "restage s i st"
  note fb = FallbackInstance_restage
  let ?k = "source_of s j"
  have "source_of ?s1 j = ?k" using fb [OF assms(2)] by (simp add: source_of_def)
  then have "CertRead ?s1 j = CertRead ?s1 ?k" using CertRead_source [of ?s1 j] assms(1) by simp
  also have "\<dots> = CertRead s ?k"
    using fb [OF assms(3)] assms(3) FallbackInstance_source [OF assms(1), of j]
    by (cases "map_of (g_staged s) ?k") (simp_all add: CertRead_staged CertRead_own)
  also have "\<dots> = CertRead s j" using CertRead_source [OF assms(1), of j] by simp
  finally show ?thesis .
qed

lemma CertRead_restage:
  assumes "layout_ok (g_layout s)" "i \<noteq> 0"
  shows "CertRead (restage s i st) j =
         (if j = i \<or> source_of s j = i then Some (stagedBytes st) else CertRead s j)"
proof (cases "j = i")
  case True
  then show ?thesis by (simp add: CertRead_staged)
next
  case False
  show ?thesis
  proof (cases "source_of s j = i")
    case True
    with False have "FallbackInstance s j = i" by (auto simp: source_of_def split: if_splits)
    with False have "FallbackInstance (restage s i st) j = i"
      by (simp add: FallbackInstance_restage)
    with assms True have "CertRead (restage s i st) j = CertRead (restage s i st) i"
      by (subst CertRead_source) (simp_all add: source_of_def)
    with True show ?thesis by (simp add: CertRead_staged)
  qed (simp add: False CertRead_restage_other [OF assms(1)])
qed

lemma Effective_restage:
  assumes "layout_ok (g_layout s)" "i \<noteq> 0"
  shows "Effective (restage s i st) j =
         (if j = i \<or> source_of s j = i then stagedBytes st else Effective s j)"
  by (simp add: Effective_def CertRead_restage [OF assms])

section \<open>Stage, write, resize\<close>

text \<open>Instance 0 is the code's "no fallback", never a File object of the layout.\<close>

definition file_instances_ok :: "cert_store \<Rightarrow> bool" where
  "file_instances_ok s \<longleftrightarrow> 0 \<notin> dom (paths (g_layout s))"

lemma Stage_cases:
  assumes "Stage env s i = Some (s1, st)"
  shows "(s1 = s \<or> s1 = restage s i st) \<and> map_of (g_staged s1) i = Some st \<and>
         (s1 = s \<or> stagedBytes st = Effective s i) \<and> g_layout s1 = g_layout s \<and>
         (map_of (g_staged s) i = None \<longrightarrow> i \<in> dom (paths (g_layout s)))"
  using assms by (auto simp: Stage_def restage_def Let_def split: option.splits if_splits)

lemma Stage_Effective:
  assumes "store_inv s" "file_instances_ok s" "Stage env s i = Some (s1, st)"
  shows "Effective s1 j = Effective s j" "stagedBytes st = Effective s i" "store_inv s1"
    "g_layout s1 = g_layout s" "i \<in> dom (paths (g_layout s))" "restage s1 i st' = restage s i st'"
proof -
  note c = Stage_cases [OF assms(3)]
  have "map_of (g_staged s) i \<noteq> None \<Longrightarrow> i \<in> dom (paths (g_layout s))"
    using assms(1) map_of_SomeD [of "g_staged s" i] by (force simp: store_inv_def)
  with c show dom: "i \<in> dom (paths (g_layout s))" by blast
  with assms(2) have i0: "i \<noteq> 0" by (auto simp: file_instances_ok_def)
  have lay: "layout_ok (g_layout s)" using assms(1) by (simp add: store_inv_def)
  show st: "stagedBytes st = Effective s i"
    using c by (auto simp: Effective_def CertRead_staged)
  show "g_layout s1 = g_layout s" using c by simp
  show "store_inv s1" using c store_inv_restage [OF assms(1) dom] assms(1) by auto
  show "restage s1 i st' = restage s i st'" using c by auto
  have "Effective s j = Effective s i" if "source_of s j = i"
    using that CertRead_source [OF lay, of j] by (simp add: Effective_def)
  then have "Effective (restage s i st) j = Effective s j"
    using Effective_restage [OF lay i0, of st j] st by auto
  with c show "Effective s1 j = Effective s j" by auto
qed

definition splice :: "nat \<Rightarrow> bytes \<Rightarrow> bytes \<Rightarrow> bytes" where
  "splice start data old = take start old @ data @ drop (start + length data) old"

lemma CertWrite_refused:
  assumes "store_inv s" "file_instances_ok s" "CertWrite env s i fs data = (s', Inl e)"
  shows "Effective s' j = Effective s j" "store_inv s'" "g_layout s' = g_layout s"
proof -
  have "s' = s \<or> (\<exists>st. Stage env s i = Some (s', st))"
    using assms(3) by (auto simp: CertWrite_def Let_def split: option.splits if_splits)
  then show "Effective s' j = Effective s j" "store_inv s'" "g_layout s' = g_layout s"
    using assms(1) Stage_Effective [OF assms(1,2)] by blast+
qed

lemma CertWrite_accepted:
  assumes "store_inv s" "file_instances_ok s" "CertWrite env s i fs data = (s', Inr ack)"
  defines "start \<equiv> (if sint fs = -1 then length (Effective s i) else nat (sint fs))"
  shows "\<exists>m. s' = restage s i \<lparr>stagedBytes = splice start data (Effective s i), stagedModified = m\<rparr>"
    and "start \<le> length (Effective s i)" "start + length data \<le> MAX_FILE_BYTES"
    and "ack = of_nat start" "-1 \<le> sint fs" "i \<in> dom (paths (g_layout s))"
proof -
  obtain s1 st where S: "Stage env s i = Some (s1, st)"
    using assms(3) by (auto simp: CertWrite_def split: option.splits)
  note E = Stage_Effective [OF assms(1,2) S]
  have *: "start \<le> length (Effective s i)" "start + length data \<le> MAX_FILE_BYTES" "-1 \<le> sint fs"
      "ack = of_nat start"
    using assms(3) S E(2)
    by (auto simp: CertWrite_def Let_def start_def linorder_not_less split: if_splits)
  then show "start \<le> length (Effective s i)" "start + length data \<le> MAX_FILE_BYTES" "ack = of_nat start"
    "-1 \<le> sint fs" by simp_all
  show "i \<in> dom (paths (g_layout s))" by (rule E(5))
  have spl: "take start g @ data @ drop (start + length data) g = splice start data (stagedBytes st)"
    if "g = (if length (stagedBytes st) < start + length data
             then resize_to (start + length data) (stagedBytes st) else stagedBytes st)" for g
    using * that by (auto simp: splice_def resize_to_def E(2))
  have "s' = restage s1 i \<lparr>stagedBytes = splice start data (stagedBytes st), stagedModified = timeNow env\<rparr>"
    using assms(3) S * spl [OF refl] E(2)
    by (simp add: CertWrite_def Let_def start_def restage_def linorder_not_less split: if_splits)
  then show "\<exists>m. s' = restage s i \<lparr>stagedBytes = splice start data (Effective s i), stagedModified = m\<rparr>"
    using E(2,6) by auto
qed

end
