(* ===== verification/Cert_Commit.thy ===== *)
theory Cert_Commit
  imports Cert_Staging
begin

text \<open>
  \<open>CommitStaged\<close>: what its two loops do to the disk. The first loop only creates temporary
  files, so its failure changes no certificate file; when both loops finish, every staged
  file is on disk and no File object's contents has changed for a reader.
\<close>

section \<open>The loops\<close>

lemma WriteTempFile_True:
  "WriteTempFile env s p data = (s', True) \<Longrightarrow>
   s' = s\<lparr>disk := (disk s)(tmp_of p \<mapsto> \<lparr>fileBytes = data, fileModified = timeNow env\<rparr>)\<rparr>"
  by (auto simp: WriteTempFile_def Let_def remove_file_def split: if_splits)

lemma WriteTempFile_False:
  "WriteTempFile env s p data = (s', False) \<Longrightarrow> s' = s\<lparr>disk := (disk s)(tmp_of p := None)\<rparr>"
  by (auto simp: WriteTempFile_def Let_def remove_file_def split: if_splits)

text \<open>Two stores that differ in temporary files only.\<close>

definition same_but_temps :: "cert_store \<Rightarrow> cert_store \<Rightarrow> bool" where
  "same_but_temps s s' \<longleftrightarrow> s' = s\<lparr>disk := disk s'\<rparr> \<and> (\<forall>q. q \<notin> range tmp_of \<longrightarrow> disk s' q = disk s q)"

lemma same_but_temps_refl [simp]: "same_but_temps s s"
  by (simp add: same_but_temps_def)

lemma same_but_temps_trans: "same_but_temps s t \<Longrightarrow> same_but_temps t u \<Longrightarrow> same_but_temps s u"
  by (simp add: same_but_temps_def) (metis (no_types, lifting) cert_store.surjective cert_store.update_convs(4))

lemma same_but_temps_tmp: "same_but_temps s (s\<lparr>disk := (disk s)(tmp_of p := v)\<rparr>)"
  by (simp add: same_but_temps_def)

lemma same_but_temps_WriteTempFile: "WriteTempFile env s p data = (s', b) \<Longrightarrow> same_but_temps s s'"
  by (cases b) (auto dest: WriteTempFile_True WriteTempFile_False intro: same_but_temps_tmp)

lemma same_but_temps_removes: "same_but_temps s (fold (\<lambda>p s. remove_file s (tmp_of p)) ps s)"
  by (induction ps arbitrary: s)
    (auto intro: same_but_temps_trans [OF same_but_temps_tmp] simp: remove_file_def)

lemma write_temps_same_but_temps: "write_temps env s m w = (s', r) \<Longrightarrow> same_but_temps s s'"
proof (induction env s m w rule: write_temps.induct)
  case (2 env s i st rest w)
  show ?case
  proof (cases "paths (g_layout s) i")
    case None
    with "2.prems" show ?thesis by (auto simp: same_but_temps_removes)
  next
    case (Some p)
    obtain s1 ok where w: "WriteTempFile env s p (stagedBytes st) = (s1, ok)" by fastforce
    note st1 = same_but_temps_WriteTempFile [OF w]
    show ?thesis
    proof (cases ok)
      case True
      with "2.prems" w Some have "write_temps env s1 rest (w @ [p]) = (s', r)" by simp
      then have "same_but_temps s1 s'" using "2.IH" [OF Some w [symmetric]] True by simp
      with st1 show ?thesis by (rule same_but_temps_trans)
    next
      case False
      with "2.prems" w Some have "s' = fold (\<lambda>p s. remove_file s (tmp_of p)) w s1" by simp
      then show ?thesis using same_but_temps_trans [OF st1 same_but_temps_removes] by simp
    qed
  qed
qed simp

text \<open>The disk after the first loop: each staged file's temporary file holds its bytes.\<close>

definition staged_file :: "io_env \<Rightarrow> Staged \<Rightarrow> disk_file" where
  "staged_file env st = \<lparr>fileBytes = stagedBytes st, fileModified = timeNow env\<rparr>"

lemma write_temps_Some:
  assumes "write_temps env s m w = (s', Some ps)" "inj_on (paths (g_layout s)) (dom (paths (g_layout s)))"
    "distinct (map fst m)"
  shows "ps = w @ map (\<lambda>(i, st). the (paths (g_layout s) i)) m \<and>
    fst ` set m \<subseteq> dom (paths (g_layout s)) \<and>
    (\<forall>(i, st) \<in> set m. disk s' (tmp_of (the (paths (g_layout s) i))) = Some (staged_file env st)) \<and>
    s' = s\<lparr>disk := disk s'\<rparr> \<and>
    (\<forall>q. q \<notin> (\<lambda>(i, st). tmp_of (the (paths (g_layout s) i))) ` set m \<longrightarrow> disk s' q = disk s q)"
  using assms
proof (induction env s m w rule: write_temps.induct)
  case (2 env s i st rest w)
  from "2.prems"(1) obtain p s1 where p: "paths (g_layout s) i = Some p"
    and w: "WriteTempFile env s p (stagedBytes st) = (s1, True)"
    and r: "write_temps env s1 rest (w @ [p]) = (s', Some ps)"
    by (auto split: option.splits prod.splits bool.splits)
  have s1: "s1 = s\<lparr>disk := (disk s)(tmp_of p \<mapsto> staged_file env st)\<rparr>"
    using WriteTempFile_True [OF w] by (simp add: staged_file_def)
  have inj: "inj_on (paths (g_layout s1)) (dom (paths (g_layout s1)))"
    and lay: "g_layout s1 = g_layout s" and dis: "distinct (map fst rest)" "i \<notin> fst ` set rest"
    using s1 "2.prems"(2,3) by simp_all
  note IH = "2.IH" [OF p w [symmetric] refl r inj dis(1), unfolded lay]
  have neq: "the (paths (g_layout s) j) \<noteq> p" if "j \<in> fst ` set rest" for j
  proof
    assume "the (paths (g_layout s) j) = p"
    moreover have "j \<in> dom (paths (g_layout s))" using IH that by blast
    ultimately have "paths (g_layout s) j = paths (g_layout s) i" using p by auto
    then have "j = i" using inj_onD [OF "2.prems"(2)] \<open>j \<in> dom _\<close> p by blast
    with that dis(2) show False by simp
  qed
  have "tmp_of p \<notin> (\<lambda>(i, st). tmp_of (the (paths (g_layout s) i))) ` set rest"
  proof
    assume "tmp_of p \<in> (\<lambda>(i, st). tmp_of (the (paths (g_layout s) i))) ` set rest"
    then obtain j st' where "(j, st') \<in> set rest" "the (paths (g_layout s) j) = p" by auto
    moreover from this have "j \<in> fst ` set rest" by force
    ultimately show False using neq by blast
  qed
  with IH have tp: "disk s' (tmp_of p) = disk s1 (tmp_of p)" by blast
  show ?case
  proof (intro conjI)
    show "\<forall>(i, st) \<in> set ((i, st) # rest).
        disk s' (tmp_of (the (paths (g_layout s) i))) = Some (staged_file env st)"
      using IH tp p s1 by auto
    show "s' = s\<lparr>disk := disk s'\<rparr>" using IH s1 by simp
    show "\<forall>q. q \<notin> (\<lambda>(i, st). tmp_of (the (paths (g_layout s) i))) ` set ((i, st) # rest) \<longrightarrow>
        disk s' q = disk s q"
      using IH s1 p by auto
  qed (use IH p in auto)
qed (auto)

text \<open>The second loop: temporary files take the place of the files they were written for.\<close>

lemma replace_all_True:
  assumes "replace_all env s ps = (s', True)" "distinct ps" "\<forall>p \<in> set ps. \<forall>q \<in> set ps. p \<noteq> tmp_of q"
  shows "(\<forall>p \<in> set ps. disk s' p = disk s (tmp_of p) \<and> disk s (tmp_of p) \<noteq> None) \<and>
    s' = s\<lparr>disk := disk s'\<rparr> \<and> (\<forall>q. q \<notin> set ps \<and> q \<notin> tmp_of ` set ps \<longrightarrow> disk s' q = disk s q)"
  using assms
proof (induction env s ps rule: replace_all.induct)
  case (2 env s p ps)
  from "2.prems"(1) obtain s1 where r: "ReplaceWithTemp env s p = (s1, True)"
    and rest: "replace_all env s1 ps = (s', True)"
    by (auto split: prod.splits bool.splits)
  from r obtain f where f: "disk s (tmp_of p) = Some f"
    and s1: "s1 = s\<lparr>disk := (disk s)(tmp_of p := None, p \<mapsto> f)\<rparr>"
    by (auto simp: ReplaceWithTemp_def rename_file_def split: option.splits if_splits)
  have dis: "distinct ps" "p \<notin> set ps" "\<forall>p \<in> set ps. \<forall>q \<in> set ps. p \<noteq> tmp_of q"
    and tmp: "p \<notin> tmp_of ` set ps" "tmp_of p \<notin> set ps" "tmp_of p \<notin> tmp_of ` set ps"
    using "2.prems"(2,3) by auto
  note IH = "2.IH" [OF r [symmetric] refl rest dis(1,3)]
  have p': "disk s' p = Some f" using IH dis(2) tmp(1) s1 by auto
  have other: "disk s1 (tmp_of q) = disk s (tmp_of q)" if "q \<in> set ps" for q
    using that s1 dis(2) tmp by auto
  show ?case
  proof (intro conjI)
    show "\<forall>p \<in> set (p # ps). disk s' p = disk s (tmp_of p) \<and> disk s (tmp_of p) \<noteq> None"
      using IH p' other f by auto
    show "s' = s\<lparr>disk := disk s'\<rparr>" using IH s1 by simp
    show "\<forall>q. q \<notin> set (p # ps) \<and> q \<notin> tmp_of ` set (p # ps) \<longrightarrow> disk s' q = disk s q"
      using IH s1 by auto
  qed
qed auto

section \<open>The whole commit\<close>

definition disk_view :: "cert_store \<Rightarrow> u32 \<Rightarrow> disk_file option" where
  "disk_view s i = Option.bind (paths (g_layout s) i) (disk s)"

text \<open>A store whose files hold the staged bytes reads like the store that staged them.\<close>

lemma CertRead_committed:
  assumes "store_inv s" "g_layout s' = g_layout s" "g_staged s' = []"
    and D: "\<forall>i. paths (g_layout s) i \<noteq> None \<longrightarrow> disk_view s' i =
         (case map_of (g_staged s) i of Some st \<Rightarrow> Some (staged_file env st) | None \<Rightarrow> disk_view s i)"
  shows "CertRead s' j = CertRead s j"
proof -
  have lay: "layout_ok (g_layout s)" using assms(1) by (simp add: store_inv_def)
  have own: "OwnPath s' = OwnPath s" using assms(2) by (simp add: OwnPath_def fun_eq_iff)
  have staged: "CertRead s' i = CertRead s i" if st: "map_of (g_staged s) i = Some st" for i st
  proof -
    have "i \<in> dom (paths (g_layout s))"
      using assms(1) map_of_SomeD [OF st] by (force simp: store_inv_def)
    then obtain p where p: "paths (g_layout s) i = Some p" by auto
    then have "p \<noteq> []" using lay by (auto simp: layout_ok_def ran_def)
    with p D st assms(2) have d: "OwnPath s' i = p" "p \<noteq> []" "disk s' p = Some (staged_file env st)"
      by (auto simp: OwnPath_def disk_view_def)
    then have "CertRead s' i = Some (stagedBytes st)"
      using assms(3) by (subst CertRead_own) (auto simp: FallbackInstance_def ReadDisk_def staged_file_def)
    with st show ?thesis by (simp add: CertRead_staged)
  qed
  have same: "OwnPath s i = [] \<or> disk s' (OwnPath s i) = disk s (OwnPath s i)"
    if "map_of (g_staged s) i = None" for i
    using D that assms(2) by (cases "paths (g_layout s) i") (auto simp: OwnPath_def disk_view_def)
  have fb: "FallbackInstance s' i = FallbackInstance s i" if "map_of (g_staged s) i = None" for i
    using same [OF that] that assms(2,3) own by (auto simp: FallbackInstance_def)
  have step: "CertRead s' i = CertRead s i" if "FallbackInstance s i = 0" for i
  proof (cases "map_of (g_staged s) i")
    case None
    with that fb have "FallbackInstance s' i = 0" by simp
    moreover have "OwnPath s i = [] \<or> ReadDisk s' (OwnPath s i) = ReadDisk s (OwnPath s i)"
      using same [OF None] by (auto simp: ReadDisk_def)
    ultimately show ?thesis using that None assms(3) own by (auto simp: CertRead_own)
  qed (rule staged)
  show ?thesis
  proof (cases "map_of (g_staged s) j")
    case None
    have "source_of s' j = source_of s j" using fb [OF None] by (simp add: source_of_def)
    then show ?thesis
      using CertRead_source [of s' j] CertRead_source [OF lay, of j] assms(2) lay
        step [OF FallbackInstance_source [OF lay, of j]] by simp
  qed (rule staged)
qed

lemma replace_all_staged_disk:
  assumes "store_inv s" "write_temps env s (g_staged s) [] = (s1, Some ps)"
    "replace_all env s1 ps = (s2, True)"
  shows "s2 = s\<lparr>disk := disk s2\<rparr>" "\<forall>i. paths (g_layout s) i \<noteq> None \<longrightarrow> disk_view s2 i =
         (case map_of (g_staged s) i of Some st \<Rightarrow> Some (staged_file env st) | None \<Rightarrow> disk_view s i)"
proof -
  have lay: "layout_ok (g_layout s)" and dis: "distinct (map fst (g_staged s))"
    using assms(1) by (simp_all add: store_inv_def)
  then have inj: "inj_on (paths (g_layout s)) (dom (paths (g_layout s)))" by (simp add: layout_ok_def)
  note W = write_temps_Some [OF assms(2) inj dis]
  let ?P = "\<lambda>i. the (paths (g_layout s) i)"
  have ps: "ps = map (?P \<circ> fst) (g_staged s)" using W by (auto simp: comp_def case_prod_beta)
  have dom: "fst ` set (g_staged s) \<subseteq> dom (paths (g_layout s))" using W by blast
  have inj': "inj_on ?P (fst ` set (g_staged s))"
  proof (rule inj_onI)
    fix i j assume "i \<in> fst ` set (g_staged s)" "j \<in> fst ` set (g_staged s)" "?P i = ?P j"
    moreover from this dom have "i \<in> dom (paths (g_layout s))" "j \<in> dom (paths (g_layout s))" by blast+
    moreover from calculation have "paths (g_layout s) i = paths (g_layout s) j" by force
    ultimately have "i \<in> dom (paths (g_layout s))" "j \<in> dom (paths (g_layout s))"
      "paths (g_layout s) i = paths (g_layout s) j" by simp_all
    with inj show "i = j" by (blast dest: inj_onD)
  qed
  have "distinct (map ?P (map fst (g_staged s)))"
    using dis inj' by (simp only: distinct_map [of ?P] set_map) 
  then have dps: "distinct ps" using ps by simp
  have ran: "set ps \<subseteq> ran (paths (g_layout s))" using ps dom by (force simp: ran_def)
  then have tmp: "\<forall>p \<in> set ps. \<forall>q \<in> set ps. p \<noteq> tmp_of q" using lay unfolding layout_ok_def by blast
  note R = replace_all_True [OF assms(3) dps tmp]
  from W R obtain d1 d2 where "s1 = s\<lparr>disk := d1\<rparr>" "s2 = s1\<lparr>disk := d2\<rparr>" by blast
  then have eq: "s2 = s\<lparr>disk := disk s2\<rparr>" and layeq: "g_layout s2 = g_layout s" by simp_all
  from eq show "s2 = s\<lparr>disk := disk s2\<rparr>" .
  show "\<forall>i. paths (g_layout s) i \<noteq> None \<longrightarrow> disk_view s2 i =
         (case map_of (g_staged s) i of Some st \<Rightarrow> Some (staged_file env st) | None \<Rightarrow> disk_view s i)"
  proof (intro allI impI)
    fix i assume "paths (g_layout s) i \<noteq> None"
    then obtain p where p: "paths (g_layout s) i = Some p" by auto
    then have pr: "p \<in> ran (paths (g_layout s))" by (auto simp: ran_def)
    show "disk_view s2 i =
         (case map_of (g_staged s) i of Some st \<Rightarrow> Some (staged_file env st) | None \<Rightarrow> disk_view s i)"
    proof (cases "map_of (g_staged s) i")
      case None
      then have "i \<notin> fst ` set (g_staged s)" by (simp add: map_of_eq_None_iff)
      moreover have "j = i" if "j \<in> fst ` set (g_staged s)" "?P j = p" for j
      proof -
        from that dom have j: "j \<in> dom (paths (g_layout s))" by blast
        with that have "paths (g_layout s) j = Some p" by auto
        with p inj show ?thesis by (metis domI inj_onD)
      qed
      ultimately have "p \<notin> set ps" using ps by auto
      moreover have "p \<notin> tmp_of ` ran (paths (g_layout s))" using pr lay unfolding layout_ok_def by blast
      moreover from this ran have "p \<notin> tmp_of ` set ps" by blast
      moreover have "p \<notin> (\<lambda>(i, st). tmp_of (?P i)) ` set (g_staged s)"
        using calculation(3) ps by force
      ultimately have "disk s2 p = disk s p" using R W by simp
      with None p layeq show ?thesis by (simp add: disk_view_def)
    next
      case (Some st)
      then have mem: "(i, st) \<in> set (g_staged s)" by (rule map_of_SomeD)
      then have "p \<in> set ps" using ps p by force
      moreover have "disk s1 (tmp_of p) = Some (staged_file env st)" using W mem p by force
      ultimately have "disk s2 p = Some (staged_file env st)" using R by simp
      with Some p layeq show ?thesis by (simp add: disk_view_def)
    qed
  qed
qed

text \<open>Swapping the pending key in touches neither a certificate file nor a temporary one.\<close>

lemma PromotePendingKey_disk_view:
  assumes "layout_ok (g_layout s)" "PromotePendingKey env s = (s', b)"
  shows "s' = s\<lparr>disk := disk s'\<rparr>" "disk_view s' i = disk_view s i"
proof -
  from assms(2) show eq: "s' = s\<lparr>disk := disk s'\<rparr>"
    by (auto simp: PromotePendingKey_def rename_file_def split: option.splits if_splits)
  have lay: "g_layout s' = g_layout s" by (subst eq) simp
  have "disk s' p = disk s p" if "p \<in> ran (paths (g_layout s))" for p
    using assms that
    by (auto simp: PromotePendingKey_def rename_file_def layout_ok_def split: option.splits if_splits)
  then show "disk_view s' i = disk_view s i"
    using lay by (cases "paths (g_layout s) i") (auto simp: disk_view_def ran_def)
qed

lemma CommitStaged_success:
  assumes "store_inv s" "CommitStaged env s = (s', True)"
  shows "g_staged s' = []" "g_layout s' = g_layout s" "CertRead s' j = CertRead s j"
    "paths (g_layout s) i \<noteq> None \<Longrightarrow> map_of (g_staged s) i = Some st \<Longrightarrow>
       disk_view s' i = Some (staged_file env st)"
proof -
  obtain s1 ps s2 where w: "write_temps env s (g_staged s) [] = (s1, Some ps)"
    and r: "replace_all env s1 ps = (s2, True)"
    using assms(2) by (auto simp: CommitStaged_def Let_def split: prod.splits option.splits bool.splits)
  note D = replace_all_staged_disk [OF assms(1) w r]
  have lay2: "g_layout s2 = g_layout s" by (subst D(1)) simp
  let ?s3 = "s2\<lparr>g_staged := []\<rparr>"
  have ok: "layout_ok (g_layout ?s3)" using assms(1) lay2 by (simp add: store_inv_def)
  have view3: "disk_view ?s3 k = disk_view s2 k" for k by (simp add: disk_view_def)
  have *: "g_staged s' = [] \<and> g_layout s' = g_layout s \<and> (\<forall>k. disk_view s' k = disk_view s2 k)"
  proof (cases "g_commitPromotesPendingKey s2")
    case True
    with assms(2) w r obtain s4 where p: "PromotePendingKey env ?s3 = (s4, True)"
      and s': "s' = s4\<lparr>g_commitPromotesPendingKey := False\<rparr>"
      by (auto simp: CommitStaged_def Let_def split: prod.splits bool.splits)
    note P = PromotePendingKey_disk_view [OF ok p]
    from P(1) obtain d where "s4 = ?s3\<lparr>disk := d\<rparr>" by blast
    with lay2 have "g_staged s4 = []" "g_layout s4 = g_layout s" by simp_all
    moreover have "disk_view s' k = disk_view s4 k" for k using s' by (simp add: disk_view_def)
    ultimately show ?thesis using P(2) view3 s' by simp
  next
    case False
    with assms(2) w r have "s' = ?s3" by (simp add: CommitStaged_def)
    with lay2 view3 show ?thesis by simp
  qed
  then show "g_staged s' = []" "g_layout s' = g_layout s" by simp_all
  show "CertRead s' j = CertRead s j"
    by (rule CertRead_committed [OF assms(1)]) (use * D(2) in auto)
  show "disk_view s' i = Some (staged_file env st)"
    if "paths (g_layout s) i \<noteq> None" "map_of (g_staged s) i = Some st"
    using * D(2) that by simp
qed

text \<open>A failure before the first rename changes no file but temporary ones, and keeps the stage.\<close>

lemma CommitStaged_write_failure:
  assumes "write_temps env s (g_staged s) [] = (s1, None)"
  shows "CommitStaged env s = (s1, False)" "same_but_temps s s1"
  using assms write_temps_same_but_temps [OF assms] by (simp_all add: CommitStaged_def)

lemma write_temps_fails:
  assumes "(i, st) \<in> set m" "paths (g_layout s) i = Some p" "\<not> writeOk env (tmp_of p)"
  shows "\<exists>s1. write_temps env s m w = (s1, None)"
  using assms
proof (induction env s m w rule: write_temps.induct)
  case (2 env s j st' rest w)
  show ?case
  proof (cases "paths (g_layout s) j")
    case (Some q)
    obtain s1 b where w: "WriteTempFile env s q (stagedBytes st') = (s1, b)" by fastforce
    show ?thesis
    proof (cases b)
      case True
      with w have "i \<noteq> j \<or> st \<noteq> st'" "g_layout s1 = g_layout s"
        using "2.prems"(2,3) Some by (auto simp: WriteTempFile_def Let_def remove_file_def split: if_splits)
      then show ?thesis using "2.IH" [OF Some w [symmetric]] True "2.prems" Some w by auto
    qed (use Some w in simp)
  qed simp
qed simp

end
