(* ===== verification/Cert_Activate.thy ===== *)
theory Cert_Activate
  imports Cert_Commit
begin

text \<open>
  Checking and activating a staged certificate set (sc/cert_store.cpp): the PEM splitter,
  \<open>ParseCertificates\<close>, \<open>ValidateStaged\<close>, the start-up reconciliation of the pending key,
  \<open>GenerateKeyAndCsr\<close> and the trusted-issuer bundle. OpenSSL is the record \<open>crypto\<close>.
\<close>

section \<open>Text search\<close>

definition octets :: "string \<Rightarrow> bytes" where "octets s = map of_char s"

text \<open>\<open>std::string::find\<close>: the offset of the first occurrence.\<close>

fun find_sub :: "bytes \<Rightarrow> bytes \<Rightarrow> nat option" where
  "find_sub pat [] = (if pat = [] then Some 0 else None)"
| "find_sub pat (x # xs) =
     (if take (length pat) (x # xs) = pat then Some 0 else map_option Suc (find_sub pat xs))"

lemma find_sub_Some: "find_sub pat xs = Some n \<Longrightarrow> take (length pat) (drop n xs) = pat \<and> n + length pat \<le> length xs"
proof (induction pat xs arbitrary: n rule: find_sub.induct)
  case (2 pat x xs)
  show ?case
  proof (cases "take (length pat) (x # xs) = pat")
    case True
    with 2 have "n = 0" by simp
    moreover have "length pat \<le> length (x # xs)"
      using True by (metis length_take min.cobounded1)
    ultimately show ?thesis using True by simp
  next
    case False
    with 2 obtain m where m: "n = Suc m" "find_sub pat xs = Some m" by auto
    with 2(1) [OF False m(2)] show ?thesis by simp
  qed
qed (auto split: if_splits)

definition ws_octets :: bytes where "ws_octets = [32, 9, 13, 10]"

section \<open>PEM blocks\<close>

datatype pem_error =
    TextOutsideBlock | UnterminatedHeader | WrongLabel bytes | NoEndLine | NotPem | BlockDoesNotParse

definition pem_begin :: bytes where "pem_begin = octets ''-----BEGIN ''"
definition pem_dashes :: bytes where "pem_dashes = octets ''-----''"
definition pem_end :: "bytes \<Rightarrow> bytes" where "pem_end label = octets ''-----END '' @ label @ pem_dashes"

lemma pem_lengths [simp]: "length pem_begin = 11" "length pem_dashes = 5"
  by (simp_all add: pem_begin_def pem_dashes_def octets_def)

text \<open>
  \<open>SplitPemBlocks\<close>, with the text from \<open>pos\<close> on as the argument. \<open>Inl\<close> is the code's
  \<open>false\<close> with its reason, \<open>Inr\<close> the blocks.
\<close>

function SplitPemBlocks :: "bytes \<Rightarrow> bytes \<Rightarrow> pem_error + bytes list" where
  "SplitPemBlocks label rest =
     (let gapEnd = (case find_sub pem_begin rest of None \<Rightarrow> length rest | Some n \<Rightarrow> n) in
      if \<exists>c \<in> set (take gapEnd rest). c \<notin> set ws_octets then Inl TextOutsideBlock
      else case find_sub pem_begin rest of
          None \<Rightarrow> Inr []
        | Some begin_at \<Rightarrow>
            (let fromBegin = drop begin_at rest; afterBegin = drop 11 fromBegin in
             case find_sub pem_dashes afterBegin of
               None \<Rightarrow> Inl UnterminatedHeader
             | Some labelLength \<Rightarrow>
                 (if take labelLength afterBegin \<noteq> label
                  then Inl (WrongLabel (take labelLength afterBegin))
                  else case find_sub (pem_end label) (drop labelLength afterBegin) of
                      None \<Rightarrow> Inl NoEndLine
                    | Some endAt \<Rightarrow>
                        (let n = 11 + labelLength + endAt + length (pem_end label) in
                         case SplitPemBlocks label (drop n fromBegin) of
                           Inl e \<Rightarrow> Inl e
                         | Inr blocks \<Rightarrow> Inr (take n fromBegin # blocks)))))"
  by pat_completeness auto
termination
proof (relation "measure (\<lambda>(label, rest). length rest)", goal_cases)
  case (2 label rest gapEnd begin_at fromBegin afterBegin labelLength endAt n)
  from find_sub_Some [OF 2(3)] have "begin_at + 11 \<le> length rest" by simp
  with 2 show ?case by simp
qed simp

declare SplitPemBlocks.simps [simp del]

record ('cert, 'key) crypto =
  readX509 :: "bytes \<Rightarrow> 'cert option"              \<comment> \<open>\<open>PEM_read_bio_X509\<close>\<close>
  readKey :: "bytes \<Rightarrow> 'key option"                \<comment> \<open>\<open>PEM_read_bio_PrivateKey\<close>\<close>
  keyMatches :: "'cert \<Rightarrow> 'key \<Rightarrow> bool"           \<comment> \<open>\<open>X509_check_private_key\<close>\<close>
  isCa :: "'cert \<Rightarrow> bool"                          \<comment> \<open>\<open>X509_check_ca\<close>\<close>
  verifies :: "'cert \<Rightarrow> 'cert list \<Rightarrow> 'cert list \<Rightarrow> bool \<Rightarrow> bool"
     \<comment> \<open>\<open>X509_verify_cert\<close>: leaf, untrusted chain, trusted store, server (else client) purpose\<close>
  writeX509 :: "'cert \<Rightarrow> bytes option"             \<comment> \<open>\<open>PEM_write_bio_X509\<close>\<close>
  newRequest :: "'cert \<Rightarrow> (bytes \<times> bytes) option"
     \<comment> \<open>a new key and a request for it with the subject of the certificate, both as PEM\<close>

fun parse_blocks :: "('cert, 'key) crypto \<Rightarrow> bytes list \<Rightarrow> pem_error + 'cert list" where
  "parse_blocks cr [] = Inr []"
| "parse_blocks cr (b # bs) =
     (case readX509 cr b of
        None \<Rightarrow> Inl BlockDoesNotParse
      | Some c \<Rightarrow> (case parse_blocks cr bs of Inl e \<Rightarrow> Inl e | Inr cs \<Rightarrow> Inr (c # cs)))"

definition ParseCertificates :: "('cert, 'key) crypto \<Rightarrow> bytes \<Rightarrow> pem_error + 'cert list" where
  "ParseCertificates cr pem =
     (case SplitPemBlocks (octets ''CERTIFICATE'') pem of
        Inl e \<Rightarrow> Inl e
      | Inr [] \<Rightarrow> (if \<forall>c \<in> set pem. c \<in> set ws_octets then Inr [] else Inl NotPem)
      | Inr blocks \<Rightarrow> parse_blocks cr blocks)"

section \<open>Validation\<close>

datatype cert_error =
    IssuerBad u32 pem_error | NoIssuer | OperationalBad pem_error | OperationalEmpty
  | NoPrivateKey | KeyMismatch | OperationalIsCa | NotChained bool
  | WritesAreStaged | NoCsrFile | NoOperationalForSubject "pem_error option" | RequestFailed
  | CouldNotWrite path

text \<open>\<open>ChainsToIssuers\<close> tries each issuer alone, then all of them when there are several.\<close>

definition ChainsToIssuers :: "('cert, 'key) crypto \<Rightarrow> 'cert \<Rightarrow> 'cert list \<Rightarrow> 'cert list \<Rightarrow> bool \<Rightarrow> bool" where
  "ChainsToIssuers cr leaf intermediates issuers server =
     (let attempts = map (\<lambda>i. [i]) issuers @ (if length issuers < 2 then [] else [issuers])
      in list_ex (\<lambda>store. verifies cr leaf intermediates store server) attempts)"

definition LoadKey :: "('cert, 'key) crypto \<Rightarrow> cert_store \<Rightarrow> path \<Rightarrow> 'key option" where
  "LoadKey cr s p = (if p = [] then None else Option.bind (ReadDisk s p) (readKey cr))"

fun collect_issuers :: "('cert, 'key) crypto \<Rightarrow> cert_store \<Rightarrow> u32 list \<Rightarrow> cert_error + 'cert list" where
  "collect_issuers cr s [] = Inr []"
| "collect_issuers cr s (i # is) =
     (case ParseCertificates cr (Effective s i) of
        Inl e \<Rightarrow> Inl (IssuerBad i e)
      | Inr cs \<Rightarrow> (case collect_issuers cr s is of Inl e \<Rightarrow> Inl e | Inr ds \<Rightarrow> Inr (cs @ ds)))"

text \<open>The key check: whether the commit has to promote the pending key, or the refusal.\<close>

definition check_keys :: "('cert, 'key) crypto \<Rightarrow> cert_store \<Rightarrow> 'cert \<Rightarrow> cert_error + bool" where
  "check_keys cr s leaf =
     (let key = LoadKey cr s (privateKeyPath (g_layout s));
          pendingKey = LoadKey cr s (pendingPrivateKeyPath (g_layout s));
          matches = (\<lambda>k. case k of None \<Rightarrow> False | Some k' \<Rightarrow> keyMatches cr leaf k') in
      if matches key then Inr False
      else if matches pendingKey then Inr True
      else if key = None then Inl NoPrivateKey
      else Inl KeyMismatch)"

definition ValidateStaged :: "('cert, 'key) crypto \<Rightarrow> cert_store \<Rightarrow> cert_store \<times> cert_error option" where
  "ValidateStaged cr s =
     (case collect_issuers cr s (issuerInstances (g_layout s)) of
        Inl e \<Rightarrow> (s, Some e)
      | Inr [] \<Rightarrow> (s, Some NoIssuer)
      | Inr issuers \<Rightarrow>
         (case ParseCertificates cr (Effective s (operationalInstance (g_layout s))) of
            Inl e \<Rightarrow> (s, Some (OperationalBad e))
          | Inr [] \<Rightarrow> (s, Some OperationalEmpty)
          | Inr (leaf # intermediates) \<Rightarrow>
             (let keys = check_keys cr s leaf;
                  s1 = s\<lparr>g_commitPromotesPendingKey := (keys = Inr True)\<rparr> in
              case keys of
                Inl e \<Rightarrow> (s1, Some e)
              | Inr _ \<Rightarrow>
                  (if isCa cr leaf then (s1, Some OperationalIsCa)
                   else if \<not> ChainsToIssuers cr leaf intermediates issuers True then (s1, Some (NotChained True))
                   else if \<not> ChainsToIssuers cr leaf intermediates issuers False then (s1, Some (NotChained False))
                   else (s1, None)))))"

section \<open>Key generation, reconciliation, the trust bundle\<close>

definition GenerateKeyAndCsr :: "('cert, 'key) crypto \<Rightarrow> io_env \<Rightarrow> cert_store \<Rightarrow> cert_store \<times> cert_error option" where
  "GenerateKeyAndCsr cr env s =
     (if g_staged s \<noteq> [] then (s, Some WritesAreStaged)
      else case paths (g_layout s) (csrInstance (g_layout s)) of
        None \<Rightarrow> (s, Some NoCsrFile)
      | Some csrPath \<Rightarrow>
        (let pending = pendingPrivateKeyPath (g_layout s) in
         if pending = [] then (s, Some NoCsrFile)
         else case ParseCertificates cr (Effective s (operationalInstance (g_layout s))) of
           Inl e \<Rightarrow> (s, Some (NoOperationalForSubject (Some e)))
         | Inr [] \<Rightarrow> (s, Some (NoOperationalForSubject None))
         | Inr (leaf # _) \<Rightarrow>
            (case newRequest cr leaf of
               None \<Rightarrow> (s, Some RequestFailed)
             | Some (keyPem, csrPem) \<Rightarrow>
                (case WriteTempFile env s pending keyPem of
                   (s1, False) \<Rightarrow> (s1, Some (CouldNotWrite pending))
                 | (s1, True) \<Rightarrow>
                   (case WriteTempFile env s1 csrPath csrPem of
                      (s2, False) \<Rightarrow> (remove_file s2 (tmp_of pending), Some (CouldNotWrite csrPath))
                    | (s2, True) \<Rightarrow>
                      (case ReplaceWithTemp env s2 pending of
                         (s3, False) \<Rightarrow>
                           (remove_file (remove_file s3 (tmp_of pending)) (tmp_of csrPath),
                            Some (CouldNotWrite pending))
                       | (s3, True) \<Rightarrow>
                         (case ReplaceWithTemp env s3 csrPath of
                            (s4, b) \<Rightarrow> (s4, if b then None else Some (CouldNotWrite csrPath)))))))))"

text \<open>The result of \<open>ReconcilePendingKey\<close>: the new store and the code's return value.\<close>

definition ReconcilePendingKey :: "('cert, 'key) crypto \<Rightarrow> io_env \<Rightarrow> cert_store \<Rightarrow> cert_store \<times> bool" where
  "ReconcilePendingKey cr env s =
     (let pending = pendingPrivateKeyPath (g_layout s) in
      if pending = [] \<or> disk s pending = None then (s, True)
      else case Option.bind (paths (g_layout s) (operationalInstance (g_layout s))) (ReadDisk s) of
        None \<Rightarrow> (s, True)
      | Some pem \<Rightarrow>
         (case ParseCertificates cr pem of
            Inl _ \<Rightarrow> (s, True)
          | Inr [] \<Rightarrow> (s, True)
          | Inr (leaf # _) \<Rightarrow>
             (let matches = (\<lambda>p. case LoadKey cr s p of None \<Rightarrow> False | Some k \<Rightarrow> keyMatches cr leaf k) in
              if matches (privateKeyPath (g_layout s)) \<or> \<not> matches pending then (s, True)
              else PromotePendingKey env s)))"

fun bundle_of :: "('cert, 'key) crypto \<Rightarrow> bytes list \<Rightarrow> 'cert list \<Rightarrow> bytes \<times> bytes list" where
  "bundle_of cr seen [] = ([], seen)"
| "bundle_of cr seen (c # cs) =
     (case writeX509 cr c of
        None \<Rightarrow> bundle_of cr seen cs
      | Some pem \<Rightarrow>
          (if pem \<in> set seen then bundle_of cr seen cs
           else let (rest, seen') = bundle_of cr (pem # seen) cs in (pem @ rest, seen')))"

fun issuer_bundle :: "('cert, 'key) crypto \<Rightarrow> cert_store \<Rightarrow> bytes list \<Rightarrow> u32 list \<Rightarrow> bytes" where
  "issuer_bundle cr s seen [] = []"
| "issuer_bundle cr s seen (i # is) =
     (let certs = (case CertRead s i of None \<Rightarrow> []
                   | Some b \<Rightarrow> (case ParseCertificates cr b of Inl _ \<Rightarrow> [] | Inr cs \<Rightarrow> cs));
          (pem, seen') = bundle_of cr seen certs
      in pem @ issuer_bundle cr s seen' is)"

definition WriteTrustedIssuerBundle ::
  "('cert, 'key) crypto \<Rightarrow> io_env \<Rightarrow> cert_store \<Rightarrow> path \<Rightarrow> cert_store \<times> bool" where
  "WriteTrustedIssuerBundle cr env s bundlePath =
     (let bundle = issuer_bundle cr s [] (issuerInstances (g_layout s)) in
      if bundle = [] then (s, False) else AtomicWriteFileToDisk env s bundlePath bundle)"

end
