(* ===== verification/C_String.thy ===== *)
theory C_String
  imports Prelude
begin

text \<open>
  The parts of the C string library the program uses: \<open>strtol\<close> in base 10 and the searches
  of \<open>std::string\<close>. A \<open>string\<close> is the list of its characters without the terminator.
\<close>

section \<open>Numbers\<close>

definition is_digit :: "char \<Rightarrow> bool" where
  "is_digit c = (c \<in> set ''0123456789'')"

definition digit_value :: "char \<Rightarrow> nat" where
  "digit_value c = of_char c - 48"

definition is_space :: "char \<Rightarrow> bool" where
  "is_space c = (c = CHR '' '' \<or> c = CHR 0x09 \<or> c = CHR 0x0A \<or> c = CHR 0x0B \<or> c = CHR 0x0C \<or> c = CHR 0x0D)"

fun digits_value :: "nat \<Rightarrow> string \<Rightarrow> nat" where
  "digits_value acc [] = acc"
| "digits_value acc (c # cs) = digits_value (10 * acc + digit_value c) cs"

definition LONG_MAX :: int where "LONG_MAX = 2 ^ 63 - 1"

text \<open>
  \<open>strtol(text, &end, 10)\<close>: the value, clamped to the range of \<open>long\<close>, and the text from
  \<open>end\<close> on. Without a digit nothing is consumed.
\<close>

definition strtol :: "string \<Rightarrow> int \<times> string" where
  "strtol text =
     (let body = dropWhile is_space text;
          neg = (body \<noteq> [] \<and> hd body = CHR ''-'');
          unsig = (if body \<noteq> [] \<and> hd body \<in> set ''+-'' then tl body else body);
          ds = takeWhile is_digit unsig;
          n = int (digits_value 0 ds)
      in if ds = [] then (0, text)
         else (max (- LONG_MAX - 1) (min LONG_MAX (if neg then - n else n)), dropWhile is_digit unsig))"

text \<open>When \<open>strtol\<close> sets \<open>errno\<close>: the number does not fit a \<open>long\<close>.\<close>

definition strtol_overflows :: "string \<Rightarrow> bool" where
  "strtol_overflows text \<longleftrightarrow>
     (let body = dropWhile is_space text;
          neg = (body \<noteq> [] \<and> hd body = CHR ''-'');
          unsig = (if body \<noteq> [] \<and> hd body \<in> set ''+-'' then tl body else body);
          n = int (digits_value 0 (takeWhile is_digit unsig))
      in (if neg then n > LONG_MAX + 1 else n > LONG_MAX))"

text \<open>\<open>strtoul\<close> on a text that starts with a digit: the number, and the text after it.\<close>

definition ULONG_MAX :: nat where "ULONG_MAX = 2 ^ 64 - 1"

definition strtoul_digits :: "string \<Rightarrow> nat \<times> string" where
  "strtoul_digits text = (digits_value 0 (takeWhile is_digit text), dropWhile is_digit text)"

lemma strtol_range: "- LONG_MAX - 1 \<le> fst (strtol text)" "fst (strtol text) \<le> LONG_MAX"
  by (auto simp: strtol_def Let_def LONG_MAX_def)

text \<open>On a plain digit string \<open>strtol\<close> is the decimal value, and consumes it all.\<close>

lemma takeWhile_digits [simp]: "\<forall>c \<in> set ds. is_digit c \<Longrightarrow> takeWhile is_digit ds = ds"
  "\<forall>c \<in> set ds. is_digit c \<Longrightarrow> dropWhile is_digit ds = []"
  by (simp_all add: takeWhile_eq_all_conv)

lemma digit_not_space: "is_digit c \<Longrightarrow> \<not> is_space c" "is_digit c \<Longrightarrow> c \<notin> set ''+-''"
  by (auto simp: is_digit_def is_space_def)

lemma strtol_digits:
  assumes "ds \<noteq> []" "\<forall>c \<in> set ds. is_digit c" "int (digits_value 0 ds) \<le> LONG_MAX"
  shows "strtol ds = (int (digits_value 0 ds), [])"
proof -
  obtain c cs where ds: "ds = c # cs" using assms(1) by (cases ds) auto
  with assms(2) have c: "\<not> is_space c" "c \<notin> set ''+-''" "c \<noteq> CHR ''-''"
    using digit_not_space by (auto simp: is_digit_def)
  have "dropWhile is_space ds = ds" using ds c by simp
  then show ?thesis using assms ds c
    by (auto simp: strtol_def Let_def LONG_MAX_def)
qed

text \<open>\<open>%u\<close> and \<open>%02X\<close>.\<close>

definition digit_char :: "nat \<Rightarrow> char" where
  "digit_char d = ''0123456789ABCDEF'' ! d"

fun decimal :: "nat \<Rightarrow> string" where
  "decimal n = (if n < 10 then [digit_char n] else decimal (n div 10) @ [digit_char (n mod 10)])"

declare decimal.simps [simp del]

definition hex2 :: "u8 \<Rightarrow> string" where
  "hex2 w = [digit_char (unat w div 16), digit_char (unat w mod 16)]"

lemma length_hex2 [simp]: "length (hex2 w) = 2"
  by (simp add: hex2_def)

lemma digits_value_append: "digits_value acc (s @ t) = digits_value (digits_value acc s) t"
  by (induction s arbitrary: acc) simp_all

lemma digit_char_digit:
  assumes "d < 10"
  shows "is_digit (digit_char d)" "digit_value (digit_char d) = d"
proof -
  have "d \<in> {0, 1, 2, 3, 4, 5, 6, 7, 8, 9}" using assms by auto
  then show "is_digit (digit_char d)" "digit_value (digit_char d) = d"
    by (auto simp: is_digit_def digit_char_def digit_value_def)
qed

text \<open>A number that is printed is read back.\<close>

lemma decimal_digits: "decimal n \<noteq> [] \<and> (\<forall>c \<in> set (decimal n). is_digit c)"
  by (induction n rule: decimal.induct) (subst (1 2) decimal.simps, auto simp: digit_char_digit)

lemma decimal_value: "digits_value 0 (decimal n) = n"
  by (induction n rule: decimal.induct) (subst decimal.simps, simp add: digits_value_append digit_char_digit)

lemma strtol_decimal: "int n \<le> LONG_MAX \<Longrightarrow> strtol (decimal n) = (int n, [])"
  using strtol_digits [of "decimal n"] decimal_digits [of n] by (simp add: decimal_value)

lemma strtoul_decimal: "strtoul_digits (decimal n) = (n, [])"
  using decimal_digits [of n] by (simp add: strtoul_digits_def decimal_value)

section \<open>Searches\<close>

text \<open>The text before and from the first occurrence of a character (\<open>None\<close>: \<open>npos\<close>).\<close>

definition split_first :: "char \<Rightarrow> string \<Rightarrow> string \<times> string option" where
  "split_first c s =
     (takeWhile (\<lambda>x. x \<noteq> c) s, if c \<in> set s then Some (dropWhile (\<lambda>x. x \<noteq> c) s) else None)"

text \<open>The text before and after the last occurrence of a character.\<close>

definition split_last :: "char \<Rightarrow> string \<Rightarrow> string \<times> string option" where
  "split_last c s =
     (if c \<in> set s
      then (rev (tl (dropWhile (\<lambda>x. x \<noteq> c) (rev s))), Some (rev (takeWhile (\<lambda>x. x \<noteq> c) (rev s))))
      else (s, None))"

lemma split_last_join: "split_last c s = (a, Some b) \<Longrightarrow> s = a @ c # b \<and> c \<notin> set b"
proof -
  assume "split_last c s = (a, Some b)"
  then have c: "c \<in> set s" and a: "a = rev (tl (dropWhile (\<lambda>x. x \<noteq> c) (rev s)))"
    and b: "b = rev (takeWhile (\<lambda>x. x \<noteq> c) (rev s))"
    by (auto simp: split_last_def split: if_splits)
  from c obtain ys where "dropWhile (\<lambda>x. x \<noteq> c) (rev s) = c # ys"
    by (metis (mono_tags, lifting) dropWhile_eq_Nil_conv hd_Cons_tl hd_dropWhile set_rev)
  then have "rev s = takeWhile (\<lambda>x. x \<noteq> c) (rev s) @ c # ys"
    by (metis takeWhile_dropWhile_id)
  then have "s = rev ys @ c # b" using b by (metis append.assoc append_Cons append_Nil rev.simps(2) rev_append rev_swap)
  moreover have "a = rev ys" using a \<open>dropWhile _ _ = _\<close> by simp
  moreover have "c \<notin> set b" using b by (auto dest: set_takeWhileD)
  ultimately show ?thesis by simp
qed

section \<open>Texts as octets\<close>

definition octets_of :: "string \<Rightarrow> bytes" where
  "octets_of text = map of_char text"

definition text_of :: "bytes \<Rightarrow> string" where
  "text_of b = map (\<lambda>w. char_of (unat w)) b"

lemma length_octets_of [simp]: "length (octets_of s) = length s"
  by (simp add: octets_of_def)

lemma text_of_octets_of [simp]: "text_of (octets_of s) = s"
proof -
  have "char_of (unat (of_char c :: u8)) = c" for c
  proof -
    have "unat (of_char c :: u8) = (of_char c :: nat)"
    proof -
      have "(of_char c :: u8) = of_nat (of_char c)" by (rule of_nat_of_char [symmetric])
      then have "unat (of_char c :: u8) = of_char c mod 256" by (simp only: unat_of_nat) simp
      then show ?thesis by simp
    qed
    then show ?thesis by simp
  qed
  then show ?thesis by (simp add: octets_of_def text_of_def map_idI)
qed

end
