(* ===== verification/Hub_Connector.thy ===== *)
theory Hub_Connector
  imports C_String
begin

text \<open>
  The WebSocket connections to the BACnet/SC hubs (sc/ScHubConnector.cpp): the connection
  table, the libwebsockets event callback, the send queue with its bound, the assembly of
  received fragments, and the two queues the stack side polls. libwebsockets itself is the
  environment: it delivers events for a socket, and says whether a write went through.
\<close>

section \<open>State\<close>

abbreviation MAX_RECEIVED_FRAME_OCTETS :: nat where "MAX_RECEIVED_FRAME_OCTETS \<equiv> 1600"
abbreviation MAX_QUEUED_FRAMES :: nat where "MAX_QUEUED_FRAMES \<equiv> 64"

datatype WebSocketStatus = WsConnecting | WsConnected | WsDisconnected | WsError

record Connection =
  socket :: "nat option"
  conn_open :: bool
  closeRequested :: bool
  sendQueue :: "bytes list"
  receiveAssembly :: bytes
  receiveOverflow :: bool

record hub =
  g_context :: bool
  g_connections :: "string \<rightharpoonup> Connection"
  g_statusEvents :: "(string \<times> WebSocketStatus) list"
  g_receivedFrames :: "(string \<times> bytes) list"
  g_reloading :: bool

definition idle_connection :: Connection where
  "idle_connection = \<lparr>socket = None, conn_open = False, closeRequested = False, sendQueue = [],
     receiveAssembly = [], receiveOverflow = False\<rparr>"

definition QueueStatus :: "hub \<Rightarrow> string \<Rightarrow> WebSocketStatus \<Rightarrow> hub" where
  "QueueStatus h uri st = h\<lparr>g_statusEvents := g_statusEvents h @ [(uri, st)]\<rparr>"

definition set_connection :: "hub \<Rightarrow> string \<Rightarrow> Connection \<Rightarrow> hub" where
  "set_connection h uri c = h\<lparr>g_connections := (g_connections h)(uri \<mapsto> c)\<rparr>"

section \<open>Hub URIs\<close>

text \<open>\<open>wss://host[:port][/path]\<close>; an IPv6 host is in brackets. Result: host, port, path.\<close>

definition ParseHubUri :: "string \<Rightarrow> (string \<times> int \<times> string) option" where
  "ParseHubUri uri =
     (if take 6 uri \<noteq> ''wss://'' then None
      else
        let (hostAndPort, slash) = split_first (CHR ''/'') (drop 6 uri);
            path = (case slash of None \<Rightarrow> ''/'' | Some p \<Rightarrow> p);
            hp = (if hostAndPort \<noteq> [] \<and> hd hostAndPort = CHR ''[''
                  then (case split_first (CHR '']'') hostAndPort of
                          (before, None) \<Rightarrow> None
                        | (before, Some after) \<Rightarrow>
                            (if tl after \<noteq> [] \<and> hd (tl after) \<noteq> CHR '':'' then None
                             else Some (tl before, drop 2 after)))
                  else (case split_last (CHR '':'') hostAndPort of
                          (host, None) \<Rightarrow> Some (host, [])
                        | (host, Some portText) \<Rightarrow> Some (host, portText)))
        in case hp of
             None \<Rightarrow> None
           | Some (host, portText) \<Rightarrow>
               (if host = [] then None
                else if portText = [] then Some (host, 443, path)
                else let (parsedPort, rest) = strtol portText in
                     if rest \<noteq> [] \<or> parsedPort < 1 \<or> 65535 < parsedPort then None
                     else Some (host, parsedPort, path)))"

lemma ParseHubUri_port: "ParseHubUri uri = Some (host, port, path) \<Longrightarrow> 1 \<le> port \<and> port \<le> 65535 \<and> host \<noteq> []"
  by (auto simp: ParseHubUri_def Let_def split: if_splits option.splits prod.splits)

section \<open>The event callback\<close>

text \<open>
  \<open>Receive octets binary final\<close> is one fragment; \<open>Writeable written\<close> carries whether the
  \<open>lws_write\<close> the callback makes goes through.
\<close>

datatype lws_event =
    Established | ConnectionError | Closed | Receive bytes bool bool | Writeable bool | OtherEvent

text \<open>Result: the new state, the callback's return value, and the frame handed to the socket.\<close>

definition HubProtocolCallback ::
  "hub \<Rightarrow> string \<Rightarrow> nat \<Rightarrow> lws_event \<Rightarrow> hub \<times> int \<times> bytes option" where
  "HubProtocolCallback h uri sock ev =
     (case g_connections h uri of
        None \<Rightarrow> (h, 0, None)
      | Some c \<Rightarrow>
       (if g_reloading h then (h, 0, None)
        else if socket c \<noteq> Some sock then
          (h, (case ev of Established \<Rightarrow> -1 | Receive _ _ _ \<Rightarrow> -1 | Writeable _ \<Rightarrow> -1 | _ \<Rightarrow> 0), None)
        else case ev of
            Established \<Rightarrow>
              (QueueStatus (set_connection h uri (c\<lparr>conn_open := True, socket := Some sock\<rparr>)) uri WsConnected, 0, None)
          | ConnectionError \<Rightarrow>
              (QueueStatus (set_connection h uri (c\<lparr>conn_open := False, socket := None, sendQueue := []\<rparr>))
                 uri WsError, 0, None)
          | Closed \<Rightarrow>
              (QueueStatus (set_connection h uri (c\<lparr>conn_open := False, socket := None, sendQueue := []\<rparr>))
                 uri WsDisconnected, 0, None)
          | Receive octets binary final \<Rightarrow>
              (if \<not> binary then (h, 0, None)
               else
                 let c1 = (if receiveOverflow c then c
                           else if MAX_RECEIVED_FRAME_OCTETS < length (receiveAssembly c) + length octets
                           then c\<lparr>receiveOverflow := True, receiveAssembly := []\<rparr>
                           else c\<lparr>receiveAssembly := receiveAssembly c @ octets\<rparr>)
                 in if final
                    then ((if \<not> receiveOverflow c1 \<and> receiveAssembly c1 \<noteq> []
                           then h\<lparr>g_receivedFrames := g_receivedFrames h @ [(uri, receiveAssembly c1)],
                                  g_connections := (g_connections h)
                                    (uri \<mapsto> c1\<lparr>receiveAssembly := [], receiveOverflow := False\<rparr>)\<rparr>
                           else set_connection h uri (c1\<lparr>receiveAssembly := [], receiveOverflow := False\<rparr>)), 0, None)
                    else (set_connection h uri c1, 0, None))
          | Writeable written \<Rightarrow>
              (if closeRequested c then (h, -1, None)
               else case sendQueue c of
                   [] \<Rightarrow> (h, 0, None)
                 | frame # queue \<Rightarrow>
                     (if \<not> written then (h, -1, None)
                      else (set_connection h uri (c\<lparr>sendQueue := queue\<rparr>), 0, Some frame)))
          | OtherEvent \<Rightarrow> (h, 0, None)))"

section \<open>The operations the node calls\<close>

text \<open>\<open>Connect\<close>: \<open>newSocket\<close> is what \<open>lws_client_connect_via_info\<close> returns.\<close>

definition Connect :: "hub \<Rightarrow> string \<Rightarrow> nat option \<Rightarrow> hub \<times> bool" where
  "Connect h uri newSocket =
     (if \<not> g_context h then (h, False)
      else case ParseHubUri uri of
          None \<Rightarrow> (h, False)
        | Some _ \<Rightarrow>
            (let h1 = set_connection h uri (idle_connection\<lparr>socket := newSocket\<rparr>) in
             if newSocket = None \<and> (g_statusEvents h1 = [] \<or> fst (last (g_statusEvents h1)) \<noteq> uri)
             then (QueueStatus h1 uri WsError, True) else (h1, True)))"

definition Disconnect :: "hub \<Rightarrow> string \<Rightarrow> hub" where
  "Disconnect h uri =
     (case g_connections h uri of
        None \<Rightarrow> h
      | Some c \<Rightarrow> (if socket c = None then h else set_connection h uri (c\<lparr>closeRequested := True\<rparr>)))"

definition HubSend :: "hub \<Rightarrow> string \<Rightarrow> bytes \<Rightarrow> hub \<times> bool" where
  "HubSend h uri data =
     (case g_connections h uri of
        None \<Rightarrow> (h, False)
      | Some c \<Rightarrow>
          (if \<not> conn_open c \<or> socket c = None \<or> MAX_QUEUED_FRAMES \<le> length (sendQueue c) then (h, False)
           else (set_connection h uri (c\<lparr>sendQueue := sendQueue c @ [data]\<rparr>), True)))"

definition PopStatusEvent :: "hub \<Rightarrow> (hub \<times> string \<times> WebSocketStatus) option" where
  "PopStatusEvent h =
     (case g_statusEvents h of [] \<Rightarrow> None | e # es \<Rightarrow> Some (h\<lparr>g_statusEvents := es\<rparr>, e))"

definition PopReceived :: "hub \<Rightarrow> (hub \<times> string \<times> bytes) option" where
  "PopReceived h =
     (case g_receivedFrames h of [] \<Rightarrow> None | f # fs \<Rightarrow> Some (h\<lparr>g_receivedFrames := fs\<rparr>, f))"

text \<open>
  \<open>ReloadCredentials\<close> walks the connection map in key order; \<open>uris\<close> is that order.
  \<open>created\<close> is the outcome of \<open>CreateContext\<close>.
\<close>

fun drop_connections :: "hub \<Rightarrow> string list \<Rightarrow> hub" where
  "drop_connections h [] = h"
| "drop_connections h (uri # uris) =
     (case g_connections h uri of
        None \<Rightarrow> drop_connections h uris
      | Some c \<Rightarrow>
          (if socket c \<noteq> None \<or> conn_open c
           then drop_connections
                  (QueueStatus (set_connection h uri (c\<lparr>conn_open := False, socket := None, sendQueue := []\<rparr>))
                     uri WsDisconnected) uris
           else drop_connections h uris))"

definition ReloadCredentials :: "hub \<Rightarrow> string list \<Rightarrow> bool \<Rightarrow> hub \<times> bool" where
  "ReloadCredentials h uris created =
     (let h1 = drop_connections h uris in (h1\<lparr>g_context := created\<rparr>, created))"

section \<open>The invariant and the reachable states\<close>

definition connection_inv :: "Connection \<Rightarrow> bool" where
  "connection_inv c \<longleftrightarrow>
     length (sendQueue c) \<le> MAX_QUEUED_FRAMES \<and> length (receiveAssembly c) \<le> MAX_RECEIVED_FRAME_OCTETS \<and>
     (conn_open c \<longrightarrow> socket c \<noteq> None) \<and> (\<not> conn_open c \<longrightarrow> sendQueue c = []) \<and>
     (receiveOverflow c \<longrightarrow> receiveAssembly c = [])"

definition frame_ok :: "bytes \<Rightarrow> bool" where
  "frame_ok f \<longleftrightarrow> f \<noteq> [] \<and> length f \<le> MAX_RECEIVED_FRAME_OCTETS"

definition hub_inv :: "hub \<Rightarrow> bool" where
  "hub_inv h \<longleftrightarrow> (\<forall>uri c. g_connections h uri = Some c \<longrightarrow> connection_inv c) \<and>
     (\<forall>(uri, f) \<in> set (g_receivedFrames h). frame_ok f)"

lemma hub_invD: "hub_inv h \<Longrightarrow> g_connections h uri = Some c \<Longrightarrow> connection_inv c"
  by (auto simp: hub_inv_def)

lemma hub_inv_set_connection: "hub_inv h \<Longrightarrow> connection_inv c \<Longrightarrow> hub_inv (set_connection h uri c)"
  by (auto simp: hub_inv_def set_connection_def)

lemma hub_inv_QueueStatus [simp]: "hub_inv (QueueStatus h uri st) = hub_inv h"
  by (simp add: hub_inv_def QueueStatus_def)

lemma idle_connection_inv [simp]: "connection_inv (idle_connection\<lparr>socket := x\<rparr>)"
  by (simp add: connection_inv_def idle_connection_def)

text \<open>The fragment step of one connection.\<close>

definition receive_fragment :: "Connection \<Rightarrow> bytes \<Rightarrow> Connection" where
  "receive_fragment c octets =
     (if receiveOverflow c then c
      else if MAX_RECEIVED_FRAME_OCTETS < length (receiveAssembly c) + length octets
      then c\<lparr>receiveOverflow := True, receiveAssembly := []\<rparr>
      else c\<lparr>receiveAssembly := receiveAssembly c @ octets\<rparr>)"

lemma receive_fragment_inv: "connection_inv c \<Longrightarrow> connection_inv (receive_fragment c octets)"
  by (auto simp: connection_inv_def receive_fragment_def)

lemma HubProtocolCallback_inv:
  assumes "hub_inv h"
  shows "hub_inv (fst (HubProtocolCallback h uri sock ev))"
proof (cases "g_connections h uri")
  case (Some c)
  note c = hub_invD [OF assms Some]
  show ?thesis
  proof (cases "g_reloading h \<or> socket c \<noteq> Some sock")
    case True
    with assms Some show ?thesis by (auto simp: HubProtocolCallback_def)
  next
    case active: False
    show ?thesis
    proof (cases ev)
      case (Receive octets binary final)
      let ?c1 = "receive_fragment c octets"
      have c1: "connection_inv ?c1" using c by (rule receive_fragment_inv)
      then have c2: "connection_inv (?c1\<lparr>receiveAssembly := [], receiveOverflow := False\<rparr>)"
        by (simp add: connection_inv_def)
      have "receiveAssembly ?c1 \<noteq> [] \<Longrightarrow> frame_ok (receiveAssembly ?c1)"
        using c1 by (simp add: connection_inv_def frame_ok_def)
      then show ?thesis
        using assms Some active Receive c1 c2 hub_inv_set_connection [OF assms]
        by (auto simp: HubProtocolCallback_def Let_def hub_inv_def set_connection_def
            simp flip: receive_fragment_def)
    next
      case (Writeable written)
      have "connection_inv (c\<lparr>sendQueue := q\<rparr>)" if "sendQueue c = f # q" for f q
        using c that by (auto simp: connection_inv_def)
      with assms Some active Writeable show ?thesis
        by (auto simp: HubProtocolCallback_def intro: hub_inv_set_connection split: list.splits)
    qed (use assms Some active c in
        \<open>auto simp: HubProtocolCallback_def connection_inv_def intro!: hub_inv_set_connection\<close>)
  qed
qed (use assms in \<open>simp add: HubProtocolCallback_def\<close>)

lemma drop_connections_inv: "hub_inv h \<Longrightarrow> hub_inv (drop_connections h uris)"
proof (induction h uris rule: drop_connections.induct)
  case (2 h uri uris)
  have "connection_inv (c\<lparr>conn_open := False, socket := None, sendQueue := []\<rparr>)"
    if "g_connections h uri = Some c" for c
    using hub_invD [OF "2.prems" that] by (auto simp: connection_inv_def)
  with 2 show ?case by (auto intro!: hub_inv_set_connection split: option.splits)
qed simp

text \<open>One step of the connector: an event, or an operation of the node.\<close>

inductive hub_step :: "hub \<Rightarrow> hub \<Rightarrow> bool" where
  event: "hub_step h (fst (HubProtocolCallback h uri sock ev))"
| connect: "hub_step h (fst (Connect h uri newSocket))"
| disconnect: "hub_step h (Disconnect h uri)"
| send: "hub_step h (fst (HubSend h uri data))"
| pop_status: "PopStatusEvent h = Some (h', e) \<Longrightarrow> hub_step h h'"
| pop_received: "PopReceived h = Some (h', f) \<Longrightarrow> hub_step h h'"
| reload: "hub_step h (fst (ReloadCredentials h uris created))"

inductive hub_reachable :: "hub \<Rightarrow> bool" where
  start: "hub_reachable \<lparr>g_context = c, g_connections = Map.empty, g_statusEvents = [],
            g_receivedFrames = [], g_reloading = False\<rparr>"
| step: "hub_reachable h \<Longrightarrow> hub_step h h' \<Longrightarrow> hub_reachable h'"

inductive_cases hub_stepE: "hub_step h h'"

lemma Connect_inv: "hub_inv h \<Longrightarrow> hub_inv (fst (Connect h uri ns))"
  by (auto simp: Connect_def Let_def intro: hub_inv_set_connection split: option.splits)

lemma Disconnect_inv: "hub_inv h \<Longrightarrow> hub_inv (Disconnect h uri)"
proof -
  assume h: "hub_inv h"
  have "connection_inv (c\<lparr>closeRequested := True\<rparr>)" if "g_connections h uri = Some c" for c
    using hub_invD [OF h that] by (simp add: connection_inv_def)
  with h show ?thesis by (auto simp: Disconnect_def intro: hub_inv_set_connection split: option.splits)
qed

lemma HubSend_inv: "hub_inv h \<Longrightarrow> hub_inv (fst (HubSend h uri data))"
proof -
  assume h: "hub_inv h"
  have "connection_inv (c\<lparr>sendQueue := sendQueue c @ [data]\<rparr>)"
    if "g_connections h uri = Some c" "conn_open c" "length (sendQueue c) < MAX_QUEUED_FRAMES" for c
    using hub_invD [OF h that(1)] that(2,3) by (simp add: connection_inv_def)
  with h show ?thesis by (auto simp: HubSend_def intro: hub_inv_set_connection split: option.splits)
qed

lemma Pop_inv:
  "hub_inv h \<Longrightarrow> PopStatusEvent h = Some (h', e) \<Longrightarrow> hub_inv h'"
  "hub_inv h \<Longrightarrow> PopReceived h = Some (h', f) \<Longrightarrow> hub_inv h'"
  by (auto simp: PopStatusEvent_def PopReceived_def hub_inv_def split: list.splits)

lemma hub_step_inv: "hub_step h h' \<Longrightarrow> hub_inv h \<Longrightarrow> hub_inv h'"
proof (induction rule: hub_step.induct)
  case (reload h uris created)
  then show ?case using drop_connections_inv [of h uris]
    by (simp add: ReloadCredentials_def Let_def hub_inv_def)
qed (auto simp: HubProtocolCallback_inv Connect_inv Disconnect_inv HubSend_inv intro: Pop_inv)

lemma hub_reachable_inv: "hub_reachable h \<Longrightarrow> hub_inv h"
proof (induction rule: hub_reachable.induct)
  case (start c)
  show ?case by (simp add: hub_inv_def)
qed (rule hub_step_inv)

section \<open>Reassembly\<close>

text \<open>A frame arrives as fragments, the last of them marked final.\<close>

fun receive_frame :: "hub \<Rightarrow> string \<Rightarrow> nat \<Rightarrow> bytes list \<Rightarrow> hub" where
  "receive_frame h uri sock [] = h"
| "receive_frame h uri sock (f # fs) =
     receive_frame (fst (HubProtocolCallback h uri sock (Receive f True (fs = [])))) uri sock fs"

definition receiving :: "hub \<Rightarrow> string \<Rightarrow> nat \<Rightarrow> bool \<Rightarrow> bytes \<Rightarrow> bool" where
  "receiving h uri sock overflow assembly \<longleftrightarrow>
     \<not> g_reloading h \<and> (\<exists>c. g_connections h uri = Some c \<and> socket c = Some sock \<and>
        receiveOverflow c = overflow \<and> receiveAssembly c = assembly)"

lemma receive_frame_step:
  assumes "receiving h uri sock False a" "length a + length f \<le> MAX_RECEIVED_FRAME_OCTETS"
  shows "receiving (fst (HubProtocolCallback h uri sock (Receive f True False))) uri sock False (a @ f)"
    "g_receivedFrames (fst (HubProtocolCallback h uri sock (Receive f True False))) = g_receivedFrames h"
  using assms by (auto simp: receiving_def HubProtocolCallback_def Let_def set_connection_def)

lemma receive_frame_last:
  assumes "receiving h uri sock False a" "length a + length f \<le> MAX_RECEIVED_FRAME_OCTETS" "a @ f \<noteq> []"
  shows "receiving (fst (HubProtocolCallback h uri sock (Receive f True True))) uri sock False []"
    "g_receivedFrames (fst (HubProtocolCallback h uri sock (Receive f True True))) =
       g_receivedFrames h @ [(uri, a @ f)]"
  using assms by (auto simp: receiving_def HubProtocolCallback_def Let_def set_connection_def)

lemma receive_frame_delivers:
  assumes "receiving h uri sock False a" "length a + length (concat fs) \<le> MAX_RECEIVED_FRAME_OCTETS"
    "fs \<noteq> []" "a @ concat fs \<noteq> []"
  shows "receiving (receive_frame h uri sock fs) uri sock False [] \<and>
    g_receivedFrames (receive_frame h uri sock fs) = g_receivedFrames h @ [(uri, a @ concat fs)]"
  using assms
proof (induction fs arbitrary: h a)
  case (Cons f fs)
  show ?case
  proof (cases fs)
    case Nil
    with Cons.prems receive_frame_last [of h uri sock a f] show ?thesis by simp
  next
    case (Cons g gs)
    let ?h = "fst (HubProtocolCallback h uri sock (Receive f True False))"
    have "receiving ?h uri sock False (a @ f)" "g_receivedFrames ?h = g_receivedFrames h"
      using receive_frame_step [OF Cons.prems(1), of f] Cons.prems(2) by simp_all
    with Cons.IH [of ?h "a @ f"] Cons.prems Cons show ?thesis by simp
  qed
qed simp

section \<open>The send queue as a bounded queue\<close>

locale bounded_fifo =
  fixes items :: "'s \<Rightarrow> 'a list"
    and inv :: "'s \<Rightarrow> bool"
    and push :: "'s \<Rightarrow> 'a \<Rightarrow> 's \<times> bool"
    and pop :: "'s \<Rightarrow> ('s \<times> 'a) option"
    and capacity :: nat
  assumes push_room: "inv s \<Longrightarrow> length (items s) < capacity \<Longrightarrow>
        \<exists>s'. push s x = (s', True) \<and> items s' = items s @ [x] \<and> inv s'"
    and push_full: "inv s \<Longrightarrow> capacity \<le> length (items s) \<Longrightarrow> push s x = (s, False)"
    and pop_front: "inv s \<Longrightarrow> items s = x # xs \<Longrightarrow> \<exists>s'. pop s = Some (s', x) \<and> items s' = xs \<and> inv s'"
begin

lemma push_all:
  "inv s \<Longrightarrow> length (items s) + length xs \<le> capacity \<Longrightarrow>
   items (foldl (\<lambda>s x. fst (push s x)) s xs) = items s @ xs \<and> inv (foldl (\<lambda>s x. fst (push s x)) s xs)"
proof (induction xs arbitrary: s)
  case (Cons x xs)
  from Cons.prems obtain s' where "push s x = (s', True)" "items s' = items s @ [x]" "inv s'"
    using push_room [of s x] by auto
  with Cons.IH [of s'] Cons.prems show ?case by simp
qed simp

fun drain :: "nat \<Rightarrow> 's \<Rightarrow> 'a list" where
  "drain 0 s = []"
| "drain (Suc n) s = (case pop s of None \<Rightarrow> [] | Some (s', x) \<Rightarrow> x # drain n s')"

lemma drain_items: "inv s \<Longrightarrow> drain (length (items s)) s = items s"
proof (induction "items s" arbitrary: s)
  case (Cons x xs)
  from pop_front [OF Cons.prems Cons.hyps(2) [symmetric]]
  obtain s' where s': "pop s = Some (s', x)" "items s' = xs" "inv s'" by auto
  with Cons.hyps(1) [of s'] Cons.hyps(2) [symmetric] show ?case by simp
qed simp

end

text \<open>The queue of one open connection: \<open>HubSend\<close> appends, a writable event takes the front.\<close>

definition queue_of :: "string \<Rightarrow> hub \<Rightarrow> bytes list" where
  "queue_of uri h = (case g_connections h uri of None \<Rightarrow> [] | Some c \<Rightarrow> sendQueue c)"

definition sending :: "string \<Rightarrow> nat \<Rightarrow> hub \<Rightarrow> bool" where
  "sending uri sock h \<longleftrightarrow> \<not> g_reloading h \<and>
     (\<exists>c. g_connections h uri = Some c \<and> socket c = Some sock \<and> conn_open c \<and> \<not> closeRequested c)"

definition write_next :: "string \<Rightarrow> nat \<Rightarrow> hub \<Rightarrow> (hub \<times> bytes) option" where
  "write_next uri sock h =
     (case HubProtocolCallback h uri sock (Writeable True) of
        (h', r, None) \<Rightarrow> None | (h', r, Some f) \<Rightarrow> Some (h', f))"

interpretation hub_queue: bounded_fifo "queue_of uri" "sending uri sock"
    "\<lambda>h. HubSend h uri" "write_next uri sock" MAX_QUEUED_FRAMES
  for uri sock
  by unfold_locales
    (auto simp: queue_of_def sending_def HubSend_def write_next_def HubProtocolCallback_def
      set_connection_def)

end
