(* ===== verification/Sc_Node.thy ===== *)
theory Sc_Node
  imports Cert_Activate Hub_Connector Bacnet_Constants
begin

text \<open>
  The BACnet/SC node (sc/ScNode.cpp): the certificate File objects over the certificate
  store, the activation a ReinitializeDevice triggers, the Network Port commands, and the
  exchange of frames with the hub. The store and the hub connections are its two parts.
\<close>

section \<open>State\<close>

record sc_node =
  cert :: cert_store
  hub :: hub
  g_reloadCredentialsRequested :: bool
  g_hubConnectedEvent :: bool
  g_primaryHubUri :: string
  g_failoverHubUri :: string
  g_hubConnectionStatus :: u8
  trustedIssuers :: path

section \<open>Certificate files\<close>

definition IsCertificateFile :: "u32 \<Rightarrow> bool" where
  "IsCertificateFile fileInstance \<longleftrightarrow>
     FILE_OPERATIONAL_CERTIFICATE_INSTANCE \<le> fileInstance \<and>
     fileInstance \<le> FILE_CERTIFICATE_SIGNING_REQUEST_INSTANCE"

definition CertificateFileName :: "u32 \<Rightarrow> string" where
  "CertificateFileName fileInstance =
     (if fileInstance = FILE_OPERATIONAL_CERTIFICATE_INSTANCE then ''Operational Certificate''
      else if fileInstance = FILE_ISSUER_CERTIFICATE_1_INSTANCE then ''Issuer Certificate 1''
      else if fileInstance = FILE_ISSUER_CERTIFICATE_2_INSTANCE then ''Issuer Certificate 2''
      else if fileInstance = FILE_CERTIFICATE_SIGNING_REQUEST_INSTANCE then ''Certificate Signing Request''
      else ''?'')"

definition GetCertificateFileSize :: "sc_node \<Rightarrow> u32 \<Rightarrow> u32 option" where
  "GetCertificateFileSize n fileInstance =
     (if \<not> IsCertificateFile fileInstance then None
      else map_option (\<lambda>(size, _). of_nat size) (CertStat (cert n) fileInstance))"

definition IsCertificateFileReadOnly :: "u32 \<Rightarrow> bool" where
  "IsCertificateFileReadOnly fileInstance \<longleftrightarrow> fileInstance = FILE_CERTIFICATE_SIGNING_REQUEST_INSTANCE"

text \<open>The modification time as \<open>time_t\<close>; the callers convert it with \<open>gmtime\<close>.\<close>

definition GetCertificateFileModified :: "sc_node \<Rightarrow> u32 \<Rightarrow> int option" where
  "GetCertificateFileModified n fileInstance =
     (if \<not> IsCertificateFile fileInstance then None
      else map_option snd (CertStat (cert n) fileInstance))"

definition ReadCertificateFile :: "sc_node \<Rightarrow> u32 \<Rightarrow> u32 \<Rightarrow> u32 \<Rightarrow> u32 \<Rightarrow> (bytes \<times> bool) option" where
  "ReadCertificateFile n fileInstance fileStart requestedCount maxFileDataLength =
     (if \<not> IsCertificateFile fileInstance then None
      else case CertRead (cert n) fileInstance of
          None \<Rightarrow> None
        | Some b \<Rightarrow>
            (if length b < unat fileStart then None
             else let count0 = of_nat (length b) - fileStart;
                      count1 = (if requestedCount < count0 then requestedCount else count0);
                      count = (if maxFileDataLength < count1 then maxFileDataLength else count1)
                  in Some (take (unat count) (drop (unat fileStart) b),
                           length b \<le> unat (fileStart + count))))"

text \<open>\<open>Inl None\<close> is a refusal that leaves \<open>*errorCode\<close> alone.\<close>

definition WriteCertificateFile ::
  "io_env \<Rightarrow> sc_node \<Rightarrow> u32 \<Rightarrow> i32 \<Rightarrow> bytes \<Rightarrow> sc_node \<times> (u32 option + i32)" where
  "WriteCertificateFile env n fileInstance fileStart fileData =
     (if \<not> IsCertificateFile fileInstance \<or> IsCertificateFileReadOnly fileInstance then (n, Inl None)
      else case CertWrite env (cert n) fileInstance fileStart fileData of
          (s, Inl e) \<Rightarrow> (n\<lparr>cert := s\<rparr>, Inl (Some e))
        | (s, Inr ack) \<Rightarrow> (n\<lparr>cert := s\<rparr>, Inr ack))"

definition ResizeCertificateFile ::
  "io_env \<Rightarrow> sc_node \<Rightarrow> u32 \<Rightarrow> u32 \<Rightarrow> sc_node \<times> (u32 option + unit)" where
  "ResizeCertificateFile env n fileInstance newSize =
     (if \<not> IsCertificateFile fileInstance \<or> IsCertificateFileReadOnly fileInstance then (n, Inl None)
      else case CertResize env (cert n) fileInstance newSize of (s, r) \<Rightarrow> (n\<lparr>cert := s\<rparr>, r))"

definition ApplyStagedCertificates ::
  "('cert, 'key) crypto \<Rightarrow> io_env \<Rightarrow> sc_node \<Rightarrow> sc_node \<times> (u32 + unit)" where
  "ApplyStagedCertificates cr env n =
     (if \<not> HasStagedChanges (cert n) then (n, Inr ())
      else case ValidateStaged cr (cert n) of
          (s1, Some _) \<Rightarrow> (n\<lparr>cert := s1\<rparr>, Inl ERROR_CODE_INVALID_CONFIGURATION_DATA)
        | (s1, None) \<Rightarrow>
            (case CommitStaged env s1 of
               (s2, False) \<Rightarrow> (n\<lparr>cert := s2\<rparr>, Inl ERROR_CODE_INVALID_CONFIGURATION_DATA)
             | (s2, True) \<Rightarrow>
                 (case WriteTrustedIssuerBundle cr env s2 (trustedIssuers n) of
                    (s3, _) \<Rightarrow> (n\<lparr>cert := s3, g_reloadCredentialsRequested := True\<rparr>, Inr ()))))"

definition ScNetworkPortCommand ::
  "('cert, 'key) crypto \<Rightarrow> io_env \<Rightarrow> sc_node \<Rightarrow> u32 \<Rightarrow> sc_node \<times> (u32 + unit)" where
  "ScNetworkPortCommand cr env n command =
     (if command = NETWORK_PORT_COMMAND_DISCARD_CHANGES
      then (n\<lparr>cert := DiscardStaged (cert n)\<rparr>, Inr ())
      else if command = NETWORK_PORT_COMMAND_GENERATE_CSR_FILE
      then (case GenerateKeyAndCsr cr env (cert n) of
              (s, Some _) \<Rightarrow> (n\<lparr>cert := s\<rparr>, Inl ERROR_CODE_INVALID_CONFIGURATION_DATA)
            | (s, None) \<Rightarrow> (n\<lparr>cert := s\<rparr>, Inr ()))
      else (n, Inl ERROR_CODE_OPTIONAL_FUNCTIONALITY_NOT_SUPPORTED))"

section \<open>The hub\<close>

definition CallbackBACnetSCStateChange :: "sc_node \<Rightarrow> u8 \<Rightarrow> u8 \<Rightarrow> sc_node" where
  "CallbackBACnetSCStateChange n stateMachine newState =
     (if stateMachine = STATE_MACHINE_HUB_CONNECTION_STATUS
      then n\<lparr>g_hubConnectionStatus := newState,
             g_hubConnectedEvent := (if newState = 1 \<or> newState = 2 then True else g_hubConnectedEvent n)\<rparr>
      else n)"

definition TakeHubConnectedEvent :: "sc_node \<Rightarrow> sc_node \<times> bool" where
  "TakeHubConnectedEvent n = (n\<lparr>g_hubConnectedEvent := False\<rparr>, g_hubConnectedEvent n)"

definition ConnectedHubUri :: "sc_node \<Rightarrow> string" where
  "ConnectedHubUri n =
     (if g_hubConnectionStatus n = 1 then g_primaryHubUri n
      else if g_hubConnectionStatus n = 2 then g_failoverHubUri n else '''')"

text \<open>\<open>Service\<close>: the status events go to the stack in order; then a pending reload runs.\<close>

fun pop_all_status :: "nat \<Rightarrow> hub \<Rightarrow> hub \<times> (string \<times> WebSocketStatus) list" where
  "pop_all_status 0 h = (h, [])"
| "pop_all_status (Suc k) h =
     (case PopStatusEvent h of
        None \<Rightarrow> (h, [])
      | Some (h1, e) \<Rightarrow> (let (h2, es) = pop_all_status k h1 in (h2, e # es)))"

definition ServiceNode :: "sc_node \<Rightarrow> string list \<Rightarrow> bool \<Rightarrow> sc_node \<times> (string \<times> WebSocketStatus) list" where
  "ServiceNode n uris created =
     (let (h1, es) = pop_all_status (length (g_statusEvents (hub n))) (hub n) in
      if g_reloadCredentialsRequested n
      then (n\<lparr>hub := fst (ReloadCredentials h1 uris created), g_reloadCredentialsRequested := False\<rparr>, es)
      else (n\<lparr>hub := h1\<rparr>, es))"

text \<open>A received frame with the hub's URI; too large a frame is dropped.\<close>

definition ReceiveFromHub :: "sc_node \<Rightarrow> u16 \<Rightarrow> u8 \<Rightarrow> sc_node \<times> (bytes \<times> string) option" where
  "ReceiveFromHub n maxMessageLength maxConnectionStringLength =
     (case PopReceived (hub n) of
        None \<Rightarrow> (n, None)
      | Some (h1, uri, data) \<Rightarrow>
          (n\<lparr>hub := h1\<rparr>,
           if unat maxMessageLength < length data \<or> unat maxConnectionStringLength < length uri
           then None else Some (data, uri)))"

definition SendToHub :: "sc_node \<Rightarrow> bytes \<Rightarrow> string \<Rightarrow> sc_node \<times> u16" where
  "SendToHub n message uri =
     (case HubSend (hub n) uri message of
        (h1, ok) \<Rightarrow> (n\<lparr>hub := h1\<rparr>, if ok then of_nat (length message) else 0))"

section \<open>The layout the node installs\<close>

text \<open>\<open>PrepareCertificates\<close>: the File instances, their files and the one fallback.\<close>

definition sc_layout :: "path \<Rightarrow> path \<Rightarrow> path \<Rightarrow> path \<Rightarrow> path \<Rightarrow> path \<Rightarrow> Layout" where
  "sc_layout operationalCertificate issuerCertificate1 issuerCertificate2 certificateSigningRequest
     privateKey pendingPrivateKey =
     \<lparr>paths = [FILE_OPERATIONAL_CERTIFICATE_INSTANCE \<mapsto> operationalCertificate,
               FILE_ISSUER_CERTIFICATE_1_INSTANCE \<mapsto> issuerCertificate1,
               FILE_ISSUER_CERTIFICATE_2_INSTANCE \<mapsto> issuerCertificate2,
               FILE_CERTIFICATE_SIGNING_REQUEST_INSTANCE \<mapsto> certificateSigningRequest],
      readFallbackInstances = [FILE_ISSUER_CERTIFICATE_2_INSTANCE \<mapsto> FILE_ISSUER_CERTIFICATE_1_INSTANCE],
      operationalInstance = FILE_OPERATIONAL_CERTIFICATE_INSTANCE,
      issuerInstances = [FILE_ISSUER_CERTIFICATE_1_INSTANCE, FILE_ISSUER_CERTIFICATE_2_INSTANCE],
      privateKeyPath = privateKey, pendingPrivateKeyPath = pendingPrivateKey,
      csrInstance = FILE_CERTIFICATE_SIGNING_REQUEST_INSTANCE\<rparr>"

text \<open>Six different paths, none of them another's temporary file, make a layout the store can use.\<close>

lemma sc_layout_ok:
  assumes "distinct [op, ca1, ca2, csr, key, new]" "\<forall>p \<in> {op, ca1, ca2, csr}. p \<noteq> []"
    "\<forall>p \<in> {op, ca1, ca2, csr, key, new}. \<forall>q \<in> {op, ca1, ca2, csr}. p \<noteq> tmp_of q"
  shows "layout_ok (sc_layout op ca1 ca2 csr key new)"
proof -
  let ?l = "sc_layout op ca1 ca2 csr key new"
  have ran: "ran (paths ?l) = {op, ca1, ca2, csr}" by (auto simp: sc_layout_def)
  have "inj_on (paths ?l) (dom (paths ?l))" using assms(1) by (auto simp: sc_layout_def inj_on_def)
  moreover have "readFallbackInstances ?l j = Some fb \<Longrightarrow> fb \<noteq> 0 \<and> fb \<noteq> j \<and>
      readFallbackInstances ?l fb = None" for j fb
    by (auto simp: sc_layout_def split: if_splits)
  moreover have "{privateKeyPath ?l, pendingPrivateKeyPath ?l} = {key, new}" by (simp add: sc_layout_def)
  ultimately show ?thesis using assms unfolding layout_ok_def ran by auto
qed

end
