(* ===== verification/Device_State.thy ===== *)
theory Device_State
  imports Commandable Sc_Node
begin

text \<open>
  The state of the device: every global of main.cpp the callbacks read or write, in one
  record, with the run-time options (command_line.h) and the peer's bookkeeping (section 2e)
  as records of their own; and the helpers of section 1b that say which Network Port is the
  active one.

  A call into the BACnet stack is output: it is appended to \<open>stackCalls\<close>. Console output is
  not modelled.
\<close>

section \<open>Records\<close>

datatype DataLink = IPv4 | IPv6 | MSTP | SC

record CommandLineOptions =
  dataLink :: DataLink
  optDeviceInstance :: u32
  udpPort :: u16
  ipv6InterfaceIndex :: u32
  mstpPortName :: string
  mstpBaudRate :: u32
  mstpMacAddress :: u8
  mstpMaxMaster :: u8
  mstpMaxInfoFrames :: u8
  scPrimaryHubUri :: string
  scFailoverHubUri :: string
  scCertificateDirectory :: string
  importCariZip :: string

definition default_options :: CommandLineOptions where
  "default_options = \<lparr>dataLink = IPv4, optDeviceInstance = 389005, udpPort = 47808,
     ipv6InterfaceIndex = 0, mstpPortName = '''', mstpBaudRate = 38400, mstpMacAddress = 1,
     mstpMaxMaster = 127, mstpMaxInfoFrames = 1, scPrimaryHubUri = '''', scFailoverHubUri = '''',
     scCertificateDirectory = ''./certs'', importCariZip = ''''\<rparr>"

record LocalIPv6Address =
  address :: bytes
  prefixLength :: u8
  defaultGateway :: bytes
  hasDnsServer :: bool
  dnsServer :: bytes

text \<open>\<open>steady_clock\<close> time points are nanoseconds.\<close>

record RemotePeer =
  bound :: bool
  connectionString :: bytes
  readPropertyInvokeId :: u8
  readPropertyPending :: bool
  readPropertyMultipleInvokeId :: u8
  readPropertyMultiplePending :: bool
  pollCount :: u32
  readPropertyMultipleUnsupported :: bool
  sensorFaultReported :: bool
  lastPoll :: int
  lastAnswer :: int

text \<open>The calls of the BACnet stack API the modelled code makes.\<close>

datatype stack_call =
    UpdateValue u32 u16 u32 u32
  | SendReadProperty u8 bytes u32 u32 bytes \<comment> \<open>service, address, port, element count, elements\<close>
  | SendIAm u32 bytes u32 u16               \<comment> \<open>device, address, port, destination network\<close>
  | SendWhoIs bytes u32 u16                 \<comment> \<open>address, port, destination network\<close>

datatype RestartKind = Cold | Warm

record device =
  g_deviceInstance :: u32
  g_deviceName :: string
  g_firmwareRevision :: string
  DCC_PASSWORD :: string
  BBC_WITH_SC :: bool
  g_options :: CommandLineOptions
  g_ipAddress :: bytes
  g_ipSubnetMask :: bytes
  g_ipDefaultGateway :: bytes
  g_bacnetIpUdpPort :: u16
  g_linkSpeedBitsPerSecond :: f32
  g_ipv6Address :: LocalIPv6Address
  g_analogInput1Value :: f32
  g_analogOutput :: "f32 Commandable"
  g_binaryOutput :: "u32 Commandable"
  g_multiStateOutput :: "u32 Commandable"
  g_analogValue1Value :: f32
  g_diamondReliability :: u32
  g_fileData :: bytes
  g_fileDataLength :: u32
  g_fileArchive :: bool
  g_clockOffsetSeconds :: int
  g_peer :: RemotePeer
  g_lastPeerIp :: bytes
  g_lastPeerPort :: u16
  g_hasLastPeer :: bool
  sc :: sc_node
  g_restart :: "(RestartKind \<times> u64) option"
  stackCalls :: "stack_call list"

section \<open>Start-up values\<close>

definition new_peer :: RemotePeer where
  "new_peer = \<lparr>bound = False, connectionString = replicate 18 0, readPropertyInvokeId = 0,
     readPropertyPending = False, readPropertyMultipleInvokeId = 0,
     readPropertyMultiplePending = False, pollCount = 0, readPropertyMultipleUnsupported = False,
     sensorFaultReported = False, lastPoll = 0, lastAnswer = 0\<rparr>"

text \<open>\<open>20.0f\<close>, \<open>21.5f\<close> and \<open>50.0f\<close> are \<open>0x41A00000\<close>, \<open>0x41AC0000\<close> and \<open>0x42480000\<close>.\<close>

definition new_device :: "bool \<Rightarrow> CommandLineOptions \<Rightarrow> sc_node \<Rightarrow> device" where
  "new_device withSc opts node = \<lparr>
     g_deviceInstance = 389005, g_deviceName = ''Chipkin Example B-BC'', g_firmwareRevision = '''',
     DCC_PASSWORD = '''', BBC_WITH_SC = withSc, g_options = opts,
     g_ipAddress = [0, 0, 0, 0], g_ipSubnetMask = [0, 0, 0, 0], g_ipDefaultGateway = [0, 0, 0, 0],
     g_bacnetIpUdpPort = 47808, g_linkSpeedBitsPerSecond = 0,
     g_ipv6Address = \<lparr>address = replicate 16 0, prefixLength = 0, defaultGateway = replicate 16 0,
       hasDnsServer = False, dnsServer = replicate 16 0\<rparr>,
     g_analogInput1Value = 0x41AC0000,
     g_analogOutput = new_Commandable 0 0x41A00000,
     g_binaryOutput = new_Commandable 0 0, g_multiStateOutput = new_Commandable 0 1,
     g_analogValue1Value = 0x42480000, g_diamondReliability = RELIABILITY_COMMUNICATION_FAILURE,
     g_fileData = replicate 4096 0, g_fileDataLength = 0, g_fileArchive = False,
     g_clockOffsetSeconds = 0, g_peer = new_peer,
     g_lastPeerIp = [0, 0, 0, 0], g_lastPeerPort = 0, g_hasLastPeer = False,
     sc = node, g_restart = None, stackCalls = []\<rparr>"

section \<open>Which Network Port is active (section 1b)\<close>

definition ActiveNetworkPortInstance :: "device \<Rightarrow> u32" where
  "ActiveNetworkPortInstance d =
     (case dataLink (g_options d) of
        IPv6 \<Rightarrow> IPV6_NETWORK_PORT_INSTANCE
      | MSTP \<Rightarrow> MSTP_NETWORK_PORT_INSTANCE
      | SC \<Rightarrow> SC_NETWORK_PORT_INSTANCE
      | IPv4 \<Rightarrow> NETWORK_PORT_INSTANCE)"

definition DataLinkPortName :: "device \<Rightarrow> u16 \<Rightarrow> u32 \<Rightarrow> string option" where
  "DataLinkPortName d objectType objectInstance =
     (if objectType \<noteq> OBJECT_TYPE_NETWORK_PORT \<or> objectInstance \<noteq> ActiveNetworkPortInstance d then None
      else case dataLink (g_options d) of
          IPv6 \<Rightarrow> Some ''Cerulean''
        | MSTP \<Rightarrow> Some ''Amber''
        | SC \<Rightarrow> Some ''Teal''
        | IPv4 \<Rightarrow> None)"

definition IsDataLinkPort :: "device \<Rightarrow> u16 \<Rightarrow> u32 \<Rightarrow> DataLink \<Rightarrow> bool" where
  "IsDataLinkPort d objectType objectInstance dl \<longleftrightarrow>
     dataLink (g_options d) = dl \<and> objectType = OBJECT_TYPE_NETWORK_PORT \<and>
     objectInstance = ActiveNetworkPortInstance d"

definition IsScCertificateFile :: "device \<Rightarrow> u16 \<Rightarrow> u32 \<Rightarrow> bool" where
  "IsScCertificateFile d objectType objectInstance \<longleftrightarrow>
     BBC_WITH_SC d \<and> dataLink (g_options d) = SC \<and> objectType = OBJECT_TYPE_FILE \<and>
     IsCertificateFile objectInstance"

text \<open>Which commandable an object has: the pointer \<open>GetCommandable\<close> returns, \<open>None\<close> for NULL.\<close>

datatype commandable_ref = AnalogOutput | BinaryOutput | MultiStateOutput

definition GetCommandable :: "u16 \<Rightarrow> u32 \<Rightarrow> commandable_ref option" where
  "GetCommandable objectType objectInstance =
     (if objectType = OBJECT_TYPE_ANALOG_OUTPUT \<and> objectInstance = ANALOG_OUTPUT_INSTANCE then Some AnalogOutput
      else if objectType = OBJECT_TYPE_BINARY_OUTPUT \<and> objectInstance = BINARY_OUTPUT_INSTANCE then Some BinaryOutput
      else if objectType = OBJECT_TYPE_MULTI_STATE_OUTPUT \<and> objectInstance = MULTI_STATE_OUTPUT_INSTANCE
      then Some MultiStateOutput
      else None)"

section \<open>The state invariant\<close>

definition peer_inv :: "RemotePeer \<Rightarrow> bool" where
  "peer_inv p \<longleftrightarrow> length (connectionString p) = 18"

definition device_inv :: "device \<Rightarrow> bool" where
  "device_inv d \<longleftrightarrow>
     commandable_inv (g_analogOutput d) \<and> commandable_inv (g_binaryOutput d) \<and>
     commandable_inv (g_multiStateOutput d) \<and>
     length (g_fileData d) = 4096 \<and> unat (g_fileDataLength d) \<le> 4096 \<and>
     length (g_ipAddress d) = 4 \<and> length (g_ipSubnetMask d) = 4 \<and> length (g_ipDefaultGateway d) = 4 \<and>
     length (g_lastPeerIp d) = 4 \<and>
     length (address (g_ipv6Address d)) = 16 \<and> length (defaultGateway (g_ipv6Address d)) = 16 \<and>
     length (dnsServer (g_ipv6Address d)) = 16 \<and> peer_inv (g_peer d) \<and>
     g_diamondReliability d \<in> {RELIABILITY_NO_FAULT_DETECTED, RELIABILITY_UNRELIABLE_OTHER,
       RELIABILITY_COMMUNICATION_FAILURE}"

lemma new_device_inv: "device_inv (new_device withSc opts node)"
  by (simp add: device_inv_def new_device_def new_peer_def peer_inv_def)

lemma device_inv_file:
  "device_inv d \<Longrightarrow> unat (g_fileDataLength d) \<le> 4096"
  "device_inv d \<Longrightarrow> length (g_fileData d) = 4096"
  by (simp_all add: device_inv_def)

lemma device_inv_file_update:
  "device_inv d \<Longrightarrow> length b = 4096 \<Longrightarrow> unat n \<le> 4096 \<Longrightarrow>
   device_inv (d\<lparr>g_fileData := b, g_fileDataLength := n\<rparr>)"
  by (simp add: device_inv_def)

end
