(* ===== verification/Property_Get.thy ===== *)
theory Property_Get
  imports Device_State
begin

text \<open>
  The property "get" callbacks of main.cpp (sections 1b and 2). \<open>None\<close> is the C++ return
  value \<open>false\<close> ("not served here": the stack answers from its own data or refuses the
  read); a value is \<open>true\<close> with its out parameters. The one callback that also sets
  \<open>*errorCode\<close> returns a sum.
\<close>

section \<open>The active data link's Network Port\<close>

definition GetDataLinkPortReal :: "device \<Rightarrow> u16 \<Rightarrow> u32 \<Rightarrow> u32 \<Rightarrow> f32 option" where
  "GetDataLinkPortReal d objectType objectInstance propertyIdentifier =
     (if propertyIdentifier \<noteq> PROPERTY_IDENTIFIER_LINK_SPEED then None
      else if IsDataLinkPort d objectType objectInstance MSTP
      then Some (float_of_u32 (mstpBaudRate (g_options d)))
      else if IsDataLinkPort d objectType objectInstance IPv6 then Some (g_linkSpeedBitsPerSecond d)
      else None)"

definition GetDataLinkPortUnsigned ::
  "device \<Rightarrow> u16 \<Rightarrow> u32 \<Rightarrow> u32 \<Rightarrow> bool \<Rightarrow> u32 \<Rightarrow> u32 option" where
  "GetDataLinkPortUnsigned d objectType objectInstance propertyIdentifier useArrayIndex propertyArrayIndex =
     (if dataLink (g_options d) = MSTP \<and> objectType = OBJECT_TYPE_DEVICE \<and>
         objectInstance = g_deviceInstance d \<and>
         propertyIdentifier = PROPERTY_IDENTIFIER_MAX_APDU_LENGTH_ACCEPTED
      then Some MSTP_MAX_APDU_LENGTH
      else if IsDataLinkPort d objectType objectInstance IPv6 \<and>
         propertyIdentifier = PROPERTY_IDENTIFIER_IPV6_PREFIX_LENGTH
      then Some (ucast (prefixLength (g_ipv6Address d)))
      else if IsDataLinkPort d objectType objectInstance IPv6 \<and>
         propertyIdentifier = PROPERTY_IDENTIFIER_BACNET_IPV6_UDP_PORT
      then Some (ucast (udpPort (g_options d)))
      else if IsDataLinkPort d objectType objectInstance IPv6 \<and>
         propertyIdentifier = PROPERTY_IDENTIFIER_IPV6_DNS_SERVER \<and> useArrayIndex \<and>
         propertyArrayIndex = 0 \<and> hasDnsServer (g_ipv6Address d)
      then Some 1
      else if IsDataLinkPort d objectType objectInstance MSTP \<and>
         propertyIdentifier = PROPERTY_IDENTIFIER_MAX_MASTER
      then Some (ucast (mstpMaxMaster (g_options d)))
      else if IsDataLinkPort d objectType objectInstance MSTP \<and>
         propertyIdentifier = PROPERTY_IDENTIFIER_MAX_INFO_FRAMES
      then Some (ucast (mstpMaxInfoFrames (g_options d)))
      else None)"

definition GetDataLinkPortOctetString ::
  "device \<Rightarrow> u16 \<Rightarrow> u32 \<Rightarrow> u32 \<Rightarrow> bool \<Rightarrow> u32 \<Rightarrow> u32 \<Rightarrow> bytes option" where
  "GetDataLinkPortOctetString d objectType objectInstance propertyIdentifier useArrayIndex
     propertyArrayIndex maxElementCount =
     (let v6 = (IsDataLinkPort d objectType objectInstance IPv6 \<and> 16 \<le> maxElementCount) in
      if v6 \<and> propertyIdentifier = PROPERTY_IDENTIFIER_IPV6_ADDRESS
      then Some (take 16 (address (g_ipv6Address d)))
      else if v6 \<and> propertyIdentifier = PROPERTY_IDENTIFIER_IPV6_DEFAULT_GATEWAY
      then Some (take 16 (defaultGateway (g_ipv6Address d)))
      else if v6 \<and> propertyIdentifier = PROPERTY_IDENTIFIER_IPV6_DNS_SERVER \<and>
         hasDnsServer (g_ipv6Address d) \<and> (\<not> useArrayIndex \<or> propertyArrayIndex = 1)
      then Some (take 16 (dnsServer (g_ipv6Address d)))
      else if IsDataLinkPort d objectType objectInstance MSTP \<and> 1 \<le> maxElementCount \<and>
         propertyIdentifier = PROPERTY_IDENTIFIER_MAC_ADDRESS
      then Some [mstpMacAddress (g_options d)]
      else None)"

section \<open>Typed reads\<close>

text \<open>
  The Priority_Array and Relinquish_Default part of a read of a commandable object: \<open>None\<close>
  when the property is neither, else the callback's result.
\<close>

definition ReadCommandable :: "'v Commandable \<Rightarrow> u32 \<Rightarrow> bool \<Rightarrow> u32 \<Rightarrow> 'v option option" where
  "ReadCommandable c propertyIdentifier useArrayIndex propertyArrayIndex =
     (case ReadPrioritySlot c propertyIdentifier useArrayIndex propertyArrayIndex of
        Some (slotIsSet, slotValue) \<Rightarrow> Some (if slotIsSet then Some slotValue else None)
      | None \<Rightarrow>
          (if propertyIdentifier = PROPERTY_IDENTIFIER_RELINQUISH_DEFAULT
           then Some (Some (relinquishDefault c)) else None))"

definition GetPropertyReal :: "device \<Rightarrow> u32 \<Rightarrow> u16 \<Rightarrow> u32 \<Rightarrow> u32 \<Rightarrow> bool \<Rightarrow> u32 \<Rightarrow> f32 option" where
  "GetPropertyReal d deviceInstance objectType objectInstance propertyIdentifier useArrayIndex
     propertyArrayIndex =
     (if deviceInstance \<noteq> g_deviceInstance d then None
      else case GetDataLinkPortReal d objectType objectInstance propertyIdentifier of
          Some v \<Rightarrow> Some v
        | None \<Rightarrow>
      (if objectType = OBJECT_TYPE_ANALOG_INPUT \<and> objectInstance = ANALOG_INPUT_INSTANCE \<and>
          propertyIdentifier = PROPERTY_IDENTIFIER_PRESENT_VALUE
       then Some (g_analogInput1Value d)
       else if objectType = OBJECT_TYPE_NETWORK_PORT \<and> objectInstance = NETWORK_PORT_INSTANCE \<and>
          propertyIdentifier = PROPERTY_IDENTIFIER_LINK_SPEED
       then Some (g_linkSpeedBitsPerSecond d)
       else if objectType = OBJECT_TYPE_ANALOG_VALUE \<and> objectInstance = ANALOG_VALUE_INSTANCE \<and>
          propertyIdentifier = PROPERTY_IDENTIFIER_PRESENT_VALUE
       then Some (g_analogValue1Value d)
       else if GetCommandable objectType objectInstance = Some AnalogOutput
       then (case ReadCommandable (g_analogOutput d) propertyIdentifier useArrayIndex propertyArrayIndex of
               Some r \<Rightarrow> r | None \<Rightarrow> None)
       else None))"

definition GetPropertyEnumerated ::
  "device \<Rightarrow> u32 \<Rightarrow> u16 \<Rightarrow> u32 \<Rightarrow> u32 \<Rightarrow> bool \<Rightarrow> u32 \<Rightarrow> u32 option" where
  "GetPropertyEnumerated d deviceInstance objectType objectInstance propertyIdentifier useArrayIndex
     propertyArrayIndex =
     (if deviceInstance \<noteq> g_deviceInstance d then None
      else if propertyIdentifier = PROPERTY_IDENTIFIER_RELIABILITY \<and>
         (objectType = OBJECT_TYPE_SCHEDULE \<and> objectInstance = SCHEDULE_INSTANCE \<or>
          objectType = OBJECT_TYPE_CALENDAR \<and> objectInstance = CALENDAR_INSTANCE)
      then Some RELIABILITY_NO_FAULT_DETECTED
      else if propertyIdentifier = PROPERTY_IDENTIFIER_RELIABILITY \<and>
         objectType = OBJECT_TYPE_ANALOG_VALUE \<and> objectInstance = ANALOG_VALUE_INSTANCE
      then Some (g_diamondReliability d)
      else if objectType = OBJECT_TYPE_BINARY_INPUT \<and> objectInstance = BINARY_INPUT_INSTANCE \<and>
         propertyIdentifier = PROPERTY_IDENTIFIER_PRESENT_VALUE
      then Some 1
      else if objectType = OBJECT_TYPE_BINARY_INPUT \<and> objectInstance = BINARY_INPUT_INSTANCE \<and>
         propertyIdentifier = PROPERTY_IDENTIFIER_POLARITY
      then Some POLARITY_NORMAL
      else if objectType = OBJECT_TYPE_ANALOG_VALUE \<and> objectInstance = ANALOG_VALUE_INSTANCE \<and>
         propertyIdentifier = PROPERTY_IDENTIFIER_UNITS
      then Some ENGINEERING_UNITS_PERCENT
      else
        (let rest =
          (if propertyIdentifier = PROPERTY_IDENTIFIER_UNITS \<and>
              (objectType = OBJECT_TYPE_ANALOG_INPUT \<and> objectInstance = ANALOG_INPUT_INSTANCE \<or>
               objectType = OBJECT_TYPE_ANALOG_OUTPUT \<and> objectInstance = ANALOG_OUTPUT_INSTANCE)
           then Some ENGINEERING_UNITS_DEGREES_CELSIUS
           else if objectType = OBJECT_TYPE_NETWORK_PORT \<and> objectInstance = NETWORK_PORT_INSTANCE \<and>
              propertyIdentifier = PROPERTY_IDENTIFIER_BACNET_IP_MODE
           then Some BACNET_IP_MODE_NORMAL
           else None)
         in if GetCommandable objectType objectInstance = Some BinaryOutput
            then (case ReadCommandable (g_binaryOutput d) propertyIdentifier useArrayIndex propertyArrayIndex of
                    Some r \<Rightarrow> r
                  | None \<Rightarrow> (if propertyIdentifier = PROPERTY_IDENTIFIER_POLARITY
                             then Some POLARITY_NORMAL else rest))
            else rest))"

definition GetPropertyUnsignedInteger ::
  "device \<Rightarrow> u32 \<Rightarrow> u16 \<Rightarrow> u32 \<Rightarrow> u32 \<Rightarrow> bool \<Rightarrow> u32 \<Rightarrow> u32 option" where
  "GetPropertyUnsignedInteger d deviceInstance objectType objectInstance propertyIdentifier useArrayIndex
     propertyArrayIndex =
     (if deviceInstance \<noteq> g_deviceInstance d then None
      else case GetDataLinkPortUnsigned d objectType objectInstance propertyIdentifier useArrayIndex
          propertyArrayIndex of
          Some v \<Rightarrow> Some v
        | None \<Rightarrow>
      (if IsScCertificateFile d objectType objectInstance \<and>
          propertyIdentifier = PROPERTY_IDENTIFIER_FILE_SIZE
       then GetCertificateFileSize (sc d) objectInstance
       else if objectType = OBJECT_TYPE_MULTI_STATE_INPUT \<and> objectInstance = MULTI_STATE_INPUT_INSTANCE \<and>
          propertyIdentifier = PROPERTY_IDENTIFIER_PRESENT_VALUE
       then Some 1
       else if objectType = OBJECT_TYPE_MULTI_STATE_INPUT \<and> objectInstance = MULTI_STATE_INPUT_INSTANCE \<and>
          propertyIdentifier = PROPERTY_IDENTIFIER_NUMBER_OF_STATES
       then Some MULTI_STATE_INPUT_NUMBER_OF_STATES
       else if objectType = OBJECT_TYPE_MULTI_STATE_INPUT \<and> objectInstance = MULTI_STATE_INPUT_INSTANCE \<and>
          propertyIdentifier = PROPERTY_IDENTIFIER_STATE_TEXT \<and> useArrayIndex \<and> propertyArrayIndex = 0
       then Some MULTI_STATE_INPUT_NUMBER_OF_STATES
       else if objectType = OBJECT_TYPE_DEVICE \<and> objectInstance = g_deviceInstance d \<and>
          propertyIdentifier = PROPERTY_IDENTIFIER_VENDOR_IDENTIFIER
       then Some VENDOR_IDENTIFIER
       else if objectType = OBJECT_TYPE_NETWORK_PORT \<and> objectInstance = NETWORK_PORT_INSTANCE \<and>
          propertyIdentifier = PROPERTY_IDENTIFIER_APDU_LENGTH
       then Some MAX_APDU_LENGTH
       else if objectType = OBJECT_TYPE_NETWORK_PORT \<and> objectInstance = NETWORK_PORT_INSTANCE \<and>
          propertyIdentifier = PROPERTY_IDENTIFIER_REFERENCE_PORT
       then Some NETWORK_PORT_REFERENCE_PORT_NONE
       else if objectType = OBJECT_TYPE_NETWORK_PORT \<and> objectInstance = NETWORK_PORT_INSTANCE \<and>
          propertyIdentifier = PROPERTY_IDENTIFIER_BACNET_IP_UDP_PORT
       then Some (ucast (g_bacnetIpUdpPort d))
       else
         (let file = (if objectType = OBJECT_TYPE_FILE \<and> objectInstance = FILE_INSTANCE \<and>
                         propertyIdentifier = PROPERTY_IDENTIFIER_FILE_SIZE
                      then Some (g_fileDataLength d) else None)
          in if GetCommandable objectType objectInstance = Some MultiStateOutput
             then (case ReadCommandable (g_multiStateOutput d) propertyIdentifier useArrayIndex
                       propertyArrayIndex of
                     Some r \<Rightarrow> r
                   | None \<Rightarrow> (if propertyIdentifier = PROPERTY_IDENTIFIER_NUMBER_OF_STATES
                              then Some MULTI_STATE_OUTPUT_NUMBER_OF_STATES else file))
             else file)))"

text \<open>Whether a slot is set, for the commandable an object refers to.\<close>

definition slotIsSet :: "device \<Rightarrow> commandable_ref \<Rightarrow> nat \<Rightarrow> bool" where
  "slotIsSet d c i =
     (case c of AnalogOutput \<Rightarrow> isSet (g_analogOutput d) ! i
              | BinaryOutput \<Rightarrow> isSet (g_binaryOutput d) ! i
              | MultiStateOutput \<Rightarrow> isSet (g_multiStateOutput d) ! i)"

definition out_of_service_types :: "u16 list" where
  "out_of_service_types = [OBJECT_TYPE_ANALOG_INPUT, OBJECT_TYPE_BINARY_INPUT, OBJECT_TYPE_MULTI_STATE_INPUT,
     OBJECT_TYPE_ANALOG_OUTPUT, OBJECT_TYPE_BINARY_OUTPUT, OBJECT_TYPE_MULTI_STATE_OUTPUT,
     OBJECT_TYPE_ANALOG_VALUE, OBJECT_TYPE_NETWORK_PORT, OBJECT_TYPE_SCHEDULE, OBJECT_TYPE_CALENDAR]"

definition GetPropertyBool :: "device \<Rightarrow> u32 \<Rightarrow> u16 \<Rightarrow> u32 \<Rightarrow> u32 \<Rightarrow> bool \<Rightarrow> u32 \<Rightarrow> bool option" where
  "GetPropertyBool d deviceInstance objectType objectInstance propertyIdentifier useArrayIndex
     propertyArrayIndex =
     (if deviceInstance \<noteq> g_deviceInstance d then None
      else
       (let rest =
         (if propertyIdentifier = PROPERTY_IDENTIFIER_OUT_OF_SERVICE \<and> objectType \<in> set out_of_service_types
          then Some False
          else if IsScCertificateFile d objectType objectInstance \<and>
             propertyIdentifier = PROPERTY_IDENTIFIER_ARCHIVE
          then Some False
          else if IsScCertificateFile d objectType objectInstance \<and>
             propertyIdentifier = PROPERTY_IDENTIFIER_READ_ONLY
          then Some (IsCertificateFileReadOnly objectInstance)
          else if objectType = OBJECT_TYPE_FILE \<and> objectInstance = FILE_INSTANCE \<and>
             propertyIdentifier = PROPERTY_IDENTIFIER_ARCHIVE
          then Some (g_fileArchive d)
          else if objectType = OBJECT_TYPE_FILE \<and> objectInstance = FILE_INSTANCE \<and>
             propertyIdentifier = PROPERTY_IDENTIFIER_READ_ONLY
          then Some False
          else None)
        in case GetCommandable objectType objectInstance of
             Some c \<Rightarrow>
               (if propertyIdentifier = PROPERTY_IDENTIFIER_PRIORITY_ARRAY \<and> useArrayIndex \<and>
                   1 \<le> propertyArrayIndex \<and> propertyArrayIndex \<le> BACNET_PRIORITY_ARRAY_SIZE
                then Some (\<not> slotIsSet d c (unat propertyArrayIndex - 1)) else rest)
           | None \<Rightarrow> rest))"

definition GetPropertyOctetString ::
  "device \<Rightarrow> u32 \<Rightarrow> u16 \<Rightarrow> u32 \<Rightarrow> u32 \<Rightarrow> u32 \<Rightarrow> bool \<Rightarrow> u32 \<Rightarrow> bytes option" where
  "GetPropertyOctetString d deviceInstance objectType objectInstance propertyIdentifier maxElementCount
     useArrayIndex propertyArrayIndex =
     (case (if deviceInstance = g_deviceInstance d
            then GetDataLinkPortOctetString d objectType objectInstance propertyIdentifier useArrayIndex
                   propertyArrayIndex maxElementCount
            else None) of
        Some v \<Rightarrow> Some v
      | None \<Rightarrow>
         (if deviceInstance \<noteq> g_deviceInstance d \<or> dataLink (g_options d) \<noteq> IPv4 \<or>
             objectType \<noteq> OBJECT_TYPE_NETWORK_PORT \<or> objectInstance \<noteq> NETWORK_PORT_INSTANCE \<or>
             maxElementCount < 4
          then None
          else if propertyIdentifier = PROPERTY_IDENTIFIER_IP_ADDRESS then Some (take 4 (g_ipAddress d))
          else if propertyIdentifier = PROPERTY_IDENTIFIER_IP_SUBNET_MASK then Some (take 4 (g_ipSubnetMask d))
          else if propertyIdentifier = PROPERTY_IDENTIFIER_IP_DEFAULT_GATEWAY
          then Some (take 4 (g_ipDefaultGateway d))
          else None))"

end
