(* ===== verification/Property_Set.thy ===== *)
theory Property_Set
  imports Property_Get
begin

text \<open>
  The property "set" callbacks of main.cpp (sections 1b and 2b). Each returns the new state
  with \<open>Inr ()\<close> for \<open>true\<close>, \<open>Inl None\<close> for \<open>false\<close> and \<open>Inl (Some e)\<close> for \<open>false\<close> with
  \<open>*errorCode = e\<close>. At the end, a client's writes and relinquishes through these callbacks
  are shown to be a priority array, slot by slot as the get callbacks report it.
\<close>

type_synonym set_result = "device \<times> (u32 option + unit)"

section \<open>The callbacks\<close>

definition SetDataLinkPortUnsigned :: "device \<Rightarrow> u16 \<Rightarrow> u32 \<Rightarrow> u32 \<Rightarrow> u32 \<Rightarrow> set_result" where
  "SetDataLinkPortUnsigned d objectType objectInstance propertyIdentifier v =
     (if \<not> IsDataLinkPort d objectType objectInstance MSTP then (d, Inl None)
      else if propertyIdentifier = PROPERTY_IDENTIFIER_MAX_MASTER
      then (d\<lparr>g_options := (g_options d)\<lparr>mstpMaxMaster := ucast (if 127 < v then 127 else v)\<rparr>\<rparr>, Inr ())
      else if propertyIdentifier = PROPERTY_IDENTIFIER_MAX_INFO_FRAMES
      then (d\<lparr>g_options := (g_options d)\<lparr>mstpMaxInfoFrames :=
               ucast (if v < 1 then 1 else if 255 < v then 255 else v)\<rparr>\<rparr>, Inr ())
      else (d, Inr ()))"

definition SetPropertyReal :: "device \<Rightarrow> u32 \<Rightarrow> u16 \<Rightarrow> u32 \<Rightarrow> u32 \<Rightarrow> f32 \<Rightarrow> u8 \<Rightarrow> set_result" where
  "SetPropertyReal d deviceInstance objectType objectInstance propertyIdentifier v priority =
     (if deviceInstance \<noteq> g_deviceInstance d then (d, Inl None)
      else if GetCommandable objectType objectInstance = Some AnalogOutput \<and>
         propertyIdentifier = PROPERTY_IDENTIFIER_PRESENT_VALUE
      then (d\<lparr>g_analogOutput := CommandWrite (g_analogOutput d) priority v\<rparr>, Inr ())
      else (d, Inl None))"

definition SetPropertyEnumerated :: "device \<Rightarrow> u32 \<Rightarrow> u16 \<Rightarrow> u32 \<Rightarrow> u32 \<Rightarrow> u32 \<Rightarrow> u8 \<Rightarrow> set_result" where
  "SetPropertyEnumerated d deviceInstance objectType objectInstance propertyIdentifier v priority =
     (if deviceInstance \<noteq> g_deviceInstance d then (d, Inl None)
      else if GetCommandable objectType objectInstance = Some BinaryOutput \<and>
         propertyIdentifier = PROPERTY_IDENTIFIER_PRESENT_VALUE
      then (if 1 < v then (d, Inl (Some ERROR_CODE_VALUE_OUT_OF_RANGE))
            else (d\<lparr>g_binaryOutput := CommandWrite (g_binaryOutput d) priority v\<rparr>, Inr ()))
      else (d, Inl None))"

definition SetPropertyUnsignedInteger ::
  "io_env \<Rightarrow> device \<Rightarrow> u32 \<Rightarrow> u16 \<Rightarrow> u32 \<Rightarrow> u32 \<Rightarrow> u32 \<Rightarrow> u8 \<Rightarrow> set_result" where
  "SetPropertyUnsignedInteger env d deviceInstance objectType objectInstance propertyIdentifier v priority =
     (if deviceInstance \<noteq> g_deviceInstance d then (d, Inl None)
      else if IsDataLinkPort d objectType objectInstance MSTP
      then SetDataLinkPortUnsigned d objectType objectInstance propertyIdentifier v
      else if objectType = OBJECT_TYPE_NETWORK_PORT \<and> objectInstance = ActiveNetworkPortInstance d \<and>
         propertyIdentifier = PROPERTY_IDENTIFIER_NETWORK_NUMBER
      then (d, Inr ())
      else if IsScCertificateFile d objectType objectInstance \<and>
         propertyIdentifier = PROPERTY_IDENTIFIER_FILE_SIZE
      then (case ResizeCertificateFile env (sc d) objectInstance v of (n, r) \<Rightarrow> (d\<lparr>sc := n\<rparr>, r))
      else if GetCommandable objectType objectInstance = Some MultiStateOutput \<and>
         propertyIdentifier = PROPERTY_IDENTIFIER_PRESENT_VALUE
      then (if v < 1 \<or> MULTI_STATE_OUTPUT_NUMBER_OF_STATES < v
            then (d, Inl (Some ERROR_CODE_VALUE_OUT_OF_RANGE))
            else (d\<lparr>g_multiStateOutput := CommandWrite (g_multiStateOutput d) priority v\<rparr>, Inr ()))
      else (d, Inl None))"

definition SetPropertyNull :: "device \<Rightarrow> u32 \<Rightarrow> u16 \<Rightarrow> u32 \<Rightarrow> u32 \<Rightarrow> u8 \<Rightarrow> set_result" where
  "SetPropertyNull d deviceInstance objectType objectInstance propertyIdentifier priority =
     (if deviceInstance \<noteq> g_deviceInstance d then (d, Inl None)
      else if propertyIdentifier = PROPERTY_IDENTIFIER_PRESENT_VALUE
      then (case GetCommandable objectType objectInstance of
              Some AnalogOutput \<Rightarrow>
                (d\<lparr>g_analogOutput := CommandRelinquish (g_analogOutput d) priority\<rparr>, Inr ())
            | Some BinaryOutput \<Rightarrow>
                (d\<lparr>g_binaryOutput := CommandRelinquish (g_binaryOutput d) priority\<rparr>, Inr ())
            | Some MultiStateOutput \<Rightarrow>
                (d\<lparr>g_multiStateOutput := CommandRelinquish (g_multiStateOutput d) priority\<rparr>, Inr ())
            | None \<Rightarrow> (d, Inl None))
      else (d, Inl None))"

definition SetPropertyBool :: "device \<Rightarrow> u32 \<Rightarrow> u16 \<Rightarrow> u32 \<Rightarrow> u32 \<Rightarrow> bool \<Rightarrow> set_result" where
  "SetPropertyBool d deviceInstance objectType objectInstance propertyIdentifier v =
     (if deviceInstance \<noteq> g_deviceInstance d \<or> objectType \<noteq> OBJECT_TYPE_FILE \<or>
         objectInstance \<noteq> FILE_INSTANCE \<or> propertyIdentifier \<noteq> PROPERTY_IDENTIFIER_ARCHIVE
      then (d, Inl None)
      else (d\<lparr>g_fileArchive := v\<rparr>, Inr ()))"

section \<open>Invariants\<close>

lemma device_inv_updates [simp]:
  "device_inv d \<Longrightarrow> commandable_inv a \<Longrightarrow> device_inv (d\<lparr>g_analogOutput := a\<rparr>)"
  "device_inv d \<Longrightarrow> commandable_inv b \<Longrightarrow> device_inv (d\<lparr>g_binaryOutput := b\<rparr>)"
  "device_inv d \<Longrightarrow> commandable_inv b \<Longrightarrow> device_inv (d\<lparr>g_multiStateOutput := b\<rparr>)"
  "device_inv d \<Longrightarrow> device_inv (d\<lparr>g_options := opts\<rparr>)"
  "device_inv d \<Longrightarrow> device_inv (d\<lparr>sc := n\<rparr>)"
  "device_inv d \<Longrightarrow> device_inv (d\<lparr>g_fileArchive := v\<rparr>)"
  "device_inv d \<Longrightarrow> device_inv (d\<lparr>g_clockOffsetSeconds := t\<rparr>)"
  "device_inv d \<Longrightarrow> device_inv (d\<lparr>g_restart := r\<rparr>)"
  "device_inv d \<Longrightarrow> device_inv (d\<lparr>stackCalls := cs\<rparr>)"
  by (simp_all add: device_inv_def)

lemma device_inv_commandables [simp]:
  "device_inv d \<Longrightarrow> commandable_inv (g_analogOutput d)"
  "device_inv d \<Longrightarrow> commandable_inv (g_binaryOutput d)"
  "device_inv d \<Longrightarrow> commandable_inv (g_multiStateOutput d)"
  by (simp_all add: device_inv_def)

lemma SetProperty_inv:
  assumes "device_inv d"
  shows "device_inv (fst (SetPropertyReal d di ot oi p v w))"
    "device_inv (fst (SetPropertyEnumerated d di ot oi p u w))"
    "device_inv (fst (SetPropertyUnsignedInteger env d di ot oi p u w))"
    "device_inv (fst (SetPropertyNull d di ot oi p w))"
    "device_inv (fst (SetPropertyBool d di ot oi p b))"
  using assms
  by (simp_all add: SetPropertyReal_def SetPropertyEnumerated_def SetPropertyUnsignedInteger_def
      SetDataLinkPortUnsigned_def SetPropertyNull_def SetPropertyBool_def
      split: prod.split option.split commandable_ref.split)

section \<open>The outputs as priority arrays\<close>

text \<open>
  What a client can see of an output: Priority_Array[p] through the typed get callback, which
  serves a value exactly for a commanded slot, and Relinquish_Default.
\<close>

definition ao_view :: "device \<Rightarrow> nat \<Rightarrow> f32 option" where
  "ao_view d p = GetPropertyReal d (g_deviceInstance d) OBJECT_TYPE_ANALOG_OUTPUT ANALOG_OUTPUT_INSTANCE
     PROPERTY_IDENTIFIER_PRIORITY_ARRAY True (of_nat p)"

definition ao_default :: "device \<Rightarrow> f32 option" where
  "ao_default d = GetPropertyReal d (g_deviceInstance d) OBJECT_TYPE_ANALOG_OUTPUT ANALOG_OUTPUT_INSTANCE
     PROPERTY_IDENTIFIER_RELINQUISH_DEFAULT False 0"

definition bo_view :: "device \<Rightarrow> nat \<Rightarrow> u32 option" where
  "bo_view d p = GetPropertyEnumerated d (g_deviceInstance d) OBJECT_TYPE_BINARY_OUTPUT BINARY_OUTPUT_INSTANCE
     PROPERTY_IDENTIFIER_PRIORITY_ARRAY True (of_nat p)"

definition bo_default :: "device \<Rightarrow> u32 option" where
  "bo_default d = GetPropertyEnumerated d (g_deviceInstance d) OBJECT_TYPE_BINARY_OUTPUT BINARY_OUTPUT_INSTANCE
     PROPERTY_IDENTIFIER_RELINQUISH_DEFAULT False 0"

definition mso_view :: "device \<Rightarrow> nat \<Rightarrow> u32 option" where
  "mso_view d p = GetPropertyUnsignedInteger d (g_deviceInstance d) OBJECT_TYPE_MULTI_STATE_OUTPUT
     MULTI_STATE_OUTPUT_INSTANCE PROPERTY_IDENTIFIER_PRIORITY_ARRAY True (of_nat p)"

definition mso_default :: "device \<Rightarrow> u32 option" where
  "mso_default d = GetPropertyUnsignedInteger d (g_deviceInstance d) OBJECT_TYPE_MULTI_STATE_OUTPUT
     MULTI_STATE_OUTPUT_INSTANCE PROPERTY_IDENTIFIER_RELINQUISH_DEFAULT False 0"

text \<open>WriteProperty(Present_Value) of a value and of NULL, as a client's request reaches the device.\<close>

definition ao_write :: "device \<Rightarrow> u8 \<Rightarrow> f32 \<Rightarrow> device" where
  "ao_write d w v = fst (SetPropertyReal d (g_deviceInstance d) OBJECT_TYPE_ANALOG_OUTPUT
     ANALOG_OUTPUT_INSTANCE PROPERTY_IDENTIFIER_PRESENT_VALUE v w)"

definition bo_write :: "device \<Rightarrow> u8 \<Rightarrow> u32 \<Rightarrow> device" where
  "bo_write d w v = fst (SetPropertyEnumerated d (g_deviceInstance d) OBJECT_TYPE_BINARY_OUTPUT
     BINARY_OUTPUT_INSTANCE PROPERTY_IDENTIFIER_PRESENT_VALUE v w)"

definition mso_write :: "io_env \<Rightarrow> device \<Rightarrow> u8 \<Rightarrow> u32 \<Rightarrow> device" where
  "mso_write env d w v = fst (SetPropertyUnsignedInteger env d (g_deviceInstance d)
     OBJECT_TYPE_MULTI_STATE_OUTPUT MULTI_STATE_OUTPUT_INSTANCE PROPERTY_IDENTIFIER_PRESENT_VALUE v w)"

definition out_relinquish :: "u16 \<Rightarrow> device \<Rightarrow> u8 \<Rightarrow> device" where
  "out_relinquish objectType d w =
     fst (SetPropertyNull d (g_deviceInstance d) objectType 1 PROPERTY_IDENTIFIER_PRESENT_VALUE w)"

lemma ReadCommandable_slot:
  "1 \<le> p \<Longrightarrow> p \<le> 16 \<Longrightarrow>
   ReadCommandable c PROPERTY_IDENTIFIER_PRIORITY_ARRAY True (of_nat p) = Some (slot c p)"
proof -
  assume p: "1 \<le> p" "p \<le> 16"
  then obtain v where "ReadPrioritySlot c PROPERTY_IDENTIFIER_PRIORITY_ARRAY True (of_nat p) =
      Some (slot c p \<noteq> None, v)" "\<forall>x. slot c p = Some x \<longrightarrow> v = x"
    using ReadPrioritySlot_slot [OF p, of c] by blast
  then show ?thesis by (cases "slot c p") (auto simp: ReadCommandable_def)
qed

lemma ReadCommandable_default:
  "ReadCommandable c PROPERTY_IDENTIFIER_RELINQUISH_DEFAULT False 0 = Some (Some (relinquishDefault c))"
  by (simp add: ReadCommandable_def ReadPrioritySlot_def)

lemma GetCommandable_simps [simp]:
  "GetCommandable OBJECT_TYPE_ANALOG_OUTPUT ANALOG_OUTPUT_INSTANCE = Some AnalogOutput"
  "GetCommandable OBJECT_TYPE_BINARY_OUTPUT BINARY_OUTPUT_INSTANCE = Some BinaryOutput"
  "GetCommandable OBJECT_TYPE_MULTI_STATE_OUTPUT MULTI_STATE_OUTPUT_INSTANCE = Some MultiStateOutput"
  by (simp_all add: GetCommandable_def)

lemmas data_link_simps =
  GetDataLinkPortReal_def GetDataLinkPortUnsigned_def IsDataLinkPort_def IsScCertificateFile_def

lemma output_views:
  assumes "1 \<le> p" "p \<le> 16"
  shows "ao_view d p = slot (g_analogOutput d) p" "bo_view d p = slot (g_binaryOutput d) p"
    "mso_view d p = slot (g_multiStateOutput d) p"
proof -
  note R = ReadCommandable_slot [OF assms]
  show "ao_view d p = slot (g_analogOutput d) p"
    unfolding ao_view_def GetPropertyReal_def R by (simp add: data_link_simps R)
  show "bo_view d p = slot (g_binaryOutput d) p"
    unfolding bo_view_def GetPropertyEnumerated_def R by (simp add: R)
  show "mso_view d p = slot (g_multiStateOutput d) p"
    unfolding mso_view_def GetPropertyUnsignedInteger_def R by (simp add: data_link_simps R)
qed

lemma output_defaults:
  "ao_default d = Some (relinquishDefault (g_analogOutput d))"
  "bo_default d = Some (relinquishDefault (g_binaryOutput d))"
  "mso_default d = Some (relinquishDefault (g_multiStateOutput d))"
  by (simp_all add: ao_default_def bo_default_def mso_default_def GetPropertyReal_def
      GetPropertyEnumerated_def GetPropertyUnsignedInteger_def data_link_simps ReadCommandable_default)

lemma output_writes:
  "ao_write d w v = d\<lparr>g_analogOutput := CommandWrite (g_analogOutput d) w v\<rparr>"
  "bo_write d w u = (if 1 < u then d else d\<lparr>g_binaryOutput := CommandWrite (g_binaryOutput d) w u\<rparr>)"
  "mso_write env d w u = (if u < 1 \<or> 3 < u then d
     else d\<lparr>g_multiStateOutput := CommandWrite (g_multiStateOutput d) w u\<rparr>)"
  "out_relinquish OBJECT_TYPE_ANALOG_OUTPUT d w =
     d\<lparr>g_analogOutput := CommandRelinquish (g_analogOutput d) w\<rparr>"
  "out_relinquish OBJECT_TYPE_BINARY_OUTPUT d w =
     d\<lparr>g_binaryOutput := CommandRelinquish (g_binaryOutput d) w\<rparr>"
  "out_relinquish OBJECT_TYPE_MULTI_STATE_OUTPUT d w =
     d\<lparr>g_multiStateOutput := CommandRelinquish (g_multiStateOutput d) w\<rparr>"
  by (simp_all add: ao_write_def bo_write_def mso_write_def out_relinquish_def SetPropertyReal_def
      SetPropertyEnumerated_def SetPropertyUnsignedInteger_def SetPropertyNull_def IsDataLinkPort_def
      IsScCertificateFile_def GetCommandable_def)

lemmas output_simps = output_views output_defaults output_writes

interpretation ao: priority_array ao_view "\<lambda>d. the (ao_default d)" device_inv "\<lambda>_. True"
    ao_write "out_relinquish OBJECT_TYPE_ANALOG_OUTPUT"
  by unfold_locales (simp_all add: output_simps slot_CommandWrite slot_CommandRelinquish)

interpretation bo: priority_array bo_view "\<lambda>d. the (bo_default d)" device_inv "\<lambda>v. v \<le> 1"
    bo_write "out_relinquish OBJECT_TYPE_BINARY_OUTPUT"
  by unfold_locales (auto simp: output_simps slot_CommandWrite slot_CommandRelinquish)

interpretation mso: priority_array mso_view "\<lambda>d. the (mso_default d)" device_inv "\<lambda>v. 1 \<le> v \<and> v \<le> 3"
    "mso_write env" "out_relinquish OBJECT_TYPE_MULTI_STATE_OUTPUT"
  for env
  by unfold_locales (auto simp: output_simps slot_CommandWrite slot_CommandRelinquish)

end
