(* ===== verification/Property_Text.thy ===== *)
theory Property_Text
  imports Property_Get
begin

text \<open>
  The character string, time and date callbacks of main.cpp (section 2). The object names
  the code tests one after the other are two association lists, in the code's order: those
  before and those after the names that depend on the data link.
\<close>

section \<open>Character strings\<close>

text \<open>The out parameters: the octets, their count and the encoding.\<close>

definition ReturnCharacterString :: "string \<Rightarrow> u32 \<Rightarrow> string \<times> u32 \<times> u8" where
  "ReturnCharacterString text maxElementCount =
     (let len = of_nat (length text) :: u32;
          len' = (if maxElementCount < len then maxElementCount else len)
      in (take (unat len') text, len', CHARACTER_STRING_ENCODING_UTF8))"

definition fixed_names :: "((u16 \<times> u32) \<times> string) list" where
  "fixed_names =
     [((OBJECT_TYPE_ANALOG_INPUT, ANALOG_INPUT_INSTANCE), ''Bronze''),
      ((OBJECT_TYPE_BINARY_INPUT, BINARY_INPUT_INSTANCE), ''Emerald''),
      ((OBJECT_TYPE_MULTI_STATE_INPUT, MULTI_STATE_INPUT_INSTANCE), ''Hot Pink''),
      ((OBJECT_TYPE_ANALOG_OUTPUT, ANALOG_OUTPUT_INSTANCE), ''Chartreuse''),
      ((OBJECT_TYPE_BINARY_OUTPUT, BINARY_OUTPUT_INSTANCE), ''Fuchsia''),
      ((OBJECT_TYPE_ANALOG_VALUE, ANALOG_VALUE_INSTANCE), ''Diamond''),
      ((OBJECT_TYPE_NOTIFICATION_CLASS, NOTIFICATION_CLASS_INSTANCE), ''Crimson''),
      ((OBJECT_TYPE_MULTI_STATE_OUTPUT, MULTI_STATE_OUTPUT_INSTANCE), ''Indigo''),
      ((OBJECT_TYPE_NETWORK_PORT, NETWORK_PORT_INSTANCE), ''Vermilion'')]"

definition later_names :: "((u16 \<times> u32) \<times> string) list" where
  "later_names =
     [((OBJECT_TYPE_SCHEDULE, SCHEDULE_INSTANCE), ''Saffron''),
      ((OBJECT_TYPE_CALENDAR, CALENDAR_INSTANCE), ''Cream''),
      ((OBJECT_TYPE_FILE, FILE_INSTANCE), ''Ivory''),
      ((OBJECT_TYPE_TREND_LOG, TREND_LOG_INSTANCE), ''Lilac''),
      ((OBJECT_TYPE_TREND_LOG_MULTIPLE, TREND_LOG_MULTIPLE_INSTANCE), ''Magenta'')]"

definition ObjectName :: "device \<Rightarrow> u16 \<Rightarrow> u32 \<Rightarrow> string option" where
  "ObjectName d objectType objectInstance =
     (if objectType = OBJECT_TYPE_DEVICE \<and> objectInstance = g_deviceInstance d then Some (g_deviceName d)
      else case map_of fixed_names (objectType, objectInstance) of
          Some n \<Rightarrow> Some n
        | None \<Rightarrow>
            (case DataLinkPortName d objectType objectInstance of
               Some n \<Rightarrow> Some n
             | None \<Rightarrow>
                 (if IsScCertificateFile d objectType objectInstance
                  then Some (CertificateFileName objectInstance)
                  else map_of later_names (objectType, objectInstance))))"

definition DEVICE_DESCRIPTION :: string where
  "DEVICE_DESCRIPTION =
     ''Chipkin CAS BACnet Stack example - B-BC (Building Controller) profile, '' @
     ''the series capstone. Demonstrates DS-RP/RPM/WP/WPM-A/B, intrinsic '' @
     ''alarming, SCHED-E-B, trending, DM-DCC-B, DM-TS-B/UTC-B, DM-RD-B, and '' @
     ''DM-BR-B.''"

definition stateText :: "string list" where
  "stateText = [''On'', ''Off'', ''Auto'']"

text \<open>\<open>Inl (Some e)\<close> is \<open>false\<close> with \<open>*errorCode = e\<close>, \<open>Inl None\<close> a plain \<open>false\<close>.\<close>

definition GetPropertyCharString ::
  "device \<Rightarrow> u32 \<Rightarrow> u16 \<Rightarrow> u32 \<Rightarrow> u32 \<Rightarrow> u32 \<Rightarrow> bool \<Rightarrow> u32 \<Rightarrow> u32 option + (string \<times> u32 \<times> u8)" where
  "GetPropertyCharString d deviceInstance objectType objectInstance propertyIdentifier maxElementCount
     useArrayIndex propertyArrayIndex =
     (let serve = (\<lambda>text. Inr (ReturnCharacterString text maxElementCount)) in
      if deviceInstance \<noteq> g_deviceInstance d then Inl None
      else if objectType = OBJECT_TYPE_MULTI_STATE_INPUT \<and> objectInstance = MULTI_STATE_INPUT_INSTANCE \<and>
         propertyIdentifier = PROPERTY_IDENTIFIER_STATE_TEXT \<and> useArrayIndex
      then (if 1 \<le> propertyArrayIndex \<and> propertyArrayIndex \<le> MULTI_STATE_INPUT_NUMBER_OF_STATES
            then serve (stateText ! (unat propertyArrayIndex - 1))
            else Inl (Some ERROR_CODE_INVALID_ARRAY_INDEX))
      else case (if propertyIdentifier = PROPERTY_IDENTIFIER_OBJECT_NAME
                 then ObjectName d objectType objectInstance else None) of
          Some n \<Rightarrow> serve n
        | None \<Rightarrow>
           (if objectType = OBJECT_TYPE_FILE \<and> objectInstance = FILE_INSTANCE \<and>
               propertyIdentifier = PROPERTY_IDENTIFIER_FILE_TYPE
            then serve ''application/octet-stream''
            else if IsScCertificateFile d objectType objectInstance \<and>
               propertyIdentifier = PROPERTY_IDENTIFIER_FILE_TYPE
            then serve ''application/x-pem-file''
            else if objectType = OBJECT_TYPE_DEVICE \<and> objectInstance = g_deviceInstance d
            then (if propertyIdentifier = PROPERTY_IDENTIFIER_DESCRIPTION then serve DEVICE_DESCRIPTION
                  else if propertyIdentifier = PROPERTY_IDENTIFIER_VENDOR_NAME
                  then serve ''Chipkin Automation Systems''
                  else if propertyIdentifier = PROPERTY_IDENTIFIER_MODEL_NAME
                  then serve ''CAS BACnet Stack Example - B-BC''
                  else if propertyIdentifier = PROPERTY_IDENTIFIER_FIRMWARE_REVISION
                  then serve (g_firmwareRevision d)
                  else if propertyIdentifier = PROPERTY_IDENTIFIER_APPLICATION_SOFTWARE_VERSION
                  then serve ''1.3.1''
                  else Inl None)
            else Inl None))"

section \<open>Date and time\<close>

text \<open>
  The host's clock and its calendar conversions are the C library's, with a time zone the
  program does not know: \<open>time\<close>, \<open>localtime_r\<close>, \<open>gmtime_r\<close> and \<open>mktime\<close> are the
  environment.
\<close>

record tm =
  tm_year :: int
  tm_mon :: int
  tm_mday :: int
  tm_hour :: int
  tm_min :: int
  tm_sec :: int
  tm_wday :: int

record clock_env =
  hostTime :: int
  localtime_r :: "int \<Rightarrow> tm option"
  gmtime_r :: "int \<Rightarrow> tm option"
  mktime :: "tm \<Rightarrow> int"

definition GetCurrentLocalTm :: "clock_env \<Rightarrow> device \<Rightarrow> tm option" where
  "GetCurrentLocalTm env d = localtime_r env (hostTime env + g_clockOffsetSeconds d)"

definition time_of_tm :: "tm \<Rightarrow> u8 \<times> u8 \<times> u8 \<times> u8" where
  "time_of_tm t = (of_int (tm_hour t), of_int (tm_min t), of_int (tm_sec t), 0)"

text \<open>BACnet counts the days of the week from Monday = 1, \<open>tm_wday\<close> from Sunday = 0.\<close>

definition date_of_tm :: "tm \<Rightarrow> u8 \<times> u8 \<times> u8 \<times> u8" where
  "date_of_tm t = (of_int (tm_year t), of_int (tm_mon t + 1), of_int (tm_mday t),
                   of_int ((tm_wday t + 6) mod 7 + 1))"

text \<open>What the modification time of a certificate file is, when there is one to report.\<close>

definition CertificateModifiedUtc :: "clock_env \<Rightarrow> device \<Rightarrow> u16 \<Rightarrow> u32 \<Rightarrow> u32 \<Rightarrow> tm option" where
  "CertificateModifiedUtc env d objectType objectInstance propertyIdentifier =
     (if IsScCertificateFile d objectType objectInstance \<and>
         propertyIdentifier = PROPERTY_IDENTIFIER_MODIFICATION_DATE
      then Option.bind (GetCertificateFileModified (sc d) objectInstance) (gmtime_r env)
      else None)"

definition GetPropertyTime ::
  "clock_env \<Rightarrow> device \<Rightarrow> u32 \<Rightarrow> u16 \<Rightarrow> u32 \<Rightarrow> u32 \<Rightarrow> (u8 \<times> u8 \<times> u8 \<times> u8) option" where
  "GetPropertyTime env d deviceInstance objectType objectInstance propertyIdentifier =
     (if deviceInstance \<noteq> g_deviceInstance d then None
      else if objectType = OBJECT_TYPE_FILE \<and> objectInstance = FILE_INSTANCE \<and>
         propertyIdentifier = PROPERTY_IDENTIFIER_MODIFICATION_DATE
      then Some (0, 0, 0, 0)
      else case CertificateModifiedUtc env d objectType objectInstance propertyIdentifier of
          Some t \<Rightarrow> Some (time_of_tm t)
        | None \<Rightarrow>
            (if objectType = OBJECT_TYPE_DEVICE \<and> objectInstance = g_deviceInstance d \<and>
                propertyIdentifier = PROPERTY_IDENTIFIER_LOCAL_TIME
             then map_option time_of_tm (GetCurrentLocalTm env d)
             else None))"

definition GetPropertyDate ::
  "clock_env \<Rightarrow> device \<Rightarrow> u32 \<Rightarrow> u16 \<Rightarrow> u32 \<Rightarrow> u32 \<Rightarrow> (u8 \<times> u8 \<times> u8 \<times> u8) option" where
  "GetPropertyDate env d deviceInstance objectType objectInstance propertyIdentifier =
     (if deviceInstance \<noteq> g_deviceInstance d then None
      else if objectType = OBJECT_TYPE_FILE \<and> objectInstance = FILE_INSTANCE \<and>
         propertyIdentifier = PROPERTY_IDENTIFIER_MODIFICATION_DATE
      then Some (126, 1, 1, 4)
      else case CertificateModifiedUtc env d objectType objectInstance propertyIdentifier of
          Some t \<Rightarrow> Some (date_of_tm t)
        | None \<Rightarrow>
            (if objectType = OBJECT_TYPE_DEVICE \<and> objectInstance = g_deviceInstance d \<and>
                propertyIdentifier = PROPERTY_IDENTIFIER_LOCAL_DATE
             then map_option date_of_tm (GetCurrentLocalTm env d)
             else None))"

end
