(* ===== verification/Services.thy ===== *)
theory Services
  imports Property_Text
begin

text \<open>
  The service callbacks of main.cpp (sections 2b to 2d): DeviceCommunicationControl,
  ReinitializeDevice with the deferred restart of common/CASExampleHelper.cpp, AtomicReadFile
  and AtomicWriteFile with the four backup and restore callbacks, the Network Port commands,
  time synchronisation and alarm acknowledgement.

  \<open>Inl (Some e)\<close> is the C++ \<open>false\<close> with \<open>*errorCode = e\<close>, \<open>Inl None\<close> a \<open>false\<close> that
  leaves it alone.
\<close>

section \<open>Passwords\<close>

text \<open>A password parameter is a pointer to at least as many characters as its length says.\<close>

definition strlen_text :: "string \<Rightarrow> string" where
  "strlen_text s = takeWhile (\<lambda>c. c \<noteq> CHR 0x00) s"

definition PasswordAccepted :: "device \<Rightarrow> string option \<Rightarrow> u32 \<Rightarrow> bool" where
  "PasswordAccepted d password passwordLength =
     (let required = strlen_text (DCC_PASSWORD d); requiredLength = of_nat (length required) :: u32 in
      if requiredLength = 0 then True
      else case password of
          None \<Rightarrow> False
        | Some p \<Rightarrow>
            (if passwordLength \<noteq> requiredLength then False
             else fold (\<lambda>i diff. diff OR ((of_char (p ! i) :: u32) XOR of_char (required ! i)))
                    [0..<unat requiredLength] 0 = 0))"

definition DeviceCommunicationControl ::
  "device \<Rightarrow> u32 \<Rightarrow> u8 \<Rightarrow> string option \<Rightarrow> u8 \<Rightarrow> bool \<Rightarrow> u16 \<Rightarrow> u32 + unit" where
  "DeviceCommunicationControl d deviceInstance enableDisable password passwordLength useTimeDuration
     timeDuration =
     (if deviceInstance \<noteq> g_deviceInstance d then Inl ERROR_CODE_OPTIONAL_FUNCTIONALITY_NOT_SUPPORTED
      else let required = strlen_text (DCC_PASSWORD d); requiredLength = length required in
        if 0 < requiredLength \<and>
           (case password of
              None \<Rightarrow> True
            | Some p \<Rightarrow> unat passwordLength \<noteq> requiredLength \<or>
                \<not> list_all (\<lambda>i. p ! i = required ! i) [0..<requiredLength])
        then Inl ERROR_CODE_PASSWORD_FAILURE
        else Inr ())"

section \<open>Restarting\<close>

abbreviation RESTART_DELAY_MS :: u32 where "RESTART_DELAY_MS \<equiv> 1000"

text \<open>\<open>now\<close> is \<open>MonotonicMilliseconds()\<close>.\<close>

definition RequestRestart :: "u64 \<Rightarrow> device \<Rightarrow> RestartKind \<Rightarrow> u32 \<Rightarrow> device" where
  "RequestRestart now d kind delayMilliseconds =
     (let dueAt = now + ucast delayMilliseconds in
      case g_restart d of
        Some (kind', due) \<Rightarrow>
          d\<lparr>g_restart := Some (if kind = Cold then Cold else kind', if dueAt < due then dueAt else due)\<rparr>
      | None \<Rightarrow> d\<lparr>g_restart := Some (kind, dueAt)\<rparr>)"

definition RestartDue :: "u64 \<Rightarrow> device \<Rightarrow> device \<times> RestartKind option" where
  "RestartDue now d =
     (case g_restart d of
        None \<Rightarrow> (d, None)
      | Some (kind, due) \<Rightarrow> if now < due then (d, None) else (d\<lparr>g_restart := None\<rparr>, Some kind))"

definition ReinitializeDevice ::
  "('cert, 'key) crypto \<Rightarrow> io_env \<Rightarrow> u64 \<Rightarrow> device \<Rightarrow> u32 \<Rightarrow> u32 \<Rightarrow> string option \<Rightarrow> u32 \<Rightarrow> device \<times> (u32 + unit)" where
  "ReinitializeDevice cr env now d deviceInstance reinitializedState password passwordLength =
     (if deviceInstance \<noteq> g_deviceInstance d
      then (d, Inl ERROR_CODE_OPTIONAL_FUNCTIONALITY_NOT_SUPPORTED)
      else if \<not> PasswordAccepted d password passwordLength then (d, Inl ERROR_CODE_PASSWORD_FAILURE)
      else
        let (d1, applied) =
          (if BBC_WITH_SC d \<and> dataLink (g_options d) = SC \<and>
              (reinitializedState = REINITIALIZE_STATE_ACTIVATE_CHANGES \<or>
               reinitializedState = REINITIALIZE_STATE_WARMSTART)
           then (case ApplyStagedCertificates cr env (sc d) of (n, r) \<Rightarrow> (d\<lparr>sc := n\<rparr>, r))
           else (d, Inr ()))
        in case applied of
             Inl e \<Rightarrow> (d1, Inl e)
           | Inr _ \<Rightarrow>
              (if reinitializedState = REINITIALIZE_STATE_ACTIVATE_CHANGES then (d1, Inr ())
               else if reinitializedState = REINITIALIZE_STATE_COLDSTART
               then (RequestRestart now d1 Cold RESTART_DELAY_MS, Inr ())
               else if reinitializedState = REINITIALIZE_STATE_WARMSTART
               then (RequestRestart now d1 Warm RESTART_DELAY_MS, Inr ())
               else if reinitializedState \<in> {REINITIALIZE_STATE_STARTBACKUP, REINITIALIZE_STATE_ENDBACKUP,
                   REINITIALIZE_STATE_STARTRESTORE, REINITIALIZE_STATE_ENDRESTORE,
                   REINITIALIZE_STATE_ABORTRESTORE}
               then (d1, Inr ())
               else (d1, Inl ERROR_CODE_OPTIONAL_FUNCTIONALITY_NOT_SUPPORTED)))"

section \<open>Files\<close>

definition ReadFile :: "device \<Rightarrow> u32 \<Rightarrow> u32 \<Rightarrow> u32 \<Rightarrow> u32 \<Rightarrow> u32 \<Rightarrow> (bytes \<times> bool) option" where
  "ReadFile d deviceInstance fileInstance fileStart requestedCount maxFileDataLength =
     (if deviceInstance = g_deviceInstance d \<and> IsScCertificateFile d OBJECT_TYPE_FILE fileInstance
      then ReadCertificateFile (sc d) fileInstance fileStart requestedCount maxFileDataLength
      else if deviceInstance \<noteq> g_deviceInstance d \<or> fileInstance \<noteq> FILE_INSTANCE then None
      else if g_fileDataLength d \<le> fileStart then Some ([], True)
      else let available = g_fileDataLength d - fileStart;
               toCopy = (if requestedCount < available then requestedCount else available);
               toCopy' = (if maxFileDataLength < toCopy then maxFileDataLength else toCopy)
           in Some (take (unat toCopy') (drop (unat fileStart) (g_fileData d)),
                    g_fileDataLength d \<le> fileStart + toCopy'))"

text \<open>
  The outer \<open>None\<close> is a \<open>memcpy\<close> that leaves \<open>g_fileData\<close>, which C++ does not define.
  \<open>start + fileDataLength\<close> is a \<open>uint32_t\<close> sum, and wraps.
\<close>

definition WriteFile ::
  "io_env \<Rightarrow> device \<Rightarrow> u32 \<Rightarrow> u32 \<Rightarrow> i32 \<Rightarrow> bytes \<Rightarrow> (device \<times> (u32 option + i32)) option" where
  "WriteFile env d deviceInstance fileInstance fileStart fileData =
     (if deviceInstance = g_deviceInstance d \<and> IsScCertificateFile d OBJECT_TYPE_FILE fileInstance
      then (case WriteCertificateFile env (sc d) fileInstance fileStart fileData of
              (n, r) \<Rightarrow> Some (d\<lparr>sc := n\<rparr>, r))
      else if deviceInstance \<noteq> g_deviceInstance d \<or> fileInstance \<noteq> FILE_INSTANCE then Some (d, Inl None)
      else
        let start = (if fileStart = -1 then g_fileDataLength d else fileStart);
            endAt = start + of_nat (length fileData)
        in if FILE_MAX_SIZE < endAt then Some (d, Inl None)
           else case mem_write (g_fileData d) (unat start) fileData of
               None \<Rightarrow> None
             | Some buffer \<Rightarrow>
                 Some (d\<lparr>g_fileData := buffer,
                         g_fileDataLength := (if g_fileDataLength d < endAt then endAt else g_fileDataLength d)\<rparr>,
                       Inr start))"

text \<open>The backup and restore callbacks only check the device instance.\<close>

definition PrepareBackup :: "device \<Rightarrow> u32 \<Rightarrow> bool" where
  "PrepareBackup d deviceInstance \<longleftrightarrow> deviceInstance = g_deviceInstance d"

definition CompleteBackup :: "device \<Rightarrow> u32 \<Rightarrow> bool" where
  "CompleteBackup d deviceInstance \<longleftrightarrow> deviceInstance = g_deviceInstance d"

definition PrepareRestore :: "device \<Rightarrow> u32 \<Rightarrow> bool" where
  "PrepareRestore d deviceInstance \<longleftrightarrow> deviceInstance = g_deviceInstance d"

definition CompleteRestore :: "device \<Rightarrow> u32 \<Rightarrow> bool \<Rightarrow> bool" where
  "CompleteRestore d deviceInstance wasAborted \<longleftrightarrow> deviceInstance = g_deviceInstance d"

section \<open>Network Port commands, time, alarms\<close>

definition NetworkPortCommand ::
  "('cert, 'key) crypto \<Rightarrow> io_env \<Rightarrow> device \<Rightarrow> u32 \<Rightarrow> u32 \<Rightarrow> u32 \<Rightarrow> device \<times> (u32 + unit)" where
  "NetworkPortCommand cr env d deviceInstance networkPortInstance command =
     (if deviceInstance \<noteq> g_deviceInstance d
      then (d, Inl ERROR_CODE_OPTIONAL_FUNCTIONALITY_NOT_SUPPORTED)
      else if BBC_WITH_SC d \<and> dataLink (g_options d) = SC \<and> networkPortInstance = SC_NETWORK_PORT_INSTANCE
      then (case ScNetworkPortCommand cr env (sc d) command of (n, r) \<Rightarrow> (d\<lparr>sc := n\<rparr>, r))
      else if command = NETWORK_PORT_COMMAND_DISCARD_CHANGES then (d, Inr ())
      else (d, Inl ERROR_CODE_OPTIONAL_FUNCTIONALITY_NOT_SUPPORTED))"

definition SetSystemTime ::
  "clock_env \<Rightarrow> device \<Rightarrow> u32 \<Rightarrow> u8 \<Rightarrow> u8 \<Rightarrow> u8 \<Rightarrow> u8 \<Rightarrow> u8 \<Rightarrow> u8 \<Rightarrow> device \<times> bool" where
  "SetSystemTime env d deviceInstance year month day hour minute second =
     (if deviceInstance \<noteq> g_deviceInstance d then (d, False)
      else if 255 \<in> {year, month, day, hour, minute, second} then (d, False)
      else let requestedTime = mktime env
             \<lparr>tm_year = uint year, tm_mon = uint month - 1, tm_mday = uint day, tm_hour = uint hour,
              tm_min = uint minute, tm_sec = uint second, tm_wday = 0\<rparr>
           in if requestedTime = -1 then (d, False)
              else (d\<lparr>g_clockOffsetSeconds := requestedTime - hostTime env\<rparr>, True))"

definition AcknowledgeAlarm :: "device \<Rightarrow> u32 \<Rightarrow> u16 \<Rightarrow> u32 \<Rightarrow> u32 option + unit" where
  "AcknowledgeAlarm d deviceInstance eventObjectType eventObjectInstance =
     (if deviceInstance \<noteq> g_deviceInstance d then Inl None
      else if eventObjectType \<noteq> OBJECT_TYPE_ANALOG_VALUE \<or> eventObjectInstance \<noteq> ANALOG_VALUE_INSTANCE
      then Inl (Some ERROR_CODE_VALUE_OUT_OF_RANGE)
      else Inr ())"

end
