(* ===== verification/Stream_File.thy ===== *)
theory Stream_File
  imports Services Cert_Staging
begin

text \<open>
  Stream access files as a client uses them: AtomicReadFile in chunks until End_Of_File, and
  AtomicWriteFile of chunk after chunk. The contract between the two sides is a locale over the
  contents of a file; both kinds of file of the device (Ivory in memory, the certificate files
  of the BACnet/SC node) are proved to keep it.
\<close>

section \<open>The client's loops\<close>

text \<open>One unit of fuel is one request; \<open>None\<close> is an error, or fuel that has run out.\<close>

fun read_chunks :: "nat \<Rightarrow> (u32 \<Rightarrow> (bytes \<times> bool) option) \<Rightarrow> u32 \<Rightarrow> bytes list option" where
  "read_chunks 0 read start = None"
| "read_chunks (Suc fuel) read start =
     (case read start of
        None \<Rightarrow> None
      | Some (data, endOfFile) \<Rightarrow>
          (if endOfFile then Some [data]
           else map_option ((#) data) (read_chunks fuel read (start + of_nat (length data)))))"

fun write_chunks :: "('s \<Rightarrow> u32 \<Rightarrow> bytes \<Rightarrow> 's option) \<Rightarrow> 's \<Rightarrow> nat \<Rightarrow> bytes list \<Rightarrow> 's option" where
  "write_chunks put s start [] = Some s"
| "write_chunks put s start (c # cs) =
     (case put s (of_nat start) c of
        None \<Rightarrow> None | Some s' \<Rightarrow> write_chunks put s' (start + length c) cs)"

section \<open>The contract\<close>

locale stream_file =
  fixes inv :: "'s \<Rightarrow> bool"
    and contents :: "'s \<Rightarrow> bytes"
    and read :: "'s \<Rightarrow> u32 \<Rightarrow> u32 \<Rightarrow> u32 \<Rightarrow> (bytes \<times> bool) option"
  assumes small: "inv s \<Longrightarrow> length (contents s) < 2 ^ 31"
    and read_at: "inv s \<Longrightarrow> unat start \<le> length (contents s) \<Longrightarrow>
      read s start count most =
        Some (take (min (unat count) (unat most)) (drop (unat start) (contents s)),
              length (contents s) \<le> unat start + min (unat count) (unat most))"
begin

lemma read_chunks_from:
  assumes "inv s" "0 < count" "0 < most" "unat start \<le> length (contents s)"
    and "length (contents s) - unat start < fuel"
  shows "\<exists>cs. read_chunks fuel (\<lambda>start. read s start count most) start = Some cs \<and>
     concat cs = drop (unat start) (contents s)"
  using assms
proof (induction fuel arbitrary: start)
  case (Suc fuel)
  let ?n = "min (unat count) (unat most)" and ?c = "contents s"
  let ?data = "take ?n (drop (unat start) ?c)"
  note r = read_at [OF Suc.prems(1,4), of count most]
  show ?case
  proof (cases "length ?c \<le> unat start + ?n")
    case True
    have "length (drop (unat start) ?c) \<le> ?n" using True by (simp only: length_drop)
    then have "?data = drop (unat start) ?c" by (rule take_all)
    with r True show ?thesis by simp
  next
    case False
    then have n: "length ?data = ?n" by simp
    have pos: "0 < ?n" using Suc.prems(2,3) by (simp add: word_less_nat_alt)
    have "unat start + ?n < 2 ^ 32" using False small [OF Suc.prems(1)] by simp
    then have step: "unat (start + of_nat ?n) = unat start + ?n"
      by (subst unat_add_no_wrap) (simp_all add: unat_of_nat_u32)
    obtain cs where "read_chunks fuel (\<lambda>start. read s start count most) (start + of_nat ?n) = Some cs"
      "concat cs = drop (unat start + ?n) ?c"
      using Suc.IH [of "start + of_nat ?n"] Suc.prems False pos step by force
    with r False n show ?thesis
      by (intro exI [of _ "?data # cs"]) (simp add: take_drop_glue)
  qed
qed simp

lemma read_chunks_all:
  assumes "inv s" "0 < count" "0 < most" "length (contents s) < fuel"
  shows "\<exists>cs. read_chunks fuel (\<lambda>start. read s start count most) 0 = Some cs \<and> concat cs = contents s"
  using read_chunks_from [OF assms(1-3), of 0 fuel] assms(4) by simp

end

locale stream_store = stream_file inv contents read
  for inv :: "'s \<Rightarrow> bool" and contents :: "'s \<Rightarrow> bytes"
    and read :: "'s \<Rightarrow> u32 \<Rightarrow> u32 \<Rightarrow> u32 \<Rightarrow> (bytes \<times> bool) option" +
  fixes put :: "'s \<Rightarrow> u32 \<Rightarrow> bytes \<Rightarrow> 's option"
    and capacity :: nat
  assumes put_at: "inv s \<Longrightarrow> start \<le> length (contents s) \<Longrightarrow> start + length data \<le> capacity \<Longrightarrow>
      \<exists>s'. put s (of_nat start) data = Some s' \<and> inv s' \<and>
        contents s' = take start (contents s) @ data @ drop (start + length data) (contents s)"
begin

lemma write_chunks_from:
  assumes "inv s" "start \<le> length (contents s)" "start + length (concat cs) \<le> capacity"
  shows "\<exists>s'. write_chunks put s start cs = Some s' \<and> inv s' \<and>
     contents s' = take start (contents s) @ concat cs @ drop (start + length (concat cs)) (contents s)"
  using assms
proof (induction cs arbitrary: s start)
  case (Cons c cs)
  obtain s1 where s1: "put s (of_nat start) c = Some s1" "inv s1"
    "contents s1 = take start (contents s) @ c @ drop (start + length c) (contents s)"
    using put_at [OF Cons.prems(1,2), of c] Cons.prems(3) by auto
  have len: "start + length c \<le> length (contents s1)" using Cons.prems(2) s1(3) by simp
  obtain s' where s': "write_chunks put s1 (start + length c) cs = Some s'" "inv s'"
    "contents s' = take (start + length c) (contents s1) @ concat cs @
       drop (start + length c + length (concat cs)) (contents s1)"
    using Cons.IH [OF s1(2) len] Cons.prems(3) by auto
  have "take (start + length c) (contents s1) = take start (contents s) @ c"
    using s1(3) Cons.prems(2) by simp
  moreover have "drop (start + length c + length (concat cs)) (contents s1) =
      drop (start + (length c + length (concat cs))) (contents s)"
    using s1(3) Cons.prems(2) by (simp add: ac_simps)
  ultimately show ?case using s1 s' by simp
qed simp

text \<open>Uploading a text over a file that is not longer, and reading it back.\<close>

lemma upload:
  assumes "inv s" "length (contents s) \<le> length (concat cs)" "length (concat cs) \<le> capacity"
  shows "\<exists>s'. write_chunks put s 0 cs = Some s' \<and> inv s' \<and> contents s' = concat cs"
  using write_chunks_from [OF assms(1), of 0 cs] assms(2,3) by simp

end

section \<open>Ivory\<close>

definition ivory_contents :: "device \<Rightarrow> bytes" where
  "ivory_contents d = take (unat (g_fileDataLength d)) (g_fileData d)"

definition ivory_read :: "device \<Rightarrow> u32 \<Rightarrow> u32 \<Rightarrow> u32 \<Rightarrow> (bytes \<times> bool) option" where
  "ivory_read d start count most = ReadFile d (g_deviceInstance d) FILE_INSTANCE start count most"

definition ivory_put :: "io_env \<Rightarrow> device \<Rightarrow> u32 \<Rightarrow> bytes \<Rightarrow> device option" where
  "ivory_put env d start data =
     (case WriteFile env d (g_deviceInstance d) FILE_INSTANCE start data of
        Some (d', Inr _) \<Rightarrow> Some d' | _ \<Rightarrow> None)"

lemma ivory_not_certificate [simp]: "\<not> IsScCertificateFile d OBJECT_TYPE_FILE FILE_INSTANCE"
  by (simp add: IsScCertificateFile_def IsCertificateFile_def word_order)

lemma length_ivory_contents: "device_inv d \<Longrightarrow> length (ivory_contents d) = unat (g_fileDataLength d)"
  by (simp add: ivory_contents_def device_inv_def)

text \<open>The count a read returns: the least of the bytes left, the count asked for and the buffer.\<close>

lemma read_window:
  fixes len start count most :: u32
  assumes "start \<le> len"
  defines "n \<equiv> (let toCopy = (if count < len - start then count else len - start)
                 in if most < toCopy then most else toCopy)"
  shows "unat n = min (unat len - unat start) (min (unat count) (unat most))"
    and "unat (start + n) = unat start + unat n"
proof -
  have sub: "unat (len - start) = unat len - unat start" by (rule unat_u32_sub [OF assms(1)])
  then show n: "unat n = min (unat len - unat start) (min (unat count) (unat most))"
    by (auto simp: n_def Let_def word_less_nat_alt min_def)
  have "unat start \<le> unat len" using assms(1) by (simp add: word_le_nat_alt)
  with n have "unat start + unat n < 2 ^ 32" using unat_u32_lt [of len] by simp
  then show "unat (start + n) = unat start + unat n" by (rule unat_add_no_wrap)
qed

lemma take_window: "take (min (length xs - k) n) (drop k xs) = take n (drop k xs)"
  by (simp add: min_def)

lemma take_splice:
  assumes "start \<le> n" "start + length data \<le> length buf" "n \<le> length buf"
  shows "take (max n (start + length data)) (take start buf @ data @ drop (start + length data) buf) =
    take start (take n buf) @ data @ drop (start + length data) (take n buf)"
proof (cases "n \<le> start + length data")
  case True
  have "length (take start buf) = start" using assms by simp
  with True assms show ?thesis by (simp add: max_def)
next
  case False
  with assms show ?thesis by (simp add: max_def drop_take)
qed

interpretation ivory: stream_store device_inv ivory_contents ivory_read "ivory_put env" 4096
  for env
proof unfold_locales
  fix d assume "device_inv d"
  then show "length (ivory_contents d) < 2 ^ 31"
    using length_ivory_contents [of d] by (simp add: device_inv_def)
next
  fix d :: device and start count most :: u32
  assume inv: "device_inv d" and s: "unat start \<le> length (ivory_contents d)"
  note len = length_ivory_contents [OF inv]
  let ?L = "g_fileDataLength d"
  show "ivory_read d start count most =
      Some (take (min (unat count) (unat most)) (drop (unat start) (ivory_contents d)),
            length (ivory_contents d) \<le> unat start + min (unat count) (unat most))"
  proof (cases "?L \<le> start")
    case True
    then have "unat ?L \<le> unat start" by (simp add: word_le_nat_alt)
    with True len s show ?thesis by (simp add: ivory_read_def ReadFile_def)
  next
    case False
    then have le: "start \<le> ?L" by simp
    define n where "n = (let toCopy = (if count < ?L - start then count else ?L - start)
       in if most < toCopy then most else toCopy)"
    note w = read_window [OF le, where count = count and most = most, folded n_def]
    have buf: "unat ?L \<le> length (g_fileData d)" using inv by (simp add: device_inv_def)
    have "ivory_read d start count most =
        Some (take (unat n) (drop (unat start) (g_fileData d)), ?L \<le> start + n)"
      using False by (simp add: ivory_read_def ReadFile_def n_def Let_def)
    also have "take (unat n) (drop (unat start) (g_fileData d)) =
        take (min (unat count) (unat most)) (drop (unat start) (ivory_contents d))"
      using w(1) by (simp add: ivory_contents_def drop_take ac_simps)
    also have "?L \<le> start + n \<longleftrightarrow> length (ivory_contents d) \<le> unat start + min (unat count) (unat most)"
    proof -
      have "unat ?L \<le> unat start + unat n \<longleftrightarrow>
          unat ?L \<le> unat start + min (unat count) (unat most)"
        unfolding w(1) using s unfolding len by arith
      then show ?thesis using w(2) len by (simp only: word_le_nat_alt)
    qed
    finally show ?thesis .
  qed
next
  fix d :: device and start :: nat and data :: bytes
  assume inv: "device_inv d" and s: "start \<le> length (ivory_contents d)" "start + length data \<le> 4096"
  let ?L = "g_fileDataLength d"
  have bound: "unat ?L \<le> 4096" "length (g_fileData d) = 4096" using inv by (simp_all add: device_inv_def)
  have start: "unat (of_nat start :: u32) = start" using s(2) by (intro unat_of_nat_u32) simp
  have data: "unat (of_nat (length data) :: u32) = length data" using s(2) by (intro unat_of_nat_u32) simp
  have sum_end: "unat (of_nat start + of_nat (length data) :: u32) = start + length data"
    using s(2) start data by (subst unat_add_no_wrap) simp_all
  have not_append: "(of_nat start :: u32) \<noteq> - 1"
  proof
    assume "(of_nat start :: u32) = - 1"
    with start have "start = unat (- 1 :: u32)" by simp
    with s(2) show False by (simp add: unsigned_minus_1_eq_mask mask_eq_exp_minus_1)
  qed
  have fits: "\<not> 4096 < (of_nat start + of_nat (length data) :: u32)"
    using sum_end s(2) by (simp add: word_less_nat_alt)
  obtain buffer where buffer: "mem_write (g_fileData d) start data = Some buffer"
    "buffer = take start (g_fileData d) @ data @ drop (start + length data) (g_fileData d)"
    using s(2) bound by (auto simp: mem_write_def)
  let ?stop = "of_nat start + of_nat (length data) :: u32"
  let ?d = "d\<lparr>g_fileData := buffer, g_fileDataLength := (if ?L < ?stop then ?stop else ?L)\<rparr>"
  have put: "ivory_put env d (of_nat start) data = Some ?d"
    using buffer(1) fits not_append start by (simp add: ivory_put_def WriteFile_def Let_def)
  have newlen: "unat (g_fileDataLength ?d) = max (unat ?L) (start + length data)"
    using sum_end by (auto simp: word_less_nat_alt max_def)
  have "device_inv ?d" using inv newlen s(2) bound buffer(2) unfolding device_inv_def by simp
  moreover have "ivory_contents ?d =
      take start (ivory_contents d) @ data @ drop (start + length data) (ivory_contents d)"
  proof -
    have "ivory_contents ?d = take (max (unat ?L) (start + length data)) buffer"
      using newlen by (simp add: ivory_contents_def)
    also have "\<dots> = take start (take (unat ?L) (g_fileData d)) @ data @
        drop (start + length data) (take (unat ?L) (g_fileData d))"
      unfolding buffer(2)
      by (rule take_splice) (use s bound length_ivory_contents [OF inv] in simp_all)
    finally show ?thesis by (simp only: ivory_contents_def)
  qed
  ultimately show "\<exists>s'. ivory_put env d (of_nat start) data = Some s' \<and> device_inv s' \<and>
      ivory_contents s' = take start (ivory_contents d) @ data @ drop (start + length data) (ivory_contents d)"
    using put by blast
qed

section \<open>The certificate files\<close>

definition cert_file_inv :: "u32 \<Rightarrow> sc_node \<Rightarrow> bool" where
  "cert_file_inv i n \<longleftrightarrow> store_inv (cert n) \<and> file_instances_ok (cert n) \<and>
     IsCertificateFile i \<and> \<not> IsCertificateFileReadOnly i \<and> paths (g_layout (cert n)) i \<noteq> None \<and>
     CertRead (cert n) i \<noteq> None \<and> length (Effective (cert n) i) < 2 ^ 31"

definition cert_file_put :: "io_env \<Rightarrow> u32 \<Rightarrow> sc_node \<Rightarrow> u32 \<Rightarrow> bytes \<Rightarrow> sc_node option" where
  "cert_file_put env i n start data =
     (case WriteCertificateFile env n i start data of (n', Inr _) \<Rightarrow> Some n' | _ \<Rightarrow> None)"

lemma sint_of_nat_small: "k < 2 ^ 31 \<Longrightarrow> sint (of_nat k :: u32) = int k"
  by (simp add: signed_of_nat signed_take_bit_int_eq_self)

interpretation cert_file: stream_store "cert_file_inv i" "\<lambda>n. Effective (cert n) i"
    "\<lambda>n start count most. ReadCertificateFile n i start count most" "cert_file_put env i" MAX_FILE_BYTES
  for env i
proof unfold_locales
  fix n assume "cert_file_inv i n"
  then show "length (Effective (cert n) i) < 2 ^ 31" by (simp add: cert_file_inv_def)
next
  fix n :: sc_node and start count most :: u32
  assume inv: "cert_file_inv i n" and s: "unat start \<le> length (Effective (cert n) i)"
  then obtain b where b: "CertRead (cert n) i = Some b" by (auto simp: cert_file_inv_def)
  then have eff: "Effective (cert n) i = b" by (simp add: Effective_def)
  let ?L = "of_nat (length b) :: u32"
  have len: "unat ?L = length b" using inv eff by (intro unat_of_nat_u32) (simp add: cert_file_inv_def)
  have le: "start \<le> ?L" using s eff len by (simp add: word_le_nat_alt)
  define m where "m = (let toCopy = (if count < ?L - start then count else ?L - start)
     in if most < toCopy then most else toCopy)"
  note w = read_window [OF le, where count = count and most = most, folded m_def]
  have "ReadCertificateFile n i start count most =
      Some (take (unat m) (drop (unat start) b), length b \<le> unat (start + m))"
    using inv s eff b by (simp add: ReadCertificateFile_def cert_file_inv_def m_def Let_def)
  also have "take (unat m) (drop (unat start) b) = take (min (unat count) (unat most)) (drop (unat start) b)"
    unfolding w(1) len by (rule take_window)
  also have "length b \<le> unat (start + m) \<longleftrightarrow> length b \<le> unat start + min (unat count) (unat most)"
    unfolding w len using s unfolding eff by arith
  finally show "ReadCertificateFile n i start count most =
      Some (take (min (unat count) (unat most)) (drop (unat start) (Effective (cert n) i)),
            length (Effective (cert n) i) \<le> unat start + min (unat count) (unat most))"
    by (simp only: eff)
next
  fix n :: sc_node and start :: nat and data :: bytes
  let ?s = "cert n" and ?c = "Effective (cert n) i"
  assume inv: "cert_file_inv i n" and s: "start \<le> length ?c" "start + length data \<le> MAX_FILE_BYTES"
  have ok: "store_inv ?s" "file_instances_ok ?s" using inv by (simp_all add: cert_file_inv_def)
  have sint: "sint (of_nat start :: u32) = int start" using s(2) by (intro sint_of_nat_small) simp
  obtain s' r where W: "CertWrite env ?s i (of_nat start) data = (s', r)" by fastforce
  have "Stage env ?s i \<noteq> None"
    using inv by (auto simp: cert_file_inv_def Stage_def Let_def split: option.split)
  then obtain s1 st where S: "Stage env ?s i = Some (s1, st)" by auto
  have "stagedBytes st = ?c" by (rule Stage_Effective(2) [OF ok S])
  with W S s sint have r: "\<exists>ack. r = Inr ack" by (auto simp: CertWrite_def Let_def)
  then obtain ack where ack: "r = Inr ack" by blast
  note A = CertWrite_accepted [OF ok W [unfolded ack], unfolded sint]
  then obtain m where s': "s' = restage ?s i \<lparr>stagedBytes = splice start data ?c, stagedModified = m\<rparr>" by auto
  have i0: "i \<noteq> 0" using A(6) ok(2) by (auto simp: file_instances_ok_def)
  have lay: "layout_ok (g_layout ?s)" using ok(1) by (simp add: store_inv_def)
  have read: "CertRead s' i = Some (splice start data ?c)" by (simp add: s' CertRead_restage [OF lay i0])
  have "store_inv s'" unfolding s' by (rule store_inv_restage [OF ok(1) A(6)])
  moreover have "file_instances_ok s'" "g_layout s' = g_layout ?s" using ok(2) by (simp_all add: s' file_instances_ok_def)
  moreover have "length (splice start data ?c) < 2 ^ 31"
    using s inv by (auto simp: splice_def cert_file_inv_def)
  ultimately have "cert_file_inv i (n\<lparr>cert := s'\<rparr>)"
    using inv read by (simp add: cert_file_inv_def Effective_def)
  moreover have "cert_file_put env i n (of_nat start) data = Some (n\<lparr>cert := s'\<rparr>)"
    using inv W ack by (simp add: cert_file_put_def WriteCertificateFile_def cert_file_inv_def)
  moreover have "Effective (cert (n\<lparr>cert := s'\<rparr>)) i = take start ?c @ data @ drop (start + length data) ?c"
    using read by (simp add: Effective_def splice_def)
  ultimately show "\<exists>s'. cert_file_put env i n (of_nat start) data = Some s' \<and> cert_file_inv i s' \<and>
      Effective (cert s') i = take start ?c @ data @ drop (start + length data) ?c" by blast
qed

end
