(* ===== verification/Cert_Properties.thy ===== *)
theory Cert_Properties
  imports Cert_Activate
begin

text \<open>
  The correctness properties of the certificate store: what a staged write, a commit, a
  validation, a key generation and the PEM splitter promise, and the helper lemmas they need
  about the two key files.
\<close>

section \<open>A concrete store\<close>

text \<open>
  Three File objects (1 operational, 2 and 3 issuers, 3 falling back to 2, 4 the request), one
  of them staged; the witnesses of this theory evaluate on it.
\<close>

definition demo_layout :: Layout where
  "demo_layout = \<lparr>paths = [1 \<mapsto> ''op'', 2 \<mapsto> ''ca1'', 3 \<mapsto> ''ca2'', 4 \<mapsto> ''csr''],
     readFallbackInstances = [3 \<mapsto> 2], operationalInstance = 1, issuerInstances = [2, 3],
     privateKeyPath = ''key'', pendingPrivateKeyPath = ''new'', csrInstance = 4\<rparr>"

definition demo_store :: cert_store where
  "demo_store = \<lparr>g_layout = demo_layout, g_staged = [(1, \<lparr>stagedBytes = [7, 8, 9], stagedModified = 5\<rparr>)],
     g_commitPromotesPendingKey = False,
     disk = [''op'' \<mapsto> \<lparr>fileBytes = [1, 2], fileModified = 1\<rparr>,
             ''ca1'' \<mapsto> \<lparr>fileBytes = [3], fileModified = 1\<rparr>,
             ''key'' \<mapsto> \<lparr>fileBytes = [4], fileModified = 1\<rparr>]\<rparr>"

definition good_disk :: io_env where
  "good_disk = \<lparr>writeOk = (\<lambda>_. True), renameOk = (\<lambda>_. True), timeNow = 9\<rparr>"

lemma demo_layout_ok: "layout_ok demo_layout"
  by (auto simp: layout_ok_def demo_layout_def inj_on_def tmp_of_def ran_def split: if_splits)

lemma demo_ran: "ran (paths demo_layout) = {''csr'', ''ca2'', ''ca1'', ''op''}"
  by (simp add: demo_layout_def)

lemma demo_store_inv: "store_inv demo_store" "file_instances_ok demo_store"
  using demo_layout_ok
  by (simp_all add: store_inv_def demo_store_def file_instances_ok_def, simp_all add: demo_layout_def)

text \<open>Crypto for the witnesses: a certificate and a key are their text, and all of them fit.\<close>

definition demo_crypto :: "(bytes, bytes) crypto" where
  "demo_crypto = \<lparr>readX509 = Some, readKey = Some, keyMatches = (\<lambda>c k. True), isCa = (\<lambda>c. False),
     verifies = (\<lambda>leaf untrusted store server. True), writeX509 = Some,
     newRequest = (\<lambda>c. Some ([5], [6]))\<rparr>"

definition demo_pem :: bytes where
  "demo_pem = octets ''-----BEGIN CERTIFICATE-----M-----END CERTIFICATE-----'' @ [10]"

definition pem_store :: cert_store where
  "pem_store = demo_store\<lparr>g_staged := [(1, \<lparr>stagedBytes = demo_pem, stagedModified = 5\<rparr>)],
     disk := (disk demo_store)(''ca1'' \<mapsto> \<lparr>fileBytes = demo_pem, fileModified = 1\<rparr>)\<rparr>"

lemma demo_crypto_simps [simp]:
  "keyMatches demo_crypto c k" "\<not> isCa demo_crypto c" "verifies demo_crypto c u i server"
  "newRequest demo_crypto c = Some ([5], [6])"
  by (simp_all add: demo_crypto_def)

lemma demo_pem_parses: "ParseCertificates demo_crypto demo_pem = Inr [butlast demo_pem]"
  by code_simp

section \<open>Staged writes\<close>



section \<open>Committing\<close>

text \<open>
  C3: a commit that reports success has emptied the stage, every staged file's bytes are in its
  file on disk, and no File object reads differently from before the commit.
\<close>

theorem CommitStaged_preserves_contents:
  assumes "store_inv s" "CommitStaged env s = (s', True)"
  shows "g_staged s' = [] \<and> g_layout s' = g_layout s \<and> store_inv s' \<and>
    (\<forall>j. CertRead s' j = CertRead s j) \<and>
    (\<forall>i st p. map_of (g_staged s) i = Some st \<longrightarrow> paths (g_layout s) i = Some p \<longrightarrow>
       disk s' p = Some \<lparr>fileBytes = stagedBytes st, fileModified = timeNow env\<rparr>)"
proof -
  note C = CommitStaged_success [OF assms]
  have "disk s' p = Some \<lparr>fileBytes = stagedBytes st, fileModified = timeNow env\<rparr>"
    if "map_of (g_staged s) i = Some st" "paths (g_layout s) i = Some p" for i st p
    using C(4) [of i st] that C(2) by (simp add: disk_view_def staged_file_def)
  moreover have "store_inv s'" using C(1,2) assms(1) by (simp add: store_inv_def)
  ultimately show ?thesis using C(1-3) by simp
qed

theorem CommitStaged_preserves_contents_witness:
  "g_staged (fst (CommitStaged good_disk demo_store)) = [] \<and>
   CertRead (fst (CommitStaged good_disk demo_store)) 1 = Some [7, 8, 9]"
proof -
  have "snd (CommitStaged good_disk demo_store)"
    by (simp add: CommitStaged_def demo_store_def demo_layout_def good_disk_def WriteTempFile_def
        ReplaceWithTemp_def rename_file_def remove_file_def tmp_of_def Let_def)
  then have "CommitStaged good_disk demo_store = (fst (CommitStaged good_disk demo_store), True)"
    by (simp add: prod_eq_iff)
  from CommitStaged_preserves_contents [OF demo_store_inv(1) this] show ?thesis
    by (simp add: CertRead_staged demo_store_def)
qed

text \<open>
  A commit that cannot write one of the temporary files fails, and changes nothing but
  temporary files: every certificate and key file, and the whole stage, are as before.
\<close>

lemma CommitStaged_no_space_changes_nothing:
  assumes "(i, st) \<in> set (g_staged s)" "paths (g_layout s) i = Some p" "\<not> writeOk env (tmp_of p)"
  shows "snd (CommitStaged env s) = False \<and> g_staged (fst (CommitStaged env s)) = g_staged s \<and>
    (\<forall>q. q \<notin> range tmp_of \<longrightarrow> disk (fst (CommitStaged env s)) q = disk s q)"
proof -
  obtain s1 where w: "write_temps env s (g_staged s) [] = (s1, None)"
    using write_temps_fails [OF assms] by blast
  note F = CommitStaged_write_failure [OF w]
  from F(2) obtain d where "s1 = s\<lparr>disk := d\<rparr>" unfolding same_but_temps_def by blast
  with F show ?thesis by (simp add: same_but_temps_def)
qed

lemma replace_all_other:
  "replace_all env s ps = (s', b) \<Longrightarrow> q \<notin> set ps \<Longrightarrow> q \<notin> tmp_of ` set ps \<Longrightarrow> disk s' q = disk s q"
proof (induction env s ps rule: replace_all.induct)
  case (2 env s p ps)
  obtain s1 ok where r: "ReplaceWithTemp env s p = (s1, ok)" by fastforce
  have "disk s1 q = disk s q"
    using r 2(3,4) by (auto simp: ReplaceWithTemp_def rename_file_def split: option.splits if_splits)
  with 2 r show ?case by (cases ok) auto
qed simp

text \<open>A commit ends with the pending key in the private key's place exactly when it promotes it.\<close>

lemma CommitStaged_private_key:
  assumes "store_inv s" "CommitStaged env s = (s', True)"
  shows "disk s' (privateKeyPath (g_layout s)) =
    (if g_commitPromotesPendingKey s then disk s (pendingPrivateKeyPath (g_layout s))
     else disk s (privateKeyPath (g_layout s)))"
proof -
  let ?key = "privateKeyPath (g_layout s)" and ?new = "pendingPrivateKeyPath (g_layout s)"
  obtain s1 ps s2 where w: "write_temps env s (g_staged s) [] = (s1, Some ps)"
    and r: "replace_all env s1 ps = (s2, True)"
    using assms(2) by (auto simp: CommitStaged_def split: prod.splits option.splits bool.splits)
  have lay: "layout_ok (g_layout s)" and dis: "distinct (map fst (g_staged s))"
    using assms(1) by (simp_all add: store_inv_def)
  have inj: "inj_on (paths (g_layout s)) (dom (paths (g_layout s)))"
    using lay by (simp add: layout_ok_def)
  have files: "the (paths (g_layout s) i) \<in> ran (paths (g_layout s))" if "i \<in> fst ` set (g_staged s)" for i
    using assms(1) that by (force simp: store_inv_def ran_def)
  have keys: "k \<notin> ran (paths (g_layout s))" "k \<notin> tmp_of ` ran (paths (g_layout s))" if "k \<in> {?key, ?new}" for k
    using lay that unfolding layout_ok_def by blast+
  note W = write_temps_Some [OF w inj dis]
  have s1k: "disk s1 k = disk s k" if "k \<in> {?key, ?new}" for k
  proof -
    have "k \<notin> (\<lambda>(i, st). tmp_of (the (paths (g_layout s) i))) ` set (g_staged s)"
      using keys(2) [OF that] files by force
    with W show ?thesis by blast
  qed
  have ps: "set ps \<subseteq> ran (paths (g_layout s))" using W files by force
  note R = replace_all_staged_disk(1) [OF assms(1) w r]
  have s2k: "disk s2 k = disk s k" if "k \<in> {?key, ?new}" for k
  proof -
    have "k \<notin> set ps" "k \<notin> tmp_of ` set ps" using keys [OF that] ps by blast+
    then have "disk s2 k = disk s1 k" by (rule replace_all_other [OF r])
    with s1k [OF that] show ?thesis by simp
  qed
  have lay2: "g_layout s2 = g_layout s" and pr2: "g_commitPromotesPendingKey s2 = g_commitPromotesPendingKey s"
    by (subst R, simp)+
  show ?thesis
    using assms(2) w r lay2 pr2 s2k [of ?key] s2k [of ?new]
    by (auto simp: CommitStaged_def PromotePendingKey_def rename_file_def Let_def
        split: if_splits option.splits prod.splits)
qed

section \<open>Activation\<close>

text \<open>
  What README and cert_store.h promise of an activation: the issuers parse and there is at
  least one, the operational file parses and starts with the leaf, the node holds its key, the
  leaf is not a CA, and it chains to the issuers for both TLS purposes, through one issuer or
  through all of them.
\<close>

definition chains_to :: "('cert, 'key) crypto \<Rightarrow> 'cert \<Rightarrow> 'cert list \<Rightarrow> 'cert list \<Rightarrow> bool \<Rightarrow> bool" where
  "chains_to cr leaf untrusted issuers server \<longleftrightarrow>
     (\<exists>i \<in> set issuers. verifies cr leaf untrusted [i] server) \<or>
     2 \<le> length issuers \<and> verifies cr leaf untrusted issuers server"

definition holds_key :: "('cert, 'key) crypto \<Rightarrow> cert_store \<Rightarrow> 'cert \<Rightarrow> path \<Rightarrow> bool" where
  "holds_key cr s leaf p \<longleftrightarrow> (\<exists>k. LoadKey cr s p = Some k \<and> keyMatches cr leaf k)"

definition activatable :: "('cert, 'key) crypto \<Rightarrow> cert_store \<Rightarrow> bool" where
  "activatable cr s \<longleftrightarrow>
     (\<exists>issuers leaf untrusted.
        collect_issuers cr s (issuerInstances (g_layout s)) = Inr issuers \<and> issuers \<noteq> [] \<and>
        ParseCertificates cr (Effective s (operationalInstance (g_layout s))) = Inr (leaf # untrusted) \<and>
        (\<exists>p \<in> {privateKeyPath (g_layout s), pendingPrivateKeyPath (g_layout s)}. holds_key cr s leaf p) \<and>
        \<not> isCa cr leaf \<and> (\<forall>server. chains_to cr leaf untrusted issuers server))"

lemma ChainsToIssuers_chains_to: "ChainsToIssuers cr leaf untrusted issuers server = chains_to cr leaf untrusted issuers server"
  by (auto simp: ChainsToIssuers_def chains_to_def list_ex_iff)

lemma check_keys_cases:
  "check_keys cr s leaf = Inr True \<longleftrightarrow> \<not> holds_key cr s leaf (privateKeyPath (g_layout s)) \<and>
     holds_key cr s leaf (pendingPrivateKeyPath (g_layout s))"
  "check_keys cr s leaf = Inr False \<longleftrightarrow> holds_key cr s leaf (privateKeyPath (g_layout s))"
  by (auto simp: check_keys_def holds_key_def Let_def split: option.splits if_splits)

lemma ValidateStaged_None:
  assumes "snd (ValidateStaged cr s) = None"
  obtains issuers leaf untrusted b where "collect_issuers cr s (issuerInstances (g_layout s)) = Inr issuers"
    "issuers \<noteq> []" "ParseCertificates cr (Effective s (operationalInstance (g_layout s))) = Inr (leaf # untrusted)"
    "check_keys cr s leaf = Inr b" "\<not> isCa cr leaf" "\<And>server. chains_to cr leaf untrusted issuers server"
    "fst (ValidateStaged cr s) = s\<lparr>g_commitPromotesPendingKey := b\<rparr>"
proof -
  obtain issuers leaf untrusted b where *:
    "collect_issuers cr s (issuerInstances (g_layout s)) = Inr issuers" "issuers \<noteq> []"
    "ParseCertificates cr (Effective s (operationalInstance (g_layout s))) = Inr (leaf # untrusted)"
    "check_keys cr s leaf = Inr b" "\<not> isCa cr leaf"
    "ChainsToIssuers cr leaf untrusted issuers True" "ChainsToIssuers cr leaf untrusted issuers False"
    using assms by (auto simp: ValidateStaged_def Let_def split: sum.splits list.splits if_splits)
  have "chains_to cr leaf untrusted issuers server" for server
    using *(6,7) by (cases server) (simp_all add: ChainsToIssuers_chains_to)
  moreover have "fst (ValidateStaged cr s) = s\<lparr>g_commitPromotesPendingKey := b\<rparr>"
    using * by (simp add: ValidateStaged_def Let_def split: list.splits)
  ultimately show thesis using that [OF *(1-5)] by blast
qed

lemma ValidateStaged_None_iff: "snd (ValidateStaged cr s) = None \<longleftrightarrow> activatable cr s"
proof
  assume "snd (ValidateStaged cr s) = None"
  then obtain issuers leaf untrusted b where *:
    "collect_issuers cr s (issuerInstances (g_layout s)) = Inr issuers" "issuers \<noteq> []"
    "ParseCertificates cr (Effective s (operationalInstance (g_layout s))) = Inr (leaf # untrusted)"
    "check_keys cr s leaf = Inr b" "\<not> isCa cr leaf" "\<And>server. chains_to cr leaf untrusted issuers server"
    by (rule ValidateStaged_None) blast
  from *(4) have "\<exists>p \<in> {privateKeyPath (g_layout s), pendingPrivateKeyPath (g_layout s)}. holds_key cr s leaf p"
    by (cases b) (simp_all add: check_keys_cases)
  with * show "activatable cr s" unfolding activatable_def by blast
next
  assume "activatable cr s"
  then obtain issuers leaf untrusted where *:
    "collect_issuers cr s (issuerInstances (g_layout s)) = Inr issuers" "issuers \<noteq> []"
    "ParseCertificates cr (Effective s (operationalInstance (g_layout s))) = Inr (leaf # untrusted)"
    "\<exists>p \<in> {privateKeyPath (g_layout s), pendingPrivateKeyPath (g_layout s)}. holds_key cr s leaf p"
    "\<not> isCa cr leaf" "\<And>server. chains_to cr leaf untrusted issuers server"
    unfolding activatable_def by blast
  from *(4) obtain b where "check_keys cr s leaf = Inr b"
    using check_keys_cases [of cr s leaf] by (cases "holds_key cr s leaf (privateKeyPath (g_layout s))") auto
  with * show "snd (ValidateStaged cr s) = None"
    by (auto simp: ValidateStaged_def ChainsToIssuers_chains_to Let_def split: list.split)
qed

lemma ValidateStaged_frame: "fst (ValidateStaged cr s) =
     s\<lparr>g_commitPromotesPendingKey := g_commitPromotesPendingKey (fst (ValidateStaged cr s))\<rparr>"
  by (simp add: ValidateStaged_def Let_def split: sum.split list.split)


lemma pem_store_simps:
  "g_layout pem_store = demo_layout" "operationalInstance demo_layout = 1" "issuerInstances demo_layout = [2, 3]"
  "LoadKey demo_crypto pem_store (privateKeyPath demo_layout) = Some [4]"
  by (simp_all add: pem_store_def demo_store_def demo_layout_def LoadKey_def ReadDisk_def demo_crypto_def)

lemma pem_store_activatable: "snd (ValidateStaged demo_crypto pem_store) = None"
proof -
  have "Effective pem_store 1 = demo_pem" "Effective pem_store 2 = demo_pem" "Effective pem_store 3 = demo_pem"
    by (simp_all add: Effective_def CertRead_def numeral_2_eq_2 pem_store_def demo_store_def demo_layout_def
        FallbackInstance_def OwnPath_def ReadDisk_def)
  then have "collect_issuers demo_crypto pem_store [2, 3] = Inr [butlast demo_pem, butlast demo_pem]"
    and "ParseCertificates demo_crypto (Effective pem_store 1) = Inr [butlast demo_pem]"
    by (simp_all add: demo_pem_parses)
  then show ?thesis
    by (simp add: ValidateStaged_def check_keys_def pem_store_simps ChainsToIssuers_def Let_def
        del: collect_issuers.simps)
qed


section \<open>Key generation\<close>

lemma WriteTempFile_other:
  "WriteTempFile env s p b = (s', ok) \<Longrightarrow> g_staged s' = g_staged s \<and> g_layout s' = g_layout s \<and>
     (q \<noteq> tmp_of p \<longrightarrow> disk s' q = disk s q)"
  by (auto simp: WriteTempFile_def remove_file_def Let_def split: if_splits)

lemma ReplaceWithTemp_other:
  "ReplaceWithTemp env s p = (s', ok) \<Longrightarrow> g_staged s' = g_staged s \<and> g_layout s' = g_layout s \<and>
     (q \<noteq> tmp_of p \<longrightarrow> q \<noteq> p \<or> \<not> ok \<longrightarrow> disk s' q = disk s q)"
  by (auto simp: ReplaceWithTemp_def rename_file_def split: if_splits option.splits)

lemma remove_file_simps [simp]:
  "g_staged (remove_file s p) = g_staged s" "g_layout (remove_file s p) = g_layout s"
  "disk (remove_file s p) q = (if q = p then None else disk s q)"
  by (simp_all add: remove_file_def)

lemma GenerateKeyAndCsr_request:
  assumes "paths (g_layout s) (csrInstance (g_layout s)) = Some csr"
    "csr \<noteq> new" "csr \<noteq> tmp_of new" "new \<noteq> tmp_of csr"
    "pendingPrivateKeyPath (g_layout s) = new"
  shows "(\<forall>q. q \<notin> {new, csr, tmp_of new, tmp_of csr} \<longrightarrow>
            disk (fst (GenerateKeyAndCsr cr env s)) q = disk s q) \<and>
    (snd (GenerateKeyAndCsr cr env s) \<noteq> None \<longrightarrow> disk (fst (GenerateKeyAndCsr cr env s)) csr = disk s csr) \<and>
    (snd (GenerateKeyAndCsr cr env s) = None \<longrightarrow>
       (\<exists>leaf untrusted key req. ParseCertificates cr (Effective s (operationalInstance (g_layout s))) = Inr (leaf # untrusted) \<and>
          newRequest cr leaf = Some (key, req) \<and>
          ReadDisk (fst (GenerateKeyAndCsr cr env s)) new = Some key \<and>
          ReadDisk (fst (GenerateKeyAndCsr cr env s)) csr = Some req))"
proof -
  note defs = GenerateKeyAndCsr_def WriteTempFile_def ReplaceWithTemp_def rename_file_def remove_file_def
    ReadDisk_def
  consider (early) "fst (GenerateKeyAndCsr cr env s) = s" "snd (GenerateKeyAndCsr cr env s) \<noteq> None"
    | (request) leaf untrusted key req where "g_staged s = []" "new \<noteq> []"
      "ParseCertificates cr (Effective s (operationalInstance (g_layout s))) = Inr (leaf # untrusted)"
      "newRequest cr leaf = Some (key, req)"
  proof (cases "g_staged s = [] \<and> new \<noteq> []")
    case True
    show thesis
    proof (cases "\<exists>leaf untrusted key req. newRequest cr leaf = Some (key, req) \<and>
        ParseCertificates cr (Effective s (operationalInstance (g_layout s))) = Inr (leaf # untrusted)")
      case False
      then show thesis
        by (intro early) (auto simp: GenerateKeyAndCsr_def assms(1,5) Let_def split: sum.split list.split option.split)
    qed (use True request in blast)
  qed (rule early; auto simp: GenerateKeyAndCsr_def assms(1,5))
  then show ?thesis
  proof cases
    case request
    show ?thesis
      using assms(2-4)
      by (simp add: defs request assms(1,5) Let_def split: option.split)
  qed auto
qed

text \<open>
  C27: key generation never touches the node's private key, its operational certificate or its
  issuers, whatever fails; a failure also leaves the old signing request in place, and a success
  leaves the new key in the pending file and the request made with it in the request's file.
\<close>

theorem GenerateKeyAndCsr_keeps_credentials:
  assumes "layout_ok (g_layout s)" "paths (g_layout s) (csrInstance (g_layout s)) = Some csr"
    and "pendingPrivateKeyPath (g_layout s) = new"
    and "\<forall>p \<in> {privateKeyPath (g_layout s)} \<union> ran (paths (g_layout s)). p \<noteq> tmp_of new \<and> p \<noteq> new"
  shows "(\<forall>p \<in> {privateKeyPath (g_layout s)} \<union> ran (paths (g_layout s)) - {csr}.
            disk (fst (GenerateKeyAndCsr cr env s)) p = disk s p) \<and>
    (case snd (GenerateKeyAndCsr cr env s) of
       Some e \<Rightarrow> disk (fst (GenerateKeyAndCsr cr env s)) csr = disk s csr
     | None \<Rightarrow> \<exists>leaf untrusted key req.
         ParseCertificates cr (Effective s (operationalInstance (g_layout s))) = Inr (leaf # untrusted) \<and>
         newRequest cr leaf = Some (key, req) \<and>
         ReadDisk (fst (GenerateKeyAndCsr cr env s)) new = Some key \<and>
         ReadDisk (fst (GenerateKeyAndCsr cr env s)) csr = Some req)"
proof -
  have csr: "csr \<in> ran (paths (g_layout s))" using assms(2) by (auto simp: ran_def)
  have neq: "csr \<noteq> new" "csr \<noteq> tmp_of new" using assms(4) csr by auto
  have new: "new \<noteq> tmp_of csr" using assms(1,3) csr by (auto simp: layout_ok_def)
  note G = GenerateKeyAndCsr_request [OF assms(2) neq new assms(3), of cr env]
  have "p \<notin> {new, csr, tmp_of new, tmp_of csr}"
    if "p \<in> {privateKeyPath (g_layout s)} \<union> ran (paths (g_layout s)) - {csr}" for p
    using that assms(1,4) csr by (auto simp: layout_ok_def)
  with G show ?thesis by (auto split: option.split)
qed

theorem GenerateKeyAndCsr_keeps_credentials_witness:
  "disk (fst (GenerateKeyAndCsr demo_crypto good_disk (pem_store\<lparr>g_staged := []\<rparr>))) ''key'' =
     Some \<lparr>fileBytes = [4], fileModified = 1\<rparr>"
proof -
  let ?s = "pem_store\<lparr>g_staged := []\<rparr>"
  have files: "\<forall>p \<in> {privateKeyPath (g_layout ?s)} \<union> ran (paths (g_layout ?s)). p \<noteq> tmp_of ''new'' \<and> p \<noteq> ''new''"
    by (simp add: pem_store_simps demo_ran, simp add: demo_layout_def tmp_of_def)
  have "privateKeyPath (g_layout ?s) = ''key''" "''key'' \<notin> {''csr''}" "disk ?s ''key'' = Some \<lparr>fileBytes = [4], fileModified = 1\<rparr>"
    by (simp_all add: pem_store_def demo_store_def demo_layout_def)
  with GenerateKeyAndCsr_keeps_credentials [of ?s "''csr''" "''new''" demo_crypto good_disk, OF _ _ _ files]
  show ?thesis using demo_layout_ok by (simp add: pem_store_simps) (simp add: demo_layout_def)
qed

section \<open>The PEM splitter\<close>

text \<open>The text between blocks, interleaved with them.\<close>

fun interleave :: "bytes list \<Rightarrow> bytes list \<Rightarrow> bytes" where
  "interleave (g # gs) (b # bs) = g @ b @ interleave gs bs"
| "interleave gs [] = concat gs"
| "interleave [] bs = concat bs"

definition pem_block :: "bytes \<Rightarrow> bytes \<Rightarrow> bool" where
  "pem_block label b \<longleftrightarrow> (\<exists>body. b = pem_begin @ label @ body @ pem_end label)"

lemma find_sub_split:
  assumes "find_sub pat xs = Some n"
  shows "xs = take n xs @ pat @ drop (n + length pat) xs"
proof -
  have "drop n xs = pat @ drop (length pat) (drop n xs)"
    using find_sub_Some [OF assms] by (metis append_take_drop_id)
  then show ?thesis by (metis add.commute append_take_drop_id drop_drop)
qed

lemma find_sub_drop:
  assumes "find_sub pat xs = Some n"
  shows "drop n xs = pat @ drop (n + length pat) xs" "length (take n xs) = n"
  using find_sub_Some [OF assms] find_sub_split [OF assms]
  by (metis append_take_drop_id same_append_eq, simp)

lemma SplitPemBlocks_Inr_cases:
  assumes "SplitPemBlocks label rest = Inr blocks"
  obtains (last) "blocks = []" "set rest \<subseteq> set ws_octets"
  | (block) gap body rest' bs where "blocks = (pem_begin @ label @ body @ pem_end label) # bs"
      "rest = gap @ pem_begin @ label @ body @ pem_end label @ rest'"
      "set gap \<subseteq> set ws_octets" "SplitPemBlocks label rest' = Inr bs" "length rest' < length rest"
proof (cases "find_sub pem_begin rest")
  case None
  with assms have "blocks = []" "set rest \<subseteq> set ws_octets"
    by (auto simp: SplitPemBlocks.simps [of label rest] Let_def split: if_splits)
  then show thesis by (rule last)
next
  case (Some m)
  define after where "after = drop 11 (drop m rest)"
  have from_begin: "drop m rest = pem_begin @ after"
    using find_sub_drop(1) [OF Some] by (simp add: after_def add.commute)
  note unfolded = SplitPemBlocks.simps [of label rest, unfolded Let_def Some, simplified, folded drop_drop after_def]
  obtain n where n: "find_sub pem_dashes after = Some n" "take n after = label"
    and gap: "set (take m rest) \<subseteq> set ws_octets"
    using assms by (auto simp: unfolded after_def split: if_splits option.splits)
  obtain e where e: "find_sub (pem_end label) (drop n after) = Some e"
    using assms n by (auto simp: unfolded after_def split: if_splits option.splits)
  define body where "body = take e (drop n after)"
  define rest' where "rest' = drop (e + length (pem_end label)) (drop n after)"
  have after: "after = label @ body @ pem_end label @ rest'"
    using find_sub_split [OF e] n(2) unfolding body_def rest'_def by (metis append_take_drop_id)
  have len: "length label = n" "length body = e"
    using find_sub_Some [OF n(1)] n(2) find_sub_drop(2) [OF e] unfolding body_def by auto
  have rest: "rest = take m rest @ pem_begin @ label @ body @ pem_end label @ rest'"
    using from_begin after by (metis append_take_drop_id)
  have shorter: "length rest' < length rest"
    by (subst rest) simp
  let ?n = "11 + n + e + length (pem_end label)"
  have cut: "take ?n (drop m rest) = pem_begin @ label @ body @ pem_end label" "drop ?n (drop m rest) = rest'"
    unfolding from_begin after using len by simp_all
  obtain bs where "SplitPemBlocks label rest' = Inr bs" "blocks = take ?n (drop m rest) # bs"
    using assms Some n e gap cut(2)
    by (auto simp: SplitPemBlocks.simps [of label rest] Let_def subset_iff after_def add.commute
        split: sum.splits if_splits)
  then show thesis using block [OF _ rest gap _ shorter] cut(1) by simp
qed

text \<open>
  When \<open>SplitPemBlocks\<close> accepts a text it has accounted for every byte of it: the text is the
  blocks it returns, each from its BEGIN line to its END line of the label asked for, with white
  space only before, between and after them.
\<close>

lemma SplitPemBlocks_accounts_for_all:
  assumes "SplitPemBlocks label rest = Inr blocks"
  shows "\<exists>gaps. length gaps = Suc (length blocks) \<and> rest = interleave gaps blocks \<and>
     (\<forall>g \<in> set gaps. set g \<subseteq> set ws_octets) \<and> (\<forall>b \<in> set blocks. pem_block label b)"
  using assms
proof (induction "length rest" arbitrary: rest blocks rule: less_induct)
  case less
  from less.prems show ?case
  proof (cases rule: SplitPemBlocks_Inr_cases)
    case last
    then show ?thesis by (intro exI [of _ "[rest]"]) simp
  next
    case (block gap body rest' bs)
    from less.hyps [OF block(5) block(4)] obtain gaps where
      "length gaps = Suc (length bs)" "rest' = interleave gaps bs"
      "\<forall>g \<in> set gaps. set g \<subseteq> set ws_octets" "\<forall>b \<in> set bs. pem_block label b" by blast
    with block show ?thesis by (intro exI [of _ "gap # gaps"]) (auto simp: pem_block_def)
  qed
qed

end
