(* ===== verification/Sc_Properties.thy ===== *)
theory Sc_Properties
  imports Sc_Node Cert_Properties
begin

text \<open>
  The correctness properties of the BACnet/SC side: the activation of a certificate set by the
  node, and the hub connections (reachable states, reassembly of frames, the send queue).
\<close>

section \<open>Activation by the node\<close>

lemma AtomicWriteFileToDisk_other:
  "AtomicWriteFileToDisk env s p b = (s', ok) \<Longrightarrow>
   g_layout s' = g_layout s \<and> g_staged s' = g_staged s \<and> (q \<notin> {p, tmp_of p} \<longrightarrow> disk s' q = disk s q)"
  by (auto simp: AtomicWriteFileToDisk_def WriteTempFile_def ReplaceWithTemp_def rename_file_def Let_def
      split: if_splits option.splits)

lemma WriteTrustedIssuerBundle_other:
  "WriteTrustedIssuerBundle cr env s p = (s', ok) \<Longrightarrow>
   g_layout s' = g_layout s \<and> g_staged s' = g_staged s \<and> (q \<notin> {p, tmp_of p} \<longrightarrow> disk s' q = disk s q)"
  by (auto simp: WriteTrustedIssuerBundle_def Let_def AtomicWriteFileToDisk_other split: if_splits)

lemma CertRead_same_files:
  assumes "g_layout s' = g_layout s" "g_staged s' = g_staged s"
    "\<forall>p \<in> ran (paths (g_layout s)). disk s' p = disk s p"
  shows "CertRead s' j = CertRead s j"
proof -
  have own: "OwnPath s' = OwnPath s" using assms(1) by (simp add: OwnPath_def fun_eq_iff)
  have d: "OwnPath s i \<noteq> [] \<Longrightarrow> disk s' (OwnPath s i) = disk s (OwnPath s i)" for i
    using assms(3) by (auto simp: OwnPath_def ran_def split: option.split)
  have fb: "FallbackInstance s' i = FallbackInstance s i" for i
    using assms(1,2) d [of i] by (auto simp: FallbackInstance_def own)
  have "Read_fuel n s' i = Read_fuel n s i" for n i
    by (induction n arbitrary: i)
      (use d in \<open>auto simp: assms(2) fb own Let_def ReadDisk_def split: option.split\<close>)
  then show ?thesis by (simp add: CertRead_def)
qed

definition bundle_apart :: "sc_node \<Rightarrow> bool" where
  "bundle_apart n \<longleftrightarrow> privateKeyPath (g_layout (cert n)) \<noteq> [] \<and>
     (\<forall>p \<in> {trustedIssuers n, tmp_of (trustedIssuers n)}.
     p \<noteq> privateKeyPath (g_layout (cert n)) \<and> p \<notin> ran (paths (g_layout (cert n))))"

text \<open>
  C1: an activation that the node reports as successful leaves it with a usable identity. With
  staged changes, the stage is empty afterwards, every File object still serves what it served
  before, and the private key on disk matches the leaf of the operational certificate file; an
  activation that fails has changed no file a client reads when validation refused the set.
\<close>

theorem ApplyStagedCertificates_keeps_identity:
  assumes "store_inv (cert n)" "bundle_apart n" "HasStagedChanges (cert n)"
    and "ApplyStagedCertificates cr env n = (n', r)"
  shows "(r = Inr () \<longrightarrow> activatable cr (cert n) \<and> g_staged (cert n') = [] \<and> g_reloadCredentialsRequested n' \<and>
       (\<forall>j. CertRead (cert n') j = CertRead (cert n) j) \<and>
       (\<exists>leaf untrusted. ParseCertificates cr (Effective (cert n') (operationalInstance (g_layout (cert n')))) =
            Inr (leaf # untrusted) \<and> holds_key cr (cert n') leaf (privateKeyPath (g_layout (cert n'))))) \<and>
    (\<not> activatable cr (cert n) \<longrightarrow> r = Inl ERROR_CODE_INVALID_CONFIGURATION_DATA \<and>
       g_staged (cert n') = g_staged (cert n) \<and> disk (cert n') = disk (cert n))"
proof -
  let ?s = "cert n"
  obtain s1 e where V: "ValidateStaged cr ?s = (s1, e)" by fastforce
  show ?thesis
  proof (cases e)
    case (Some err)
    then have "\<not> activatable cr ?s" using ValidateStaged_None_iff [of cr ?s] V by simp
    moreover have "s1 = ?s\<lparr>g_commitPromotesPendingKey := g_commitPromotesPendingKey s1\<rparr>"
      using ValidateStaged_frame [of cr ?s] V by simp
    then obtain b where "s1 = ?s\<lparr>g_commitPromotesPendingKey := b\<rparr>" by blast
    ultimately show ?thesis using assms(3,4) V Some
      by (auto simp: ApplyStagedCertificates_def split: option.splits)
  next
    case None
    with V obtain issuers leaf untrusted b where v:
      "ParseCertificates cr (Effective ?s (operationalInstance (g_layout ?s))) = Inr (leaf # untrusted)"
      "check_keys cr ?s leaf = Inr b" "s1 = ?s\<lparr>g_commitPromotesPendingKey := b\<rparr>"
      using ValidateStaged_None [of cr ?s] by (metis fst_conv snd_conv)
    have act: "activatable cr ?s" using ValidateStaged_None_iff [of cr ?s] V None by simp
    show ?thesis
    proof (cases "CommitStaged env s1")
      case (Pair s2 ok)
      show ?thesis
      proof (cases ok)
        case True
        have P: "CommitStaged env s1 = (s2, True)" using Pair True by simp
        have inv1: "store_inv s1" using assms(1) v(3) by (simp add: store_inv_def)
        note C = CommitStaged_success [OF inv1 P]
        obtain s3 w where B: "WriteTrustedIssuerBundle cr env s2 (trustedIssuers n) = (s3, w)" by fastforce
        note O = WriteTrustedIssuerBundle_other [OF B]
        have n': "cert n' = s3" "r = Inr ()" "g_reloadCredentialsRequested n'"
          using assms(3,4) V None Pair True B by (auto simp: ApplyStagedCertificates_def)
        have lay: "g_layout s3 = g_layout ?s" "g_layout s2 = g_layout ?s" using O C(2) v(3) by simp_all
        have read: "CertRead s3 j = CertRead ?s j" for j
        proof -
          have "\<forall>p \<in> ran (paths (g_layout s2)). disk s3 p = disk s2 p"
            using O assms(2) lay unfolding bundle_apart_def by (metis insert_iff singletonD)
          then have "CertRead s3 j = CertRead s2 j" using CertRead_same_files O by blast
          also have "\<dots> = CertRead s1 j" by (rule C(3))
          also have "\<dots> = CertRead ?s j" by (rule CertRead_same_files) (simp_all add: v(3))
          finally show ?thesis .
        qed
        have "disk s3 (privateKeyPath (g_layout ?s)) = disk s2 (privateKeyPath (g_layout ?s))"
          using O assms(2) by (auto simp: bundle_apart_def)
        also have "\<dots> = (if b then disk ?s (pendingPrivateKeyPath (g_layout ?s))
             else disk ?s (privateKeyPath (g_layout ?s)))"
          using CommitStaged_private_key [OF inv1 P] v(3) by simp
        finally have key: "disk s3 (privateKeyPath (g_layout ?s)) =
          (if b then disk ?s (pendingPrivateKeyPath (g_layout ?s)) else disk ?s (privateKeyPath (g_layout ?s)))" .
        have "privateKeyPath (g_layout ?s) \<noteq> []" using assms(2) by (simp add: bundle_apart_def)
        with key have "holds_key cr s3 leaf (privateKeyPath (g_layout ?s))"
          using v(2) by (cases b) (auto simp: check_keys_cases holds_key_def LoadKey_def ReadDisk_def split: if_splits)
        then show ?thesis using act n' C(1) O lay read v(1) by (auto simp: Effective_def)
      next
        case False
        then show ?thesis using assms(3,4) V None Pair act by (auto simp: ApplyStagedCertificates_def)
      qed
    qed
  qed
qed

definition pem_node :: sc_node where
  "pem_node = \<lparr>cert = pem_store, hub = \<lparr>g_context = True, g_connections = Map.empty, g_statusEvents = [],
       g_receivedFrames = [], g_reloading = False\<rparr>, g_reloadCredentialsRequested = False,
     g_hubConnectedEvent = False, g_primaryHubUri = ''wss://a'', g_failoverHubUri = ''wss://b'',
     g_hubConnectionStatus = 0, trustedIssuers = ''bundle''\<rparr>"

lemma pem_node_ok: "store_inv (cert pem_node)" "bundle_apart pem_node" "HasStagedChanges (cert pem_node)"
proof -
  show "store_inv (cert pem_node)" using demo_store_inv(1)
    by (simp add: pem_node_def store_inv_def pem_store_def demo_store_def)
  show "bundle_apart pem_node"
    by (simp add: pem_node_def bundle_apart_def pem_store_simps demo_ran, simp add: demo_layout_def tmp_of_def)
  show "HasStagedChanges (cert pem_node)"
    by (simp add: pem_node_def HasStagedChanges_def pem_store_def)
qed

lemma pem_node_activates: "snd (ApplyStagedCertificates demo_crypto good_disk pem_node) = Inr ()"
proof -
  obtain leaf b where b: "check_keys demo_crypto pem_store leaf = Inr b"
    "fst (ValidateStaged demo_crypto pem_store) = pem_store\<lparr>g_commitPromotesPendingKey := b\<rparr>"
    by (rule ValidateStaged_None [OF pem_store_activatable])
  then have "\<not> b" using check_keys_cases [of demo_crypto pem_store leaf]
    by (cases b) (auto simp: holds_key_def pem_store_simps)
  with b have V: "ValidateStaged demo_crypto pem_store = (pem_store\<lparr>g_commitPromotesPendingKey := False\<rparr>, None)"
    using pem_store_activatable by (simp add: prod_eq_iff)
  have "snd (CommitStaged good_disk (pem_store\<lparr>g_commitPromotesPendingKey := False\<rparr>))"
    by (simp add: CommitStaged_def pem_store_def demo_store_def demo_layout_def good_disk_def WriteTempFile_def
        ReplaceWithTemp_def rename_file_def remove_file_def tmp_of_def Let_def)
  then show ?thesis using pem_node_ok(3)
    by (auto simp: ApplyStagedCertificates_def pem_node_def V split: prod.split)
qed

theorem ApplyStagedCertificates_keeps_identity_witness:
  "\<exists>leaf. holds_key demo_crypto (cert (fst (ApplyStagedCertificates demo_crypto good_disk pem_node))) leaf
     (privateKeyPath (g_layout (cert (fst (ApplyStagedCertificates demo_crypto good_disk pem_node)))))"
  using ApplyStagedCertificates_keeps_identity [OF pem_node_ok surjective_pairing, of demo_crypto good_disk]
    pem_node_activates by blast

section \<open>Reading always ends\<close>

text \<open>
  C28: with the layout the node installs, distinct file names give a well-formed layout, and the
  recursion of \<open>Read\<close> and \<open>Stat\<close> through the fallback instance ends within two calls
  for every instance and every state of the stage and the disk.
\<close>

theorem CertRead_terminates:
  assumes "distinct [op, ca1, ca2, csr, key, new]" "\<forall>p \<in> {op, ca1, ca2, csr}. p \<noteq> []"
    "\<forall>p \<in> {op, ca1, ca2, csr, key, new}. \<forall>q \<in> {op, ca1, ca2, csr}. p \<noteq> tmp_of q"
    "g_layout s = sc_layout op ca1 ca2 csr key new" "2 \<le> fuel"
  shows "layout_ok (g_layout s) \<and> Read_fuel fuel s i = Some (CertRead s i) \<and>
    Stat_fuel fuel s i = Some (CertStat s i) \<and>
    map_option fst (CertStat s i) = map_option length (CertRead s i)"
proof -
  have lay: "layout_ok (g_layout s)" using sc_layout_ok [OF assms(1-3)] assms(4) by simp
  obtain n where "fuel = Suc (Suc n)" using assms(5) by (metis Suc_le_D numeral_2_eq_2 Suc_le_mono)
  then show ?thesis using lay Read_fuel_enough [OF lay] Stat_fuel_enough [OF lay] CertStat_CertRead by simp
qed

theorem CertRead_terminates_witness:
  "Read_fuel 2 (demo_store\<lparr>g_layout := sc_layout ''a'' ''b'' ''c'' ''d'' ''e'' ''f''\<rparr>) 3 =
   Some (CertRead (demo_store\<lparr>g_layout := sc_layout ''a'' ''b'' ''c'' ''d'' ''e'' ''f''\<rparr>) 3)"
  using CertRead_terminates [of "''a''" "''b''" "''c''" "''d''" "''e''" "''f''"
      "demo_store\<lparr>g_layout := sc_layout ''a'' ''b'' ''c'' ''d'' ''e'' ''f''\<rparr>" 2 3]
  by (simp add: tmp_of_def)

section \<open>The hub connections\<close>

text \<open>
  C22: in every reachable state of the hub connector, after any interleaving of socket events and
  node calls: no send queue holds more than 64 frames, no partial frame more than 1600 octets, an
  open connection has a socket, a closed one has nothing queued, and every frame handed to the
  stack is non-empty and at most 1600 octets.
\<close>

theorem hub_reachable_bounds:
  assumes "hub_reachable h"
  shows "(\<forall>uri c. g_connections h uri = Some c \<longrightarrow>
       length (sendQueue c) \<le> 64 \<and> length (receiveAssembly c) \<le> 1600 \<and>
       (conn_open c \<longrightarrow> socket c \<noteq> None) \<and> (\<not> conn_open c \<longrightarrow> sendQueue c = [])) \<and>
    (\<forall>(uri, frame) \<in> set (g_receivedFrames h). frame \<noteq> [] \<and> length frame \<le> 1600)"
  using hub_reachable_inv [OF assms] by (auto simp: hub_inv_def connection_inv_def frame_ok_def)

definition demo_hub :: hub where
  "demo_hub = \<lparr>g_context = True, g_connections = [''wss://a'' \<mapsto> idle_connection\<lparr>socket := Some 1\<rparr>],
     g_statusEvents = [], g_receivedFrames = [], g_reloading = False\<rparr>"

lemma demo_hub_reachable: "hub_reachable demo_hub"
proof -
  let ?h = "\<lparr>g_context = True, g_connections = Map.empty, g_statusEvents = [],
            g_receivedFrames = [], g_reloading = False\<rparr>"
  have "hub_reachable (fst (Connect ?h ''wss://a'' (Some 1)))"
    by (rule hub_reachable.step [OF hub_reachable.start hub_step.connect])
  moreover have "ParseHubUri ''wss://a'' = Some (''a'', 443, ''/'')" by code_simp
  ultimately show ?thesis by (simp add: Connect_def demo_hub_def set_connection_def)
qed

theorem hub_reachable_bounds_witness: "length (receiveAssembly (the (g_connections demo_hub ''wss://a''))) \<le> 1600"
proof -
  have "g_connections demo_hub ''wss://a'' = Some (idle_connection\<lparr>socket := Some 1\<rparr>)" by (simp add: demo_hub_def)
  with hub_reachable_bounds [OF demo_hub_reachable, THEN conjunct1, rule_format, of "''wss://a''"] show ?thesis
    by simp
qed

lemma receive_frame_overflowed:
  "receiving h uri sock True [] \<Longrightarrow> fs \<noteq> [] \<Longrightarrow>
   receiving (receive_frame h uri sock fs) uri sock False [] \<and>
   g_receivedFrames (receive_frame h uri sock fs) = g_receivedFrames h"
proof (induction fs arbitrary: h)
  case (Cons f fs)
  let ?h = "\<lambda>final. fst (HubProtocolCallback h uri sock (Receive f True final))"
  have more: "receiving (?h False) uri sock True [] \<and> g_receivedFrames (?h False) = g_receivedFrames h"
    and last: "receiving (?h True) uri sock False [] \<and> g_receivedFrames (?h True) = g_receivedFrames h"
    using Cons.prems(1) by (auto simp: receiving_def HubProtocolCallback_def Let_def set_connection_def)
  show ?case using more last Cons.IH [of "?h False"] by (cases fs) auto
qed simp

lemma receive_frame_dropped:
  assumes "receiving h uri sock False a" "MAX_RECEIVED_FRAME_OCTETS < length a + length (concat fs)"
    "length a \<le> MAX_RECEIVED_FRAME_OCTETS" "fs \<noteq> []"
  shows "receiving (receive_frame h uri sock fs) uri sock False [] \<and>
    g_receivedFrames (receive_frame h uri sock fs) = g_receivedFrames h"
  using assms
proof (induction fs arbitrary: h a)
  case (Cons f fs)
  let ?h = "\<lambda>final. fst (HubProtocolCallback h uri sock (Receive f True final))"
  show ?case
  proof (cases "length a + length f \<le> MAX_RECEIVED_FRAME_OCTETS")
    case True
    then have fs: "fs \<noteq> []" using Cons.prems(2) by auto
    note step = receive_frame_step [OF Cons.prems(1) True]
    have "receiving (receive_frame (?h False) uri sock fs) uri sock False [] \<and>
        g_receivedFrames (receive_frame (?h False) uri sock fs) = g_receivedFrames (?h False)"
      using Cons.IH [OF step(1)] Cons.prems(2) True fs by simp
    with step(2) fs show ?thesis by simp
  next
    case False
    have more: "receiving (?h False) uri sock True [] \<and> g_receivedFrames (?h False) = g_receivedFrames h"
      and last: "receiving (?h True) uri sock False [] \<and> g_receivedFrames (?h True) = g_receivedFrames h"
      using Cons.prems(1) False by (auto simp: receiving_def HubProtocolCallback_def Let_def set_connection_def)
    show ?thesis
      using more last receive_frame_overflowed [of "?h False" uri sock fs] by (cases "fs = []") auto
  qed
qed simp

lemma receive_frame_empty:
  "receiving h uri sock False [] \<Longrightarrow> fs \<noteq> [] \<Longrightarrow> concat fs = [] \<Longrightarrow>
   receiving (receive_frame h uri sock fs) uri sock False [] \<and>
   g_receivedFrames (receive_frame h uri sock fs) = g_receivedFrames h"
proof (induction fs arbitrary: h)
  case (Cons f fs)
  let ?h = "\<lambda>final. fst (HubProtocolCallback h uri sock (Receive f True final))"
  have "receiving (?h final) uri sock False [] \<and> g_receivedFrames (?h final) = g_receivedFrames h" for final
    using Cons.prems by (cases final) (auto simp: receiving_def HubProtocolCallback_def Let_def set_connection_def)
  with Cons.IH [of "?h False"] Cons.prems show ?case by (cases "fs = []") auto
qed simp

text \<open>
  C21: reassembly. A WebSocket message that arrives in any number of binary fragments is handed to
  the stack once, as the concatenation of its fragments, exactly when that is not empty and fits
  the largest frame; otherwise it is dropped whole. Either way the connection is ready for the
  next message.
\<close>

theorem fragments_reassemble:
  assumes "receiving h uri sock False []" "fs \<noteq> []"
  shows "receiving (receive_frame h uri sock fs) uri sock False [] \<and>
    g_receivedFrames (receive_frame h uri sock fs) =
      g_receivedFrames h @ (if concat fs \<noteq> [] \<and> length (concat fs) \<le> MAX_RECEIVED_FRAME_OCTETS
                            then [(uri, concat fs)] else [])"
proof (cases "MAX_RECEIVED_FRAME_OCTETS < length (concat fs)")
  case True
  with receive_frame_dropped [OF assms(1), of fs] assms(2) show ?thesis by simp
next
  case False
  show ?thesis
  proof (cases "concat fs = []")
    case True
    with receive_frame_empty [OF assms] show ?thesis by simp
  next
    case nonempty: False
    with False receive_frame_delivers [OF assms(1) _ assms(2)] show ?thesis by simp
  qed
qed

theorem fragments_reassemble_witness:
  "g_receivedFrames (receive_frame demo_hub ''wss://a'' 1 [[1, 2], [], [3]]) = [(''wss://a'', [1, 2, 3])]"
proof -
  have "receiving demo_hub ''wss://a'' 1 False []"
    by (simp add: receiving_def demo_hub_def idle_connection_def)
  from fragments_reassemble [OF this, of "[[1, 2], [], [3]]"] show ?thesis by (simp add: demo_hub_def)
qed

text \<open>The frames the socket takes in \<open>n\<close> writable events.\<close>

fun drain_socket :: "string \<Rightarrow> nat \<Rightarrow> nat \<Rightarrow> hub \<Rightarrow> bytes list" where
  "drain_socket uri sock 0 h = []"
| "drain_socket uri sock (Suc n) h =
     (case write_next uri sock h of None \<Rightarrow> [] | Some (h', frame) \<Rightarrow> frame # drain_socket uri sock n h')"

lemma drain_socket_drain: "drain_socket uri sock n h = hub_queue.drain uri sock n h"
  by (induction uri sock n h rule: drain_socket.induct) (auto split: option.split)

text \<open>
  C23: the send queue of an open connection. Frames the stack sends leave the socket in the order
  they were sent, each exactly once, as long as no more than 64 are waiting; with 64 waiting a
  send is refused and changes nothing.
\<close>

theorem send_queue_fifo:
  assumes "sending uri sock h"
  shows "(length (queue_of uri h) + length frames \<le> MAX_QUEUED_FRAMES \<longrightarrow>
      drain_socket uri sock (length (queue_of uri h) + length frames)
        (foldl (\<lambda>s f. fst (HubSend s uri f)) h frames) = queue_of uri h @ frames) \<and>
    (MAX_QUEUED_FRAMES \<le> length (queue_of uri h) \<longrightarrow> HubSend h uri frame = (h, False))"
proof (intro conjI impI)
  assume "length (queue_of uri h) + length frames \<le> MAX_QUEUED_FRAMES"
  note all = hub_queue.push_all [OF assms this]
  from hub_queue.drain_items [OF conjunct2 [OF all]] all
  show "drain_socket uri sock (length (queue_of uri h) + length frames)
      (foldl (\<lambda>s f. fst (HubSend s uri f)) h frames) = queue_of uri h @ frames" by (simp add: drain_socket_drain)
next
  assume "MAX_QUEUED_FRAMES \<le> length (queue_of uri h)"
  with assms show "HubSend h uri frame = (h, False)" by (rule hub_queue.push_full)
qed

definition open_hub :: hub where
  "open_hub = set_connection demo_hub ''wss://a'' (idle_connection\<lparr>socket := Some 1, conn_open := True\<rparr>)"

theorem send_queue_fifo_witness:
  "drain_socket ''wss://a'' 1 2 (fst (HubSend (fst (HubSend open_hub ''wss://a'' [1])) ''wss://a'' [2])) = [[1], [2]]"
proof -
  have "sending ''wss://a'' 1 open_hub" "queue_of ''wss://a'' open_hub = []"
    by (simp_all add: sending_def queue_of_def open_hub_def set_connection_def demo_hub_def idle_connection_def)
  with send_queue_fifo [of "''wss://a''" 1 open_hub "[[1], [2]]"] show ?thesis by (simp add: numeral_2_eq_2)
qed

end
