(* ===== verification/Device_Properties.thy ===== *)
theory Device_Properties
  imports Property_Set Stream_File Sc_Properties
begin

text \<open>
  The correctness properties of the device's property and service callbacks: the commandable
  outputs, object names, passwords and reinitialisation, files with backup and restore, and
  the clock.
\<close>

section \<open>Commandable outputs\<close>

definition demo_device :: device where
  "demo_device = new_device True default_options undefined"

lemma demo_device_inv [simp]: "device_inv demo_device"
  unfolding demo_device_def by (rule new_device_inv)



text \<open>
  The value in effect. Clause 19.2 decides it from Priority_Array and Relinquish_Default; a
  command to the analog output is in effect when no more urgent priority is commanded, changes
  nothing in effect when one is, and after a write and a NULL at a free priority the value in
  effect is what it was.
\<close>

lemma analog_output_in_effect:
  assumes "device_inv d"
  defines "effective \<equiv> \<lambda>d. resolve (ao_view d) (the (ao_default d))"
  shows "((\<forall>q. 1 \<le> q \<and> q < prio w \<longrightarrow> ao_view d q = None) \<longrightarrow> effective (ao_write d w v) = v) \<and>
    ((\<exists>q. 1 \<le> q \<and> q < prio w \<and> ao_view d q \<noteq> None) \<longrightarrow> effective (ao_write d w v) = effective d) \<and>
    (ao_view d (prio w) = None \<longrightarrow>
       effective (out_relinquish OBJECT_TYPE_ANALOG_OUTPUT (ao_write d w v) w) = effective d) \<and>
    ((\<forall>q. 1 \<le> q \<and> q \<le> 16 \<and> q \<noteq> prio w \<longrightarrow> ao_view d q = None) \<longrightarrow>
       effective (out_relinquish OBJECT_TYPE_ANALOG_OUTPUT d w) = the (ao_default d))"
  unfolding effective_def
  using ao.write_takes_effect [OF assms(1), where v = v and w = w]
    ao.write_is_masked [OF assms(1), where v = v and w = w]
    ao.relinquish_undoes_write [OF assms(1), where v = v and w = w]
    ao.relinquish_all_default [OF assms(1), where w = w]
  by blast

section \<open>Object names\<close>

definition data_link_names :: "((u16 \<times> u32) \<times> string) list" where
  "data_link_names =
     [((OBJECT_TYPE_NETWORK_PORT, IPV6_NETWORK_PORT_INSTANCE), ''Cerulean''),
      ((OBJECT_TYPE_NETWORK_PORT, MSTP_NETWORK_PORT_INSTANCE), ''Amber''),
      ((OBJECT_TYPE_NETWORK_PORT, SC_NETWORK_PORT_INSTANCE), ''Teal''),
      ((OBJECT_TYPE_FILE, FILE_OPERATIONAL_CERTIFICATE_INSTANCE), ''Operational Certificate''),
      ((OBJECT_TYPE_FILE, FILE_ISSUER_CERTIFICATE_1_INSTANCE), ''Issuer Certificate 1''),
      ((OBJECT_TYPE_FILE, FILE_ISSUER_CERTIFICATE_2_INSTANCE), ''Issuer Certificate 2''),
      ((OBJECT_TYPE_FILE, FILE_CERTIFICATE_SIGNING_REQUEST_INSTANCE), ''Certificate Signing Request'')]"

definition all_names :: "((u16 \<times> u32) \<times> string) list" where
  "all_names = fixed_names @ data_link_names @ later_names"

lemma all_names_distinct: "distinct (map snd all_names)"
  by (simp add: all_names_def fixed_names_def data_link_names_def later_names_def)

lemma IsCertificateFile_cases:
  assumes "IsCertificateFile i"
  shows "i \<in> {2, 3, 4, 5}"
proof -
  have "2 \<le> unat i" "unat i \<le> 5" using assms by (simp_all add: IsCertificateFile_def word_le_nat_alt)
  then have "unat i = 2 \<or> unat i = 3 \<or> unat i = 4 \<or> unat i = 5" by linarith
  then show ?thesis by (auto simp: word_unat_eq_iff)
qed

lemma ObjectName_cases:
  assumes "ObjectName d t i = Some n"
  shows "t = OBJECT_TYPE_DEVICE \<and> i = g_deviceInstance d \<and> n = g_deviceName d \<or> ((t, i), n) \<in> set all_names"
proof -
  have port: "((t, i), m) \<in> set data_link_names" if "DataLinkPortName d t i = Some m" for m
    using that by (auto simp: DataLinkPortName_def ActiveNetworkPortInstance_def data_link_names_def
        split: if_splits DataLink.splits)
  have cert: "((t, i), CertificateFileName i) \<in> set data_link_names" if "IsScCertificateFile d t i"
    using that IsCertificateFile_cases [of i]
    by (auto simp: IsScCertificateFile_def CertificateFileName_def data_link_names_def)
  show ?thesis
    using assms port cert map_of_SomeD [of fixed_names] map_of_SomeD [of later_names]
    by (fastforce simp: ObjectName_def all_names_def split: if_splits option.splits)
qed

text \<open>
  Object_Name identifies an object: two different objects of the device never answer with the
  same name, whatever the data link, unless the configured device name is one of the others'.
\<close>

lemma object_names_unique:
  assumes "ObjectName d t i = Some n" "ObjectName d t' i' = Some n" "g_deviceName d \<notin> set (map snd all_names)"
  shows "t = t' \<and> i = i'"
proof -
  have "k = k'" if "(k, n) \<in> set all_names" "(k', n) \<in> set all_names" for k k'
    using all_names_distinct that by (metis (no_types, lifting) distinct_map inj_onD prod.inject snd_conv)
  with ObjectName_cases [OF assms(1)] ObjectName_cases [OF assms(2)] assms(3) show ?thesis
    by (force simp: image_iff)
qed

section \<open>Passwords and reinitialisation\<close>

lemma fold_or_zero:
  "fold (\<lambda>i diff. diff OR f i) xs (a :: u32) = 0 \<longleftrightarrow> a = 0 \<and> (\<forall>i \<in> set xs. f i = 0)"
proof (induction xs arbitrary: a)
  case (Cons x xs)
  have "a OR f x = 0 \<longleftrightarrow> a = 0 \<and> f x = 0" by (metis or_eq_0_iff)
  with Cons.IH [of "a OR f x"] show ?case by auto
qed simp

lemma xor_u32_eq_0: "(a :: u32) XOR b = 0 \<longleftrightarrow> a = b"
  by (auto simp: bit_eq_iff bit_xor_iff)

text \<open>
  The two password checks agree and are exact: a request passes when no password is
  configured, or when it carries exactly the configured one (its text up to the first NUL); a
  missing, shorter, longer or different password never passes.
\<close>

lemma passwords_checked:
  assumes "length (strlen_text (DCC_PASSWORD d)) < 256" "\<forall>p. password = Some p \<longrightarrow> unat passwordLength \<le> length p"
  shows "(PasswordAccepted d password (ucast passwordLength) \<longleftrightarrow>
      strlen_text (DCC_PASSWORD d) = [] \<or>
      (\<exists>p. password = Some p \<and> take (unat passwordLength) p = strlen_text (DCC_PASSWORD d))) \<and>
    (DeviceCommunicationControl d (g_deviceInstance d) e password passwordLength useTime time = Inr () \<longleftrightarrow>
      PasswordAccepted d password (ucast passwordLength))"
proof -
  let ?r = "strlen_text (DCC_PASSWORD d)"
  have len: "unat (of_nat (length ?r) :: u32) = length ?r" using assms(1) by (intro unat_of_nat_u32) simp
  have zero: "(of_nat (length ?r) :: u32) = 0 \<longleftrightarrow> ?r = []" using len by (auto simp: unat_eq_0 [symmetric])
  have ucast: "(ucast passwordLength :: u32) = of_nat (length ?r) \<longleftrightarrow> unat passwordLength = length ?r"
  proof -
    have "unat (ucast passwordLength :: u32) = unat passwordLength" by (rule unat_ucast_u8)
    with len show ?thesis by (metis word_unat_eq_iff)
  qed
  have eq: "(\<forall>i < length ?r. p ! i = ?r ! i) \<longleftrightarrow> take (unat passwordLength) p = ?r"
    if "unat passwordLength = length ?r" "unat passwordLength \<le> length p" for p
    using that by (auto simp: list_eq_iff_nth_eq)
  have nlen: "take (unat passwordLength) p \<noteq> ?r"
    if "unat passwordLength \<noteq> length ?r" "unat passwordLength \<le> length p" for p
    using that by (metis length_take min.absorb2)
  have A: "PasswordAccepted d password (ucast passwordLength) \<longleftrightarrow>
      ?r = [] \<or> (\<exists>p. password = Some p \<and> take (unat passwordLength) p = ?r)"
  proof (cases password)
    case (Some p)
    then have le: "unat passwordLength \<le> length p" using assms(2) by simp
    show ?thesis
    proof (cases "unat passwordLength = length ?r")
      case True
      then show ?thesis
        using eq [OF True le] Some zero ucast
        by (simp add: PasswordAccepted_def Let_def len fold_or_zero xor_u32_eq_0 of_char_u32_eq_iff Ball_def)
    next
      case False
      then show ?thesis using nlen [OF False le] Some zero ucast by (simp add: PasswordAccepted_def Let_def)
    qed
  qed (simp add: PasswordAccepted_def zero)
  moreover have "DeviceCommunicationControl d (g_deviceInstance d) e password passwordLength useTime time = Inr () \<longleftrightarrow>
      ?r = [] \<or> (\<exists>p. password = Some p \<and> take (unat passwordLength) p = ?r)"
  proof (cases password)
    case (Some p)
    then have le: "unat passwordLength \<le> length p" using assms(2) by simp
    show ?thesis
      using eq [OF _ le] nlen [OF _ le] Some
      by (cases "unat passwordLength = length ?r")
        (auto simp: DeviceCommunicationControl_def Let_def list_all_iff)
  qed (simp add: DeviceCommunicationControl_def)
  ultimately show ?thesis by blast
qed

definition activates :: "device \<Rightarrow> u32 \<Rightarrow> bool" where
  "activates d st \<longleftrightarrow> BBC_WITH_SC d \<and> dataLink (g_options d) = SC \<and>
     (st = REINITIALIZE_STATE_ACTIVATE_CHANGES \<or> st = REINITIALIZE_STATE_WARMSTART)"

lemma RequestRestart_fields [simp]:
  "sc (RequestRestart now d k ms) = sc d" "g_restart (RequestRestart now d k ms) \<noteq> None"
  "g_deviceInstance (RequestRestart now d k ms) = g_deviceInstance d"
  by (auto simp: RequestRestart_def Let_def split: option.split)

lemma ReinitializeDevice_states:
  assumes "PasswordAccepted d password len"
  shows "ReinitializeDevice cr env now d (g_deviceInstance d) st password len =
    (let (d1, applied) = (if activates d st
           then (case ApplyStagedCertificates cr env (sc d) of (n, r) \<Rightarrow> (d\<lparr>sc := n\<rparr>, r)) else (d, Inr ()))
     in case applied of Inl e \<Rightarrow> (d1, Inl e)
        | Inr _ \<Rightarrow>
            if st = REINITIALIZE_STATE_COLDSTART then (RequestRestart now d1 Cold RESTART_DELAY_MS, Inr ())
            else if st = REINITIALIZE_STATE_WARMSTART then (RequestRestart now d1 Warm RESTART_DELAY_MS, Inr ())
            else if st \<le> 7 then (d1, Inr ())
            else (d1, Inl ERROR_CODE_OPTIONAL_FUNCTIONALITY_NOT_SUPPORTED))"
proof -
  have range: "st \<le> 7 \<longleftrightarrow> st \<in> {0, 1, 2, 3, 4, 5, 6, 7}"
  proof
    assume "st \<le> 7"
    then have "unat st \<le> 7" by (simp add: word_le_nat_alt)
    then have "unat st \<in> {0, 1, 2, 3, 4, 5, 6, 7}" by auto
    then show "st \<in> {0, 1, 2, 3, 4, 5, 6, 7}" by (auto simp: word_unat_eq_iff)
  qed (auto simp: word_le_nat_alt)
  show ?thesis
    using assms unfolding range
    by (auto simp: ReinitializeDevice_def activates_def Let_def split: prod.split sum.split)
qed





section \<open>Files, backup and restore\<close>

text \<open>
  C24: a backup reads the whole file. AtomicReadFile requests for Ivory, chunk after chunk with any
  positive chunk size until End_Of_File, end after at most one request per octet and one more, and
  the chunks are exactly the file's contents.
\<close>

theorem backup_reads_all:
  assumes "device_inv d" "0 < count" "0 < most" "unat (g_fileDataLength d) < fuel"
  shows "\<exists>chunks. read_chunks fuel (\<lambda>start. ReadFile d (g_deviceInstance d) FILE_INSTANCE start count most) 0 =
      Some chunks \<and> concat chunks = take (unat (g_fileDataLength d)) (g_fileData d)"
proof -
  have "length (ivory_contents d) < fuel" using assms(1,4) by (simp add: length_ivory_contents)
  from ivory.read_chunks_all [OF assms(1-3) this] show ?thesis
    by (simp only: ivory_read_def ivory_contents_def)
qed

definition ivory_device :: device where
  "ivory_device = demo_device\<lparr>g_fileData := 1 # 2 # 3 # drop 3 (g_fileData demo_device), g_fileDataLength := 3\<rparr>"

lemma ivory_device_inv: "device_inv ivory_device" "ivory_contents ivory_device = [1, 2, 3]"
proof -
  have l: "length (g_fileData demo_device) = 4096" by (rule device_inv_file [OF demo_device_inv])
  show "device_inv ivory_device"
    using demo_device_inv unfolding device_inv_def by (simp add: ivory_device_def)
  show "ivory_contents ivory_device = [1, 2, 3]" by (simp add: ivory_contents_def ivory_device_def)
qed

theorem backup_reads_all_witness:
  "\<exists>chunks. read_chunks 4 (\<lambda>start. ReadFile ivory_device (g_deviceInstance ivory_device) FILE_INSTANCE start 2 100) 0 =
      Some chunks \<and> concat chunks = [1, 2, 3]"
proof -
  have "unat (g_fileDataLength ivory_device) < 4" by (simp add: ivory_device_def)
  from backup_reads_all [OF ivory_device_inv(1) _ _ this, of 2 100] ivory_device_inv(2)
  show ?thesis by (simp add: ivory_contents_def)
qed

text \<open>
  C25: a restore writes the backup back. Writing the chunks of a backup one after the other from
  the start succeeds, keeps the device well-formed, and leaves Ivory holding the backup, followed
  by whatever the file held past its end: exactly the backup when the file was not longer.
\<close>

theorem restore_writes_backup:
  assumes "device_inv d" "length (concat chunks) \<le> 4096"
  shows "\<exists>d'. write_chunks (ivory_put env) d 0 chunks = Some d' \<and> device_inv d' \<and>
      ivory_contents d' = concat chunks @ drop (length (concat chunks)) (ivory_contents d) \<and>
      (unat (g_fileDataLength d) \<le> length (concat chunks) \<longrightarrow> ivory_contents d' = concat chunks)"
  using ivory.write_chunks_from [OF assms(1), of 0 chunks env] assms length_ivory_contents [OF assms(1)]
  by auto

theorem restore_writes_backup_witness:
  "\<exists>d'. write_chunks (ivory_put good_disk) ivory_device 0 [[9], [8]] = Some d' \<and> ivory_contents d' = [9, 8, 3]"
  using restore_writes_backup [OF ivory_device_inv(1), of "[[9], [8]]" good_disk] ivory_device_inv(2) by auto

lemma word_minus_one_sint: "(w :: i32) = - 1 \<longleftrightarrow> sint w = - 1"
proof
  assume "sint w = - 1"
  then have "sint w = sint (- 1 :: i32)" by simp
  then show "w = - 1" by (rule signed_word_eqI)
qed simp

text \<open>
  C5: memory safety of AtomicWriteFile to Ivory. A write from the start of the file on, or an
  append, never leaves the file's buffer, and is refused with nothing changed exactly when it does
  not fit. It leaves the buffer exactly when the start position is below \<open>-1\<close> and the 32-bit sum
  of start and length wraps round to 4096 or less.
\<close>

theorem WriteFile_bounds:
  fixes env :: io_env and fileStart :: i32
  assumes "device_inv d" "length data < 2 ^ 31"
  defines "res \<equiv> WriteFile env d (g_deviceInstance d) FILE_INSTANCE fileStart data"
  defines "start \<equiv> (if sint fileStart = -1 then unat (g_fileDataLength d) else nat (sint fileStart))"
  shows "(-1 \<le> sint fileStart \<longrightarrow> res \<noteq> None \<and>
      (start + length data \<le> 4096 \<longrightarrow> (\<exists>d' r. res = Some (d', Inr r) \<and> device_inv d' \<and> unat r = start \<and>
          take (length data) (drop start (g_fileData d')) = data)) \<and>
      (4096 < start + length data \<longrightarrow> res = Some (d, Inl None))) \<and>
    (res = None \<longleftrightarrow> sint fileStart < -1 \<and> 2 ^ 32 \<le> unat fileStart + length data \<and>
        unat fileStart + length data \<le> 2 ^ 32 + 4096)"
proof -
  let ?L = "g_fileDataLength d" and ?n = "length data"
  define st where "st = (if fileStart = - 1 then ?L else fileStart)"
  define en where "en = st + (of_nat ?n :: u32)"
  have L: "unat ?L \<le> 4096" "length (g_fileData d) = 4096" using device_inv_file [OF assms(1)] by simp_all
  have n: "unat (of_nat ?n :: u32) = ?n" using assms(2) by (intro unat_of_nat_u32) simp
  have minus: "fileStart = - 1 \<longleftrightarrow> sint fileStart = - 1" by (rule word_minus_one_sint)
  have res: "res = (if 4096 < en then Some (d, Inl None)
      else case mem_write (g_fileData d) (unat st) data of None \<Rightarrow> None
        | Some buffer \<Rightarrow> Some (d\<lparr>g_fileData := buffer, g_fileDataLength :=
            (if ?L < en then en else ?L)\<rparr>, Inr st))"
    unfolding res_def WriteFile_def Let_def st_def en_def by (simp only: ivory_not_certificate simp_thms if_False)
  define k where "k = unat fileStart"
  note sint = sint_u32_cases [of fileStart, folded k_def]
  have k: "k < 2 ^ 32" unfolding k_def by (rule unat_u32_lt)
  show ?thesis
  proof (cases "- 1 \<le> sint fileStart")
    case True
    have start: "unat st = start" "start < 2 ^ 31"
      using True sint minus L k unfolding st_def start_def k_def [symmetric] if_distrib [of unat]
      by (auto split: if_splits)
    then have sum_end: "unat (en) = start + ?n"
      unfolding en_def using n assms(2) by (subst unat_add_no_wrap) simp_all
    have fits: "4096 < en \<longleftrightarrow> 4096 < start + ?n"
      by (simp only: word_less_nat_alt sum_end) simp
    show ?thesis
    proof (cases "start + ?n \<le> 4096")
      case small: True
      define buffer where "buffer = take start (g_fileData d) @ data @ drop (start + ?n) (g_fileData d)"
      have w: "mem_write (g_fileData d) start data = Some buffer" using small L by (simp add: mem_write_def buffer_def)
      let ?d = "d\<lparr>g_fileData := buffer, g_fileDataLength :=
            (if ?L < en then en else ?L)\<rparr>"
      have "res = Some (?d, Inr st)" unfolding res start(1) using small fits w by simp
      moreover have "device_inv ?d"
      proof (rule device_inv_file_update [OF assms(1)])
        show "length buffer = 4096" by (simp only: mem_write_length [OF w] L(2))
        show "unat (if ?L < en then en else ?L) \<le> 4096"
          using sum_end small L(1) by (cases "?L < en") (simp_all only: if_True if_False simp_thms)
      qed
      moreover have "take ?n (drop start (g_fileData ?d)) = data"
        using small L by (simp add: buffer_def)
      ultimately obtain d' where "res = Some (d', Inr st)" "device_inv d'"
        "take ?n (drop start (g_fileData d')) = data" by blast
      with True small start(1) show ?thesis by simp
    next
      case False
      with fits have "res = Some (d, Inl None)" unfolding res by simp
      with False True show ?thesis by auto
    qed
  next
    case False
    then have big: "st = fileStart" "2 ^ 31 \<le> unat fileStart"
      using sint minus unfolding st_def k_def [symmetric] by (auto split: if_splits)
    have lt: "unat fileStart < 2 ^ 32" by (rule unat_u32_lt)
    have sum: "unat en = (unat fileStart + ?n) mod 2 ^ 32"
      unfolding en_def big(1) using n by (simp add: unat_word_ariths)
    have oob: "mem_write (g_fileData d) (unat fileStart) data = None"
      using big(2) L by (simp add: mem_write_def)
    have "res = None \<longleftrightarrow> \<not> 4096 < en"
      unfolding res big(1) oob by simp
    also have "\<dots> \<longleftrightarrow> (unat fileStart + ?n) mod 2 ^ 32 \<le> 4096"
      by (simp only: word_less_nat_alt sum not_less) simp
    also have "\<dots> \<longleftrightarrow> 2 ^ 32 \<le> unat fileStart + ?n \<and> unat fileStart + ?n \<le> 2 ^ 32 + 4096"
    proof (cases "unat fileStart + ?n < 2 ^ 32")
      case True
      with big(2) show ?thesis by simp
    next
      case wrap: False
      then have "(unat fileStart + ?n) mod 2 ^ 32 = unat fileStart + ?n - 2 ^ 32"
        using lt assms(2) by (simp add: mod_if)
      with wrap show ?thesis by auto
    qed
    finally show ?thesis using False by simp
  qed
qed

theorem WriteFile_bounds_witness:
  "WriteFile good_disk demo_device (g_deviceInstance demo_device) FILE_INSTANCE (- 2) [1, 2] = None \<and>
   WriteFile good_disk demo_device (g_deviceInstance demo_device) FILE_INSTANCE (- 1) [1, 2] \<noteq> None"
  using WriteFile_bounds [where d = demo_device and data = "[1, 2]" and env = good_disk and fileStart = "- 2"]
    WriteFile_bounds [where d = demo_device and data = "[1, 2]" and env = good_disk and fileStart = "- 1"] by simp

lemma ResizeCertificateFile_empty:
  assumes "cert_file_inv i n"
  shows "cert_file_inv i (fst (ResizeCertificateFile env n i 0))"
    "Effective (cert (fst (ResizeCertificateFile env n i 0))) i = []"
    "disk (cert (fst (ResizeCertificateFile env n i 0))) = disk (cert n)"
proof -
  let ?s = "cert n"
  have ok: "store_inv ?s" "file_instances_ok ?s" using assms by (simp_all add: cert_file_inv_def)
  have "Stage env ?s i \<noteq> None"
    using assms by (auto simp: cert_file_inv_def Stage_def Let_def split: option.split)
  then obtain s1 st where S: "Stage env ?s i = Some (s1, st)" by auto
  note E = Stage_Effective [OF ok S]
  let ?st = "\<lparr>stagedBytes = [], stagedModified = timeNow env\<rparr>"
  have "CertResize env ?s i 0 = (restage s1 i ?st, Inr ())"
    by (simp add: CertResize_def S resize_to_def restage_def)
  then have R: "fst (ResizeCertificateFile env n i 0) = n\<lparr>cert := restage ?s i ?st\<rparr>"
    using assms E(6) [of ?st] by (simp add: ResizeCertificateFile_def cert_file_inv_def)
  have i0: "i \<noteq> 0" using E(5) ok(2) by (auto simp: file_instances_ok_def)
  have lay: "layout_ok (g_layout ?s)" using ok(1) by (simp add: store_inv_def)
  have read: "CertRead (restage ?s i ?st) i = Some []" by (simp add: CertRead_restage [OF lay i0])
  show "cert_file_inv i (fst (ResizeCertificateFile env n i 0))"
    using assms read store_inv_restage [OF ok(1) E(5)] unfolding R
    by (simp add: cert_file_inv_def file_instances_ok_def Effective_def)
  show "Effective (cert (fst (ResizeCertificateFile env n i 0))) i = []"
    unfolding R using read by (simp add: Effective_def)
  show "disk (cert (fst (ResizeCertificateFile env n i 0))) = disk (cert n)" unfolding R by simp
qed

lemma cert_file_put_disk: "cert_file_put env i n start data = Some n' \<Longrightarrow> disk (cert n') = disk (cert n)"
  by (auto simp: cert_file_put_def WriteCertificateFile_def CertWrite_def Stage_def Let_def
      split: if_splits prod.splits sum.splits option.splits)

lemma write_chunks_disk:
  "write_chunks (cert_file_put env i) n k cs = Some n' \<Longrightarrow> disk (cert n') = disk (cert n)"
  by (induction cs arbitrary: n k) (auto dest: cert_file_put_disk split: option.splits)

text \<open>
  C26: uploading a certificate. Setting File_Size to 0 and writing the new text chunk after chunk
  succeeds for a writable certificate file; a client then reads back exactly the text, in chunks
  of any positive size, and nothing on disk has changed until the set is activated.
\<close>

theorem certificate_upload:
  assumes "cert_file_inv i n" "length (concat chunks) \<le> MAX_FILE_BYTES" "0 < count" "0 < most"
    "length (concat chunks) < fuel"
  shows "\<exists>n' cs. write_chunks (cert_file_put env i) (fst (ResizeCertificateFile env n i 0)) 0 chunks = Some n' \<and>
    read_chunks fuel (\<lambda>start. ReadCertificateFile n' i start count most) 0 = Some cs \<and>
    concat cs = concat chunks \<and> disk (cert n') = disk (cert n)"
proof -
  note R = ResizeCertificateFile_empty [OF assms(1), of env]
  obtain n' where n': "write_chunks (cert_file_put env i) (fst (ResizeCertificateFile env n i 0)) 0 chunks = Some n'"
    "cert_file_inv i n'" "Effective (cert n') i = concat chunks"
    using cert_file.upload [OF R(1), of chunks env] R(2) assms(2) by auto
  have "\<exists>cs. read_chunks fuel (\<lambda>start. ReadCertificateFile n' i start count most) 0 = Some cs \<and>
      concat cs = Effective (cert n') i"
    by (rule cert_file.read_chunks_all [OF n'(2) assms(3,4)]) (use n'(3) assms(5) in simp)
  then show ?thesis using n' R(3) write_chunks_disk [OF n'(1)] by auto
qed

lemma pem_node_file: "cert_file_inv 2 pem_node"
proof -
  have c: "cert pem_node = pem_store" by (simp add: pem_node_def)
  have "CertRead pem_store 2 = Some demo_pem"
    by (simp add: CertRead_def numeral_2_eq_2 pem_store_def demo_store_def demo_layout_def
        FallbackInstance_def OwnPath_def ReadDisk_def)
  moreover have "length demo_pem < 2 ^ 31" by (simp add: demo_pem_def octets_def)
  moreover have "file_instances_ok pem_store" "paths (g_layout pem_store) 2 \<noteq> None"
    by (simp_all add: file_instances_ok_def pem_store_simps, simp_all add: demo_layout_def)
  ultimately show ?thesis using pem_node_ok(1)
    by (simp add: cert_file_inv_def c Effective_def IsCertificateFile_def IsCertificateFileReadOnly_def word_order)
qed

theorem certificate_upload_witness:
  "\<exists>n'. write_chunks (cert_file_put good_disk 2) (fst (ResizeCertificateFile good_disk pem_node 2 0)) 0 [[1], [2, 3]] = Some n' \<and>
     disk (cert n') = disk (cert pem_node)"
  using certificate_upload [OF pem_node_file, of "[[1], [2, 3]]" 2 100 10 good_disk] by auto

section \<open>The clock\<close>

text \<open>
  Time synchronisation. SetSystemTime is refused, with nothing changed, for another device, a
  wildcard field or a moment the host's calendar cannot express; otherwise it sets the device
  clock alone, and a Local_Time and Local_Date read at any later moment show the moment that was
  set plus the time passed since.
\<close>

lemma SetSystemTime_sets_clock:
  assumes "SetSystemTime env d di year month day hour minute second = (d', ok)"
  defines "wanted \<equiv> mktime env \<lparr>tm_year = uint year, tm_mon = uint month - 1, tm_mday = uint day,
      tm_hour = uint hour, tm_min = uint minute, tm_sec = uint second, tm_wday = 0\<rparr>"
  shows "(ok \<longleftrightarrow> di = g_deviceInstance d \<and> 255 \<notin> {year, month, day, hour, minute, second} \<and> wanted \<noteq> -1) \<and>
    (\<not> ok \<longrightarrow> d' = d) \<and>
    (ok \<longrightarrow> d' = d\<lparr>g_clockOffsetSeconds := g_clockOffsetSeconds d'\<rparr> \<and>
      (\<forall>passed. let later = env\<lparr>hostTime := hostTime env + passed\<rparr> in
         GetPropertyTime later d' (g_deviceInstance d) OBJECT_TYPE_DEVICE (g_deviceInstance d) PROPERTY_IDENTIFIER_LOCAL_TIME =
           map_option time_of_tm (localtime_r env (wanted + passed)) \<and>
         GetPropertyDate later d' (g_deviceInstance d) OBJECT_TYPE_DEVICE (g_deviceInstance d) PROPERTY_IDENTIFIER_LOCAL_DATE =
           map_option date_of_tm (localtime_r env (wanted + passed))))"
proof -
  have "d' = (if ok then d\<lparr>g_clockOffsetSeconds := wanted - hostTime env\<rparr> else d) \<and>
      (ok \<longleftrightarrow> di = g_deviceInstance d \<and> 255 \<notin> {year, month, day, hour, minute, second} \<and> wanted \<noteq> -1)"
    using assms(1) unfolding wanted_def SetSystemTime_def Let_def by (auto split: if_splits)
  then show ?thesis
    by (auto simp: GetPropertyTime_def GetPropertyDate_def GetCurrentLocalTm_def CertificateModifiedUtc_def
        IsScCertificateFile_def Let_def algebra_simps)
qed

definition demo_clock :: clock_env where
  "demo_clock = \<lparr>hostTime = 100, localtime_r = (\<lambda>t. Some \<lparr>tm_year = 126, tm_mon = 0, tm_mday = 1, tm_hour = 0,
       tm_min = 0, tm_sec = t, tm_wday = 4\<rparr>), gmtime_r = (\<lambda>t. None), mktime = tm_sec\<rparr>"

end
