(* ===== verification/Tag_Reader.thy ===== *)
theory Tag_Reader
  imports Bacnet_Constants
begin

text \<open>
  The minimal BACnet tag reader of main.cpp (section 2e, clause 20.2.1 of the standard): one tag
  header at a time, and the three content decoders. A buffer is a list of octets with the number
  of octets that belong to the message; \<open>size_t\<close> is taken as 64 bits wide, where no sum below
  wraps, and is a \<open>nat\<close>.
\<close>

section \<open>Tags\<close>

datatype TagKind = TAG_VALUE | TAG_OPENING | TAG_CLOSING

record Tag =
  tag_number :: u8
  isContext :: bool
  tag_kind :: TagKind
  tag_length :: u32
  tag_content :: nat
  tag_next :: nat

text \<open>The big-endian accumulation of the extended length and of an unsigned content.\<close>

fun big_endian :: "u32 \<Rightarrow> bytes \<Rightarrow> u32" where
  "big_endian acc [] = acc"
| "big_endian acc (b # bs) = big_endian (push_bit 8 acc OR ucast b) bs"

text \<open>The \<open>len\<close> octets at \<open>position\<close>.\<close>

definition window :: "bytes \<Rightarrow> nat \<Rightarrow> nat \<Rightarrow> bytes" where
  "window octets position len = map (\<lambda>i. octets ! (position + i)) [0..<len]"

text \<open>The length field: its value and the position after it.\<close>

definition tag_length_field :: "bytes \<Rightarrow> nat \<Rightarrow> u8 \<Rightarrow> nat \<Rightarrow> (u32 \<times> nat) option" where
  "tag_length_field octets octetCount lengthValueType position =
     (if lengthValueType < 5 then Some (ucast lengthValueType, position)
      else if octetCount \<le> position then None
      else let extended = octets ! position in
        if extended < 254 then Some (ucast extended, position + 1)
        else let lengthOctets = (if extended = 254 then 2 else 4) in
          if octetCount < position + 1 + lengthOctets then None
          else Some (big_endian 0 (window octets (position + 1) lengthOctets),
                     position + 1 + lengthOctets))"

definition ReadTag :: "bytes \<Rightarrow> nat \<Rightarrow> nat \<Rightarrow> Tag option" where
  "ReadTag octets octetCount position =
     (if octetCount \<le> position then None
      else
        let initial = octets ! position;
            context = bit initial 3;
            lengthValueType = initial AND 0x07;
            header = (if drop_bit 4 initial = 15
                      then (if octetCount \<le> position + 1 then None
                            else Some (octets ! (position + 1), position + 2))
                      else Some (drop_bit 4 initial, position + 1))
        in case header of
             None \<Rightarrow> None
           | Some (number, p) \<Rightarrow>
               (let kind = (if context \<and> lengthValueType = 6 then TAG_OPENING
                            else if context \<and> lengthValueType = 7 then TAG_CLOSING
                            else TAG_VALUE);
                    len = (if kind \<noteq> TAG_VALUE then Some (0, p)
                           else if \<not> context \<and> number = 1 then Some (0, p)
                           else tag_length_field octets octetCount lengthValueType p)
                in case len of
                     None \<Rightarrow> None
                   | Some (l, c) \<Rightarrow>
                       (if c + unat l \<le> octetCount
                        then Some \<lparr>tag_number = number, isContext = context, tag_kind = kind,
                                   tag_length = l, tag_content = c, tag_next = c + unat l\<rparr>
                        else None)))"

definition ContentUnsigned :: "bytes \<Rightarrow> Tag \<Rightarrow> u32" where
  "ContentUnsigned octets tag =
     big_endian 0 (window octets (tag_content tag) (min (unat (tag_length tag)) 4))"

definition ContentReal :: "bytes \<Rightarrow> Tag \<Rightarrow> f32 option" where
  "ContentReal octets tag =
     (if isContext tag \<or> tag_kind tag \<noteq> TAG_VALUE \<or> tag_number tag \<noteq> 4 \<or> tag_length tag \<noteq> 4
      then None else Some (ContentUnsigned octets tag))"

definition ContentStatusFlagsFault :: "bytes \<Rightarrow> Tag \<Rightarrow> bool option" where
  "ContentStatusFlagsFault octets tag =
     (if isContext tag \<or> tag_kind tag \<noteq> TAG_VALUE \<or> tag_number tag \<noteq> 8 \<or> tag_length tag < 2
      then None else Some (octets ! (tag_content tag + 1) AND 0x40 \<noteq> 0))"

section \<open>Network addresses\<close>

text \<open>One optional network address field: two octets of network, its length, the address.\<close>

definition skip_address :: "bytes \<Rightarrow> nat \<Rightarrow> bool \<Rightarrow> nat \<Rightarrow> nat option" where
  "skip_address message messageLength present position =
     (if \<not> present then Some position
      else if messageLength < position + 3 then None
      else Some (position + 3 + unat (message ! (position + 2))))"

section \<open>Progress and bounds\<close>

lemma tag_length_field_progress: "tag_length_field octets n lv p = Some (l, c) \<Longrightarrow> p \<le> c"
  by (auto simp: tag_length_field_def Let_def split: if_splits)

text \<open>A tag that is read lies inside the message, and the next one starts after it.\<close>

lemma ReadTag_bounds:
  assumes "ReadTag octets n p = Some tag"
  shows "p < tag_content tag" "tag_next tag = tag_content tag + unat (tag_length tag)" "tag_next tag \<le> n"
  using assms
  by (auto simp: ReadTag_def Let_def dest!: tag_length_field_progress split: if_splits option.splits)

lemma ReadTag_progress: "ReadTag octets n p = Some tag \<Longrightarrow> p < tag_next tag \<and> tag_next tag \<le> n"
  using ReadTag_bounds [of octets n p tag] by simp

text \<open>Opening and closing tags have no content.\<close>

lemma ReadTag_constructed: "ReadTag octets n p = Some tag \<Longrightarrow> tag_kind tag \<noteq> TAG_VALUE \<Longrightarrow> tag_length tag = 0"
  by (auto simp: ReadTag_def Let_def split: if_splits option.splits)

section \<open>Only the message is read\<close>

definition same_message :: "nat \<Rightarrow> bytes \<Rightarrow> bytes \<Rightarrow> bool" where
  "same_message n a b \<longleftrightarrow> (\<forall>i < n. a ! i = b ! i)"

lemma same_messageD: "same_message n a b \<Longrightarrow> i < n \<Longrightarrow> a ! i = b ! i"
  by (simp add: same_message_def)

lemma window_cong: "same_message n a b \<Longrightarrow> p + len \<le> n \<Longrightarrow> window a p len = window b p len"
  by (auto simp: window_def same_message_def)

lemma tag_length_field_cong: "same_message n a b \<Longrightarrow> tag_length_field a n lv p = tag_length_field b n lv p"
  by (auto simp: tag_length_field_def Let_def same_messageD window_cong)

lemma ReadTag_cong: "same_message n a b \<Longrightarrow> ReadTag a n p = ReadTag b n p"
proof -
  assume s: "same_message n a b"
  note L = tag_length_field_cong [OF s]
  show ?thesis
  proof (cases "n \<le> p")
    case False
    then have p: "a ! p = b ! p" using same_messageD [OF s] by simp
    show ?thesis
    proof (cases "n \<le> p + 1")
      case True
      then show ?thesis unfolding ReadTag_def p L by simp
    next
      case inside: False
      then have q: "a ! (p + 1) = b ! (p + 1)" using same_messageD [OF s] by simp
      show ?thesis unfolding ReadTag_def p q L ..
    qed
  qed (simp add: ReadTag_def)
qed

lemma Content_cong:
  assumes "same_message n a b" "ReadTag a n p = Some tag"
  shows "ContentUnsigned a tag = ContentUnsigned b tag" "ContentReal a tag = ContentReal b tag"
    "ContentStatusFlagsFault a tag = ContentStatusFlagsFault b tag"
proof -
  note B = ReadTag_bounds [OF assms(2)]
  have "tag_content tag + min (unat (tag_length tag)) 4 \<le> n" using B by simp
  then show "ContentUnsigned a tag = ContentUnsigned b tag"
    using window_cong [OF assms(1)] by (simp only: ContentUnsigned_def)
  then show "ContentReal a tag = ContentReal b tag" by (simp add: ContentReal_def)
  have "a ! (tag_content tag + 1) = b ! (tag_content tag + 1)" if "\<not> tag_length tag < 2"
    using that B by (intro same_messageD [OF assms(1)]) (simp add: word_order)
  then show "ContentStatusFlagsFault a tag = ContentStatusFlagsFault b tag"
    by (auto simp: ContentStatusFlagsFault_def)
qed

end
