(* ===== verification/Frame_Decode.thy ===== *)
theory Frame_Decode
  imports Tag_Reader
begin

text \<open>
  The frame decoder of common/CASExampleHelper.cpp: one walk over BVLC, NPDU and APDU that fills
  a \<open>DecodedFrame\<close> as far as the octets go. A \<open>return\<close> in the middle of the walk is a result
  with the fields set so far. Callers pass at most 65535 octets, so no \<open>uint32_t\<close> offset wraps
  and offsets are naturals.
\<close>

section \<open>Tag headers\<close>

record TagHeader =
  th_tagNumber :: u8
  th_contextSpecific :: bool
  th_isOpeningTag :: bool
  th_isClosingTag :: bool
  th_length :: u32
  th_headerLength :: nat

definition u16_at :: "bytes \<Rightarrow> nat \<Rightarrow> u32" where
  "u16_at frame p = push_bit 8 (ucast (frame ! p)) OR ucast (frame ! (p + 1))"

definition u32_at :: "bytes \<Rightarrow> nat \<Rightarrow> u32" where
  "u32_at frame p = push_bit 24 (ucast (frame ! p)) OR push_bit 16 (ucast (frame ! (p + 1))) OR
     push_bit 8 (ucast (frame ! (p + 2))) OR ucast (frame ! (p + 3))"

text \<open>The length field of a primitive tag: its value and the position after it.\<close>

definition header_length_field :: "bytes \<Rightarrow> nat \<Rightarrow> u8 \<Rightarrow> nat \<Rightarrow> (u32 \<times> nat) option" where
  "header_length_field frame frameLength lvt pos =
     (if lvt \<le> 4 then Some (ucast lvt, pos)
      else if lvt = 5
      then (if frameLength \<le> pos then None
            else let lenByte = frame ! pos; pos = pos + 1 in
              if lenByte < 254 then Some (ucast lenByte, pos)
              else if lenByte = 254
              then (if frameLength < pos + 2 then None else Some (u16_at frame pos, pos + 2))
              else (if frameLength < pos + 4 then None else Some (u32_at frame pos, pos + 4)))
      else None)"

definition DecodeTagHeader :: "bytes \<Rightarrow> nat \<Rightarrow> nat \<Rightarrow> TagHeader option" where
  "DecodeTagHeader frame frameLength offset =
     (if frameLength \<le> offset then None
      else
        let b0 = frame ! offset; contextSpecific = (b0 AND 0x08 \<noteq> 0); lvt = b0 AND 0x07;
            start = (if drop_bit 4 b0 AND 0x0F = 0x0F
                     then (if frameLength \<le> offset + 1 then None
                           else Some (frame ! (offset + 1), offset + 2))
                     else Some (drop_bit 4 b0 AND 0x0F, offset + 1))
        in case start of
             None \<Rightarrow> None
           | Some (tagNumber, pos) \<Rightarrow>
               (let isOpening = (contextSpecific \<and> lvt = 6);
                    isClosing = (contextSpecific \<and> lvt \<noteq> 6 \<and> lvt = 7);
                    len = (if isOpening \<or> isClosing then Some (0, pos)
                           else header_length_field frame frameLength lvt pos)
                in case len of
                     None \<Rightarrow> None
                   | Some (l, p) \<Rightarrow>
                       Some \<lparr>th_tagNumber = tagNumber, th_contextSpecific = contextSpecific,
                             th_isOpeningTag = isOpening, th_isClosingTag = isClosing,
                             th_length = l, th_headerLength = p - offset\<rparr>))"

section \<open>The decoded frame\<close>

text \<open>\<open>dadr\<close> and \<open>sadr\<close> are the octets the C pointers point at, with their lengths; NULL is \<open>[]\<close>.\<close>

record DecodedFrame =
  bacnetIp :: bool
  bvlcFunction :: u8
  hasNpdu :: bool
  npduVersion :: u8
  npduControl :: u8
  hasDest :: bool
  dnet :: u16
  dadr :: bytes
  hasSrc :: bool
  snet :: u16
  sadr :: bytes
  isNetworkMessage :: bool
  networkMessageType :: u8
  hasApdu :: bool
  f_pduType :: u8
  f_segmented :: bool
  hasInvokeId :: bool
  f_invokeId :: u8
  hasServiceChoice :: bool
  f_serviceChoice :: u8
  hasReason :: bool
  f_reason :: u8
  hasObjectProperty :: bool
  f_objectType :: u16
  f_objectInstance :: u32
  f_propertyId :: u32
  hasArrayIndex :: bool
  f_arrayIndex :: u32

definition new_DecodedFrame :: DecodedFrame where
  "new_DecodedFrame =
     \<lparr>bacnetIp = False, bvlcFunction = 0, hasNpdu = False, npduVersion = 0, npduControl = 0,
      hasDest = False, dnet = 0, dadr = [], hasSrc = False, snet = 0, sadr = [],
      isNetworkMessage = False, networkMessageType = 0, hasApdu = False, f_pduType = 0xFF,
      f_segmented = False, hasInvokeId = False, f_invokeId = 0, hasServiceChoice = False,
      f_serviceChoice = 0, hasReason = False, f_reason = 0, hasObjectProperty = False,
      f_objectType = 0, f_objectInstance = 0, f_propertyId = 0, hasArrayIndex = False,
      f_arrayIndex = 0\<rparr>"

text \<open>A context tag with a number, whose content of an accepted length lies in the frame.\<close>

definition context_tag_at :: "bytes \<Rightarrow> nat \<Rightarrow> nat \<Rightarrow> u8 \<Rightarrow> (u32 \<Rightarrow> bool) \<Rightarrow> TagHeader option" where
  "context_tag_at frame frameLength pos number accepted =
     (case DecodeTagHeader frame frameLength pos of
        None \<Rightarrow> None
      | Some t \<Rightarrow>
          (if \<not> th_contextSpecific t \<or> th_tagNumber t \<noteq> number \<or> \<not> accepted (th_length t) \<or>
              frameLength < pos + th_headerLength t + unat (th_length t)
           then None else Some t))"

definition DecodeObjectAndProperty :: "bytes \<Rightarrow> nat \<Rightarrow> nat \<Rightarrow> DecodedFrame \<Rightarrow> DecodedFrame" where
  "DecodeObjectAndProperty frame frameLength offset out =
     (case context_tag_at frame frameLength offset 0 (\<lambda>l. l = 4) of
        None \<Rightarrow> out
      | Some objTag \<Rightarrow>
          (let objValueOffset = offset + th_headerLength objTag;
               objValue = u32_at frame objValueOffset;
               pos = objValueOffset + 4
           in case context_tag_at frame frameLength pos 1 (\<lambda>l. l \<noteq> 0 \<and> l \<le> 4) of
                None \<Rightarrow> out
              | Some propTag \<Rightarrow>
                  (let p = pos + th_headerLength propTag; n = unat (th_length propTag);
                       out1 = out\<lparr>hasObjectProperty := True,
                         f_objectType := ucast (drop_bit 22 objValue AND 0x3FF),
                         f_objectInstance := objValue AND 0x3FFFFF,
                         f_propertyId := big_endian 0 (window frame p n)\<rparr>
                   in case context_tag_at frame frameLength (p + n) 2 (\<lambda>l. 0 < l \<and> l \<le> 4) of
                        None \<Rightarrow> out1
                      | Some idxTag \<Rightarrow>
                          out1\<lparr>hasArrayIndex := True,
                               f_arrayIndex := big_endian 0
                                 (window frame (p + n + th_headerLength idxTag) (unat (th_length idxTag)))\<rparr>)))"

section \<open>The walk\<close>

text \<open>A guarded read: the octet at \<open>pos\<close> where the frame reaches it, else the walk returns.\<close>

definition octet_at :: "bytes \<Rightarrow> nat \<Rightarrow> nat \<Rightarrow> u8 option" where
  "octet_at frame frameLength pos = (if frameLength \<le> pos then None else Some (frame ! pos))"

text \<open>A service choice, and the property it names when the service is one of \<open>services\<close>.\<close>

definition decode_service :: "bytes \<Rightarrow> nat \<Rightarrow> nat \<Rightarrow> u8 set \<Rightarrow> DecodedFrame \<Rightarrow> DecodedFrame" where
  "decode_service frame frameLength serviceOffset services out =
     (case octet_at frame frameLength serviceOffset of
        None \<Rightarrow> out
      | Some service \<Rightarrow>
          (let o1 = out\<lparr>hasServiceChoice := True, f_serviceChoice := service\<rparr> in
           if service \<in> services then DecodeObjectAndProperty frame frameLength (serviceOffset + 1) o1 else o1))"

text \<open>The APDU at \<open>offset\<close>, which lies in the frame and starts with \<open>first\<close>.\<close>

definition decode_apdu :: "bytes \<Rightarrow> nat \<Rightarrow> nat \<Rightarrow> u8 \<Rightarrow> DecodedFrame \<Rightarrow> DecodedFrame" where
  "decode_apdu frame frameLength offset first out0 =
     (let type = drop_bit 4 first AND 0x0F;
          out = out0\<lparr>hasApdu := True, f_pduType := type\<rparr>;
          seg = (first AND 0x08 \<noteq> 0);
          octet = octet_at frame frameLength in
      if type = 0 then
        (let o1 = out\<lparr>f_segmented := seg\<rparr> in
         case octet (offset + 2) of
           None \<Rightarrow> o1
         | Some i \<Rightarrow> decode_service frame frameLength (offset + (if seg then 5 else 3)) {12, 15}
                       (o1\<lparr>hasInvokeId := True, f_invokeId := i\<rparr>))
      else if type = 1 then
        (case octet (offset + 1) of
           None \<Rightarrow> out
         | Some c \<Rightarrow> out\<lparr>hasServiceChoice := True, f_serviceChoice := c\<rparr>)
      else if type = 3 then
        (let o1 = out\<lparr>f_segmented := seg\<rparr> in
         case octet (offset + 1) of
           None \<Rightarrow> o1
         | Some i \<Rightarrow> decode_service frame frameLength (offset + (if seg then 4 else 2)) {12}
                       (o1\<lparr>hasInvokeId := True, f_invokeId := i\<rparr>))
      else if type \<in> {2, 5, 6, 7} then
        (case (octet (offset + 1), octet (offset + 2)) of
           (Some i, Some c) \<Rightarrow>
             (if type = 2 \<or> type = 5
              then out\<lparr>hasInvokeId := True, f_invokeId := i, hasServiceChoice := True, f_serviceChoice := c\<rparr>
              else out\<lparr>hasInvokeId := True, f_invokeId := i, hasReason := True, f_reason := c\<rparr>)
         | _ \<Rightarrow> out)
      else out)"

text \<open>An address field: network, octets and the offset after it; \<open>None\<close> when it is cut off.\<close>

definition decode_address :: "bytes \<Rightarrow> nat \<Rightarrow> nat \<Rightarrow> ((u16 \<times> (bytes \<times> nat) option)) option" where
  "decode_address frame frameLength offset =
     (if frameLength < offset + 3 then None
      else let net = push_bit 8 (ucast (frame ! offset)) OR ucast (frame ! (offset + 1));
               len = unat (frame ! (offset + 2)) in
        if frameLength < offset + 3 + len then Some (net, None)
        else Some (net, Some (window frame (offset + 3) len, offset + 3 + len)))"

text \<open>After the two address fields: the hop count, then a network message or an APDU.\<close>

definition decode_after_addresses :: "bytes \<Rightarrow> nat \<Rightarrow> nat \<Rightarrow> DecodedFrame \<Rightarrow> DecodedFrame" where
  "decode_after_addresses frame frameLength offset out =
     (if hasDest out \<and> frameLength \<le> offset then out
      else let offset = (if hasDest out then offset + 1 else offset) in
        case octet_at frame frameLength offset of
          None \<Rightarrow> out
        | Some first \<Rightarrow>
            (if isNetworkMessage out then out\<lparr>networkMessageType := first\<rparr>
             else decode_apdu frame frameLength offset first out))"

definition decode_source :: "bytes \<Rightarrow> nat \<Rightarrow> nat \<Rightarrow> DecodedFrame \<Rightarrow> DecodedFrame" where
  "decode_source frame frameLength offset out =
     (if \<not> hasSrc out then decode_after_addresses frame frameLength offset out
      else case decode_address frame frameLength offset of
          None \<Rightarrow> out
        | Some (net, None) \<Rightarrow> out\<lparr>snet := net\<rparr>
        | Some (net, Some (adr, offset')) \<Rightarrow>
            decode_after_addresses frame frameLength offset' (out\<lparr>snet := net, sadr := adr\<rparr>))"

definition decode_npdu :: "bytes \<Rightarrow> nat \<Rightarrow> nat \<Rightarrow> DecodedFrame \<Rightarrow> DecodedFrame" where
  "decode_npdu frame frameLength offset out0 =
     (if frameLength < offset + 2 then out0
      else let control = frame ! (offset + 1);
               out = out0\<lparr>hasNpdu := True, npduVersion := frame ! offset, npduControl := control,
                          hasDest := (control AND 0x20 \<noteq> 0), hasSrc := (control AND 0x08 \<noteq> 0),
                          isNetworkMessage := (control AND 0x80 \<noteq> 0)\<rparr> in
        if \<not> hasDest out then decode_source frame frameLength (offset + 2) out
        else case decode_address frame frameLength (offset + 2) of
            None \<Rightarrow> out
          | Some (net, None) \<Rightarrow> out\<lparr>dnet := net\<rparr>
          | Some (net, Some (adr, offset')) \<Rightarrow>
              decode_source frame frameLength offset' (out\<lparr>dnet := net, dadr := adr\<rparr>))"

definition DecodeBacnetFrame :: "bytes \<Rightarrow> nat \<Rightarrow> DecodedFrame" where
  "DecodeBacnetFrame frame frameLength =
     (if frameLength < 4 \<or> frame ! 0 \<noteq> 0x81 then new_DecodedFrame
      else let out = new_DecodedFrame\<lparr>bacnetIp := True, bvlcFunction := frame ! 1\<rparr> in
        if frame ! 1 = 0x0A \<or> frame ! 1 = 0x0B then decode_npdu frame frameLength 4 out
        else if frame ! 1 = 0x04 then decode_npdu frame frameLength 10 out
        else out)"

section \<open>Only the frame is read\<close>

lemma header_length_field_cong:
  "same_message n a b \<Longrightarrow> header_length_field a n lvt p = header_length_field b n lvt p"
  by (auto simp: header_length_field_def Let_def u16_at_def u32_at_def same_messageD)

lemma DecodeTagHeader_cong:
  assumes "same_message n a b"
  shows "DecodeTagHeader a n p = DecodeTagHeader b n p"
proof (cases "n \<le> p")
  case False
  note L = header_length_field_cong [OF assms]
  have p: "a ! p = b ! p" using False same_messageD [OF assms] by simp
  show ?thesis
  proof (cases "n \<le> p + 1")
    case True
    then show ?thesis unfolding DecodeTagHeader_def p L by simp
  next
    case inside: False
    then have q: "a ! (p + 1) = b ! (p + 1)" using same_messageD [OF assms] by simp
    show ?thesis unfolding DecodeTagHeader_def p q L ..
  qed
qed (simp add: DecodeTagHeader_def)

lemma context_tag_at_cong:
  "same_message n a b \<Longrightarrow> context_tag_at a n p k acc = context_tag_at b n p k acc"
  by (simp only: context_tag_at_def DecodeTagHeader_cong)

lemma context_tag_at_fits:
  "context_tag_at a n p k acc = Some t \<Longrightarrow>
   acc (th_length t) \<and> p + th_headerLength t + unat (th_length t) \<le> n"
  by (auto simp: context_tag_at_def split: option.splits if_splits)

lemma u32_at_cong: "same_message n a b \<Longrightarrow> p + 4 \<le> n \<Longrightarrow> u32_at a p = u32_at b p"
  by (simp add: u32_at_def same_messageD)

lemma DecodeObjectAndProperty_cong:
  assumes "same_message n a b"
  shows "DecodeObjectAndProperty a n p out = DecodeObjectAndProperty b n p out"
proof -
  note C = context_tag_at_cong [OF assms]
  have u: "u32_at a (p + th_headerLength t) = u32_at b (p + th_headerLength t)"
    if "context_tag_at b n p 0 (\<lambda>l. l = 4) = Some t" for t
    using context_tag_at_fits [OF that] by (intro u32_at_cong [OF assms]) auto
  have w: "window a (q + th_headerLength t) (unat (th_length t)) = window b (q + th_headerLength t) (unat (th_length t))"
    if "context_tag_at b n q k acc = Some t" for q k acc t
    using context_tag_at_fits [OF that] by (intro window_cong [OF assms]) auto
  show ?thesis
    unfolding DecodeObjectAndProperty_def C
    by (auto simp: Let_def u w split: option.split)
qed

lemma octet_at_cong: "same_message n a b \<Longrightarrow> octet_at a n = octet_at b n"
  by (auto simp: octet_at_def same_messageD)

lemma decode_service_cong:
  assumes "same_message n a b"
  shows "decode_service a n p svs out = decode_service b n p svs out"
  unfolding decode_service_def octet_at_cong [OF assms] DecodeObjectAndProperty_cong [OF assms] ..

lemma decode_apdu_cong:
  assumes "same_message n a b"
  shows "decode_apdu a n p first out = decode_apdu b n p first out"
  unfolding decode_apdu_def octet_at_cong [OF assms] decode_service_cong [OF assms] ..

lemma decode_address_cong:
  "same_message n a b \<Longrightarrow> decode_address a n p = decode_address b n p"
  by (auto simp: decode_address_def Let_def same_messageD window_cong)

lemma decode_after_addresses_cong:
  assumes "same_message n a b"
  shows "decode_after_addresses a n p out = decode_after_addresses b n p out"
  unfolding decode_after_addresses_def octet_at_cong [OF assms] decode_apdu_cong [OF assms] ..

lemma decode_source_cong:
  assumes "same_message n a b"
  shows "decode_source a n p out = decode_source b n p out"
  unfolding decode_source_def decode_after_addresses_cong [OF assms] decode_address_cong [OF assms] ..

lemma decode_npdu_cong:
  assumes "same_message n a b"
  shows "decode_npdu a n p out = decode_npdu b n p out"
proof (cases "n < p + 2")
  case False
  then have e: "a ! p = b ! p" "a ! (p + 1) = b ! (p + 1)" using same_messageD [OF assms] by simp_all
  show ?thesis
    unfolding decode_npdu_def e decode_source_cong [OF assms] decode_address_cong [OF assms] ..
qed (simp add: decode_npdu_def)

lemma DecodeBacnetFrame_cong:
  assumes "same_message n a b"
  shows "DecodeBacnetFrame a n = DecodeBacnetFrame b n"
proof (cases "n < 4")
  case False
  then have e: "a ! 0 = b ! 0" "a ! 1 = b ! 1" using same_messageD [OF assms] by simp_all
  show ?thesis unfolding DecodeBacnetFrame_def e decode_npdu_cong [OF assms] ..
qed (simp add: DecodeBacnetFrame_def)

section \<open>The two tag readers\<close>

text \<open>The two ways to write a big-endian number.\<close>

lemma window_2: "window b p 2 = [b ! p, b ! (p + 1)]"
  by (simp add: window_def numeral_2_eq_2 upt_rec)

lemma window_4: "window b p 4 = [b ! p, b ! (p + 1), b ! (p + 2), b ! (p + 3)]"
proof -
  have "[0..<4] = [0, 1, 2, 3::nat]" by (simp add: upt_rec)
  then show ?thesis by (simp add: window_def)
qed

lemma u16_at_big_endian: "u16_at b p = big_endian 0 (window b p 2)"
  by (simp add: u16_at_def window_2 push_bit_or)

lemma u32_at_big_endian: "u32_at b p = big_endian 0 (window b p 4)"
  by (simp add: u32_at_def window_4 push_bit_or or.assoc)

text \<open>The low three bits that are neither a short length nor a bracket announce a long length.\<close>

lemma low3_long: "\<not> (w :: u8) AND 7 \<le> 4 \<Longrightarrow> w AND 7 \<noteq> 6 \<Longrightarrow> w AND 7 \<noteq> 7 \<Longrightarrow> w AND 7 = 5"
proof -
  have "w AND 7 \<le> 7" by (rule word_and_le1)
  moreover assume "\<not> w AND 7 \<le> 4" "w AND 7 \<noteq> 6" "w AND 7 \<noteq> 7"
  ultimately show ?thesis by unat_arith
qed

lemma u8_lt_5: "(w :: u8) < 5 \<longleftrightarrow> w \<le> 4"
  by unat_arith

lemma high4: "drop_bit 4 (w :: u8) AND 15 = drop_bit 4 w"
proof -
  have "take_bit 4 (drop_bit 4 w) = drop_bit 4 w" 
    by (simp add: take_bit_drop_bit take_bit_word_eq_self)
  then show ?thesis by (simp add: take_bit_eq_mask mask_eq_exp_minus_1)
qed

lemma header_length_field_eq:
  assumes "lvt = w AND 7" "lvt \<noteq> 6" "lvt \<noteq> 7"
  shows "header_length_field b n lvt p = tag_length_field b n lvt p"
proof (cases "lvt \<le> 4")
  case False
  then have "lvt = 5" using assms low3_long [of w] by simp
  then show ?thesis
    by (auto simp: header_length_field_def tag_length_field_def Let_def u16_at_big_endian u32_at_big_endian)
qed (simp add: header_length_field_def tag_length_field_def u8_lt_5)

lemma bit3_u8: "bit (w :: u8) 3 \<longleftrightarrow> w AND 8 \<noteq> 0"
  using and_exp_eq_0_iff_not_bit [of w 3] by simp

lemma ReadTag_by_header:
  assumes "p < n" "bit (b ! p) 3"
  shows "ReadTag b n p =
     (case DecodeTagHeader b n p of
        None \<Rightarrow> None
      | Some h \<Rightarrow>
          (if p + th_headerLength h + unat (th_length h) \<le> n
           then Some \<lparr>tag_number = th_tagNumber h, isContext = True,
                      tag_kind = (if th_isOpeningTag h then TAG_OPENING
                                  else if th_isClosingTag h then TAG_CLOSING else TAG_VALUE),
                      tag_length = th_length h, tag_content = p + th_headerLength h,
                      tag_next = p + th_headerLength h + unat (th_length h)\<rparr>
           else None))"
proof -
  define w where "w = b ! p"
  have c: "bit w 3" "w AND 8 \<noteq> 0" using assms(2) by (simp_all add: w_def bit3_u8)
  have L: "header_length_field b n (w AND 7) q = tag_length_field b n (w AND 7) q"
    if "w AND 7 \<noteq> 6" "w AND 7 \<noteq> 7" for q
    using that header_length_field_eq [OF refl] by blast
  have P: "q \<le> r" if "tag_length_field b n (w AND 7) q = Some (l, r)" for q l r
    using tag_length_field_progress [OF that] .
  define hdr where "hdr = (if drop_bit 4 w = 15 then (if n \<le> p + 1 then None else Some (b ! (p + 1), p + 2))
      else Some (drop_bit 4 w, p + 1))"
  have H: "ReadTag b n p = (case hdr of None \<Rightarrow> None | Some (number, q) \<Rightarrow>
      (let kind = (if w AND 7 = 6 then TAG_OPENING else if w AND 7 = 7 then TAG_CLOSING else TAG_VALUE)
       in case (if kind \<noteq> TAG_VALUE then Some (0, q) else tag_length_field b n (w AND 7) q) of None \<Rightarrow> None
        | Some (l, r) \<Rightarrow> (if r + unat l \<le> n
             then Some \<lparr>tag_number = number, isContext = True, tag_kind = kind, tag_length = l, tag_content = r,
                        tag_next = r + unat l\<rparr> else None)))"
    unfolding ReadTag_def w_def [symmetric] Let_def hdr_def eqTrueI [OF c(1)] using assms(1) by simp
  have e: "w AND 7 \<noteq> 6 \<and> w AND 7 = 7 \<longleftrightarrow> w AND 7 = 7" by auto
  have D: "DecodeTagHeader b n p = (case hdr of None \<Rightarrow> None | Some (number, q) \<Rightarrow>
      (case (if w AND 7 = 6 \<or> w AND 7 = 7 then Some (0, q) else header_length_field b n (w AND 7) q) of None \<Rightarrow> None
       | Some (l, r) \<Rightarrow> Some \<lparr>th_tagNumber = number, th_contextSpecific = True, th_isOpeningTag = (w AND 7 = 6),
           th_isClosingTag = (w AND 7 = 7), th_length = l, th_headerLength = r - p\<rparr>))"
    unfolding DecodeTagHeader_def w_def [symmetric] high4 Let_def hdr_def eqTrueI [OF c(2)] simp_thms e
    using assms(1) by simp
  have q: "p < q" if "hdr = Some (number, q)" for number q
    using that by (auto simp: hdr_def split: if_splits)
  show ?thesis
  proof (cases hdr)
    case (Some nq)
    then obtain number q' where nq: "hdr = Some (number, q')" by (cases nq) auto
    note le = q [OF nq]
    consider "w AND 7 = 6" | "w AND 7 = 7" | "w AND 7 \<noteq> 6" "w AND 7 \<noteq> 7" by blast
    then show ?thesis
    proof cases
      case 3
      then show ?thesis
        unfolding H D nq using le by (auto simp: L dest!: P split: option.split)
    qed (use nq le in \<open>simp_all add: H D\<close>)
  qed (simp add: H D)
qed

end
