(* ===== verification/Id_Names.thy ===== *)
theory Id_Names
  imports Prelude
begin

text \<open>
  The names of the frame log (common/CASExampleHelper.cpp): service, reject, abort and network
  message names, and the two sorted tables of object type and property names with their binary
  search, which is a finite map's lookup because the tables ascend.
\<close>

section \<open>Names by index\<close>

definition confirmed_names :: "string list" where
  "confirmed_names = [
     ''AcknowledgeAlarm'', ''ConfirmedCOVNotification'', ''ConfirmedEventNotification'',
     ''GetAlarmSummary'', ''GetEnrollmentSummary'', ''SubscribeCOV'', ''AtomicReadFile'',
     ''AtomicWriteFile'', ''AddListElement'', ''RemoveListElement'', ''CreateObject'',
     ''DeleteObject'', ''ReadProperty'', ''ReadPropertyConditional'', ''ReadPropertyMultiple'',
     ''WriteProperty'', ''WritePropertyMultiple'', ''DeviceCommunicationControl'',
     ''ConfirmedPrivateTransfer'', ''ConfirmedTextMessage'', ''ReinitializeDevice'', ''VTOpen'',
     ''VTClose'', ''VTData'', ''Authenticate'', ''RequestKey'', ''ReadRange'',
     ''LifeSafetyOperation'', ''SubscribeCOVProperty'', ''GetEventInformation'',
     ''SubscribeCOVPropertyMultiple'', ''ConfirmedCOVNotificationMultiple'']"

definition unconfirmed_names :: "string list" where
  "unconfirmed_names = [
     ''I-Am'', ''I-Have'', ''UnconfirmedCOVNotification'', ''UnconfirmedEventNotification'',
     ''UnconfirmedPrivateTransfer'', ''UnconfirmedTextMessage'', ''TimeSynchronization'',
     ''Who-Has'', ''Who-Is'', ''UTCTimeSynchronization'', ''WriteGroup'',
     ''UnconfirmedCOVNotificationMultiple'']"

definition reject_names :: "string list" where
  "reject_names = [
     ''other'', ''buffer-overflow'', ''inconsistent-parameters'', ''invalid-parameter-data-type'',
     ''invalid-tag'', ''missing-required-parameter'', ''parameter-out-of-range'',
     ''too-many-arguments'', ''undefined-enumeration'', ''unrecognized-service'']"

definition abort_names :: "string list" where
  "abort_names = [
     ''other'', ''buffer-overflow'', ''invalid-apdu-in-this-state'',
     ''preempted-by-higher-priority-task'', ''segmentation-not-supported'', ''security-error'',
     ''insufficient-security'', ''window-size-out-of-range'', ''application-exceeded-reply-time'',
     ''out-of-resources'', ''tsm-timeout'', ''apdu-too-long'']"

definition name_at :: "string list \<Rightarrow> u8 \<Rightarrow> string option" where
  "name_at names choice = (if unat choice < length names then Some (names ! unat choice) else None)"

definition ConfirmedServiceName :: "u8 \<Rightarrow> string option" where
  "ConfirmedServiceName choice = name_at confirmed_names choice"

definition UnconfirmedServiceName :: "u8 \<Rightarrow> string option" where
  "UnconfirmedServiceName choice = name_at unconfirmed_names choice"

definition RejectReasonName :: "u8 \<Rightarrow> string option" where
  "RejectReasonName reason = name_at reject_names reason"

definition AbortReasonName :: "u8 \<Rightarrow> string option" where
  "AbortReasonName reason = name_at abort_names reason"

definition NetworkMessageName :: "u8 \<Rightarrow> string option" where
  "NetworkMessageName type =
     (if type = 0 then Some ''Who-Is-Router-To-Network''
      else if type = 1 then Some ''I-Am-Router-To-Network''
      else if type = 2 then Some ''I-Could-Be-Router-To-Network''
      else if type = 3 then Some ''Reject-Message-To-Network''
      else if type = 4 then Some ''Router-Busy-To-Network''
      else if type = 5 then Some ''Router-Available-To-Network''
      else if type = 6 then Some ''Initialize-Routing-Table''
      else if type = 7 then Some ''Initialize-Routing-Table-Ack''
      else if type = 18 then Some ''What-Is-Network-Number''
      else if type = 19 then Some ''Network-Number-Is''
      else None)"

section \<open>The tables\<close>

definition OBJECT_TYPE_NAMES :: "(u32 \<times> string) list" where
  "OBJECT_TYPE_NAMES = [
     (0, ''Analog_Input''), (1, ''Analog_Output''), (2, ''Analog_Value''), (3, ''Binary_Input''),
     (4, ''Binary_Output''), (5, ''Binary_Value''), (6, ''Calendar''), (7, ''Command''),
     (8, ''Device''), (9, ''Event_Enrollment''), (10, ''File''), (11, ''Group''), (12, ''Loop''),
     (13, ''Multi_State_Input''), (14, ''Multi_State_Output''), (15, ''Notification_Class''),
     (16, ''Program''), (17, ''Schedule''), (18, ''Averaging''), (19, ''Multi_State_Value''),
     (20, ''Trend_Log''), (21, ''Life_Safety_Point''), (22, ''Life_Safety_Zone''),
     (23, ''Accumulator''), (24, ''Pulse_Converter''), (25, ''Event_Log''), (26, ''Global_Group''),
     (27, ''Trend_Log_Multiple''), (28, ''Load_Control''), (29, ''Structured_View''),
     (30, ''Access_Door''), (31, ''Timer''), (32, ''Access_Credential''), (33, ''Access_Point''),
     (34, ''Access_Rights''), (35, ''Access_User''), (36, ''Access_Zone''),
     (37, ''Credential_Data_Input''), (38, ''Network_Security''), (39, ''Bitstring_Value''),
     (40, ''Characterstring_Value''), (41, ''Datepattern_Value''), (42, ''Date_Value''),
     (43, ''Datetimepattern_Value''), (44, ''Datetime_Value''), (45, ''Integer_Value''),
     (46, ''Large_Analog_Value''), (47, ''Octetstring_Value''), (48, ''Positive_Integer_Value''),
     (49, ''Timepattern_Value''), (50, ''Time_Value''), (51, ''Notification_Forwarder''),
     (52, ''Alert_Enrollment''), (53, ''Channel''), (54, ''Lighting_Output''),
     (55, ''Binary_Lighting_Output''), (56, ''Network_Port''), (57, ''Elevator_Group''),
     (58, ''Escalator''), (59, ''Lift''), (60, ''Staging''), (61, ''Audit_Log''),
     (62, ''Audit_Reporter''), (63, ''Color''), (64, ''Color_Temperature'')]"

definition PROPERTY_NAMES_1 :: "(u32 \<times> string) list" where
  "PROPERTY_NAMES_1 = [
     (0, ''Acked_Transitions''), (1, ''Ack_Required''), (2, ''Action''), (3, ''Action_Text''),
     (4, ''Active_Text''), (5, ''Active_Vt_Sessions''), (6, ''Alarm_Value''),
     (7, ''Alarm_Values''), (8, ''All''), (9, ''All_Writes_Successful''),
     (10, ''Apdu_Segment_Timeout''), (11, ''Apdu_Timeout''),
     (12, ''Application_Software_Version''), (13, ''Archive''), (14, ''Bias''),
     (15, ''Change_Of_State_Count''), (16, ''Change_Of_State_Time''), (17, ''Notification_Class''),
     (19, ''Controlled_Variable_Reference''), (20, ''Controlled_Variable_Units''),
     (21, ''Controlled_Variable_Value''), (22, ''Cov_Increment''), (23, ''Date_List''),
     (24, ''Daylight_Savings_Status''), (25, ''Deadband''), (26, ''Derivative_Constant''),
     (27, ''Derivative_Constant_Units''), (28, ''Description''), (29, ''Description_Of_Halt''),
     (30, ''Device_Address_Binding''), (31, ''Device_Type''), (32, ''Effective_Period''),
     (33, ''Elapsed_Active_Time''), (34, ''Error_Limit''), (35, ''Event_Enable''),
     (36, ''Event_State''), (37, ''Event_Type''), (38, ''Exception_Schedule''),
     (39, ''Fault_Values''), (40, ''Feedback_Value''), (41, ''File_Access_Method''),
     (42, ''File_Size''), (43, ''File_Type''), (44, ''Firmware_Revision''), (45, ''High_Limit''),
     (46, ''Inactive_Text''), (47, ''In_Process''), (48, ''Instance_Of''),
     (49, ''Integral_Constant''), (50, ''Integral_Constant_Units''),
     (51, ''Issue_Confirmed_Notifications''), (52, ''Limit_Enable''),
     (53, ''List_Of_Group_Members''), (54, ''List_Of_Object_Property_References''),
     (56, ''Local_Date''), (57, ''Local_Time''), (58, ''Location''), (59, ''Low_Limit''),
     (60, ''Manipulated_Variable_Reference''), (61, ''Maximum_Output''),
     (62, ''Max_Apdu_Length_Accepted''), (63, ''Max_Info_Frames''), (64, ''Max_Manager''),
     (65, ''Max_Pres_Value''), (66, ''Minimum_Off_Time''), (67, ''Minimum_On_Time''),
     (68, ''Minimum_Output''), (69, ''Min_Pres_Value''), (70, ''Model_Name''),
     (71, ''Modification_Date''), (72, ''Notify_Type''), (73, ''Number_Of_Apdu_Retries''),
     (74, ''Number_Of_States''), (75, ''Object_Identifier''), (76, ''Object_List''),
     (77, ''Object_Name''), (78, ''Object_Property_Reference''), (79, ''Object_Type''),
     (80, ''Optional''), (81, ''Out_Of_Service''), (82, ''Output_Units''),
     (83, ''Event_Parameters''), (84, ''Polarity''), (85, ''Present_Value''), (86, ''Priority''),
     (87, ''Priority_Array''), (88, ''Priority_For_Writing''), (89, ''Process_Identifier''),
     (90, ''Program_Change''), (91, ''Program_Location''), (92, ''Program_State''),
     (93, ''Proportional_Constant''), (94, ''Proportional_Constant_Units''),
     (96, ''Protocol_Object_Types_Supported''), (97, ''Protocol_Services_Supported''),
     (98, ''Protocol_Version''), (99, ''Read_Only''), (100, ''Reason_For_Halt''),
     (102, ''Recipient_List''), (103, ''Reliability''), (104, ''Relinquish_Default''),
     (105, ''Required''), (106, ''Resolution''), (107, ''Segmentation_Supported''),
     (108, ''Setpoint''), (109, ''Setpoint_Reference''), (110, ''State_Text''),
     (111, ''Status_Flags''), (112, ''System_Status''), (113, ''Time_Delay''),
     (114, ''Time_Of_Active_Time_Reset''), (115, ''Time_Of_State_Count_Reset''),
     (116, ''Time_Synchronization_Recipients''), (117, ''Units''), (118, ''Update_Interval''),
     (119, ''Utc_Offset''), (120, ''Vendor_Identifier''), (121, ''Vendor_Name''),
     (122, ''Vt_Classes_Supported''), (123, ''Weekly_Schedule''), (124, ''Attempted_Samples''),
     (125, ''Average_Value''), (126, ''Buffer_Size''), (127, ''Client_Cov_Increment''),
     (128, ''Cov_Resubscription_Interval''), (130, ''Event_Time_Stamps''), (131, ''Log_Buffer''),
     (132, ''Log_Device_Object_Property''), (133, ''Enable''), (134, ''Log_Interval''),
     (135, ''Maximum_Value''), (136, ''Minimum_Value''), (137, ''Notification_Threshold''),
     (139, ''Protocol_Revision''), (140, ''Records_Since_Notification''), (141, ''Record_Count''),
     (142, ''Start_Time''), (143, ''Stop_Time''), (144, ''Stop_When_Full''),
     (145, ''Total_Record_Count'')]"

definition PROPERTY_NAMES_2 :: "(u32 \<times> string) list" where
  "PROPERTY_NAMES_2 = [
     (146, ''Valid_Samples''), (147, ''Window_Interval''), (148, ''Window_Samples''),
     (149, ''Maximum_Value_Timestamp''), (150, ''Minimum_Value_Timestamp''),
     (151, ''Variance_Value''), (152, ''Active_Cov_Subscriptions''),
     (153, ''Backup_Failure_Timeout''), (154, ''Configuration_Files''),
     (155, ''Database_Revision''), (156, ''Direct_Reading''), (157, ''Last_Restore_Time''),
     (158, ''Maintenance_Required''), (159, ''Member_Of''), (160, ''Mode''),
     (161, ''Operation_Expected''), (162, ''Setting''), (163, ''Silenced''),
     (164, ''Tracking_Value''), (165, ''Zone_Members''), (166, ''Life_Safety_Alarm_Values''),
     (167, ''Max_Segments_Accepted''), (168, ''Profile_Name''),
     (169, ''Auto_Subordinate_Discovery''), (170, ''Manual_Subordinate_Address_Binding''),
     (171, ''Subordinate_Address_Binding''), (172, ''Subordinate_Proxy_Enable''),
     (173, ''Last_Notify_Record''), (174, ''Schedule_Default''), (175, ''Accepted_Modes''),
     (176, ''Adjust_Value''), (177, ''Count''), (178, ''Count_Before_Change''),
     (179, ''Count_Change_Time''), (180, ''Cov_Period''), (181, ''Input_Reference''),
     (182, ''Limit_Monitoring_Interval''), (183, ''Logging_Object''), (184, ''Logging_Record''),
     (185, ''Prescale''), (186, ''Pulse_Rate''), (187, ''Scale''), (188, ''Scale_Factor''),
     (189, ''Update_Time''), (190, ''Value_Before_Change''), (191, ''Value_Set''),
     (192, ''Value_Change_Time''), (193, ''Align_Intervals''), (195, ''Interval_Offset''),
     (196, ''Last_Restart_Reason''), (197, ''Logging_Type''),
     (202, ''Restart_Notification_Recipients''), (203, ''Time_Of_Device_Restart''),
     (204, ''Time_Synchronization_Interval''), (205, ''Trigger''),
     (206, ''Utc_Time_Synchronization_Recipients''), (207, ''Node_Subtype''), (208, ''Node_Type''),
     (209, ''Structured_Object_List''), (210, ''Subordinate_Annotations''),
     (211, ''Subordinate_List''), (212, ''Actual_Shed_Level''), (213, ''Duty_Window''),
     (214, ''Expected_Shed_Level''), (215, ''Full_Duty_Baseline''),
     (218, ''Requested_Shed_Level''), (219, ''Shed_Duration''), (220, ''Shed_Level_Descriptions''),
     (221, ''Shed_Levels''), (222, ''State_Description''), (226, ''Door_Alarm_State''),
     (227, ''Door_Extended_Pulse_Time''), (228, ''Door_Members''),
     (229, ''Door_Open_Too_Long_Time''), (230, ''Door_Pulse_Time''), (231, ''Door_Status''),
     (232, ''Door_Unlock_Delay_Time''), (233, ''Lock_Status''), (234, ''Masked_Alarm_Values''),
     (235, ''Secured_Status''), (244, ''Absentee_Limit''), (245, ''Access_Alarm_Events''),
     (246, ''Access_Doors''), (247, ''Access_Event''),
     (248, ''Access_Event_Authentication_Factor''), (249, ''Access_Event_Credential''),
     (250, ''Access_Event_Time''), (251, ''Access_Transaction_Events''), (252, ''Accompaniment''),
     (253, ''Accompaniment_Time''), (254, ''Activation_Time''),
     (255, ''Active_Authentication_Policy''), (256, ''Assigned_Access_Rights''),
     (257, ''Authentication_Factors''), (258, ''Authentication_Policy_List''),
     (259, ''Authentication_Policy_Names''), (260, ''Authentication_Status''),
     (261, ''Authorization_Mode''), (262, ''Belongs_To''), (263, ''Credential_Disable''),
     (264, ''Credential_Status''), (265, ''Credentials''), (266, ''Credentials_In_Zone''),
     (267, ''Days_Remaining''), (268, ''Entry_Points''), (269, ''Exit_Points''),
     (270, ''Expiration_Time''), (271, ''Extended_Time_Enable''), (272, ''Failed_Attempt_Events''),
     (273, ''Failed_Attempts''), (274, ''Failed_Attempts_Time''), (275, ''Last_Access_Event''),
     (276, ''Last_Access_Point''), (277, ''Last_Credential_Added''),
     (278, ''Last_Credential_Added_Time''), (279, ''Last_Credential_Removed''),
     (280, ''Last_Credential_Removed_Time''), (281, ''Last_Use_Time''), (282, ''Lockout''),
     (283, ''Lockout_Relinquish_Time''), (285, ''Max_Failed_Attempts''), (286, ''Members''),
     (287, ''Muster_Point''), (288, ''Negative_Access_Rules''),
     (289, ''Number_Of_Authentication_Policies''), (290, ''Occupancy_Count''),
     (291, ''Occupancy_Count_Adjust''), (292, ''Occupancy_Count_Enable''),
     (294, ''Occupancy_Lower_Limit''), (295, ''Occupancy_Lower_Limit_Enforced''),
     (296, ''Occupancy_State''), (297, ''Occupancy_Upper_Limit''),
     (298, ''Occupancy_Upper_Limit_Enforced''), (300, ''Passback_Mode''),
     (301, ''Passback_Timeout''), (302, ''Positive_Access_Rules''), (303, ''Reason_For_Disable''),
     (304, ''Supported_Formats''), (305, ''Supported_Format_Classes''), (306, ''Threat_Authority'')]"

definition PROPERTY_NAMES_3 :: "(u32 \<times> string) list" where
  "PROPERTY_NAMES_3 = [
     (307, ''Threat_Level''), (308, ''Trace_Flag''), (309, ''Transaction_Notification_Class''),
     (310, ''User_External_Identifier''), (311, ''User_Information_Reference''),
     (317, ''User_Name''), (318, ''User_Type''), (319, ''Uses_Remaining''), (320, ''Zone_From''),
     (321, ''Zone_To''), (322, ''Access_Event_Tag''), (323, ''Global_Identifier''),
     (326, ''Verification_Time''), (327, ''Base_Device_Security_Policy''),
     (328, ''Distribution_Key_Revision''), (329, ''Do_Not_Hide''), (330, ''Key_Sets''),
     (331, ''Last_Key_Server''), (332, ''Network_Access_Security_Policies''),
     (333, ''Packet_Reorder_Time''), (334, ''Security_Pdu_Timeout''),
     (335, ''Security_Time_Window''), (336, ''Supported_Security_Algorithms''),
     (338, ''Backup_And_Restore_State''), (339, ''Backup_Preparation_Time''),
     (340, ''Restore_Completion_Time''), (341, ''Restore_Preparation_Time''), (342, ''Bit_Mask''),
     (343, ''Bit_Text''), (344, ''Is_Utc''), (345, ''Group_Members''),
     (346, ''Group_Member_Names''), (347, ''Member_Status_Flags''),
     (348, ''Requested_Update_Interval''), (349, ''Covu_Period''), (350, ''Covu_Recipients''),
     (351, ''Event_Message_Texts''), (352, ''Event_Message_Texts_Config''),
     (353, ''Event_Detection_Enable''), (354, ''Event_Algorithm_Inhibit''),
     (355, ''Event_Algorithm_Inhibit_Ref''), (356, ''Time_Delay_Normal''),
     (357, ''Reliability_Evaluation_Inhibit''), (358, ''Fault_Parameters''), (359, ''Fault_Type''),
     (360, ''Local_Forwarding_Only''), (361, ''Process_Identifier_Filter''),
     (362, ''Subscribed_Recipients''), (363, ''Port_Filter''), (364, ''Authorization_Exemptions''),
     (365, ''Allow_Group_Delay_Inhibit''), (366, ''Channel_Number''), (367, ''Control_Groups''),
     (368, ''Execution_Delay''), (369, ''Last_Priority''), (370, ''Write_Status''),
     (371, ''Property_List''), (372, ''Serial_Number''), (373, ''Blink_Warn_Enable''),
     (374, ''Default_Fade_Time''), (375, ''Default_Ramp_Rate''), (376, ''Default_Step_Increment''),
     (377, ''Egress_Time''), (378, ''In_Progress''), (379, ''Instantaneous_Power''),
     (380, ''Lighting_Command''), (381, ''Lighting_Command_Default_Priority''),
     (382, ''Max_Actual_Value''), (383, ''Min_Actual_Value''), (384, ''Power''),
     (385, ''Transition''), (386, ''Egress_Active''), (387, ''Interface_Value''),
     (388, ''Fault_High_Limit''), (389, ''Fault_Low_Limit''), (390, ''Low_Diff_Limit''),
     (391, ''Strike_Count''), (392, ''Time_Of_Strike_Count_Reset''), (393, ''Default_Timeout''),
     (394, ''Initial_Timeout''), (395, ''Last_State_Change''), (396, ''State_Change_Values''),
     (397, ''Timer_Running''), (398, ''Timer_State''), (399, ''Apdu_Length''),
     (400, ''Ip_Address''), (401, ''Ip_Default_Gateway''), (402, ''Ip_Dhcp_Enable''),
     (403, ''Ip_Dhcp_Lease_Time''), (404, ''Ip_Dhcp_Lease_Time_Remaining''),
     (405, ''Ip_Dhcp_Server''), (406, ''Ip_Dns_Server''), (407, ''Bacnet_Ip_Global_Address''),
     (408, ''Bacnet_Ip_Mode''), (409, ''Bacnet_Ip_Multicast_Address''),
     (410, ''Bacnet_Ip_Nat_Traversal''), (411, ''Ip_Subnet_Mask''), (412, ''Bacnet_Ip_Udp_Port''),
     (413, ''Bbmd_Accept_Fd_Registrations''), (414, ''Bbmd_Broadcast_Distribution_Table''),
     (415, ''Bbmd_Foreign_Device_Table''), (416, ''Changes_Pending''), (417, ''Command''),
     (418, ''Fd_Bbmd_Address''), (419, ''Fd_Subscription_Lifetime''), (420, ''Link_Speed''),
     (421, ''Link_Speeds''), (422, ''Link_Speed_Autonegotiate''), (423, ''Mac_Address''),
     (424, ''Network_Interface_Name''), (425, ''Network_Number''),
     (426, ''Network_Number_Quality''), (427, ''Network_Type''), (428, ''Routing_Table''),
     (429, ''Virtual_Mac_Address_Table''), (430, ''Command_Time_Array''),
     (431, ''Current_Command_Priority''), (432, ''Last_Command_Time''), (433, ''Value_Source''),
     (434, ''Value_Source_Array''), (435, ''Bacnet_Ipv6_Mode''), (436, ''Ipv6_Address''),
     (437, ''Ipv6_Prefix_Length''), (438, ''Bacnet_Ipv6_Udp_Port''),
     (439, ''Ipv6_Default_Gateway''), (440, ''Bacnet_Ipv6_Multicast_Address''),
     (441, ''Ipv6_Dns_Server''), (442, ''Ipv6_Auto_Addressing_Enable''),
     (443, ''Ipv6_Dhcp_Lease_Time''), (444, ''Ipv6_Dhcp_Lease_Time_Remaining''),
     (445, ''Ipv6_Dhcp_Server''), (446, ''Ipv6_Zone_Index''), (447, ''Assigned_Landing_Calls''),
     (448, ''Car_Assigned_Direction''), (449, ''Car_Door_Command''), (450, ''Car_Door_Status''),
     (451, ''Car_Door_Text''), (452, ''Car_Door_Zone''), (453, ''Car_Drive_Status''),
     (454, ''Car_Load'')]"

definition PROPERTY_NAMES_4 :: "(u32 \<times> string) list" where
  "PROPERTY_NAMES_4 = [
     (455, ''Car_Load_Units''), (456, ''Car_Mode''), (457, ''Car_Moving_Direction''),
     (458, ''Car_Position''), (459, ''Elevator_Group''), (460, ''Energy_Meter''),
     (461, ''Energy_Meter_Ref''), (462, ''Escalator_Mode''), (463, ''Fault_Signals''),
     (464, ''Floor_Text''), (465, ''Group_Id''), (467, ''Group_Mode''), (468, ''Higher_Deck''),
     (469, ''Installation_Id''), (470, ''Landing_Calls''), (471, ''Landing_Call_Control''),
     (472, ''Landing_Door_Status''), (473, ''Lower_Deck''), (474, ''Machine_Room_Id''),
     (475, ''Making_Car_Call''), (476, ''Next_Stopping_Floor''), (477, ''Operation_Direction''),
     (478, ''Passenger_Alarm''), (479, ''Power_Mode''), (480, ''Registered_Car_Call''),
     (481, ''Active_Cov_Multiple_Subscriptions''), (482, ''Protocol_Level''),
     (483, ''Reference_Port''), (484, ''Deployed_Profile_Location''), (485, ''Profile_Location''),
     (486, ''Tags''), (487, ''Subordinate_Node_Types''), (488, ''Subordinate_Tags''),
     (489, ''Subordinate_Relationships''), (490, ''Default_Subordinate_Relationship''),
     (491, ''Represents''), (492, ''Default_Present_Value''), (493, ''Present_Stage''),
     (494, ''Stages''), (495, ''Stage_Names''), (496, ''Target_References''),
     (497, ''Audit_Source_Reporter''), (498, ''Audit_Level''),
     (499, ''Audit_Notification_Recipient''), (500, ''Audit_Priority_Filter''),
     (501, ''Auditable_Operations''), (502, ''Delete_On_Forward''), (503, ''Maximum_Send_Delay''),
     (504, ''Monitored_Objects''), (505, ''Send_Now''), (506, ''Floor_Number''),
     (507, ''Device_Uuid''), (508, ''Additional_Reference_Ports''),
     (509, ''Certificate_Signing_Request_File''), (510, ''Command_Validation_Result''),
     (511, ''Issuer_Certificate_Files''), (4194304, ''Max_Bvlc_Length_Accepted''),
     (4194305, ''Max_Npdu_Length_Accepted''), (4194306, ''Operational_Certificate_File''),
     (4194307, ''Current_Health''), (4194308, ''Sc_Connect_Wait_Timeout''),
     (4194309, ''Sc_Direct_Connect_Accept_Enable''), (4194310, ''Sc_Direct_Connect_Accept_Uris''),
     (4194311, ''Sc_Direct_Connect_Binding''), (4194312, ''Sc_Direct_Connect_Connection_Status''),
     (4194313, ''Sc_Direct_Connect_Initiate_Enable''), (4194314, ''Sc_Disconnect_Wait_Timeout''),
     (4194315, ''Sc_Failed_Connection_Requests''),
     (4194316, ''Sc_Failover_Hub_Connection_Status''), (4194317, ''Sc_Failover_Hub_Uri''),
     (4194318, ''Sc_Hub_Connector_State''), (4194319, ''Sc_Hub_Function_Accept_Uris''),
     (4194320, ''Sc_Hub_Function_Binding''), (4194321, ''Sc_Hub_Function_Connection_Status''),
     (4194322, ''Sc_Hub_Function_Enable''), (4194323, ''Sc_Heartbeat_Timeout''),
     (4194324, ''Sc_Primary_Hub_Connection_Status''), (4194325, ''Sc_Primary_Hub_Uri''),
     (4194326, ''Sc_Maximum_Reconnect_Time''), (4194327, ''Sc_Minimum_Reconnect_Time''),
     (4194328, ''Color_Override''), (4194329, ''Color_Reference''), (4194330, ''Default_Color''),
     (4194331, ''Default_Color_Temperature''), (4194332, ''Override_Color_Reference''),
     (4194333, ''Write_Every_Scheduled_Action''), (4194334, ''Color_Command''),
     (4194335, ''High_End_Trim''), (4194336, ''Low_End_Trim''), (4194337, ''Trim_Fade_Time''),
     (4194338, ''Device_Address_Proxy_Enable''), (4194339, ''Device_Address_Proxy_Table''),
     (4194340, ''Device_Address_Proxy_Timeout''), (4194341, ''Default_On_Value''),
     (4194342, ''Last_On_Value''), (4194343, ''Authorization_Cache''),
     (4194344, ''Authorization_Groups''), (4194345, ''Authorization_Policy''),
     (4194346, ''Authorization_Scope''), (4194347, ''Authorization_Server''),
     (4194348, ''Authorization_Status''), (4194349, ''Max_Proxied_I_Ams_Per_Second'')]"

definition PROPERTY_NAMES :: "(u32 \<times> string) list" where
  "PROPERTY_NAMES = PROPERTY_NAMES_1 @ PROPERTY_NAMES_2 @ PROPERTY_NAMES_3 @ PROPERTY_NAMES_4"

section \<open>The binary search\<close>

text \<open>The loop of \<open>LookUpIdName\<close> on the half-open range from \<open>lo\<close> to \<open>hi\<close>.\<close>

function search_ids :: "(u32 \<times> string) list \<Rightarrow> u32 \<Rightarrow> nat \<Rightarrow> nat \<Rightarrow> string option" where
  "search_ids table key lo hi =
     (if lo < hi
      then let mid = lo + (hi - lo) div 2 in
        if fst (table ! mid) = key then Some (snd (table ! mid))
        else if fst (table ! mid) < key then search_ids table key (mid + 1) hi
        else search_ids table key lo mid
      else None)"
  by pat_completeness auto
termination
  by (relation "measure (\<lambda>(table, key, lo, hi). hi - lo)") auto

declare search_ids.simps [simp del]

definition LookUpIdName :: "(u32 \<times> string) list \<Rightarrow> u32 \<Rightarrow> string option" where
  "LookUpIdName table key = search_ids table key 0 (length table)"

definition ObjectTypeName :: "u16 \<Rightarrow> string option" where
  "ObjectTypeName objectType = LookUpIdName OBJECT_TYPE_NAMES (ucast objectType)"

definition PropertyName :: "u32 \<Rightarrow> string option" where
  "PropertyName propertyId = LookUpIdName PROPERTY_NAMES propertyId"

section \<open>A sorted table is a finite map\<close>

lemma find_append_upt:
  "lo \<le> mid \<Longrightarrow> mid \<le> hi \<Longrightarrow>
   find P [lo..<hi] = (case find P [lo..<mid] of Some i \<Rightarrow> Some i | None \<Rightarrow> find P [mid..<hi])"
proof -
  have "find P (xs @ ys) = (case find P xs of Some i \<Rightarrow> Some i | None \<Rightarrow> find P ys)" for xs ys :: "nat list"
    by (induction xs) auto
  moreover assume "lo \<le> mid" "mid \<le> hi"
  ultimately show ?thesis using upt_add_eq_append [of lo mid "hi - mid"] by simp
qed

lemma map_of_as_find:
  "map_of table key =
     (case find (\<lambda>i. fst (table ! i) = key) [0..<length table] of None \<Rightarrow> None | Some i \<Rightarrow> Some (snd (table ! i)))"
proof (induction table)
  case (Cons e table)
  have shift: "find (\<lambda>i. fst ((e # table) ! i) = key) [1..<Suc n] =
      map_option Suc (find (\<lambda>i. fst (table ! i) = key) [0..<n])" for n
  proof -
    have "find P (map Suc xs) = map_option Suc (find (\<lambda>i. P (Suc i)) xs)" for P xs by (induction xs) auto
    moreover have "[1..<Suc n] = map Suc [0..<n]" by (simp add: map_Suc_upt)
    ultimately show ?thesis by simp
  qed
  show ?case
  proof (cases "fst e = key")
    case True
    then show ?thesis by (cases e) (simp add: upt_conv_Cons del: upt_Suc)
  next
    case False
    then have "map_of (e # table) key = map_of table key" by (cases e) simp
    moreover have "find (\<lambda>i. fst ((e # table) ! i) = key) [0..<length (e # table)] =
        map_option Suc (find (\<lambda>i. fst (table ! i) = key) [0..<length table])"
      using False shift [of "length table"] by (simp add: upt_conv_Cons del: upt_Suc)
    ultimately show ?thesis unfolding Cons.IH by (auto split: option.split)
  qed
qed simp

locale sorted_table =
  fixes table :: "(u32 \<times> string) list"
  assumes ascending: "successively (<) (map fst table)"
begin

lemma sorted_ids: "sorted_wrt (<) (map fst table)"
  using ascending successively_conv_sorted_wrt [OF transp_on_less] by blast

lemma ids_less: "i < j \<Longrightarrow> j < length table \<Longrightarrow> fst (table ! i) < fst (table ! j)"
  using sorted_wrt_nth_less [OF sorted_ids, of i j] by simp

lemma distinct_ids: "distinct (map fst table)"
  using sorted_ids strict_sorted_iff by blast

text \<open>The search finds the entry with the key in its range, and nothing else.\<close>

lemma search_correct:
  assumes "hi \<le> length table"
  shows "search_ids table key lo hi =
     (case find (\<lambda>i. fst (table ! i) = key) [lo..<hi] of None \<Rightarrow> None | Some i \<Rightarrow> Some (snd (table ! i)))"
  using assms
proof (induction "hi - lo" arbitrary: lo hi rule: less_induct)
  case less
  show ?case
  proof (cases "lo < hi")
    case True
    define mid where "mid = lo + (hi - lo) div 2"
    have mid: "lo \<le> mid" "mid < hi" "mid < length table" using True less.prems by (auto simp: mid_def)
    have step: "search_ids table key lo hi =
        (if fst (table ! mid) = key then Some (snd (table ! mid))
         else if fst (table ! mid) < key then search_ids table key (mid + 1) hi else search_ids table key lo mid)"
      using True by (subst search_ids.simps) (simp add: mid_def Let_def)
    have split: "find P [lo..<hi] = (case find P [lo..<mid] of Some i \<Rightarrow> Some i | None \<Rightarrow> find P [mid..<hi])" for P
      using mid find_append_upt [of lo mid hi P] by simp
    have head: "find P [mid..<hi] = (if P mid then Some mid else find P [mid + 1..<hi])" for P
      using mid by (simp add: upt_conv_Cons)
    have "fst (table ! j) < fst (table ! mid)" if "j < mid" for j using ids_less [OF that mid(3)] .
    then have below: "find (\<lambda>i. fst (table ! i) = key) [lo..<mid] = None" if "fst (table ! mid) \<le> key"
      using that unfolding find_upt_None_iff by (metis leD)
    have "fst (table ! mid) < fst (table ! j)" if "mid + 1 \<le> j" "j < hi" for j
      using ids_less [of mid j] that less.prems by simp
    then have above: "find (\<lambda>i. fst (table ! i) = key) [mid + 1..<hi] = None" if "key \<le> fst (table ! mid)"
      using that unfolding find_upt_None_iff by (metis leD)
    consider "fst (table ! mid) = key" | "fst (table ! mid) < key" | "key < fst (table ! mid)" by force
    then show ?thesis
    proof cases
      case 1
      then show ?thesis using step below by (simp add: split head)
    next
      case 2
      then have ne: "fst (table ! mid) \<noteq> key" by auto
      with 2 have "search_ids table key lo hi = search_ids table key (mid + 1) hi" using step by simp
      moreover have "find (\<lambda>i. fst (table ! i) = key) [lo..<hi] = find (\<lambda>i. fst (table ! i) = key) [mid + 1..<hi]"
        using 2 ne below by (simp add: split head)
      ultimately show ?thesis using less.hyps [of hi "mid + 1"] mid less.prems by simp
    next
      case 3
      then have ne: "fst (table ! mid) \<noteq> key" "\<not> fst (table ! mid) < key" by auto
      then have "search_ids table key lo hi = search_ids table key lo mid" using step by simp
      moreover have "find (\<lambda>i. fst (table ! i) = key) [lo..<hi] = find (\<lambda>i. fst (table ! i) = key) [lo..<mid]"
        using 3 ne above by (simp add: split head split: option.split)
      ultimately show ?thesis using less.hyps [of mid lo] mid less.prems by simp
    qed
  qed (simp add: search_ids.simps)
qed

lemma lookup_is_map_of: "LookUpIdName table key = map_of table key"
proof -
  have "map_of table key =
      (case find (\<lambda>i. fst (table ! i) = key) [0..<length table] of None \<Rightarrow> None | Some i \<Rightarrow> Some (snd (table ! i)))"
    by (rule map_of_as_find)
  then show ?thesis by (simp add: LookUpIdName_def search_correct)
qed

end

section \<open>The program's tables\<close>

text \<open>The ids of each chunk ascend, and the chunks follow one another.\<close>

lemma OBJECT_TYPE_NAMES_ascend: "successively (<) (map fst OBJECT_TYPE_NAMES)"
  by (simp only: OBJECT_TYPE_NAMES_def list.map fst_conv) simp

lemma PROPERTY_NAMES_1_ascend: "successively (<) (map fst PROPERTY_NAMES_1)"
  by (simp only: PROPERTY_NAMES_1_def list.map fst_conv) simp

lemma PROPERTY_NAMES_2_ascend: "successively (<) (map fst PROPERTY_NAMES_2)"
  by (simp only: PROPERTY_NAMES_2_def list.map fst_conv) simp

lemma PROPERTY_NAMES_3_ascend: "successively (<) (map fst PROPERTY_NAMES_3)"
  by (simp only: PROPERTY_NAMES_3_def list.map fst_conv) simp

lemma PROPERTY_NAMES_4_ascend: "successively (<) (map fst PROPERTY_NAMES_4)"
  by (simp only: PROPERTY_NAMES_4_def list.map fst_conv) simp

lemma property_chunks_follow:
  "fst (last PROPERTY_NAMES_1) < fst (hd PROPERTY_NAMES_2)" "PROPERTY_NAMES_1 \<noteq> []" "PROPERTY_NAMES_2 \<noteq> []"
  "fst (last PROPERTY_NAMES_2) < fst (hd PROPERTY_NAMES_3)" "PROPERTY_NAMES_3 \<noteq> []"
  "fst (last PROPERTY_NAMES_3) < fst (hd PROPERTY_NAMES_4)" "PROPERTY_NAMES_4 \<noteq> []"
  unfolding PROPERTY_NAMES_1_def PROPERTY_NAMES_2_def PROPERTY_NAMES_3_def PROPERTY_NAMES_4_def by code_simp+

interpretation object_types: sorted_table OBJECT_TYPE_NAMES
  by unfold_locales (rule OBJECT_TYPE_NAMES_ascend)

interpretation properties: sorted_table PROPERTY_NAMES
  by unfold_locales
    (simp add: PROPERTY_NAMES_def successively_append_iff property_chunks_follow hd_map last_map
      PROPERTY_NAMES_1_ascend PROPERTY_NAMES_2_ascend PROPERTY_NAMES_3_ascend PROPERTY_NAMES_4_ascend)

end
