(* ===== verification/Frame_Text.thy ===== *)
theory Frame_Text
  imports Frame_Decode Id_Names C_String
begin

text \<open>
  What the frame log prints (common/CASExampleHelper.cpp): the one-line summary, written with
  \<open>snprintf\<close> into a buffer of a given size, and the XML dump, printed to the console. A buffer is
  the text it holds; \<open>append_text\<close> is \<open>snprintf\<close> at its end, which cuts what does not fit.
\<close>

section \<open>Text buffers\<close>

definition append_text :: "nat \<Rightarrow> string \<Rightarrow> string \<Rightarrow> string" where
  "append_text bufLen buf s = buf @ take (bufLen - 1 - length buf) s"

lemma append_text_fits: "length buf < n \<Longrightarrow> length (append_text n buf s) < n"
  by (simp add: append_text_def)

fun AppendHex :: "nat \<Rightarrow> string \<Rightarrow> bytes \<Rightarrow> string" where
  "AppendHex bufLen buf [] = buf"
| "AppendHex bufLen buf (b # bs) =
     (if length buf + 2 < bufLen then AppendHex bufLen (append_text bufLen buf (hex2 b)) bs else buf)"

definition AppendRouteSuffix :: "nat \<Rightarrow> string \<Rightarrow> DecodedFrame \<Rightarrow> string" where
  "AppendRouteSuffix bufLen buf d =
     (if \<not> hasDest d then buf
      else let b1 = append_text bufLen buf ('' DNET='' @ decimal (unat (dnet d))) in
        if dadr d \<noteq> [] then AppendHex bufLen (append_text bufLen b1 '' DADR='') (dadr d) else b1)"

section \<open>The one-line summary\<close>

text \<open>A name, or its number when it has none.\<close>

definition named :: "string \<Rightarrow> string \<Rightarrow> string option \<Rightarrow> u8 \<Rightarrow> string" where
  "named prefix what name n =
     prefix @ '': '' @ (case name of Some s \<Rightarrow> s | None \<Rightarrow> what @ ''='' @ decimal (unat n))"

definition pdu_text :: "DecodedFrame \<Rightarrow> string" where
  "pdu_text d =
     (let service = (\<lambda>prefix names. if \<not> hasServiceChoice d then prefix
            else named prefix ''service'' (names (f_serviceChoice d)) (f_serviceChoice d));
          reason = (\<lambda>prefix names. if \<not> hasReason d then prefix
            else named prefix ''reason'' (names (f_reason d)) (f_reason d))
      in if f_pduType d = 0 then service ''ConfirmedRequest'' ConfirmedServiceName
         else if f_pduType d = 1 then service ''Unconfirmed'' UnconfirmedServiceName
         else if f_pduType d = 2 then service ''SimpleACK'' ConfirmedServiceName
         else if f_pduType d = 3 then service ''ComplexACK'' ConfirmedServiceName
         else if f_pduType d = 4 then ''SegmentACK''
         else if f_pduType d = 5 then service ''Error'' ConfirmedServiceName
         else if f_pduType d = 6 then reason ''Reject'' RejectReasonName
         else if f_pduType d = 7 then reason ''Abort'' AbortReasonName
         else ''?'')"

definition object_property_text :: "DecodedFrame \<Rightarrow> string" where
  "object_property_text d =
     (let inst = decimal (unat (f_objectInstance d));
          index = (if hasArrayIndex d then ''['' @ decimal (unat (f_arrayIndex d)) @ '']'' else '''')
      in case (ObjectTypeName (f_objectType d), PropertyName (f_propertyId d)) of
           (Some typeName, Some propName) \<Rightarrow> '' '' @ typeName @ '' '' @ inst @ ''.'' @ propName @ index
         | _ \<Rightarrow> '' object-type='' @ decimal (unat (f_objectType d)) @ '' '' @ inst @ ''.property='' @
                decimal (unat (f_propertyId d)) @ index)"

text \<open>\<open>None\<close>: an output buffer of size 0 is not written.\<close>

definition SummarizeBacnetFrame :: "bytes \<Rightarrow> nat \<Rightarrow> nat \<Rightarrow> string option" where
  "SummarizeBacnetFrame frame frameLength outSummaryLength =
     (if outSummaryLength = 0 then None
      else Some (let d = DecodeBacnetFrame frame frameLength; out = append_text outSummaryLength in
        if \<not> bacnetIp d then out '''' ''?''
        else if \<not> hasNpdu d then out '''' (''BVLC function=0x'' @ hex2 (bvlcFunction d))
        else if isNetworkMessage d
        then AppendRouteSuffix outSummaryLength
               (out '''' (named ''Network-Layer-Message'' ''type'' (NetworkMessageName (networkMessageType d))
                  (networkMessageType d))) d
        else if \<not> hasApdu d then out '''' ''?''
        else
          let body0 = append_text 128 '''' (pdu_text d);
              body = (if hasObjectProperty d then append_text 128 body0 (object_property_text d) else body0)
          in AppendRouteSuffix outSummaryLength (out '''' body) d))"

section \<open>The XML dump\<close>

definition nl :: string where "nl = [CHR 0x0A]"

definition dquote :: string where "dquote = [CHR 0x22]"

text \<open>A space, a name and a quoted value.\<close>

definition attr :: "string \<Rightarrow> string \<Rightarrow> string" where
  "attr name val = '' '' @ name @ ''='' @ dquote @ val @ dquote"

definition hex_octets :: "bytes \<Rightarrow> string" where
  "hex_octets b = concat (map hex2 b)"

definition name_attr :: "string \<Rightarrow> string option \<Rightarrow> string" where
  "name_attr attribute name = (case name of None \<Rightarrow> '''' | Some s \<Rightarrow> attr attribute s)"

definition address_xml :: "string \<Rightarrow> u16 \<Rightarrow> bytes \<Rightarrow> string" where
  "address_xml element net adr =
     ''      <'' @ element @ attr ''net'' (decimal (unat net)) @
     (if adr \<noteq> [] then attr ''mac'' (hex_octets adr) else '''') @ ''/>'' @ nl"

definition PDU_TYPE_NAMES :: "string list" where
  "PDU_TYPE_NAMES = [''ConfirmedRequest'', ''UnconfirmedRequest'', ''SimpleACK'', ''ComplexACK'',
     ''SegmentACK'', ''Error'', ''Reject'', ''Abort'']"

definition apdu_xml :: "DecodedFrame \<Rightarrow> string" where
  "apdu_xml d =
     ''      <APDU'' @ attr ''type'' (if f_pduType d < 8 then PDU_TYPE_NAMES ! unat (f_pduType d) else ''Unknown'') @
     (if hasInvokeId d then attr ''invokeId'' (decimal (unat (f_invokeId d))) else '''') @
     (if hasServiceChoice d
      then attr ''service'' (decimal (unat (f_serviceChoice d))) @
        name_attr ''serviceName'' (if f_pduType d = 1 then UnconfirmedServiceName (f_serviceChoice d)
                                   else ConfirmedServiceName (f_serviceChoice d))
      else '''') @
     (if hasReason d
      then attr ''reason'' (decimal (unat (f_reason d))) @
        name_attr ''reasonName'' (if f_pduType d = 6 then RejectReasonName (f_reason d)
                                  else AbortReasonName (f_reason d))
      else '''') @
     (if \<not> hasObjectProperty d then ''/>'' @ nl
      else ''>'' @ nl @
        ''        <Object'' @ attr ''type'' (decimal (unat (f_objectType d))) @
        name_attr ''typeName'' (ObjectTypeName (f_objectType d)) @
        attr ''instance'' (decimal (unat (f_objectInstance d))) @ ''/>'' @ nl @
        ''        <Property'' @ attr ''id'' (decimal (unat (f_propertyId d))) @
        name_attr ''name'' (PropertyName (f_propertyId d)) @ ''/>'' @ nl @
        (if hasArrayIndex d
         then ''        <ArrayIndex'' @ attr ''value'' (decimal (unat (f_arrayIndex d))) @ ''/>'' @ nl
         else '''') @
        ''      </APDU>'' @ nl)"

definition npdu_xml :: "DecodedFrame \<Rightarrow> string" where
  "npdu_xml d =
     ''    <NPDU'' @ attr ''version'' (decimal (unat (npduVersion d))) @
     attr ''control'' (''0x'' @ hex2 (npduControl d)) @ ''>'' @ nl @
     (if hasDest d then address_xml ''Destination'' (dnet d) (dadr d) else '''') @
     (if hasSrc d then address_xml ''Source'' (snet d) (sadr d) else '''') @
     (if isNetworkMessage d
      then ''      <NetworkLayerMessage'' @ attr ''type'' (decimal (unat (networkMessageType d))) @
        name_attr ''name'' (NetworkMessageName (networkMessageType d)) @ ''/>'' @ nl
      else if hasApdu d then apdu_xml d else '''') @
     ''    </NPDU>'' @ nl"

text \<open>\<open>PrintFrameAsXml\<close>: the text it prints.\<close>

definition PrintFrameAsXml :: "bytes \<Rightarrow> nat \<Rightarrow> string" where
  "PrintFrameAsXml frame frameLength =
     (let d = DecodeBacnetFrame frame frameLength in
      nl @ ''  <BACnetMessage'' @ attr ''bytes'' (decimal frameLength) @ ''>'' @ nl @
      (if \<not> bacnetIp d
       then ''    <Error>not a recognizable BACnet/IP (BVLC) frame</Error>'' @ nl @ ''  </BACnetMessage>'' @ nl
       else ''    <BVLC'' @ attr ''function'' (''0x'' @ hex2 (bvlcFunction d)) @ ''/>'' @ nl @
         (if hasNpdu d then npdu_xml d else '''') @
         ''    <RawHex>'' @ hex_octets (window frame 0 frameLength) @ ''</RawHex>'' @ nl @
         ''  </BACnetMessage>'' @ nl))"

section \<open>The log line\<close>

text \<open>\<open>args\<close> is \<open>argv\<close>, the program's name first.\<close>

definition ParseXmlLogArg :: "bool \<Rightarrow> string list \<Rightarrow> bool" where
  "ParseXmlLogArg g_xmlFrameLoggingEnabled args =
     (if \<exists>a \<in> set (tl args). a = ''--xmlLog'' \<or> a = ''--xml'' then True else g_xmlFrameLoggingEnabled)"

definition LogBacnetFrame :: "bool \<Rightarrow> bytes \<Rightarrow> nat \<Rightarrow> string" where
  "LogBacnetFrame g_xmlFrameLoggingEnabled frame frameLength =
     (if g_xmlFrameLoggingEnabled then PrintFrameAsXml frame frameLength
      else '' - '' @ the (SummarizeBacnetFrame frame frameLength 192) @ nl)"

section \<open>The buffer is never overrun\<close>

lemma AppendHex_fits: "length buf < n \<Longrightarrow> length (AppendHex n buf bs) < n"
  by (induction n buf bs rule: AppendHex.induct) (simp_all add: append_text_fits)

lemma AppendRouteSuffix_fits: "length buf < n \<Longrightarrow> length (AppendRouteSuffix n buf d) < n"
  by (simp add: AppendRouteSuffix_def Let_def append_text_fits AppendHex_fits)

lemma SummarizeBacnetFrame_fits:
  "SummarizeBacnetFrame frame n bufLen = Some s \<Longrightarrow> length s < bufLen"
  by (auto simp: SummarizeBacnetFrame_def Let_def append_text_fits AppendRouteSuffix_fits split: if_splits)

end
