(* ===== verification/Udp4_Socket.thy ===== *)
theory Udp4_Socket
  imports Tag_Reader
begin

text \<open>
  The BACnet/IP socket (common/SimpleUDP.cpp) and the frames the program copies to a peer on
  another UDP port. What the operating system's calls return is an argument; what is handed to
  \<open>sendto\<close> is part of the result.
\<close>

section \<open>The socket\<close>

record udp4 =
  u4_connected :: bool

type_synonym sendto4 = "bytes \<times> u16 \<times> bytes" \<comment> \<open>address, port, octets\<close>
type_synonym datagram4 = "bytes \<times> bytes \<times> u16" \<comment> \<open>octets, sender, port\<close>

definition UdpConnect :: "udp4 \<Rightarrow> bool \<Rightarrow> bool \<Rightarrow> udp4 \<times> bool" where
  "UdpConnect s opened bindOk =
     (if \<not> opened then (s, False)
      else if \<not> bindOk then (s\<lparr>u4_connected := False\<rparr>, False)
      else (s\<lparr>u4_connected := True\<rparr>, True))"

definition UdpDisconnect :: "udp4 \<Rightarrow> udp4" where
  "UdpDisconnect s = s\<lparr>u4_connected := False\<rparr>"

definition UdpSend :: "udp4 \<Rightarrow> (sendto4 \<Rightarrow> int) \<Rightarrow> bytes \<Rightarrow> u16 \<Rightarrow> bytes \<Rightarrow> u16 \<times> sendto4 list" where
  "UdpSend s sendto ipAddress port data =
     (if \<not> u4_connected s then (0, [])
      else let call = (take 4 ipAddress, port, data); sent = sendto call
           in (if 0 < sent then of_int sent else 0, [call]))"

text \<open>
  \<open>queued\<close>: the datagram that makes the socket readable within the 10 ms of \<open>select\<close>, if any;
  \<open>recvfrom\<close> copies at most \<open>maxLength\<close> octets of it and drops the rest.
\<close>

definition UdpReceive :: "udp4 \<Rightarrow> u16 \<Rightarrow> datagram4 option \<Rightarrow> datagram4 option" where
  "UdpReceive s maxLength queued =
     (if \<not> u4_connected s then None
      else case queued of
          None \<Rightarrow> None
        | Some (data, from, port) \<Rightarrow>
            (let received = take (unat maxLength) data in
             if received = [] then None else Some (received, from, port)))"

lemma UdpReceive_SomeD:
  "UdpReceive s maxLength queued = Some (data, from, port) \<Longrightarrow>
   data \<noteq> [] \<and> length data \<le> unat maxLength \<and> (\<exists>whole. queued = Some (whole, from, port) \<and> data = take (unat maxLength) whole)"
  by (auto simp: UdpReceive_def Let_def split: if_splits option.splits prod.splits)

lemma UdpReceive_waiting:
  "u4_connected s \<Longrightarrow> 0 < maxLength \<Longrightarrow> d \<noteq> [] \<Longrightarrow>
   UdpReceive s maxLength (Some (d, from, port)) = Some (take (unat maxLength) d, from, port)"
  by (auto simp: UdpReceive_def word_less_nat_alt)

section \<open>Which broadcasts are copied to a peer\<close>

text \<open>
  What follows the BVLC header: a network layer message, an I-Am or an I-Have. The C index is a
  \<open>uint16_t\<close>; it never exceeds 523, so it is a \<open>nat\<close>.
\<close>

definition answers_at :: "bytes \<Rightarrow> nat \<Rightarrow> bool" where
  "answers_at message len \<longleftrightarrow>
     (if len < 4 + 2 \<or> message ! 4 \<noteq> 0x01 then False
      else let control = message ! 5 in
        case skip_address message len (control AND 0x20 \<noteq> 0) 6 of
          None \<Rightarrow> False
        | Some i1 \<Rightarrow>
            (case skip_address message len (control AND 0x08 \<noteq> 0) i1 of
               None \<Rightarrow> False
             | Some i2 \<Rightarrow>
                 (let i = (if control AND 0x20 \<noteq> 0 then i2 + 1 else i2) in
                  if control AND 0x80 \<noteq> 0 then True
                  else i + 2 \<le> len \<and> drop_bit 4 (message ! i) = 1 \<and>
                       (message ! (i + 1) = 0 \<or> message ! (i + 1) = 1))))"

text \<open>The copy in common/CASExampleHelper.cpp.\<close>

definition HelperIsStackChosenBroadcast :: "bytes \<Rightarrow> nat \<Rightarrow> bool" where
  "HelperIsStackChosenBroadcast message len \<longleftrightarrow>
     (if len < 6 \<or> message ! 0 \<noteq> 0x81 then False
      else if message ! 1 \<noteq> 0x0A \<and> message ! 1 \<noteq> 0x0B then False
      else answers_at message len)"

text \<open>The copy in main.cpp.\<close>

definition IsStackChosenBroadcast :: "bytes \<Rightarrow> nat \<Rightarrow> bool" where
  "IsStackChosenBroadcast message len \<longleftrightarrow>
     (if len < 6 \<or> message ! 0 \<noteq> 0x81 \<or> (message ! 1 \<noteq> 0x0A \<and> message ! 1 \<noteq> 0x0B) then False
      else answers_at message len)"

end
