(* ===== verification/Npdu_Encoding.thy ===== *)
theory Npdu_Encoding
  imports Frame_Decode Udp4_Socket
begin

text \<open>
  The encoder the decoders are measured against (clauses 6.2 and 20.2 of the standard): BVLC and
  NPDU headers with optional destination and source addresses, and context tags. It is the
  specification, not code of the program.
\<close>

section \<open>Encoding\<close>

definition u16_octets :: "u16 \<Rightarrow> bytes" where
  "u16_octets w = [ucast (drop_bit 8 w), ucast (w AND 0xFF)]"

definition u32_octets :: "u32 \<Rightarrow> bytes" where
  "u32_octets w = [ucast (drop_bit 24 w), ucast (drop_bit 16 w), ucast (drop_bit 8 w), ucast w]"

type_synonym net_address = "u16 \<times> bytes"

definition address_octets :: "net_address option \<Rightarrow> bytes" where
  "address_octets a =
     (case a of None \<Rightarrow> [] | Some (net, adr) \<Rightarrow> u16_octets net @ of_nat (length adr) # adr)"

definition address_ok :: "net_address option \<Rightarrow> bool" where
  "address_ok a \<longleftrightarrow> (case a of None \<Rightarrow> True | Some (_, adr) \<Rightarrow> length adr < 256)"

definition npdu_control :: "u8 \<Rightarrow> net_address option \<Rightarrow> net_address option \<Rightarrow> u8" where
  "npdu_control flags dest src =
     (flags AND 0xD7) OR (if dest = None then 0 else 0x20) OR (if src = None then 0 else 0x08)"

definition npdu_octets :: "u8 \<Rightarrow> net_address option \<Rightarrow> net_address option \<Rightarrow> u8 \<Rightarrow> bytes" where
  "npdu_octets flags dest src hops =
     [1, npdu_control flags dest src] @ address_octets dest @ address_octets src @
     (if dest = None then [] else [hops])"

definition context_octets :: "u8 \<Rightarrow> bytes \<Rightarrow> bytes" where
  "context_octets number content = (push_bit 4 number OR 8 OR of_nat (length content)) # content"

section \<open>Reading what was encoded\<close>

lemma u16_octets_join:
  "push_bit 8 (ucast (ucast (drop_bit 8 w) :: u8)) OR ucast (ucast (w AND 0xFF) :: u8) = (w :: u16)"
proof (rule bit_word_eqI)
  fix n assume "n < LENGTH(16)"
  moreover have "w AND 0xFF = take_bit 8 w" by (simp add: take_bit_eq_mask mask_eq_exp_minus_1)
  ultimately show "bit (push_bit 8 (ucast (ucast (drop_bit 8 w) :: u8)) OR ucast (ucast (w AND 0xFF) :: u8) :: u16) n = bit w n"
    by (cases "n < 8") (auto simp: bit_simps bit_ucast_iff)
qed

lemma u32_octets_join:
  "push_bit 24 (ucast (ucast (drop_bit 24 w) :: u8)) OR push_bit 16 (ucast (ucast (drop_bit 16 w) :: u8)) OR
   push_bit 8 (ucast (ucast (drop_bit 8 w) :: u8)) OR ucast (ucast w :: u8) = (w :: u32)"
proof (rule bit_word_eqI)
  fix n assume n: "n < LENGTH(32)"
  have "bit (push_bit k (ucast (ucast (drop_bit k w) :: u8)) :: u32) n \<longleftrightarrow> k \<le> n \<and> n < k + 8 \<and> bit w n" if "k \<le> 24" for k
  proof (cases "k \<le> n")
    case True
    then have "n - k < 8 \<longleftrightarrow> n < k + 8" by linarith
    then show ?thesis using n that True by (simp add: bit_push_bit_iff bit_ucast_iff bit_drop_bit_eq less_imp_diff_less)
  qed (simp add: bit_push_bit_iff)
  from this [of 24] this [of 16] this [of 8] this [of 0] n
  show "bit (push_bit 24 (ucast (ucast (drop_bit 24 w) :: u8)) OR push_bit 16 (ucast (ucast (drop_bit 16 w) :: u8)) OR
      push_bit 8 (ucast (ucast (drop_bit 8 w) :: u8)) OR ucast (ucast w :: u8) :: u32) n = bit w n"
    unfolding bit_or_iff by (cases "bit w n") auto
qed

lemma control_bits:
  "npdu_control flags dest src AND 0x20 \<noteq> 0 \<longleftrightarrow> dest \<noteq> None"
  "npdu_control flags dest src AND 0x08 \<noteq> 0 \<longleftrightarrow> src \<noteq> None"
  "npdu_control flags dest src AND 0x80 \<noteq> 0 \<longleftrightarrow> flags AND 0x80 \<noteq> 0"
proof -
  have e: "w AND 0x20 \<noteq> 0 \<longleftrightarrow> bit w 5" "w AND 8 \<noteq> 0 \<longleftrightarrow> bit w 3" "w AND 0x80 \<noteq> 0 \<longleftrightarrow> bit w 7" for w :: u8
    using and_exp_eq_0_iff_not_bit [of w 5] and_exp_eq_0_iff_not_bit [of w 3] and_exp_eq_0_iff_not_bit [of w 7]
    by simp_all
  show "npdu_control flags dest src AND 0x20 \<noteq> 0 \<longleftrightarrow> dest \<noteq> None"
    "npdu_control flags dest src AND 0x08 \<noteq> 0 \<longleftrightarrow> src \<noteq> None"
    "npdu_control flags dest src AND 0x80 \<noteq> 0 \<longleftrightarrow> flags AND 0x80 \<noteq> 0"
    unfolding e npdu_control_def by (simp_all add: bit_or_iff bit_and_iff)
qed

lemma nth_after: "(pre @ xs @ post) ! (length pre + k) = (xs @ post) ! k"
  by (simp add: nth_append)

lemma window_after: "length xs = n \<Longrightarrow> window (pre @ xs @ post) (length pre) n = xs"
  by (rule nth_equalityI) (auto simp: window_def nth_append)

lemma unat_of_nat_u8: "n < 256 \<Longrightarrow> unat (of_nat n :: u8) = n"
  by (simp add: unat_of_nat)

lemma length_address_octets [simp]:
  "length (address_octets a) = (case a of None \<Rightarrow> 0 | Some (net, adr) \<Rightarrow> 3 + length adr)"
  by (auto simp: address_octets_def u16_octets_def split: option.split)

lemma address_octets_None [simp]: "address_octets None = []"
  by (simp add: address_octets_def)

lemma decode_address_encoded:
  assumes "length adr < 256"
  shows "decode_address (pre @ address_octets (Some (net, adr)) @ post)
       (length (pre @ address_octets (Some (net, adr)) @ post)) (length pre) =
     Some (net, Some (adr, length pre + 3 + length adr))"
proof -
  define xs where "xs = address_octets (Some (net, adr))"
  define frame where "frame = pre @ xs @ post"
  have xs: "xs = [ucast (drop_bit 8 net), ucast (net AND 0xFF), of_nat (length adr)] @ adr"
    by (simp add: xs_def address_octets_def u16_octets_def)
  have at: "frame ! (length pre + k) = (xs @ post) ! k" for k unfolding frame_def by (rule nth_after)
  have o: "frame ! length pre = ucast (drop_bit 8 net)" "frame ! (length pre + 1) = ucast (net AND 0xFF)"
      "frame ! (length pre + 2) = of_nat (length adr)"
    using at [of 0] at [of 1] at [of 2] by (simp_all add: xs)
  have w: "window frame (length pre + 3) (length adr) = adr"
    using window_after [of adr "length adr" "pre @ take 3 xs" post] by (simp add: frame_def xs numeral_3_eq_3)
  have len: "length frame = length pre + 3 + length adr + length post" by (simp add: frame_def xs)
  show ?thesis
    unfolding xs_def [symmetric] frame_def [symmetric] decode_address_def o
    using assms len w by (simp add: Let_def unat_of_nat_u8 u16_octets_join)
qed

lemma skip_address_encoded:
  assumes "address_ok a"
  shows "skip_address (pre @ address_octets a @ post) (length (pre @ address_octets a @ post)) (a \<noteq> None) (length pre) =
     Some (length (pre @ address_octets a))"
proof (cases a)
  case (Some p)
  obtain net adr where a: "a = Some (net, adr)" using Some by (cases p) auto
  have "(pre @ address_octets a @ post) ! (length pre + 2) = (address_octets a @ post) ! 2" by (rule nth_after)
  also have "\<dots> = of_nat (length adr)" by (simp add: a address_octets_def u16_octets_def)
  finally show ?thesis using assms a by (simp add: skip_address_def address_ok_def unat_of_nat_u8)
qed (simp add: skip_address_def address_octets_def)


text \<open>The header of the NPDU, without the addresses.\<close>

lemma npdu_octets_split:
  "pre @ npdu_octets flags dest src hops @ rest =
     (pre @ [1, npdu_control flags dest src]) @ address_octets dest @ address_octets src @
       (if dest = None then [] else [hops]) @ rest"
  by (simp add: npdu_octets_def)

lemma npdu_octets_header:
  "(pre @ npdu_octets flags dest src hops @ rest) ! length pre = 1"
  "(pre @ npdu_octets flags dest src hops @ rest) ! (length pre + 1) = npdu_control flags dest src"
  by (simp_all add: npdu_octets_def nth_append)

lemma length_npdu_octets:
  "length (npdu_octets flags dest src hops) =
     2 + length (address_octets dest) + length (address_octets src) + (if dest = None then 0 else 1)"
  by (simp add: npdu_octets_def)

text \<open>Passing over both addresses, as the two parsers of replies and broadcasts do.\<close>

lemma skip_both_addresses:
  fixes pre rest :: bytes and flags hops :: u8
  assumes "address_ok dest" "address_ok src"
  defines "frame \<equiv> pre @ npdu_octets flags dest src hops @ rest"
  shows "skip_address frame (length frame) (dest \<noteq> None) (length pre + 2) =
      Some (length pre + 2 + length (address_octets dest))"
    "skip_address frame (length frame) (src \<noteq> None) (length pre + 2 + length (address_octets dest)) =
      Some (length pre + 2 + length (address_octets dest) + length (address_octets src))"
proof -
  define head where "head = pre @ [1, npdu_control flags dest src]"
  define tail where "tail = (if dest = None then [] else [hops]) @ rest"
  have f: "frame = head @ address_octets dest @ address_octets src @ tail"
    "frame = (head @ address_octets dest) @ address_octets src @ tail"
    unfolding frame_def head_def tail_def npdu_octets_split by simp_all
  have l: "length head = length pre + 2" by (simp add: head_def)
  have "skip_address frame (length frame) (dest \<noteq> None) (length head) = Some (length (head @ address_octets dest))"
    unfolding f(1) by (rule skip_address_encoded [OF assms(1)])
  then show "skip_address frame (length frame) (dest \<noteq> None) (length pre + 2) =
      Some (length pre + 2 + length (address_octets dest))"
    by (simp only: l length_append)
  have "skip_address frame (length frame) (src \<noteq> None) (length (head @ address_octets dest)) =
      Some (length ((head @ address_octets dest) @ address_octets src))"
    unfolding f(2) by (rule skip_address_encoded [OF assms(2)])
  then show "skip_address frame (length frame) (src \<noteq> None) (length pre + 2 + length (address_octets dest)) =
      Some (length pre + 2 + length (address_octets dest) + length (address_octets src))"
    by (simp only: l length_append)
qed

text \<open>The decoder's walk over the NPDU ends at what follows it.\<close>

lemma decode_npdu_encoded:
  fixes pre rest :: bytes and flags hops first :: u8
  assumes "address_ok dest" "address_ok src"
  defines "frame \<equiv> pre @ npdu_octets flags dest src hops @ first # rest"
  shows "decode_npdu frame (length frame) (length pre) out =
    (let o1 = out\<lparr>hasNpdu := True, npduVersion := 1, npduControl := npdu_control flags dest src,
                  hasDest := (dest \<noteq> None), hasSrc := (src \<noteq> None), isNetworkMessage := (flags AND 0x80 \<noteq> 0)\<rparr>;
         o2 = (case dest of None \<Rightarrow> o1 | Some (net, adr) \<Rightarrow> o1\<lparr>dnet := net, dadr := adr\<rparr>);
         o3 = (case src of None \<Rightarrow> o2 | Some (net, adr) \<Rightarrow> o2\<lparr>snet := net, sadr := adr\<rparr>)
     in if flags AND 0x80 \<noteq> 0 then o3\<lparr>networkMessageType := first\<rparr>
        else decode_apdu frame (length frame) (length (pre @ npdu_octets flags dest src hops)) first o3)"
proof -
  define head where "head = pre @ [1, npdu_control flags dest src]"
  define tail where "tail = (if dest = None then [] else [hops]) @ first # rest"
  have f: "frame = head @ address_octets dest @ address_octets src @ tail"
    "frame = (head @ address_octets dest) @ address_octets src @ tail"
    "frame = ((head @ address_octets dest) @ address_octets src) @ tail"
    unfolding frame_def head_def tail_def npdu_octets_split by simp_all
  note h = npdu_octets_header [where pre = pre and flags = flags and dest = dest and src = src and hops = hops
      and rest = "first # rest", folded frame_def]
  have len: "\<not> length frame < length head" by (simp add: frame_def head_def length_npdu_octets)
  have lh: "length head = length pre + 2" by (simp add: head_def)
  define p1 where "p1 = length (head @ address_octets dest)"
  have adr1: "decode_address frame (length frame) (length head) = Some (net, Some (adr, p1))"
    if "dest = Some (net, adr)" for net adr
    using decode_address_encoded [of adr head net "address_octets src @ tail"] assms(1) that lh
    unfolding f(1) p1_def by (simp add: address_ok_def)
  have adr2: "decode_address frame (length frame) (p1) =
      Some (net, Some (adr, length ((head @ address_octets dest) @ address_octets src)))"
    if "src = Some (net, adr)" for net adr
    using decode_address_encoded [of adr "head @ address_octets dest" net tail] assms(2) that
    unfolding f(2) p1_def by (simp add: address_ok_def)
  define q where "q = length ((head @ address_octets dest) @ address_octets src)"
  have after: "decode_after_addresses frame (length frame) q o' =
      (if isNetworkMessage o' then o'\<lparr>networkMessageType := first\<rparr>
       else decode_apdu frame (length frame) (length (pre @ npdu_octets flags dest src hops)) first o')"
    if "hasDest o' = (dest \<noteq> None)" for o'
  proof -
    define r where "r = (if dest = None then q else q + 1)"
    have r: "r = length (pre @ npdu_octets flags dest src hops)"
      by (simp add: r_def q_def lh length_npdu_octets)
    have "frame ! r = first" unfolding r frame_def by (simp add: nth_append)
    moreover have "\<not> length frame \<le> r" "\<not> length frame \<le> q" by (simp_all add: r frame_def r_def q_def lh length_npdu_octets)
    moreover have "(if dest \<noteq> None then q + 1 else q) = r" by (simp add: r_def)
    ultimately show ?thesis
      unfolding decode_after_addresses_def octet_at_def that Let_def r [symmetric] by simp
  qed
  have source: "decode_source frame (length frame) p1 o' =
      decode_after_addresses frame (length frame) q
        (case src of None \<Rightarrow> o' | Some (net, adr) \<Rightarrow> o'\<lparr>snet := net, sadr := adr\<rparr>)"
    if "hasSrc o' = (src \<noteq> None)" for o'
    unfolding decode_source_def that q_def
    by (cases src) (auto simp: adr2 p1_def [symmetric] simp del: length_append)
  have source0: "decode_source frame (length frame) (length head) o' =
      decode_after_addresses frame (length frame) q
        (case src of None \<Rightarrow> o' | Some (net, adr) \<Rightarrow> o'\<lparr>snet := net, sadr := adr\<rparr>)"
    if "dest = None" "hasSrc o' = (src \<noteq> None)" for o'
    using source [OF that(2)] that(1) by (simp add: p1_def)
  show ?thesis
    unfolding decode_npdu_def Let_def h control_bits lh [symmetric]
    using len by (cases dest; cases src) (auto simp: adr1 source source0 after simp del: length_append)
qed

section \<open>Context tags\<close>

lemma context_first_octet:
  assumes "k \<in> {0, 1, 2 :: u8}" "len \<in> {1, 2, 3, 4 :: nat}"
  defines "b \<equiv> push_bit 4 k OR 8 OR of_nat len"
  shows "drop_bit 4 b AND 15 = k" "b AND 8 \<noteq> 0" "b AND 7 = of_nat len"
  using assms by auto

lemma context_tag_encoded:
  fixes pre post :: bytes
  assumes "k \<in> {0, 1, 2}" "length content \<in> {1, 2, 3, 4}" "accepted (of_nat (length content))"
  defines "frame \<equiv> pre @ context_octets k content @ post"
  shows "context_tag_at frame (length frame) (length pre) k accepted =
     Some \<lparr>th_tagNumber = k, th_contextSpecific = True, th_isOpeningTag = False,
           th_isClosingTag = False, th_length = of_nat (length content), th_headerLength = 1\<rparr>"
proof -
  define b where "b = push_bit 4 k OR 8 OR (of_nat (length content) :: u8)"
  note B = context_first_octet [OF assms(1,2), folded b_def]
  have at: "frame ! length pre = b" by (simp add: frame_def context_octets_def b_def nth_append)
  have ne: "drop_bit 4 b AND 15 \<noteq> 15" using B(1) assms(1) by auto
  have l: "(of_nat (length content) :: u8) \<noteq> 6" "(of_nat (length content) :: u8) \<noteq> 7"
    "(of_nat (length content) :: u8) \<le> 4" "ucast (of_nat (length content) :: u8) = (of_nat (length content) :: u32)"
    "unat (of_nat (length content) :: u32) = length content"
    using assms(2) by auto
  have len: "length frame = length pre + 1 + length content + length post"
    by (simp add: frame_def context_octets_def)
  have "DecodeTagHeader frame (length frame) (length pre) =
      Some \<lparr>th_tagNumber = k, th_contextSpecific = True, th_isOpeningTag = False,
           th_isClosingTag = False, th_length = of_nat (length content), th_headerLength = 1\<rparr>"
    unfolding DecodeTagHeader_def at using B ne l len by (simp add: Let_def header_length_field_def)
  then show ?thesis using assms(3) l len by (simp add: context_tag_at_def)
qed

text \<open>Object identifier, property identifier and the optional array index of a property access.\<close>

definition property_octets :: "u32 \<Rightarrow> bytes \<Rightarrow> bytes option \<Rightarrow> bytes" where
  "property_octets object prp index =
     context_octets 0 (u32_octets object) @ context_octets 1 prp @
     (case index of None \<Rightarrow> [] | Some ix \<Rightarrow> context_octets 2 ix)"

lemma u32_at_octets: "u32_at (pre @ u32_octets w @ post) (length pre) = w"
proof -
  have "(pre @ u32_octets w @ post) ! (length pre + k) = (u32_octets w @ post) ! k" for k
    by (rule nth_after)
  from this [of 0] this [of 1] this [of 2] this [of 3] show ?thesis
    by (simp add: u32_at_def u32_octets_def u32_octets_join)
qed

lemma context_content:
  "pre @ context_octets k content @ post = (pre @ [push_bit 4 k OR 8 OR of_nat (length content)]) @ content @ post"
  by (simp add: context_octets_def)

lemma no_tag_behind: "n \<le> p \<Longrightarrow> context_tag_at frame n p k acc = None"
  by (simp add: context_tag_at_def DecodeTagHeader_def)

lemma other_tag_number:
  "drop_bit 4 (frame ! p) = 3 \<Longrightarrow> context_tag_at frame n p 2 acc = None"
  by (auto simp: context_tag_at_def DecodeTagHeader_def Let_def split: option.split if_splits)

lemma DecodeObjectAndProperty_encoded:
  fixes pre post :: bytes and object :: u32
  assumes plen: "length prp \<in> {1, 2, 3, 4}"
    and ilen: "\<And>ix. index = Some ix \<Longrightarrow> length ix \<in> {1, 2, 3, 4}"
    and tail3: "index = None \<Longrightarrow> post = [] \<or> drop_bit 4 (hd post) = 3"
  defines "frame \<equiv> pre @ property_octets object prp index @ post"
  shows "DecodeObjectAndProperty frame (length frame) (length pre) out =
     (let o1 = out\<lparr>hasObjectProperty := True, f_objectType := ucast (drop_bit 22 object AND 0x3FF),
                   f_objectInstance := object AND 0x3FFFFF, f_propertyId := big_endian 0 prp\<rparr>
      in case index of None \<Rightarrow> o1
         | Some ix \<Rightarrow> o1\<lparr>hasArrayIndex := True, f_arrayIndex := big_endian 0 ix\<rparr>)"
proof -
  define oid where "oid = context_octets 0 (u32_octets object)"
  define pid where "pid = context_octets 1 prp"
  define aix where "aix = (case index of None \<Rightarrow> [] | Some ix \<Rightarrow> context_octets 2 ix)"
  have f: "frame = pre @ oid @ (pid @ aix @ post)" "frame = (pre @ oid) @ pid @ (aix @ post)" "frame = (pre @ oid @ pid) @ aix @ post"
    by (simp_all add: frame_def property_octets_def oid_def pid_def aix_def)
  have l4: "length (u32_octets object) = 4" by (simp add: u32_octets_def)
  have lens: "length oid = 5" "length pid = 1 + length prp"
    by (simp_all add: oid_def pid_def context_octets_def l4)
  have t0: "context_tag_at frame (length frame) (length pre) 0 (\<lambda>l. l = 4) =
      Some \<lparr>th_tagNumber = 0, th_contextSpecific = True, th_isOpeningTag = False,
           th_isClosingTag = False, th_length = 4, th_headerLength = 1\<rparr>"
    using context_tag_encoded [of 0 "u32_octets object" "\<lambda>l. l = 4" pre "pid @ aix @ post"] l4
    by (simp add: f(1) oid_def)
  have t1: "context_tag_at frame (length frame) (length pre + 1 + 4) 1 (\<lambda>l. l \<noteq> 0 \<and> l \<le> 4) =
      Some \<lparr>th_tagNumber = 1, th_contextSpecific = True, th_isOpeningTag = False,
           th_isClosingTag = False, th_length = of_nat (length prp), th_headerLength = 1\<rparr>"
    using context_tag_encoded [of 1 prp "\<lambda>l. l \<noteq> 0 \<and> l \<le> 4" "pre @ oid" "aix @ post"] plen lens
    by (auto simp: f(2) pid_def add.commute [of 5])
  have up: "unat (of_nat (length prp) :: u32) = length prp" using plen by auto
  have o: "u32_at frame (length pre + 1) = object"
    using u32_at_octets [of "pre @ [push_bit 4 0 OR 8 OR of_nat 4]" object "pid @ aix @ post"]
    by (simp add: f(1) oid_def context_content l4)
  have p: "window frame (length pre + 1 + 4 + 1) (length prp) = prp"
    using window_after [of prp "length prp" "(pre @ oid) @ [push_bit 4 1 OR 8 OR of_nat (length prp)]" "aix @ post"] lens
    by (simp add: f(2) pid_def context_content add.commute [of 6] ac_simps)
  show ?thesis
  proof (cases index)
    case None
    have "context_tag_at frame (length frame) (length pre + 1 + 4 + 1 + length prp) 2 (\<lambda>l. 0 < l \<and> l \<le> 4) = None"
    proof -
      have e: "length pre + 1 + 4 + 1 + length prp = length (pre @ oid @ pid)" using lens by simp
      have f3: "frame = (pre @ oid @ pid) @ post" using f(3) None by (simp add: aix_def)
      show ?thesis
      proof (cases "post = []")
        case False
        then have "frame ! length (pre @ oid @ pid) = hd post" unfolding f3 by (cases post) (auto simp: nth_append)
        with tail3 [OF None] False show ?thesis unfolding e by (intro other_tag_number) simp
      next
        case True
        then show ?thesis unfolding e f3 by (intro no_tag_behind) simp
      qed
    qed
    then show ?thesis using None unfolding DecodeObjectAndProperty_def
      by (simp only: t0 t1 o p up Let_def option.case TagHeader.select_convs)
  next
    case (Some ix)
    note ix = ilen [OF Some]
    have t2: "context_tag_at frame (length frame) (length pre + 1 + 4 + 1 + length prp) 2 (\<lambda>l. 0 < l \<and> l \<le> 4) =
      Some \<lparr>th_tagNumber = 2, th_contextSpecific = True, th_isOpeningTag = False,
           th_isClosingTag = False, th_length = of_nat (length ix), th_headerLength = 1\<rparr>"
    proof -
      have e: "length pre + 1 + 4 + 1 + length prp = length (pre @ oid @ pid)" using lens by simp
      have f3: "frame = (pre @ oid @ pid) @ context_octets 2 ix @ post" using f(3) Some by (simp add: aix_def)
      have "0 < (of_nat (length ix) :: u32) \<and> (of_nat (length ix) :: u32) \<le> 4" using ix by auto
      then show ?thesis unfolding e f3 by (intro context_tag_encoded) (use ix in simp_all)
    qed
    have u: "unat (of_nat (length ix) :: u32) = length ix" using ix by auto
    have "window frame (length pre + 1 + 4 + 1 + length prp + 1) (length ix) = ix"
      using window_after [of ix "length ix" "(pre @ oid @ pid) @ [push_bit 4 2 OR 8 OR of_nat (length ix)]" post] lens Some
      by (simp add: f(3) aix_def context_octets_def add.commute [of 6] ac_simps)
    then show ?thesis using Some t2 unfolding DecodeObjectAndProperty_def
      by (simp only: t0 t1 o p u up Let_def option.case TagHeader.select_convs)
  qed
qed


lemma object_identifier_parts:
  fixes ty :: u16 and inst :: u32
  assumes "ty < 0x400" "inst < 0x400000"
  shows "ucast (drop_bit 22 (push_bit 22 (ucast ty) OR inst) AND 0x3FF :: u32) = ty"
    "(push_bit 22 (ucast ty) OR inst) AND 0x3FFFFF = inst"
proof -
  have t: "take_bit 10 ty = ty" and i: "take_bit 22 inst = inst"
    using assms by (simp_all add: word_unat_eq_iff unsigned_take_bit_eq take_bit_nat_eq_self word_less_nat_alt)
  have b: "bit ty n \<Longrightarrow> n < 10" "bit inst n \<Longrightarrow> n < 22" for n
    using t i bit_take_bit_iff by metis+
  have m: "w AND 0x3FF = take_bit 10 w" "w AND 0x3FFFFF = take_bit 22 w" for w :: u32
    by (simp_all add: take_bit_eq_mask mask_eq_exp_minus_1)
  show "ucast (drop_bit 22 (push_bit 22 (ucast ty) OR inst) AND 0x3FF :: u32) = ty"
    unfolding m by (rule bit_word_eqI) (auto simp: bit_simps bit_ucast_iff dest: b)
  show "(push_bit 22 (ucast ty) OR inst) AND 0x3FFFFF = inst"
    unfolding m by (rule bit_word_eqI) (auto simp: bit_simps bit_ucast_iff dest: b)
qed

end
