(* ===== verification/Frame_Properties.thy ===== *)
theory Frame_Properties
  imports Frame_Text Npdu_Encoding
begin

text \<open>
  Properties of the frame decoder and its log: lookups of names, agreement of the two tag readers,
  decoding of encoded property accesses, memory safety, and what the XML dump and the summary show.
\<close>

section \<open>Names\<close>

text \<open>
  On both tables of the program the binary search is a finite map's lookup: an object type and
  a property have the name of their table entry, and none when they have no entry.
\<close>

lemma names_are_map_lookups:
  "ObjectTypeName t = map_of OBJECT_TYPE_NAMES (ucast t) \<and> PropertyName p = map_of PROPERTY_NAMES p"
  by (simp add: ObjectTypeName_def PropertyName_def object_types.lookup_is_map_of properties.lookup_is_map_of)

section \<open>Memory safety\<close>

lemma SummarizeBacnetFrame_cong:
  "same_message n a b \<Longrightarrow> SummarizeBacnetFrame a n s = SummarizeBacnetFrame b n s"
  by (simp only: SummarizeBacnetFrame_def DecodeBacnetFrame_cong)

text \<open>The hex digits of a frame determine its octets.\<close>

lemma digit_char_inj: "d < 16 \<Longrightarrow> d' < 16 \<Longrightarrow> digit_char d = digit_char d' \<Longrightarrow> d = d'"
proof -
  have "distinct ''0123456789ABCDEF''" by simp
  moreover assume "d < 16" "d' < 16" "digit_char d = digit_char d'"
  ultimately show ?thesis unfolding digit_char_def using nth_eq_iff_index_eq [of "''0123456789ABCDEF''" d d'] by simp
qed

lemma hex2_inj: "hex2 a = hex2 b \<Longrightarrow> a = b"
proof -
  assume e: "hex2 a = hex2 b"
  have lt: "unat a < 256" "unat b < 256" using unsigned_less [of a] unsigned_less [of b] by simp_all
  have "unat a div 16 = unat b div 16" "unat a mod 16 = unat b mod 16"
    using e lt by (auto simp: hex2_def intro!: digit_char_inj)
  then have "unat a = unat b" by (metis div_mult_mod_eq)
  then show ?thesis by (rule word_unat_eq_iff [THEN iffD2])
qed

lemma length_hex_octets [simp]: "length (hex_octets b) = 2 * length b"
  by (induction b) (simp_all add: hex_octets_def)

lemma hex_octets_inj: "length a = length b \<Longrightarrow> hex_octets a = hex_octets b \<Longrightarrow> a = b"
  by (induction a b rule: list_induct2) (auto simp: hex_octets_def dest: hex2_inj)

lemma window_eq_iff: "window a 0 n = window b 0 n \<longleftrightarrow> same_message n a b"
  by (auto simp: window_def same_message_def)

lemma length_window [simp]: "length (window b p n) = n"
  by (simp add: window_def)

lemma same_suffix:
  "length h = length h' \<Longrightarrow> x @ h @ t = y @ h' @ t \<Longrightarrow> h = h'"
  by (metis append.assoc append_eq_append_conv length_append)

lemma xml_foreign:
  "\<not> bacnetIp (DecodeBacnetFrame f n) \<Longrightarrow>
   PrintFrameAsXml f n = nl @ ''  <BACnetMessage'' @ attr ''bytes'' (decimal n) @ ''>'' @ nl @
     ''    <Error>not a recognizable BACnet/IP (BVLC) frame</Error>'' @ nl @ ''  </BACnetMessage>'' @ nl"
  by (simp add: PrintFrameAsXml_def Let_def)

lemma xml_bacnet:
  assumes "bacnetIp (DecodeBacnetFrame f n)"
  obtains x where "PrintFrameAsXml f n = nl @ ''  <BACnetMessage'' @ attr ''bytes'' (decimal n) @ ''>'' @ nl @
     ''    <BVLC'' @ x @ hex_octets (window f 0 n) @ ''</RawHex>'' @ nl @ ''  </BACnetMessage>'' @ nl"
proof -
  define d where "d = DecodeBacnetFrame f n"
  have "PrintFrameAsXml f n = nl @ ''  <BACnetMessage'' @ attr ''bytes'' (decimal n) @ ''>'' @ nl @
     ''    <BVLC'' @ (attr ''function'' (''0x'' @ hex2 (bvlcFunction d)) @ ''/>'' @ nl @
         (if hasNpdu d then npdu_xml d else '''') @ ''    <RawHex>'') @ 
     hex_octets (window f 0 n) @ ''</RawHex>'' @ nl @ ''  </BACnetMessage>'' @ nl"
    using assms by (simp add: PrintFrameAsXml_def d_def [symmetric] Let_def)
  then show ?thesis by (rule that)
qed

lemma xml_cong:
  assumes "same_message n f g"
  shows "PrintFrameAsXml f n = PrintFrameAsXml g n"
  unfolding PrintFrameAsXml_def DecodeBacnetFrame_cong [OF assms] window_eq_iff [THEN iffD2, OF assms] ..



section \<open>The two tag readers\<close>

text \<open>
  The program has two readers of tag headers, written apart: the one of the reply decoder
  (ReadTag) and the one of the frame log (DecodeTagHeader). On every context tag they agree: the
  first is the second with the check that the content lies in the message.
\<close>

lemma tag_readers_agree:
  assumes "p < n" "bit (b ! p) 3"
  shows "ReadTag b n p =
     (case DecodeTagHeader b n p of
        None \<Rightarrow> None
      | Some h \<Rightarrow>
          (if p + th_headerLength h + unat (th_length h) \<le> n
           then Some \<lparr>tag_number = th_tagNumber h, isContext = True,
                      tag_kind = (if th_isOpeningTag h then TAG_OPENING
                                  else if th_isClosingTag h then TAG_CLOSING else TAG_VALUE),
                      tag_length = th_length h, tag_content = p + th_headerLength h,
                      tag_next = p + th_headerLength h + unat (th_length h)\<rparr>
           else None))"
  by (rule ReadTag_by_header [OF assms])

section \<open>Property accesses\<close>

text \<open>The frames of a property access, as clause 15 lays them out.\<close>

definition access_head :: "bool \<Rightarrow> u8 \<Rightarrow> u8 \<Rightarrow> u8 \<Rightarrow> bytes" where
  "access_head ack maxResponse invoke service =
     (if ack then [0x30, invoke, service] else [0x00, maxResponse, invoke, service])"

lemma decode_apdu_access:
  fixes pre post prp :: bytes and index :: "bytes option" and object :: u32 and maxResponse invoke service :: u8 and ack :: bool
  assumes svc: "service = 12 \<or> \<not> ack \<and> service = 15"
    and plen: "length prp \<in> {1, 2, 3, 4}"
    and ilen: "\<And>ix. index = Some ix \<Longrightarrow> length ix \<in> {1, 2, 3, 4}"
    and tail3: "index = None \<Longrightarrow> post = [] \<or> drop_bit 4 (hd post) = 3"
  defines "frame \<equiv> pre @ access_head ack maxResponse invoke service @ property_octets object prp index @ post"
  shows "decode_apdu frame (length frame) (length pre) (if ack then 0x30 else 0) out =
    (let o1 = out\<lparr>hasApdu := True, f_pduType := (if ack then 3 else 0), f_segmented := False,
              hasInvokeId := True, f_invokeId := invoke, hasServiceChoice := True, f_serviceChoice := service,
              hasObjectProperty := True, f_objectType := ucast (drop_bit 22 object AND 0x3FF),
              f_objectInstance := object AND 0x3FFFFF, f_propertyId := big_endian 0 prp\<rparr>
     in case index of None \<Rightarrow> o1 | Some ix \<Rightarrow> o1\<lparr>hasArrayIndex := True, f_arrayIndex := big_endian 0 ix\<rparr>)"
proof -
  define head where "head = access_head ack maxResponse invoke service"
  define k where "k = (if ack then 2 else 3 :: nat)"
  have lh: "length head = k + 1" by (simp add: head_def access_head_def k_def)
  have f: "frame = pre @ head @ (property_octets object prp index @ post)"
    "frame = (pre @ head) @ property_octets object prp index @ post"
    by (simp_all add: frame_def head_def)
  have at: "octet_at frame (length frame) (length pre + j) = Some (head ! j)" if "j < length head" for j
    using that by (simp add: octet_at_def f(1) nth_append)
  have inv: "octet_at frame (length frame) (length pre + (k - 1)) = Some invoke"
    and srv: "octet_at frame (length frame) (length pre + k) = Some service"
    using at [of "k - 1"] at [of k] lh by (auto simp: head_def access_head_def k_def)
  have pos: "length pre + k + 1 = length (pre @ head)" by (simp add: lh)
  have obj: "DecodeObjectAndProperty frame (length frame) (length pre + k + 1) o' =
     (let o1 = o'\<lparr>hasObjectProperty := True, f_objectType := ucast (drop_bit 22 object AND 0x3FF),
                   f_objectInstance := object AND 0x3FFFFF, f_propertyId := big_endian 0 prp\<rparr>
      in case index of None \<Rightarrow> o1 | Some ix \<Rightarrow> o1\<lparr>hasArrayIndex := True, f_arrayIndex := big_endian 0 ix\<rparr>)" for o'
    unfolding pos f(2) by (rule DecodeObjectAndProperty_encoded [OF plen ilen tail3])
  show ?thesis
  proof (cases ack)
    case True
    then show ?thesis using inv srv obj svc
      by (simp add: decode_apdu_def decode_service_def k_def Let_def)
  next
    case False
    then show ?thesis using inv srv obj svc
      by (auto simp: decode_apdu_def decode_service_def k_def Let_def)
  qed
qed

definition bvlc_octets :: "u8 \<Rightarrow> bytes \<Rightarrow> bytes" where
  "bvlc_octets fn rest = [0x81, fn] @ rest"

text \<open>
  C39: Decoding inverts encoding for the frames of a property access: a ReadProperty or WriteProperty
  request or a ReadProperty-ACK, behind an Original-Unicast, Original-Broadcast or Forwarded BVLC
  header and any destination and source address, decodes to its addresses, invoke id, service,
  object, property and array index, whatever value follows.
\<close>

theorem property_frames_decode:
  fixes dest src :: "net_address option" and ty :: u16 and inst :: u32 and rest prp post :: bytes
    and index :: "bytes option" and fn flags hops maxResponse invoke service :: u8 and ack :: bool
  assumes fn: "fn \<in> {0x0A, 0x0B} \<and> length rest = 2 \<or> fn = 0x04 \<and> length rest = 8"
    and adr: "address_ok dest" "address_ok src" and flags: "flags AND 0x80 = 0"
    and svc: "service = 12 \<or> \<not> ack \<and> service = 15"
    and obj: "ty < 0x400" "inst < 0x400000"
    and plen: "length prp \<in> {1, 2, 3, 4}"
    and ilen: "\<And>ix. index = Some ix \<Longrightarrow> length ix \<in> {1, 2, 3, 4}"
    and tail3: "index = None \<Longrightarrow> post = [] \<or> drop_bit 4 (hd post) = 3"
  defines "frame \<equiv> bvlc_octets fn rest @ npdu_octets flags dest src hops @
      access_head ack maxResponse invoke service @ property_octets (push_bit 22 (ucast ty) OR inst) prp index @ post"
  defines "d \<equiv> DecodeBacnetFrame frame (length frame)"
  shows "bacnetIp d \<and> hasNpdu d \<and> hasApdu d \<and> \<not> isNetworkMessage d \<and> f_pduType d = (if ack then 3 else 0) \<and>
    hasInvokeId d \<and> f_invokeId d = invoke \<and> hasServiceChoice d \<and> f_serviceChoice d = service \<and>
    hasObjectProperty d \<and> f_objectType d = ty \<and> f_objectInstance d = inst \<and> f_propertyId d = big_endian 0 prp \<and>
    (if hasArrayIndex d then Some (f_arrayIndex d) else None) = map_option (big_endian 0) index \<and>
    (if hasDest d then Some (dnet d, dadr d) else None) = dest \<and>
    (if hasSrc d then Some (snet d, sadr d) else None) = src"
proof -
  define pre where "pre = bvlc_octets fn rest"
  define first :: u8 where "first = (if ack then 0x30 else 0)"
  define body where "body = access_head ack maxResponse invoke service @
      property_octets (push_bit 22 (ucast ty) OR inst) prp index @ post"
  define tl where "tl = List.tl body"
  have b: "body = first # tl" by (cases ack) (simp_all add: tl_def body_def access_head_def first_def)
  have f: "frame = pre @ npdu_octets flags dest src hops @ first # tl"
    "frame = (pre @ npdu_octets flags dest src hops) @ body"
    unfolding b [symmetric] by (simp_all add: frame_def pre_def body_def)
  define out where "out = new_DecodedFrame\<lparr>bacnetIp := True, bvlcFunction := fn\<rparr>"
  have hd: "frame ! 0 = 0x81" "frame ! 1 = fn" "\<not> length frame < 4"
    using fn by (auto simp: frame_def bvlc_octets_def)
  have "d = decode_npdu frame (length frame) (length pre) out"
    using fn hd by (auto simp: d_def DecodeBacnetFrame_def out_def pre_def bvlc_octets_def)
  moreover have "decode_apdu frame (length frame) (length (pre @ npdu_octets flags dest src hops)) first o' =
    (let o1 = o'\<lparr>hasApdu := True, f_pduType := (if ack then 3 else 0), f_segmented := False,
              hasInvokeId := True, f_invokeId := invoke, hasServiceChoice := True, f_serviceChoice := service,
              hasObjectProperty := True, f_objectType := ty,
              f_objectInstance := inst, f_propertyId := big_endian 0 prp\<rparr>
     in case index of None \<Rightarrow> o1 | Some ix \<Rightarrow> o1\<lparr>hasArrayIndex := True, f_arrayIndex := big_endian 0 ix\<rparr>)" for o'
    unfolding f(2) body_def first_def
    using decode_apdu_access [OF svc plen ilen tail3, where pre = "pre @ npdu_octets flags dest src hops"
        and object = "push_bit 22 (ucast ty) OR inst" and out = o'] object_identifier_parts [OF obj] by simp
  moreover note decode_npdu_encoded [OF adr, where pre = pre and flags = flags and hops = hops and
      first = first and rest = tl and out = out, folded f(1)]
  ultimately show ?thesis using flags
    by (cases dest; cases src; cases index) (auto simp: Let_def out_def new_DecodedFrame_def)
qed

theorem property_frames_decode_witness:
  "let frame = [0x81, 0x0A, 0, 17, 1, 4, 0, 5, 7, 12, 0x0C, 0, 0x80, 0, 1, 0x19, 85]; d = DecodeBacnetFrame frame (length frame)
   in f_objectType d = 2 \<and> f_objectInstance d = 1 \<and> f_propertyId d = 85 \<and> f_invokeId d = 7"
proof -
  have e: "bvlc_octets 0x0A [0, 17] @ npdu_octets 4 None None 0 @ access_head False 5 7 12 @
      property_octets (push_bit 22 (ucast (2 :: u16)) OR 1) [85] None @ [] =
      [0x81, 0x0A, 0, 17, 1, 4, 0, 5, 7, 12, 0x0C, 0, 0x80, 0, 1, 0x19, 85]"
    by code_simp
  have "big_endian 0 [85] = 85" by simp
  then show ?thesis
    using property_frames_decode [where fn = "0x0A" and rest = "[0, 17]" and dest = None and src = None and
      flags = 4 and service = 12 and ack = False and ty = 2 and inst = 1 and prp = "[85]" and index = None and
      post = "[]" and hops = 0 and maxResponse = 5 and invoke = 7]
    unfolding e Let_def by (simp add: address_ok_def)
qed

section \<open>What the log shows\<close>

text \<open>
  The XML dump tells frames apart: two dumps of the same length are equal exactly when the frames
  have the same octets, for BACnet/IP frames; the dump of any other frame is the same for all of them,
  whatever its octets, since the raw hex is left out there.
\<close>

lemma xml_dump_tells_frames_apart:
  "PrintFrameAsXml f n = PrintFrameAsXml g n \<longleftrightarrow>
     (if bacnetIp (DecodeBacnetFrame f n) then same_message n f g
      else \<not> bacnetIp (DecodeBacnetFrame g n))"
proof (cases "bacnetIp (DecodeBacnetFrame f n)")
  case f: True
  obtain x where x: "PrintFrameAsXml f n = nl @ ''  <BACnetMessage'' @ attr ''bytes'' (decimal n) @ ''>'' @ nl @
     ''    <BVLC'' @ x @ hex_octets (window f 0 n) @ ''</RawHex>'' @ nl @ ''  </BACnetMessage>'' @ nl"
    using xml_bacnet [OF f] .
  have "same_message n f g" if e: "PrintFrameAsXml f n = PrintFrameAsXml g n"
  proof (cases "bacnetIp (DecodeBacnetFrame g n)")
    case True
    obtain y where y: "PrintFrameAsXml g n = nl @ ''  <BACnetMessage'' @ attr ''bytes'' (decimal n) @ ''>'' @ nl @
     ''    <BVLC'' @ y @ hex_octets (window g 0 n) @ ''</RawHex>'' @ nl @ ''  </BACnetMessage>'' @ nl"
      using xml_bacnet [OF True] .
    have "x @ hex_octets (window f 0 n) @ ''</RawHex>'' @ nl @ ''  </BACnetMessage>'' @ nl =
        y @ hex_octets (window g 0 n) @ ''</RawHex>'' @ nl @ ''  </BACnetMessage>'' @ nl"
      using e unfolding x y by (simp only: same_append_eq)
    then have "hex_octets (window f 0 n) = hex_octets (window g 0 n)" by (rule same_suffix [rotated]) simp
    then show ?thesis using hex_octets_inj [of "window f 0 n" "window g 0 n"] window_eq_iff by simp
  next
    case False
    have "''    <BVLC'' @ z \<noteq> ''    <Error>not a recognizable BACnet/IP (BVLC) frame</Error>'' @ z'" for z z' by simp
    then show ?thesis using e unfolding x xml_foreign [OF False] by (simp only: same_append_eq)
  qed
  then show ?thesis using f xml_cong by auto
next
  case f: False
  show ?thesis
  proof (cases "bacnetIp (DecodeBacnetFrame g n)")
    case True
    obtain y where y: "PrintFrameAsXml g n = nl @ ''  <BACnetMessage'' @ attr ''bytes'' (decimal n) @ ''>'' @ nl @
     ''    <BVLC'' @ y @ hex_octets (window g 0 n) @ ''</RawHex>'' @ nl @ ''  </BACnetMessage>'' @ nl"
      using xml_bacnet [OF True] .
    have "''    <Error>not a recognizable BACnet/IP (BVLC) frame</Error>'' @ z' \<noteq> ''    <BVLC'' @ z" for z z' by simp
    then have "PrintFrameAsXml f n \<noteq> PrintFrameAsXml g n"
      unfolding y xml_foreign [OF f] by (simp only: same_append_eq not_False_eq_True)
    then show ?thesis using f True by simp
  qed (use f xml_foreign in simp)
qed

text \<open>
  A network layer message that ends before its message type is summarised, in any buffer of at
  least 64 octets, as a Who-Is-Router-To-Network: the decoder leaves the type at 0 and has no flag
  that says it was not there.
\<close>

lemma truncated_network_message:
  assumes "c AND 0x80 \<noteq> 0" "c AND 0x20 = 0" "c AND 0x08 = 0" "64 \<le> bufLen"
  shows "SummarizeBacnetFrame [0x81, 0x0B, h, l, v, c] 6 bufLen =
     Some ''Network-Layer-Message: Who-Is-Router-To-Network''"
proof -
  have "DecodeBacnetFrame [0x81, 0x0B, h, l, v, c] 6 = new_DecodedFrame
     \<lparr>bacnetIp := True, bvlcFunction := 0x0B, hasNpdu := True, npduVersion := v, npduControl := c,
      hasDest := False, hasSrc := False, isNetworkMessage := True\<rparr>"
    using assms by (simp add: DecodeBacnetFrame_def decode_npdu_def decode_source_def
        decode_after_addresses_def octet_at_def Let_def new_DecodedFrame_def)
  then show ?thesis using assms(4)
    by (simp add: SummarizeBacnetFrame_def Let_def new_DecodedFrame_def append_text_def named_def
        NetworkMessageName_def AppendRouteSuffix_def)
qed

end
