(* ===== verification/Command_Line.thy ===== *)
theory Command_Line
  imports Device_State C_String
begin

text \<open>
  The command line (command_line.cpp): the options of the one data link the device runs on, their
  ranges, and the check that no option belongs to another link. A printed error is a value of
  \<open>cl_error\<close>; after one the program exits, so the half-filled options are not part of the result.
\<close>

section \<open>Options and errors\<close>

datatype cl_error =
    UnexpectedArgument string
  | UnknownOption string
  | NeedsValue string
  | BadValue string string         \<comment> \<open>the option and the value it refuses\<close>
  | BaudNotAvailable string
  | UriTooLong string
  | OptionOfOtherLink string DataLink
  | PortWithoutUdp DataLink
  | NeedsSerialPort
  | MacAboveMaxMaster
  | NeedsHub

datatype ParseResult = Run | ExitSuccess | ExitError cl_error

definition ParseNumber :: "string \<Rightarrow> nat \<Rightarrow> nat \<Rightarrow> nat option" where
  "ParseNumber text minimum maximum =
     (if text = [] \<or> \<not> is_digit (hd text) then None
      else let (n, rest) = strtoul_digits text in
        if ULONG_MAX < n \<or> rest \<noteq> [] \<or> n < minimum \<or> maximum < n then None else Some n)"

definition DATA_LINK_OPTIONS :: "(string \<times> DataLink) list" where
  "DATA_LINK_OPTIONS =
     [(''--interface'', IPv6), (''--mstp-port'', MSTP), (''--mstp-baud'', MSTP), (''--mstp-mac'', MSTP),
      (''--mstp-max-master'', MSTP), (''--mstp-max-info-frames'', MSTP), (''--sc-hub'', SC),
      (''--sc-failover-hub'', SC), (''--sc-cert-dir'', SC), (''--import-cari'', SC)]"

definition IsKnownOption :: "string \<Rightarrow> bool" where
  "IsKnownOption option \<longleftrightarrow>
     option = ''--datalink'' \<or> option = ''--deviceID'' \<or> option = ''--deviceName'' \<or> option = ''--port'' \<or>
     option \<in> fst ` set DATA_LINK_OPTIONS"

definition DataLinkArgument :: "DataLink \<Rightarrow> string" where
  "DataLinkArgument dl =
     (case dl of IPv4 \<Rightarrow> ''ipv4'' | IPv6 \<Rightarrow> ''ipv6'' | MSTP \<Rightarrow> ''mstp'' | SC \<Rightarrow> ''sc'')"

definition DataLinkName :: "DataLink \<Rightarrow> string" where
  "DataLinkName dl =
     (case dl of IPv4 \<Rightarrow> ''BACnet/IP'' | IPv6 \<Rightarrow> ''BACnet/IPv6'' | MSTP \<Rightarrow> ''MS/TP'' | SC \<Rightarrow> ''BACnet/SC'')"

section \<open>One option\<close>

record cl_state =
  opts :: CommandLineOptions
  portGiven :: bool
  dataLinkOptionsGiven :: "string set"

definition parse_datalink :: "string \<Rightarrow> DataLink option" where
  "parse_datalink v =
     (if v = ''ipv4'' \<or> v = ''ip'' then Some IPv4
      else if v = ''ipv6'' then Some IPv6
      else if v = ''mstp'' then Some MSTP
      else if v = ''sc'' then Some SC else None)"

definition supportedBaudRates :: "nat list" where
  "supportedBaudRates = [9600, 19200, 38400, 57600, 76800, 115200]"

text \<open>The value of an option of one data link, written into the options.\<close>

definition link_option :: "bool \<Rightarrow> string \<Rightarrow> string \<Rightarrow> CommandLineOptions \<Rightarrow> cl_error + CommandLineOptions" where
  "link_option has76800 option val c =
     (let number = (\<lambda>lo hi set. case ParseNumber val lo hi of None \<Rightarrow> Inl (BadValue option val) | Some n \<Rightarrow> Inr (set n)) in
      if option = ''--interface'' then number 1 0xFFFFFFFF (\<lambda>n. c\<lparr>ipv6InterfaceIndex := of_nat n\<rparr>)
      else if option = ''--mstp-port'' then Inr (c\<lparr>mstpPortName := val\<rparr>)
      else if option = ''--mstp-baud'' then
        (case ParseNumber val 1 0xFFFFFFFF of
           None \<Rightarrow> Inl (BadValue option val)
         | Some n \<Rightarrow>
             (if n \<notin> set supportedBaudRates then Inl (BadValue option val)
              else if n = 76800 \<and> \<not> has76800 then Inl (BaudNotAvailable val)
              else Inr (c\<lparr>mstpBaudRate := of_nat n\<rparr>)))
      else if option = ''--mstp-mac'' then number 0 127 (\<lambda>n. c\<lparr>mstpMacAddress := of_nat n\<rparr>)
      else if option = ''--mstp-max-master'' then number 1 127 (\<lambda>n. c\<lparr>mstpMaxMaster := of_nat n\<rparr>)
      else if option = ''--mstp-max-info-frames'' then number 1 255 (\<lambda>n. c\<lparr>mstpMaxInfoFrames := of_nat n\<rparr>)
      else if option = ''--sc-hub'' \<or> option = ''--sc-failover-hub'' then
        (if take 6 val \<noteq> ''wss://'' \<or> length val \<le> 6 then Inl (BadValue option val)
         else if 255 < length val then Inl (UriTooLong option)
         else Inr (if option = ''--sc-hub'' then c\<lparr>scPrimaryHubUri := val\<rparr> else c\<lparr>scFailoverHubUri := val\<rparr>))
      else if option = ''--sc-cert-dir'' then Inr (c\<lparr>scCertificateDirectory := val\<rparr>)
      else if option = ''--import-cari'' then Inr (c\<lparr>importCariZip := val\<rparr>)
      else Inr c)"

definition apply_option :: "bool \<Rightarrow> string \<Rightarrow> string \<Rightarrow> cl_state \<Rightarrow> cl_error + cl_state" where
  "apply_option has76800 option val s =
     (if option = ''--datalink'' then
        (case parse_datalink val of
           None \<Rightarrow> Inl (BadValue option val)
         | Some dl \<Rightarrow> Inr (s\<lparr>opts := (opts s)\<lparr>dataLink := dl\<rparr>\<rparr>))
      else if option = ''--deviceID'' then
        (case ParseNumber val 0 4194302 of
           None \<Rightarrow> Inl (BadValue option val)
         | Some n \<Rightarrow> Inr (s\<lparr>opts := (opts s)\<lparr>optDeviceInstance := of_nat n\<rparr>\<rparr>))
      else if option = ''--deviceName'' then Inr s
      else if option = ''--port'' then
        (case ParseNumber val 1 65535 of
           None \<Rightarrow> Inl (BadValue option val)
         | Some n \<Rightarrow> Inr (s\<lparr>opts := (opts s)\<lparr>udpPort := of_nat n\<rparr>, portGiven := True\<rparr>))
      else if option \<notin> fst ` set DATA_LINK_OPTIONS then Inl (UnknownOption option)
      else case link_option has76800 option val (opts s) of
          Inl e \<Rightarrow> Inl e
        | Inr c \<Rightarrow> Inr (s\<lparr>opts := c, dataLinkOptionsGiven := insert option (dataLinkOptionsGiven s)\<rparr>))"

section \<open>The whole command line\<close>

fun parse_args :: "bool \<Rightarrow> string list \<Rightarrow> cl_state \<Rightarrow> cl_error + cl_state" where
  "parse_args has76800 [] s = Inr s"
| "parse_args has76800 (option # rest) s =
     (if option = ''--xml'' then parse_args has76800 rest s
      else if take 2 option \<noteq> ''--'' then Inl (UnexpectedArgument option)
      else if \<not> IsKnownOption option then Inl (UnknownOption option)
      else case rest of
          [] \<Rightarrow> Inl (NeedsValue option)
        | val # rest' \<Rightarrow>
            (case apply_option has76800 option val s of
               Inl e \<Rightarrow> Inl e
             | Inr s' \<Rightarrow> parse_args has76800 rest' s'))"

text \<open>The combination of the options.\<close>

definition check_combination :: "cl_state \<Rightarrow> cl_error option" where
  "check_combination s =
     (let c = opts s in
      case find (\<lambda>(name, dl). name \<in> dataLinkOptionsGiven s \<and> dl \<noteq> dataLink c) DATA_LINK_OPTIONS of
        Some (name, dl) \<Rightarrow> Some (OptionOfOtherLink name dl)
      | None \<Rightarrow>
          (if portGiven s \<and> (dataLink c = MSTP \<or> dataLink c = SC) then Some (PortWithoutUdp (dataLink c))
           else if dataLink c = MSTP \<and> mstpPortName c = '''' then Some NeedsSerialPort
           else if dataLink c = MSTP \<and> mstpMaxMaster c < mstpMacAddress c then Some MacAboveMaxMaster
           else if dataLink c = SC \<and> scPrimaryHubUri c = '''' \<and> importCariZip c = '''' then Some NeedsHub
           else None))"

text \<open>\<open>args\<close>: \<open>argv\<close> without the program's name.\<close>

definition ParseCommandLine :: "bool \<Rightarrow> string list \<Rightarrow> CommandLineOptions \<Rightarrow> CommandLineOptions \<times> ParseResult" where
  "ParseCommandLine has76800 args options =
     (if \<exists>a \<in> set args. a \<in> {''--help'', ''-h'', ''/?'', ''--version''} then (options, ExitSuccess)
      else case parse_args has76800 args
               \<lparr>opts = options, portGiven = False, dataLinkOptionsGiven = {}\<rparr> of
          Inl e \<Rightarrow> (options, ExitError e)
        | Inr s \<Rightarrow>
            (case check_combination s of
               Some e \<Rightarrow> (opts s, ExitError e)
             | None \<Rightarrow> (opts s, Run)))"

end
