(* ===== verification/Helper_Args.thy ===== *)
theory Helper_Args
  imports C_String
begin

text \<open>
  The argument helpers of common/CASExampleHelper.cpp. \<open>argv\<close> is the list of the arguments, the
  program's name first; a warning that is printed does not stop the search.
\<close>

section \<open>Numbers\<close>

definition ParseWholeNumber :: "string \<Rightarrow> int option" where
  "ParseWholeNumber text =
     (if text = '''' then None
      else let (val, rest) = strtol text in
        if strtol_overflows text \<or> rest = text \<or> rest \<noteq> '''' \<or> val < 0 then None else Some val)"

section \<open>Named arguments\<close>

text \<open>The values that follow an option, in order: \<open>i + 1 < argc\<close>, any position but the first.\<close>

definition option_values :: "string \<Rightarrow> string list \<Rightarrow> string list" where
  "option_values option argv = map (\<lambda>i. argv ! (i + 1)) (filter (\<lambda>i. argv ! i = option) [1..<length argv - 1])"

text \<open>The first value that is accepted, else the default.\<close>

fun first_accepted :: "('a \<Rightarrow> 'b option) \<Rightarrow> 'b \<Rightarrow> 'a list \<Rightarrow> 'b" where
  "first_accepted p d [] = d"
| "first_accepted p d (v # vs) = (case p v of Some x \<Rightarrow> x | None \<Rightarrow> first_accepted p d vs)"

definition ParseDccPasswordArg :: "string list \<Rightarrow> string \<Rightarrow> string" where
  "ParseDccPasswordArg argv defaultPassword =
     first_accepted Some defaultPassword (option_values ''--dcc-password'' argv)"

definition port_value :: "string \<Rightarrow> u16 option" where
  "port_value v =
     (case ParseWholeNumber v of None \<Rightarrow> None
      | Some p \<Rightarrow> (if 0 < p \<and> p \<le> 65535 then Some (of_int p) else None))"

definition ParsePortArg :: "string list \<Rightarrow> u16 \<Rightarrow> u16" where
  "ParsePortArg argv defaultPort = first_accepted port_value defaultPort (option_values ''--port'' argv)"

definition device_id_value :: "string \<Rightarrow> u32 option" where
  "device_id_value v =
     (case ParseWholeNumber v of None \<Rightarrow> None
      | Some n \<Rightarrow> (if n < 4194303 then Some (of_int n) else None))"

definition ParseDeviceIdArg :: "string list \<Rightarrow> u32 \<Rightarrow> u32" where
  "ParseDeviceIdArg argv defaultDeviceId =
     first_accepted device_id_value defaultDeviceId (option_values ''--deviceID'' argv)"

abbreviation (input) MAX_DEVICE_NAME_LENGTH :: nat where "MAX_DEVICE_NAME_LENGTH \<equiv> 255"

definition printable_octet :: "char \<Rightarrow> bool" where
  "printable_octet c \<longleftrightarrow> (of_char c :: nat) \<ge> 0x20 \<and> (of_char c :: nat) \<noteq> 0x7F"

definition device_name_value :: "string \<Rightarrow> string option" where
  "device_name_value name =
     (if 0 < length name \<and> length name \<le> MAX_DEVICE_NAME_LENGTH \<and> list_all printable_octet name
      then Some name else None)"

definition ParseDeviceNameArg :: "string list \<Rightarrow> string \<Rightarrow> string" where
  "ParseDeviceNameArg argv defaultDeviceName =
     first_accepted device_name_value defaultDeviceName (option_values ''--deviceName'' argv)"

section \<open>Keys\<close>

datatype KeyCommand =
    NoKey | Help | Quit | ArrowUp | ArrowDown | DemoAdvance | WriteGroupDemo | DiscoverRemote
  | RouterAnnounce | Metrics | SimulatedPeerToggle | ContactToggle | ForceOpen | BadgePulse

definition key_command :: "char \<Rightarrow> KeyCommand" where
  "key_command c =
     (if c \<in> set ''hH'' then Help else if c \<in> set ''qQ'' then Quit
      else if c \<in> set ''sS'' then DemoAdvance else if c \<in> set ''wW'' then WriteGroupDemo
      else if c \<in> set ''dD'' then DiscoverRemote else if c \<in> set ''rR'' then RouterAnnounce
      else if c \<in> set ''mM'' then Metrics else if c \<in> set ''kK'' then SimulatedPeerToggle
      else if c \<in> set ''oO'' then ContactToggle else if c \<in> set ''fF'' then ForceOpen
      else if c \<in> set ''pP'' then BadgePulse else NoKey)"

text \<open>\<open>buf\<close>: the at most three octets a non-blocking \<open>read\<close> of the terminal returns.\<close>

definition PollKey :: "string \<Rightarrow> KeyCommand" where
  "PollKey buf =
     (if buf = [] then NoKey
      else if 3 \<le> length buf \<and> buf ! 0 = CHR 0x1B \<and> buf ! 1 = CHR ''[''
      then (if buf ! 2 = CHR ''A'' then ArrowUp else if buf ! 2 = CHR ''B'' then ArrowDown else NoKey)
      else key_command (buf ! 0))"

end
