(* ===== verification/Command_Line_Properties.thy ===== *)
theory Command_Line_Properties
  imports Command_Line Helper_Args
begin

text \<open>
  Properties of the two argument parsers: the options of an accepted command line are well formed,
  every well-formed set of options can be written as a command line, and a whole number is exactly
  what its grammar says.
\<close>

section \<open>Numbers\<close>

lemma ParseNumber_bounds: "ParseNumber text lo hi = Some n \<Longrightarrow> lo \<le> n \<and> n \<le> hi"
  by (auto simp: ParseNumber_def Let_def split: if_splits prod.splits)

lemma ParseNumber_decimal:
  assumes "lo \<le> n" "n \<le> hi" "n \<le> ULONG_MAX"
  shows "ParseNumber (decimal n) lo hi = Some n"
proof -
  obtain c cs where "decimal n = c # cs" "is_digit c"
    using decimal_digits [of n] by (cases "decimal n") auto
  with assms show ?thesis using strtoul_decimal [of n] by (simp add: ParseNumber_def)
qed

section \<open>What an accepted command line means\<close>

definition hub_uri_ok :: "string \<Rightarrow> bool" where
  "hub_uri_ok uri \<longleftrightarrow> uri = '''' \<or> (take 6 uri = ''wss://'' \<and> 6 < length uri \<and> length uri \<le> 255)"

definition ranges_ok :: "bool \<Rightarrow> CommandLineOptions \<Rightarrow> bool" where
  "ranges_ok has76800 c \<longleftrightarrow>
     unat (optDeviceInstance c) \<le> 4194302 \<and> udpPort c \<noteq> 0 \<and>
     unat (mstpBaudRate c) \<in> set supportedBaudRates \<and> (mstpBaudRate c = 76800 \<longrightarrow> has76800) \<and>
     mstpMacAddress c \<le> 127 \<and> 1 \<le> mstpMaxMaster c \<and> mstpMaxMaster c \<le> 127 \<and> mstpMaxInfoFrames c \<noteq> 0 \<and>
     hub_uri_ok (scPrimaryHubUri c) \<and> hub_uri_ok (scFailoverHubUri c)"

definition options_ok :: "bool \<Rightarrow> CommandLineOptions \<Rightarrow> bool" where
  "options_ok has76800 c \<longleftrightarrow> ranges_ok has76800 c \<and>
     (dataLink c \<noteq> IPv6 \<longrightarrow> ipv6InterfaceIndex c = 0) \<and>
     (dataLink c \<in> {MSTP, SC} \<longrightarrow> udpPort c = 47808) \<and>
     (if dataLink c = MSTP then mstpPortName c \<noteq> '''' \<and> mstpMacAddress c \<le> mstpMaxMaster c
      else mstpPortName c = '''' \<and> mstpBaudRate c = 38400 \<and> mstpMacAddress c = 1 \<and>
           mstpMaxMaster c = 127 \<and> mstpMaxInfoFrames c = 1) \<and>
     (if dataLink c = SC then scPrimaryHubUri c \<noteq> '''' \<or> importCariZip c \<noteq> ''''
      else scPrimaryHubUri c = '''' \<and> scFailoverHubUri c = '''' \<and>
           scCertificateDirectory c = ''./certs'' \<and> importCariZip c = '''')"

text \<open>An option that was not given leaves its field at the default.\<close>

definition untouched :: "cl_state \<Rightarrow> bool" where
  "untouched s \<longleftrightarrow> (let c = opts s; G = dataLinkOptionsGiven s in
     (''--interface'' \<notin> G \<longrightarrow> ipv6InterfaceIndex c = 0) \<and> (\<not> portGiven s \<longrightarrow> udpPort c = 47808) \<and>
     (''--mstp-port'' \<notin> G \<longrightarrow> mstpPortName c = '''') \<and> (''--mstp-baud'' \<notin> G \<longrightarrow> mstpBaudRate c = 38400) \<and>
     (''--mstp-mac'' \<notin> G \<longrightarrow> mstpMacAddress c = 1) \<and> (''--mstp-max-master'' \<notin> G \<longrightarrow> mstpMaxMaster c = 127) \<and>
     (''--mstp-max-info-frames'' \<notin> G \<longrightarrow> mstpMaxInfoFrames c = 1) \<and>
     (''--sc-hub'' \<notin> G \<longrightarrow> scPrimaryHubUri c = '''') \<and> (''--sc-failover-hub'' \<notin> G \<longrightarrow> scFailoverHubUri c = '''') \<and>
     (''--sc-cert-dir'' \<notin> G \<longrightarrow> scCertificateDirectory c = ''./certs'') \<and>
     (''--import-cari'' \<notin> G \<longrightarrow> importCariZip c = ''''))"

lemma of_nat_bounds:
  "n \<le> 4194302 \<Longrightarrow> unat (of_nat n :: u32) \<le> 4194302"
  "1 \<le> n \<Longrightarrow> n \<le> 65535 \<Longrightarrow> (of_nat n :: u16) \<noteq> 0"
  "n \<le> 127 \<Longrightarrow> (of_nat n :: u8) \<le> 127"
  "1 \<le> n \<Longrightarrow> n \<le> 127 \<Longrightarrow> 1 \<le> (of_nat n :: u8)"
  "1 \<le> n \<Longrightarrow> n \<le> 255 \<Longrightarrow> (of_nat n :: u8) \<noteq> 0"
  by (simp_all add: unat_of_nat word_le_nat_alt word_unat_eq_iff)

lemma baud_of_nat:
  assumes "n \<in> set supportedBaudRates"
  shows "unat (of_nat n :: u32) \<in> set supportedBaudRates" "(of_nat n :: u32) = 76800 \<longleftrightarrow> n = 76800"
  using assms by (auto simp: supportedBaudRates_def)

text \<open>What an accepted option of a data link writes.\<close>

lemma link_option_Inr:
  assumes "link_option has76800 option v c = Inr c'" "option \<in> fst ` set DATA_LINK_OPTIONS"
  obtains (interface) n where "option = ''--interface''" "c' = c\<lparr>ipv6InterfaceIndex := of_nat n\<rparr>"
  | (port) "option = ''--mstp-port''" "c' = c\<lparr>mstpPortName := v\<rparr>"
  | (baud) n where "option = ''--mstp-baud''" "c' = c\<lparr>mstpBaudRate := of_nat n\<rparr>"
      "n \<in> set supportedBaudRates" "n = 76800 \<longrightarrow> has76800"
  | (mac) n where "option = ''--mstp-mac''" "c' = c\<lparr>mstpMacAddress := of_nat n\<rparr>" "n \<le> 127"
  | (max) n where "option = ''--mstp-max-master''" "c' = c\<lparr>mstpMaxMaster := of_nat n\<rparr>" "1 \<le> n" "n \<le> 127"
  | (info) n where "option = ''--mstp-max-info-frames''" "c' = c\<lparr>mstpMaxInfoFrames := of_nat n\<rparr>" "1 \<le> n" "n \<le> 255"
  | (hub) "option = ''--sc-hub''" "c' = c\<lparr>scPrimaryHubUri := v\<rparr>" "hub_uri_ok v"
  | (failover) "option = ''--sc-failover-hub''" "c' = c\<lparr>scFailoverHubUri := v\<rparr>" "hub_uri_ok v"
  | (certs) "option = ''--sc-cert-dir''" "c' = c\<lparr>scCertificateDirectory := v\<rparr>"
  | (cari) "option = ''--import-cari''" "c' = c\<lparr>importCariZip := v\<rparr>"
proof -
  have "option = ''--interface'' \<or> option = ''--mstp-port'' \<or> option = ''--mstp-baud'' \<or> option = ''--mstp-mac'' \<or>
    option = ''--mstp-max-master'' \<or> option = ''--mstp-max-info-frames'' \<or> option = ''--sc-hub'' \<or>
    option = ''--sc-failover-hub'' \<or> option = ''--sc-cert-dir'' \<or> option = ''--import-cari''"
    using assms(2) by (simp add: DATA_LINK_OPTIONS_def)
  then show ?thesis
  proof (elim disjE)
    assume o: "option = ''--interface''"
    show ?thesis using assms(1) unfolding o
      by (auto simp: link_option_def dest!: ParseNumber_bounds split: option.splits intro: interface [OF o])
  next
    assume o: "option = ''--mstp-port''"
    show ?thesis using assms(1) unfolding o by (auto simp: link_option_def intro: port [OF o])
  next
    assume o: "option = ''--mstp-baud''"
    show ?thesis using assms(1) unfolding o
      by (auto simp: link_option_def split: option.splits if_splits intro: baud [OF o])
  next
    assume o: "option = ''--mstp-mac''"
    show ?thesis using assms(1) unfolding o
      by (auto simp: link_option_def dest!: ParseNumber_bounds split: option.splits intro: mac [OF o])
  next
    assume o: "option = ''--mstp-max-master''"
    show ?thesis using assms(1) unfolding o
      by (auto simp: link_option_def dest!: ParseNumber_bounds split: option.splits intro: max [OF o])
  next
    assume o: "option = ''--mstp-max-info-frames''"
    show ?thesis using assms(1) unfolding o
      by (auto simp: link_option_def dest!: ParseNumber_bounds split: option.splits intro: info [OF o])
  next
    assume o: "option = ''--sc-hub''"
    show ?thesis using assms(1) unfolding o
      by (auto simp: link_option_def hub_uri_ok_def split: if_splits intro!: hub [OF o])
  next
    assume o: "option = ''--sc-failover-hub''"
    show ?thesis using assms(1) unfolding o
      by (auto simp: link_option_def hub_uri_ok_def split: if_splits intro!: failover [OF o])
  next
    assume o: "option = ''--sc-cert-dir''"
    show ?thesis using assms(1) unfolding o by (auto simp: link_option_def intro: certs [OF o])
  next
    assume o: "option = ''--import-cari''"
    show ?thesis using assms(1) unfolding o by (auto simp: link_option_def intro: cari [OF o])
  qed
qed

lemma apply_option_Inr:
  assumes "apply_option has76800 option v s = Inr s'" "IsKnownOption option"
  obtains (datalink) dl where "s' = s\<lparr>opts := (opts s)\<lparr>dataLink := dl\<rparr>\<rparr>"
  | (device) n where "n \<le> 4194302" "s' = s\<lparr>opts := (opts s)\<lparr>optDeviceInstance := of_nat n\<rparr>\<rparr>"
  | (name) "s' = s"
  | (port) n where "1 \<le> n" "n \<le> 65535" "s' = s\<lparr>opts := (opts s)\<lparr>udpPort := of_nat n\<rparr>, portGiven := True\<rparr>"
  | (link) c where "option \<in> fst ` set DATA_LINK_OPTIONS" "link_option has76800 option v (opts s) = Inr c"
      "s' = s\<lparr>opts := c, dataLinkOptionsGiven := insert option (dataLinkOptionsGiven s)\<rparr>"
proof -
  consider "option = ''--datalink''" | "option = ''--deviceID''" | "option = ''--deviceName''" | "option = ''--port''"
    | "option \<notin> {''--datalink'', ''--deviceID'', ''--deviceName'', ''--port''}" by blast
  then show ?thesis
  proof cases
    case 1
    then show ?thesis using assms(1) by (auto simp: apply_option_def split: option.splits intro: datalink)
  next
    case 2
    then show ?thesis using assms(1)
      by (auto simp: apply_option_def dest!: ParseNumber_bounds split: option.splits intro: device)
  next
    case 3
    then show ?thesis using assms(1) by (auto simp: apply_option_def intro: name)
  next
    case 4
    then show ?thesis using assms(1)
      by (auto simp: apply_option_def dest!: ParseNumber_bounds split: option.splits intro: port)
  next
    case 5
    then have k: "option \<in> fst ` set DATA_LINK_OPTIONS" using assms(2) by (simp add: IsKnownOption_def)
    with 5 assms(1) show ?thesis by (simp add: apply_option_def split: sum.splits) (use link k in blast)
  qed
qed

lemma link_option_ranges:
  assumes "link_option has76800 option v c = Inr c'" "option \<in> fst ` set DATA_LINK_OPTIONS" "ranges_ok has76800 c"
  shows "ranges_ok has76800 c'"
  using assms(1,2)
  by (cases rule: link_option_Inr) (use assms(3) in \<open>simp_all add: ranges_ok_def of_nat_bounds baud_of_nat\<close>)

lemma link_option_untouched:
  assumes "link_option has76800 option v (opts s) = Inr c" "option \<in> fst ` set DATA_LINK_OPTIONS" "untouched s"
  shows "untouched (s\<lparr>opts := c, dataLinkOptionsGiven := insert option (dataLinkOptionsGiven s)\<rparr>)"
  using assms(1,2)
  by (cases rule: link_option_Inr) (use assms(3) in \<open>simp_all add: untouched_def Let_def\<close>)

lemma apply_option_inv:
  assumes "apply_option has76800 option v s = Inr s'" "IsKnownOption option"
    "ranges_ok has76800 (opts s)" "untouched s"
  shows "ranges_ok has76800 (opts s') \<and> untouched s'"
  using assms(1,2)
proof (cases rule: apply_option_Inr)
  case (link c)
  then show ?thesis using link_option_ranges link_option_untouched assms(3,4) by simp
qed (use assms(3,4) in \<open>simp_all add: ranges_ok_def untouched_def Let_def of_nat_bounds\<close>)

lemma parse_args_inv:
  "parse_args has76800 args s = Inr s' \<Longrightarrow> ranges_ok has76800 (opts s) \<Longrightarrow> untouched s \<Longrightarrow>
   ranges_ok has76800 (opts s') \<and> untouched s'"
proof (induction has76800 args s rule: parse_args.induct)
  case (2 has76800 option rest s)
  show ?case
  proof (cases "option = ''--xml''")
    case True
    with 2 show ?thesis by simp
  next
    case False
    with 2(3) obtain val rest' s1 where r: "rest = val # rest'" and k: "IsKnownOption option"
      and a: "apply_option has76800 option val s = Inr s1" and p: "parse_args has76800 rest' s1 = Inr s'"
      by (auto split: if_splits list.splits sum.splits)
    have "take 2 option = ''--''" using 2(3) False by (auto split: if_splits)
    then show ?thesis
      using 2(2) [OF False _ _ r a p] k apply_option_inv [OF a k 2(4,5)] by simp
  qed
qed simp

lemma given_belongs:
  assumes "check_combination s = None" "(name, dl) \<in> set DATA_LINK_OPTIONS" "dl \<noteq> dataLink (opts s)"
  shows "name \<notin> dataLinkOptionsGiven s"
proof -
  have "find (\<lambda>(name, dl). name \<in> dataLinkOptionsGiven s \<and> dl \<noteq> dataLink (opts s)) DATA_LINK_OPTIONS = None"
    using assms(1) by (auto simp: check_combination_def Let_def split: option.splits)
  then show ?thesis using assms(2,3) by (auto simp: find_None_iff)
qed

lemma default_options_start:
  "ranges_ok has76800 default_options \<and>
   untouched \<lparr>opts = default_options, portGiven = False, dataLinkOptionsGiven = {}\<rparr>"
  by (simp add: ranges_ok_def untouched_def default_options_def supportedBaudRates_def hub_uri_ok_def)

text \<open>
  C37: The options of a command line the program runs with are well formed: every number is in the
  range of its option, hub URIs are secure WebSocket URIs of at most 255 octets, the data link has
  what it needs (a serial port and a MAC address not above Max_Master, or a hub), and every option of
  another data link is at its default.
\<close>

theorem command_line_accepts_ok:
  assumes "ParseCommandLine has76800 args default_options = (c, Run)"
  shows "options_ok has76800 c"
proof -
  obtain s where p: "parse_args has76800 args \<lparr>opts = default_options, portGiven = False, dataLinkOptionsGiven = {}\<rparr> = Inr s"
    and k: "check_combination s = None" and c: "c = opts s"
    using assms by (auto simp: ParseCommandLine_def split: if_splits sum.splits option.splits)
  have r: "ranges_ok has76800 (opts s)" and u: "untouched s"
    using parse_args_inv [OF p] default_options_start by auto
  have g: "name \<notin> dataLinkOptionsGiven s" if "(name, dl) \<in> set DATA_LINK_OPTIONS" "dl \<noteq> dataLink c" for name dl
    using given_belongs [OF k that(1)] that(2) c by simp
  have i: "''--interface'' \<notin> dataLinkOptionsGiven s" if "dataLink c \<noteq> IPv6"
    using g [of "''--interface''" IPv6] that by (auto simp: DATA_LINK_OPTIONS_def)
  have m: "name \<notin> dataLinkOptionsGiven s" if "dataLink c \<noteq> MSTP"
    "name \<in> {''--mstp-port'', ''--mstp-baud'', ''--mstp-mac'', ''--mstp-max-master'', ''--mstp-max-info-frames''}" for name
    using g [of name MSTP] that by (auto simp: DATA_LINK_OPTIONS_def)
  have h: "name \<notin> dataLinkOptionsGiven s" if "dataLink c \<noteq> SC"
    "name \<in> {''--sc-hub'', ''--sc-failover-hub'', ''--sc-cert-dir'', ''--import-cari''}" for name
    using g [of name SC] that by (auto simp: DATA_LINK_OPTIONS_def)
  have rest: "\<not> (portGiven s \<and> (dataLink c = MSTP \<or> dataLink c = SC))"
    "\<not> (dataLink c = MSTP \<and> mstpPortName c = '''')" "\<not> (dataLink c = MSTP \<and> mstpMaxMaster c < mstpMacAddress c)"
    "\<not> (dataLink c = SC \<and> scPrimaryHubUri c = '''' \<and> importCariZip c = '''')"
    using k c by (auto simp: check_combination_def Let_def split: option.splits if_splits)
  have U: "''--interface'' \<notin> dataLinkOptionsGiven s \<Longrightarrow> ipv6InterfaceIndex c = 0" "\<not> portGiven s \<Longrightarrow> udpPort c = 47808"
    "''--mstp-port'' \<notin> dataLinkOptionsGiven s \<Longrightarrow> mstpPortName c = ''''"
    "''--mstp-baud'' \<notin> dataLinkOptionsGiven s \<Longrightarrow> mstpBaudRate c = 38400"
    "''--mstp-mac'' \<notin> dataLinkOptionsGiven s \<Longrightarrow> mstpMacAddress c = 1"
    "''--mstp-max-master'' \<notin> dataLinkOptionsGiven s \<Longrightarrow> mstpMaxMaster c = 127"
    "''--mstp-max-info-frames'' \<notin> dataLinkOptionsGiven s \<Longrightarrow> mstpMaxInfoFrames c = 1"
    "''--sc-hub'' \<notin> dataLinkOptionsGiven s \<Longrightarrow> scPrimaryHubUri c = ''''"
    "''--sc-failover-hub'' \<notin> dataLinkOptionsGiven s \<Longrightarrow> scFailoverHubUri c = ''''"
    "''--sc-cert-dir'' \<notin> dataLinkOptionsGiven s \<Longrightarrow> scCertificateDirectory c = ''./certs''"
    "''--import-cari'' \<notin> dataLinkOptionsGiven s \<Longrightarrow> importCariZip c = ''''"
    using u unfolding untouched_def Let_def c by blast+
  have "dataLink c \<noteq> MSTP \<Longrightarrow> mstpPortName c = '''' \<and> mstpBaudRate c = 38400 \<and> mstpMacAddress c = 1 \<and>
      mstpMaxMaster c = 127 \<and> mstpMaxInfoFrames c = 1"
    using U(3-7) m by simp
  moreover have "dataLink c \<noteq> SC \<Longrightarrow> scPrimaryHubUri c = '''' \<and> scFailoverHubUri c = '''' \<and>
      scCertificateDirectory c = ''./certs'' \<and> importCariZip c = ''''"
    using U(8-11) h by simp
  moreover have "dataLink c \<noteq> IPv6 \<Longrightarrow> ipv6InterfaceIndex c = 0" using U(1) i by blast
  moreover have "dataLink c \<in> {MSTP, SC} \<Longrightarrow> udpPort c = 47808" using U(2) rest(1) by blast
  moreover have "dataLink c = MSTP \<Longrightarrow> mstpPortName c \<noteq> '''' \<and> mstpMacAddress c \<le> mstpMaxMaster c"
    using rest(2,3) by simp
  moreover have "dataLink c = SC \<Longrightarrow> scPrimaryHubUri c \<noteq> '''' \<or> importCariZip c \<noteq> ''''" using rest(4) by blast
  moreover have "ranges_ok has76800 c" using r c by simp
  ultimately show ?thesis unfolding options_ok_def by simp
qed

section \<open>Writing options as a command line\<close>

definition command_line_of :: "CommandLineOptions \<Rightarrow> string list" where
  "command_line_of c =
     [''--datalink'', DataLinkArgument (dataLink c), ''--deviceID'', decimal (unat (optDeviceInstance c))] @
     (case dataLink c of
        IPv4 \<Rightarrow> [''--port'', decimal (unat (udpPort c))]
      | IPv6 \<Rightarrow> [''--port'', decimal (unat (udpPort c))] @
          (if ipv6InterfaceIndex c = 0 then [] else [''--interface'', decimal (unat (ipv6InterfaceIndex c))])
      | MSTP \<Rightarrow> [''--mstp-port'', mstpPortName c, ''--mstp-baud'', decimal (unat (mstpBaudRate c)),
          ''--mstp-mac'', decimal (unat (mstpMacAddress c)), ''--mstp-max-master'', decimal (unat (mstpMaxMaster c)),
          ''--mstp-max-info-frames'', decimal (unat (mstpMaxInfoFrames c))]
      | SC \<Rightarrow> (if scPrimaryHubUri c = '''' then [] else [''--sc-hub'', scPrimaryHubUri c]) @
          (if scFailoverHubUri c = '''' then [] else [''--sc-failover-hub'', scFailoverHubUri c]) @
          [''--sc-cert-dir'', scCertificateDirectory c] @
          (if importCariZip c = '''' then [] else [''--import-cari'', importCariZip c]))"

definition asks_for_help :: "string \<Rightarrow> bool" where
  "asks_for_help a \<longleftrightarrow> a \<in> {''--help'', ''-h'', ''/?'', ''--version''}"

lemma parse_pair:
  "take 2 option = ''--'' \<Longrightarrow> IsKnownOption option \<Longrightarrow> option \<noteq> ''--xml'' \<Longrightarrow> apply_option h option v s = Inr s' \<Longrightarrow>
   parse_args h (option # v # rest) s = parse_args h rest s'"
  by simp

lemma ParseNumber_word:
  fixes w :: "'a::len word"
  assumes "lo \<le> unat w" "unat w \<le> hi" "hi \<le> ULONG_MAX"
  shows "ParseNumber (decimal (unat w)) lo hi = Some (unat w)"
  using assms by (intro ParseNumber_decimal) auto

lemma word_caps:
  "unat (w8 :: u8) \<le> 255" "unat (w16 :: u16) \<le> 65535" "unat (w32 :: u32) \<le> 4294967295"
proof -
  have "unat w8 < 2 ^ 8" "unat w16 < 2 ^ 16" "unat w32 < 2 ^ 32"
    by (rule order_less_le_trans [OF unsigned_less], simp)+
  then show "unat w8 \<le> 255" "unat w16 \<le> 65535" "unat w32 \<le> 4294967295" by simp_all
qed

lemma unat_pos_word: "(w :: 'a::len word) \<noteq> 0 \<Longrightarrow> Suc 0 \<le> unat w"
  by (simp add: unat_gt_0 Suc_le_eq)

lemma decimal_no_help: "\<not> asks_for_help (decimal n)"
proof
  assume "asks_for_help (decimal n)"
  moreover obtain c cs where "decimal n = c # cs" "is_digit c"
    using decimal_digits [of n] by (cases "decimal n") auto
  ultimately show False by (auto simp: asks_for_help_def is_digit_def)
qed

lemma hub_no_help: "hub_uri_ok u \<Longrightarrow> \<not> asks_for_help u"
  by (auto simp: hub_uri_ok_def asks_for_help_def)

lemmas parse_simps = parse_pair IsKnownOption_def DATA_LINK_OPTIONS_def apply_option_def link_option_def

abbreviation (input) start :: cl_state where
  "start \<equiv> \<lparr>opts = default_options, portGiven = False, dataLinkOptionsGiven = {}\<rparr>"

lemma parse_start:
  assumes "ranges_ok h c"
  shows "parse_args h ([''--datalink'', DataLinkArgument (dataLink c), ''--deviceID'', decimal (unat (optDeviceInstance c))] @ rest) start =
     parse_args h rest (start\<lparr>opts := default_options\<lparr>dataLink := dataLink c, optDeviceInstance := optDeviceInstance c\<rparr>\<rparr>)"
proof -
  have dl: "parse_datalink (DataLinkArgument (dataLink c)) = Some (dataLink c)"
    by (cases "dataLink c") (simp_all add: parse_datalink_def DataLinkArgument_def)
  have n: "ParseNumber (decimal (unat (optDeviceInstance c))) 0 4194302 = Some (unat (optDeviceInstance c))"
    using assms by (intro ParseNumber_word) (auto simp: ranges_ok_def ULONG_MAX_def)
  show ?thesis by (simp add: parse_simps dl n)
qed

lemma parse_port:
  assumes "ranges_ok h c"
  shows "parse_args h ([''--port'', decimal (unat (udpPort c))] @ rest) s =
    parse_args h rest (s\<lparr>opts := (opts s)\<lparr>udpPort := udpPort c\<rparr>, portGiven := True\<rparr>)"
proof -
  have "ParseNumber (decimal (unat (udpPort c))) 1 65535 = Some (unat (udpPort c))"
    using assms word_caps(2) by (intro ParseNumber_word) (auto simp: ranges_ok_def ULONG_MAX_def unat_pos_word)
  then show ?thesis by (simp add: parse_simps)
qed

lemma parse_mstp:
  assumes "ranges_ok h c"
  shows "parse_args h [''--mstp-port'', mstpPortName c, ''--mstp-baud'', decimal (unat (mstpBaudRate c)),
          ''--mstp-mac'', decimal (unat (mstpMacAddress c)), ''--mstp-max-master'', decimal (unat (mstpMaxMaster c)),
          ''--mstp-max-info-frames'', decimal (unat (mstpMaxInfoFrames c))] s =
    Inr (s\<lparr>opts := (opts s)\<lparr>mstpPortName := mstpPortName c, mstpBaudRate := mstpBaudRate c, mstpMacAddress := mstpMacAddress c,
        mstpMaxMaster := mstpMaxMaster c, mstpMaxInfoFrames := mstpMaxInfoFrames c\<rparr>,
      dataLinkOptionsGiven := {''--mstp-port'', ''--mstp-baud'', ''--mstp-mac'', ''--mstp-max-master'', ''--mstp-max-info-frames''} \<union>
        dataLinkOptionsGiven s\<rparr>)"
proof -
  have b: "ParseNumber (decimal (unat (mstpBaudRate c))) 1 0xFFFFFFFF = Some (unat (mstpBaudRate c))"
    "unat (mstpBaudRate c) \<in> set supportedBaudRates" "unat (mstpBaudRate c) = 76800 \<longrightarrow> h"
    using assms word_caps(3) [of "mstpBaudRate c"]
    by (auto simp: ranges_ok_def ULONG_MAX_def supportedBaudRates_def word_unat_eq_iff intro!: ParseNumber_word)
  have m: "ParseNumber (decimal (unat (mstpMacAddress c))) 0 127 = Some (unat (mstpMacAddress c))"
    "ParseNumber (decimal (unat (mstpMaxMaster c))) 1 127 = Some (unat (mstpMaxMaster c))"
    "ParseNumber (decimal (unat (mstpMaxInfoFrames c))) 1 255 = Some (unat (mstpMaxInfoFrames c))"
    using assms word_caps(1) [of "mstpMaxInfoFrames c"]
    by (auto simp: ranges_ok_def ULONG_MAX_def word_le_nat_alt unat_pos_word intro!: ParseNumber_word)
  show ?thesis using b(2,3) by (auto simp: parse_simps b(1) [unfolded One_nat_def] m [unfolded One_nat_def] insert_commute)
qed

definition opt_arg :: "string \<Rightarrow> string \<Rightarrow> string list" where
  "opt_arg option v = (if v = '''' then [] else [option, v])"

definition given_if :: "string \<Rightarrow> string \<Rightarrow> string set" where
  "given_if option v = (if v = '''' then {} else {option})"

lemma parse_hub:
  assumes "hub_uri_ok u" "scPrimaryHubUri (opts s) = ''''"
  shows "parse_args h (opt_arg ''--sc-hub'' u @ rest) s =
    parse_args h rest (s\<lparr>opts := (opts s)\<lparr>scPrimaryHubUri := u\<rparr>,
      dataLinkOptionsGiven := given_if ''--sc-hub'' u \<union> dataLinkOptionsGiven s\<rparr>)"
proof (cases "u = ''''")
  case True
  then have "s\<lparr>opts := (opts s)\<lparr>scPrimaryHubUri := u\<rparr>, dataLinkOptionsGiven := given_if ''--sc-hub'' u \<union> dataLinkOptionsGiven s\<rparr> = s"
    using assms(2) by (simp add: given_if_def)
  then show ?thesis using True by (simp add: opt_arg_def)
next
  case False
  then show ?thesis using assms by (simp add: opt_arg_def given_if_def parse_simps hub_uri_ok_def)
qed

lemma parse_failover:
  assumes "hub_uri_ok u" "scFailoverHubUri (opts s) = ''''"
  shows "parse_args h (opt_arg ''--sc-failover-hub'' u @ rest) s =
    parse_args h rest (s\<lparr>opts := (opts s)\<lparr>scFailoverHubUri := u\<rparr>,
      dataLinkOptionsGiven := given_if ''--sc-failover-hub'' u \<union> dataLinkOptionsGiven s\<rparr>)"
proof (cases "u = ''''")
  case True
  then have "s\<lparr>opts := (opts s)\<lparr>scFailoverHubUri := u\<rparr>, dataLinkOptionsGiven := given_if ''--sc-failover-hub'' u \<union> dataLinkOptionsGiven s\<rparr> = s"
    using assms(2) by (simp add: given_if_def)
  then show ?thesis using True by (simp add: opt_arg_def)
next
  case False
  then show ?thesis using assms by (simp add: opt_arg_def given_if_def parse_simps hub_uri_ok_def)
qed

lemma parse_certs_cari:
  assumes "importCariZip (opts s) = ''''"
  shows "parse_args h ([''--sc-cert-dir'', dir] @ opt_arg ''--import-cari'' z) s =
    Inr (s\<lparr>opts := (opts s)\<lparr>scCertificateDirectory := dir, importCariZip := z\<rparr>,
      dataLinkOptionsGiven := {''--sc-cert-dir''} \<union> given_if ''--import-cari'' z \<union> dataLinkOptionsGiven s\<rparr>)"
  using assms by (auto simp: opt_arg_def given_if_def parse_simps insert_commute)

text \<open>The state the loop ends in: the options themselves, and which were given.\<close>

definition given_for :: "CommandLineOptions \<Rightarrow> string set" where
  "given_for c = (case dataLink c of
      IPv4 \<Rightarrow> {} | IPv6 \<Rightarrow> (if ipv6InterfaceIndex c = 0 then {} else {''--interface''})
    | MSTP \<Rightarrow> {''--mstp-port'', ''--mstp-baud'', ''--mstp-mac'', ''--mstp-max-master'', ''--mstp-max-info-frames''}
    | SC \<Rightarrow> {''--sc-cert-dir''} \<union> given_if ''--import-cari'' (importCariZip c) \<union>
        (given_if ''--sc-failover-hub'' (scFailoverHubUri c) \<union> given_if ''--sc-hub'' (scPrimaryHubUri c)))"

lemma parse_command_line_of:
  assumes "options_ok h c"
  shows "parse_args h (command_line_of c) start =
    Inr \<lparr>opts = c, portGiven = (dataLink c = IPv4 \<or> dataLink c = IPv6), dataLinkOptionsGiven = given_for c\<rparr>"
proof -
  note o = assms
  have r: "ranges_ok h c" using assms unfolding options_ok_def by blast
  note start = parse_start [OF r]
  note cl = command_line_of_def start parse_port [OF r] given_for_def
  show ?thesis
  proof (cases "dataLink c")
    case IPv4
    have "default_options\<lparr>dataLink := IPv4, optDeviceInstance := optDeviceInstance c, udpPort := udpPort c\<rparr> = c"
      using o IPv4 by (intro CommandLineOptions.equality) (simp_all add: options_ok_def default_options_def)
    then show ?thesis using IPv4 parse_port [OF r, where rest = "[]"] start
      by (simp add: command_line_of_def given_for_def del: append.simps parse_args.simps(2))
  next
    case IPv6
    have e: "default_options\<lparr>dataLink := IPv6, optDeviceInstance := optDeviceInstance c, udpPort := udpPort c,
        ipv6InterfaceIndex := ipv6InterfaceIndex c\<rparr> = c"
      using o IPv6 by (intro CommandLineOptions.equality) (simp_all add: options_ok_def default_options_def)
    have n: "ParseNumber (decimal (unat (ipv6InterfaceIndex c))) 1 0xFFFFFFFF = Some (unat (ipv6InterfaceIndex c))"
      if "ipv6InterfaceIndex c \<noteq> 0"
      using that word_caps(3) by (intro ParseNumber_word) (auto simp: unat_pos_word ULONG_MAX_def)
    have i: "parse_args h (if ipv6InterfaceIndex c = 0 then [] else [''--interface'', decimal (unat (ipv6InterfaceIndex c))]) s =
        Inr (s\<lparr>opts := (opts s)\<lparr>ipv6InterfaceIndex := ipv6InterfaceIndex c\<rparr>, dataLinkOptionsGiven := given_for c \<union> dataLinkOptionsGiven s\<rparr>)"
      if "ipv6InterfaceIndex (opts s) = 0" for s
    proof (cases "ipv6InterfaceIndex c = 0")
      case True
      then have "s\<lparr>opts := (opts s)\<lparr>ipv6InterfaceIndex := ipv6InterfaceIndex c\<rparr>, dataLinkOptionsGiven := given_for c \<union> dataLinkOptionsGiven s\<rparr> = s"
        using that IPv6 by (simp add: given_for_def)
      then show ?thesis using True by simp
    next
      case False
      then show ?thesis using n [OF False, unfolded One_nat_def] IPv6 by (simp add: parse_simps given_for_def)
    qed
    show ?thesis using IPv6 e unfolding command_line_of_def start
      by (simp only: DataLink.case parse_port [OF r]) (simp add: i default_options_def)
  next
    case MSTP
    have e: "default_options\<lparr>dataLink := MSTP, optDeviceInstance := optDeviceInstance c, mstpPortName := mstpPortName c,
        mstpBaudRate := mstpBaudRate c, mstpMacAddress := mstpMacAddress c, mstpMaxMaster := mstpMaxMaster c,
        mstpMaxInfoFrames := mstpMaxInfoFrames c\<rparr> = c"
      using o MSTP by (intro CommandLineOptions.equality) (simp_all add: options_ok_def default_options_def)
    show ?thesis using MSTP e unfolding command_line_of_def start
      by (simp only: DataLink.case parse_mstp [OF r]) (simp add: given_for_def)
  next
    case SC
    have e: "default_options\<lparr>dataLink := SC, optDeviceInstance := optDeviceInstance c, scPrimaryHubUri := scPrimaryHubUri c,
        scFailoverHubUri := scFailoverHubUri c, scCertificateDirectory := scCertificateDirectory c,
        importCariZip := importCariZip c\<rparr> = c"
      using o SC by (intro CommandLineOptions.equality) (simp_all add: options_ok_def default_options_def)
    have hubs: "hub_uri_ok (scPrimaryHubUri c)" "hub_uri_ok (scFailoverHubUri c)" using r by (simp_all add: ranges_ok_def)
    have d: "scPrimaryHubUri default_options = ''''" "scFailoverHubUri default_options = ''''" "importCariZip default_options = ''''"
      by (simp_all add: default_options_def)
    show ?thesis using SC e unfolding command_line_of_def start
      by (simp only: DataLink.case opt_arg_def [symmetric])
        (simp add: parse_hub [OF hubs(1)] parse_failover [OF hubs(2)] parse_certs_cari d given_for_def
          del: append.simps(2) parse_args.simps(2))
  qed
qed

lemma check_command_line_of:
  assumes "options_ok h c"
  shows "check_combination \<lparr>opts = c, portGiven = (dataLink c = IPv4 \<or> dataLink c = IPv6), dataLinkOptionsGiven = given_for c\<rparr> = None"
proof -
  have "find (\<lambda>(name, dl). name \<in> given_for c \<and> dl \<noteq> dataLink c) DATA_LINK_OPTIONS = None"
    by (cases "dataLink c") (auto simp: given_for_def given_if_def DATA_LINK_OPTIONS_def)
  then show ?thesis using assms by (cases "dataLink c") (auto simp: check_combination_def options_ok_def)
qed

lemma command_line_of_parses:
  assumes "options_ok has76800 c"
    and "\<not> asks_for_help (mstpPortName c)" "\<not> asks_for_help (scCertificateDirectory c)" "\<not> asks_for_help (importCariZip c)"
  shows "ParseCommandLine has76800 (command_line_of c) default_options = (c, Run)"
proof -
  have hubs: "\<not> asks_for_help (scPrimaryHubUri c)" "\<not> asks_for_help (scFailoverHubUri c)"
    using assms(1) hub_no_help unfolding options_ok_def ranges_ok_def by blast+
  have "\<forall>a \<in> set (command_line_of c). \<not> asks_for_help a"
    using assms(2-4) hubs decimal_no_help
    by (cases "dataLink c") (auto simp: command_line_of_def, auto simp: asks_for_help_def DataLinkArgument_def)
  then show ?thesis
    using parse_command_line_of [OF assms(1)] check_command_line_of [OF assms(1)]
    by (simp add: ParseCommandLine_def asks_for_help_def)
qed

text \<open>
  C38: Every well-formed set of options can be given on the command line: written out as arguments, it
  is parsed back exactly, unless one of its free texts is the help or version option.
\<close>

theorem command_line_roundtrip:
  assumes "options_ok has76800 c"
    and "\<not> asks_for_help (mstpPortName c)" "\<not> asks_for_help (scCertificateDirectory c)" "\<not> asks_for_help (importCariZip c)"
  shows "ParseCommandLine has76800 (command_line_of c) default_options = (c, Run)"
  by (rule command_line_of_parses [OF assms])

definition example_options :: CommandLineOptions where
  "example_options = default_options\<lparr>dataLink := MSTP, mstpPortName := [CHR ''C''], mstpMacAddress := 12\<rparr>"

lemma example_options_ok:
  "options_ok False example_options" "\<not> asks_for_help (mstpPortName example_options)"
  "\<not> asks_for_help (scCertificateDirectory example_options)" "\<not> asks_for_help (importCariZip example_options)"
  by (simp_all add: example_options_def options_ok_def ranges_ok_def default_options_def supportedBaudRates_def
      hub_uri_ok_def asks_for_help_def)

theorem command_line_roundtrip_witness:
  "ParseCommandLine False (command_line_of example_options) default_options = (example_options, Run)"
  by (rule command_line_roundtrip [OF example_options_ok])

theorem command_line_accepts_ok_witness:
  "snd (ParseCommandLine False (command_line_of example_options) default_options) = Run \<and> options_ok False example_options"
  using command_line_of_parses [OF example_options_ok] command_line_accepts_ok [OF command_line_of_parses [OF example_options_ok]]
  by simp

section \<open>Whole numbers\<close>

text \<open>White space, a sign and digits, as one argument.\<close>

definition whole_number_text :: "string \<Rightarrow> int \<Rightarrow> bool" where
  "whole_number_text text k \<longleftrightarrow>
     (\<exists>sp sg ds. text = sp @ sg @ ds \<and> list_all is_space sp \<and> ds \<noteq> [] \<and> list_all is_digit ds \<and>
        k = int (digits_value 0 ds) \<and> k \<le> LONG_MAX \<and>
        (sg = '''' \<or> sg = ''+'' \<or> sg = ''-'' \<and> k = 0))"

lemma strtol_parts:
  assumes "list_all is_space sp" "ds \<noteq> []" "list_all is_digit ds" "sg \<in> {'''', ''+'', ''-''}"
  shows "strtol (sp @ sg @ ds) =
      (max (- LONG_MAX - 1) (min LONG_MAX (if sg = ''-'' then - int (digits_value 0 ds) else int (digits_value 0 ds))), '''')"
    "strtol_overflows (sp @ sg @ ds) \<longleftrightarrow>
      (if sg = ''-'' then int (digits_value 0 ds) > LONG_MAX + 1 else int (digits_value 0 ds) > LONG_MAX)"
proof -
  obtain c cs where ds: "ds = c # cs" "is_digit c" using assms(2,3) by (cases ds) auto
  have c: "\<not> is_space c" "c \<noteq> CHR ''+''" "c \<noteq> CHR ''-''" using ds(2) digit_not_space [OF ds(2)] by auto
  have hdc: "hd ds \<noteq> CHR ''+''" "hd ds \<noteq> CHR ''-''" using ds(1) c by simp_all
  have "\<not> is_space (CHR ''+'')" "\<not> is_space (CHR ''-'')" by (simp_all add: is_space_def)
  then have "dropWhile is_space (sg @ ds) = sg @ ds" using assms(4) ds(1) c(1) by auto
  moreover have "dropWhile is_space (sp @ sg @ ds) = dropWhile is_space (sg @ ds)"
    using assms(1) by (intro dropWhile_append2) (simp add: list_all_iff)
  ultimately have "dropWhile is_space (sp @ sg @ ds) = sg @ ds" by simp
  moreover have "takeWhile is_digit ds = ds" "dropWhile is_digit ds = []"
    using assms(3) by (simp_all add: takeWhile_eq_all_conv list_all_iff)
  ultimately show "strtol (sp @ sg @ ds) =
      (max (- LONG_MAX - 1) (min LONG_MAX (if sg = ''-'' then - int (digits_value 0 ds) else int (digits_value 0 ds))), '''')"
    "strtol_overflows (sp @ sg @ ds) \<longleftrightarrow>
      (if sg = ''-'' then int (digits_value 0 ds) > LONG_MAX + 1 else int (digits_value 0 ds) > LONG_MAX)"
    using assms(2,4) hdc by (auto simp: strtol_def strtol_overflows_def Let_def)
qed

lemma strtol_complete_text:
  assumes "strtol text = (k, '''')" "text \<noteq> ''''"
  shows "\<exists>sp sg ds. text = sp @ sg @ ds \<and> list_all is_space sp \<and> ds \<noteq> [] \<and> list_all is_digit ds \<and>
     sg \<in> {'''', ''+'', ''-''}"
proof -
  define body where "body = dropWhile is_space text"
  define sg where "sg = (if body \<noteq> [] \<and> hd body \<in> set ''+-'' then [hd body] else [])"
  define ds where "ds = (if body \<noteq> [] \<and> hd body \<in> set ''+-'' then tl body else body)"
  have b: "body = sg @ ds" by (auto simp: sg_def ds_def)
  have t: "text = takeWhile is_space text @ sg @ ds" by (simp add: b [symmetric] body_def)
  have "\<exists>m. strtol text = (if takeWhile is_digit ds = [] then (0, text) else (m, dropWhile is_digit ds))"
    unfolding strtol_def Let_def body_def [symmetric] ds_def [symmetric] by auto
  then have "takeWhile is_digit ds \<noteq> [] \<and> dropWhile is_digit ds = []"
    using assms by (metis Pair_inject)
  then have tw: "takeWhile is_digit ds \<noteq> []" and dw: "dropWhile is_digit ds = []" by blast+
  from dw have "\<forall>x\<in>set ds. is_digit x" by (simp only: dropWhile_eq_Nil_conv)
  with tw have "ds \<noteq> []" "list_all is_digit ds" by (auto simp: list_all_iff)
  moreover have "list_all is_space (takeWhile is_space text)" by (auto simp: list_all_iff dest: set_takeWhileD)
  moreover have "sg \<in> {'''', ''+'', ''-''}" by (auto simp: sg_def)
  ultimately show ?thesis using t by blast
qed

text \<open>
  A whole-number argument is accepted exactly when the whole text is white space, an optional
  plus sign and decimal digits whose value a long holds (or a minus sign before zero), and its value is
  that of the digits; nothing else is taken for a number.
\<close>

lemma whole_numbers_exact: "ParseWholeNumber text = Some k \<longleftrightarrow> whole_number_text text k"
proof
  assume p: "ParseWholeNumber text = Some k"
  then have s: "strtol text = (k, '''')" "text \<noteq> ''''" "\<not> strtol_overflows text" "0 \<le> k"
    by (auto simp: ParseWholeNumber_def split: if_splits prod.splits)
  obtain sp sg ds where x: "text = sp @ sg @ ds" "list_all is_space sp" "ds \<noteq> []" "list_all is_digit ds"
      "sg \<in> {'''', ''+'', ''-''}"
    using strtol_complete_text [OF s(1,2)] by blast
  note P = strtol_parts [OF x(2-5), folded x(1)]
  have "k = int (digits_value 0 ds) \<and> k \<le> LONG_MAX \<and> (sg = '''' \<or> sg = ''+'' \<or> sg = ''-'' \<and> k = 0)"
    using s P x(5) by (auto simp: LONG_MAX_def split: if_splits)
  then show "whole_number_text text k" unfolding whole_number_text_def using x by blast
next
  assume "whole_number_text text k"
  then obtain sp sg ds where x: "text = sp @ sg @ ds" "list_all is_space sp" "ds \<noteq> []" "list_all is_digit ds"
    and k: "k = int (digits_value 0 ds)" "k \<le> LONG_MAX" "sg = '''' \<or> sg = ''+'' \<or> sg = ''-'' \<and> k = 0"
    unfolding whole_number_text_def by blast
  have sg: "sg \<in> {'''', ''+'', ''-''}" using k(3) by auto
  note P = strtol_parts [OF x(2-4) sg, folded x(1)]
  show "ParseWholeNumber text = Some k"
    using P k x by (auto simp: ParseWholeNumber_def LONG_MAX_def)
qed

lemma ParseWholeNumber_nonneg: "ParseWholeNumber v = Some k \<Longrightarrow> 0 \<le> k"
  by (auto simp: ParseWholeNumber_def split: if_splits prod.splits)

text \<open>
  Whatever the arguments are, the helpers return a usable value or the default: a port other than
  0, a device instance of at most 4194302, a name of 1 to 255 printable octets.
\<close>

lemma helper_arguments_in_range:
  "ParsePortArg argv port \<in> insert port {w. 0 < w} \<and>
   ParseDeviceIdArg argv dev \<in> insert dev {w. unat w \<le> 4194302} \<and>
   ParseDeviceNameArg argv nm \<in> insert nm {name. 0 < length name \<and> length name \<le> 255 \<and> list_all printable_octet name}"
proof -
  have acc: "first_accepted p d vs = d \<or> (\<exists>v. p v = Some (first_accepted p d vs))"
    for p :: "string \<Rightarrow> 'b option" and d vs
    by (induction vs) (auto split: option.split)
  have port: "0 < w" if h: "port_value v = Some w" for v w
  proof -
    obtain k where "0 < k" "k \<le> 65535" "w = of_int k"
      using h by (cases "ParseWholeNumber v") (auto simp: port_value_def split: if_splits)
    moreover from this have "uint (of_int k :: u16) = k" by (simp add: uint_word_of_int_eq take_bit_int_eq_self)
    ultimately show ?thesis by (simp add: word_less_alt)
  qed
  have dev: "unat w \<le> 4194302" if h: "device_id_value v = Some w" for v w
  proof -
    obtain k where "0 \<le> k" "k < 4194303" "w = of_int k"
      using h ParseWholeNumber_nonneg [of v]
      by (cases "ParseWholeNumber v") (auto simp: device_id_value_def split: if_splits)
    moreover from this have "uint (of_int k :: u32) = k" by (simp add: uint_word_of_int_eq take_bit_int_eq_self)
    ultimately have "uint w \<le> 4194302" by simp
    then have "nat (uint w) \<le> 4194302" by linarith
    then show ?thesis by (simp only: unat_eq_nat_uint)
  qed
  have name: "0 < length nm' \<and> length nm' \<le> 255 \<and> list_all printable_octet nm'" if "device_name_value v = Some nm'" for v nm'
    using that by (auto simp: device_name_value_def split: if_splits)
  have "first_accepted port_value port vs \<in> insert port {w. 0 < w}"
    "first_accepted device_id_value dev vs \<in> insert dev {w. unat w \<le> 4194302}"
    "first_accepted device_name_value nm vs \<in>
       insert nm {name. 0 < length name \<and> length name \<le> 255 \<and> list_all printable_octet name}" for vs
    using acc [of port_value port vs] port acc [of device_id_value dev vs] dev acc [of device_name_value nm vs] name
    by blast+
  then show ?thesis unfolding ParsePortArg_def ParseDeviceIdArg_def ParseDeviceNameArg_def Let_def by simp
qed

end
