(* ===== verification/Remote_Peer.thy ===== *)
theory Remote_Peer
  imports Tag_Reader Device_State
begin

text \<open>
  Monitoring the remote sensor device (main.cpp, section 2e): binding to it by its I-Am, polling
  its Analog Input with ReadProperty and ReadPropertyMultiple, decoding the answers, and keeping
  Analog Value 1 "Diamond" and its Reliability up to date.

  \<open>now\<close> is \<open>steady_clock::now()\<close> in nanoseconds. Whether the stack can send a request, and the
  invoke id it gives it, is its choice: an argument.
\<close>

section \<open>Addresses (section 2d)\<close>

definition TransportAddressLength :: "device \<Rightarrow> u8" where
  "TransportAddressLength d = (if dataLink (g_options d) = IPv6 then 16 else 4)"

definition TransportConnectionStringLength :: "device \<Rightarrow> u8" where
  "TransportConnectionStringLength d = TransportAddressLength d + 2"

definition IsIpDataLink :: "device \<Rightarrow> bool" where
  "IsIpDataLink d \<longleftrightarrow> dataLink (g_options d) = IPv4 \<or> dataLink (g_options d) = IPv6"

definition LocalBroadcastConnString :: "device \<Rightarrow> bytes" where
  "LocalBroadcastConnString d =
     map (\<lambda>i. g_ipAddress d ! i OR NOT (g_ipSubnetMask d ! i)) [0..<4] @
     [ucast (drop_bit 8 (g_bacnetIpUdpPort d)), ucast (g_bacnetIpUdpPort d AND 0xFF)]"

section \<open>Time and Diamond\<close>

text \<open>\<open>duration_cast\<close> truncates, and the count is cut to 32 bits: it wraps after 49.7 days.\<close>

definition MillisecondsSince :: "int \<Rightarrow> int \<Rightarrow> u32" where
  "MillisecondsSince now since =
     of_int (if since \<le> now then (now - since) div 1000000 else - ((since - now) div 1000000))"

definition SetDiamondReliability :: "device \<Rightarrow> u32 \<Rightarrow> device" where
  "SetDiamondReliability d reliability =
     (if g_diamondReliability d = reliability then d
      else d\<lparr>g_diamondReliability := reliability,
             stackCalls := stackCalls d @ [UpdateValue (g_deviceInstance d) OBJECT_TYPE_ANALOG_VALUE
               ANALOG_VALUE_INSTANCE PROPERTY_IDENTIFIER_RELIABILITY]\<rparr>)"

definition UpdateDiamondFromPeer :: "device \<Rightarrow> f32 \<Rightarrow> device" where
  "UpdateDiamondFromPeer d humidity =
     (if float_ne (g_analogValue1Value d) humidity
      then d\<lparr>g_analogValue1Value := humidity,
             stackCalls := stackCalls d @ [UpdateValue (g_deviceInstance d) OBJECT_TYPE_ANALOG_VALUE
               ANALOG_VALUE_INSTANCE PROPERTY_IDENTIFIER_PRESENT_VALUE]\<rparr>
      else d)"

section \<open>Binding and polling\<close>

definition HookIAm :: "int \<Rightarrow> device \<Rightarrow> u32 \<Rightarrow> bytes \<Rightarrow> u8 \<Rightarrow> u16 \<Rightarrow> device" where
  "HookIAm now d deviceIdentifier connString connectionStringLength sourceNetwork =
     (if \<not> IsIpDataLink d \<or> deviceIdentifier \<noteq> REMOTE_DEVICE_INSTANCE \<or> sourceNetwork \<noteq> 0 \<or>
         connectionStringLength \<noteq> TransportConnectionStringLength d
      then d
      else
        let n = unat connectionStringLength; p = g_peer d;
            p1 = (if \<not> bound p \<or> take n (connectionString p) \<noteq> take n connString
                  then p\<lparr>connectionString := take n connString @ drop n (connectionString p),
                         readPropertyMultipleUnsupported := False\<rparr>
                  else p);
            p2 = (if \<not> bound p1
                  then p1\<lparr>bound := True, lastAnswer := now,
                          lastPoll := now - uint REMOTE_POLL_INTERVAL_MILLISECONDS * 1000000\<rparr>
                  else p1)
        in d\<lparr>g_peer := p2\<rparr>)"

definition little_endian4 :: "u32 \<Rightarrow> bytes" where
  "little_endian4 w = map (\<lambda>i. ucast (drop_bit (8 * i) w)) [0..<4]"

definition PackReadPropertyElement :: "u16 \<Rightarrow> u32 \<Rightarrow> u32 \<Rightarrow> bytes" where
  "PackReadPropertyElement objectType objectInstance propertyIdentifier =
     [0, ucast (objectType AND 0xFF), ucast (drop_bit 8 objectType)] @
     little_endian4 objectInstance @ little_endian4 propertyIdentifier @ [0, 0, 0, 0]"

definition poll_elements :: bytes where
  "poll_elements =
     PackReadPropertyElement OBJECT_TYPE_ANALOG_INPUT REMOTE_ANALOG_INPUT_INSTANCE
       PROPERTY_IDENTIFIER_PRESENT_VALUE @
     PackReadPropertyElement OBJECT_TYPE_ANALOG_INPUT REMOTE_ANALOG_INPUT_INSTANCE
       PROPERTY_IDENTIFIER_STATUS_FLAGS"

text \<open>\<open>sent\<close>: the invoke id when \<open>BACnetStack_SendReadProperty\<close> accepts the request.\<close>

definition PollPeer :: "int \<Rightarrow> u8 option \<Rightarrow> device \<Rightarrow> device" where
  "PollPeer now sent d =
     (if \<not> bound (g_peer d) then d
      else
        let lost = REMOTE_COMMS_LOSS_MILLISECONDS < MillisecondsSince now (lastAnswer (g_peer d));
            d1 = (if lost \<and> g_diamondReliability d \<noteq> RELIABILITY_COMMUNICATION_FAILURE
                  then SetDiamondReliability d RELIABILITY_COMMUNICATION_FAILURE else d);
            interval = (if lost then REMOTE_LOST_POLL_INTERVAL_MILLISECONDS else REMOTE_POLL_INTERVAL_MILLISECONDS)
        in if MillisecondsSince now (lastPoll (g_peer d1)) < interval then d1
           else
             let p = g_peer d1;
                 useReadPropertyMultiple =
                   (pollCount p mod 2 = 1 \<and> \<not> readPropertyMultipleUnsupported p);
                 p1 = p\<lparr>lastPoll := now, pollCount := pollCount p + 1\<rparr>;
                 elementCount = (if useReadPropertyMultiple then 2 else 1) :: u32;
                 call = SendReadProperty
                   (if useReadPropertyMultiple then ucast SERVICE_READ_PROPERTY_MULTIPLE
                    else ucast SERVICE_READ_PROPERTY)
                   (take (unat (TransportConnectionStringLength d)) (connectionString p))
                   (ActiveNetworkPortInstance d) elementCount (take (unat elementCount * 15) poll_elements);
                 d2 = d1\<lparr>g_peer := p1, stackCalls := stackCalls d1 @ [call]\<rparr>
             in case sent of
                  None \<Rightarrow> d2
                | Some invokeId \<Rightarrow>
                    (if useReadPropertyMultiple
                     then d2\<lparr>g_peer := p1\<lparr>readPropertyMultipleInvokeId := invokeId,
                                          readPropertyMultiplePending := True\<rparr>\<rparr>
                     else d2\<lparr>g_peer := p1\<lparr>readPropertyInvokeId := invokeId, readPropertyPending := True\<rparr>\<rparr>))"

section \<open>The two ACKs\<close>

text \<open>
  The loop of \<open>HandleReadPropertyAck\<close>: \<open>Some humidity\<close> when it reaches a good value. The
  sensor-fault test follows in the caller.
\<close>

function rp_ack_loop :: "bytes \<Rightarrow> nat \<Rightarrow> nat \<Rightarrow> u32 \<Rightarrow> f32 option" where
  "rp_ack_loop apdu apduLength position propertyIdentifier =
     (case ReadTag apdu apduLength position of
        None \<Rightarrow> None
      | Some tag \<Rightarrow>
          (let prop = (if isContext tag \<and> tag_kind tag = TAG_VALUE \<and> tag_number tag = 1
                       then ContentUnsigned apdu tag else propertyIdentifier)
           in if isContext tag \<and> tag_kind tag = TAG_OPENING \<and> tag_number tag = 3
              then (if prop = PROPERTY_IDENTIFIER_PRESENT_VALUE
                    then Option.bind (ReadTag apdu apduLength (tag_next tag)) (ContentReal apdu)
                    else None)
              else rp_ack_loop apdu apduLength (tag_next tag) prop))"
  by pat_completeness auto
termination
  by (relation "measure (\<lambda>(apdu, n, p, i). n - p)") (auto dest: ReadTag_progress)

declare rp_ack_loop.simps [simp del]

definition HandleReadPropertyAck :: "device \<Rightarrow> bytes \<Rightarrow> nat \<Rightarrow> device" where
  "HandleReadPropertyAck d apdu apduLength =
     (case rp_ack_loop apdu apduLength 3 0 of
        Some humidity \<Rightarrow>
          (if \<not> sensorFaultReported (g_peer d)
           then SetDiamondReliability (UpdateDiamondFromPeer d humidity) RELIABILITY_NO_FAULT_DETECTED
           else d)
      | None \<Rightarrow> d)"

record rpm_scan =
  propertyIdentifier :: u32
  haveHumidity :: bool
  humidity :: f32
  haveFault :: bool
  fault :: bool

definition rpm_tag :: "bytes \<Rightarrow> nat \<Rightarrow> Tag \<Rightarrow> rpm_scan \<Rightarrow> rpm_scan" where
  "rpm_tag apdu apduLength tag s =
     (if isContext tag \<and> tag_kind tag = TAG_VALUE \<and> tag_number tag = 2
      then s\<lparr>propertyIdentifier := ContentUnsigned apdu tag\<rparr>
      else if isContext tag \<and> tag_kind tag = TAG_OPENING \<and> tag_number tag = 4
      then (case ReadTag apdu apduLength (tag_next tag) of
              None \<Rightarrow> s
            | Some valueTag \<Rightarrow>
                (if propertyIdentifier s = PROPERTY_IDENTIFIER_PRESENT_VALUE
                 then (case ContentReal apdu valueTag of
                         None \<Rightarrow> s\<lparr>haveHumidity := False\<rparr>
                       | Some v \<Rightarrow> s\<lparr>haveHumidity := True, humidity := v\<rparr>)
                 else if propertyIdentifier s = PROPERTY_IDENTIFIER_STATUS_FLAGS
                 then (case ContentStatusFlagsFault apdu valueTag of
                         None \<Rightarrow> s\<lparr>haveFault := False\<rparr>
                       | Some f \<Rightarrow> s\<lparr>haveFault := True, fault := f\<rparr>)
                 else s))
      else s)"

function rpm_ack_loop :: "bytes \<Rightarrow> nat \<Rightarrow> nat \<Rightarrow> rpm_scan \<Rightarrow> rpm_scan" where
  "rpm_ack_loop apdu apduLength position s =
     (case ReadTag apdu apduLength position of
        None \<Rightarrow> s
      | Some tag \<Rightarrow> rpm_ack_loop apdu apduLength (tag_next tag) (rpm_tag apdu apduLength tag s))"
  by pat_completeness auto
termination
  by (relation "measure (\<lambda>(apdu, n, p, s). n - p)") (auto dest: ReadTag_progress)

declare rpm_ack_loop.simps [simp del]

definition HandleReadPropertyMultipleAck :: "device \<Rightarrow> bytes \<Rightarrow> nat \<Rightarrow> device" where
  "HandleReadPropertyMultipleAck d apdu apduLength =
     (let s = rpm_ack_loop apdu apduLength 3
        \<lparr>propertyIdentifier = 0, haveHumidity = False, humidity = 0, haveFault = False, fault = False\<rparr> in
      if \<not> haveHumidity s \<or> \<not> haveFault s then d
      else let d1 = d\<lparr>g_peer := (g_peer d)\<lparr>sensorFaultReported := fault s\<rparr>\<rparr> in
        if fault s then SetDiamondReliability d1 RELIABILITY_UNRELIABLE_OTHER
        else SetDiamondReliability (UpdateDiamondFromPeer d1 (humidity s)) RELIABILITY_NO_FAULT_DETECTED)"

section \<open>Every datagram\<close>

text \<open>
  The headers of \<open>HandleReplyFromPeer\<close>: where the APDU starts, when the datagram is a unicast
  NPDU that carries one of at least three octets.
\<close>

definition bvll_length :: "device \<Rightarrow> bytes \<Rightarrow> nat \<Rightarrow> nat option" where
  "bvll_length d message messageLength =
     (if dataLink (g_options d) = IPv6
      then (if messageLength < 10 \<or> message ! 0 \<noteq> 0x82 \<or> message ! 1 \<noteq> 0x01 then None else Some 10)
      else (if messageLength < 4 \<or> message ! 0 \<noteq> 0x81 \<or> message ! 1 \<noteq> 0x0A then None else Some 4))"

definition apdu_start :: "device \<Rightarrow> bytes \<Rightarrow> nat \<Rightarrow> nat option" where
  "apdu_start d message messageLength =
     (case bvll_length d message messageLength of
        None \<Rightarrow> None
      | Some position \<Rightarrow>
          (if messageLength < position + 2 \<or> message ! position \<noteq> 0x01 then None
           else let control = message ! (position + 1) in
             if control AND 0x80 \<noteq> 0 then None
             else case skip_address message messageLength (control AND 0x20 \<noteq> 0) (position + 2) of
                 None \<Rightarrow> None
               | Some p1 \<Rightarrow>
                   (case skip_address message messageLength (control AND 0x08 \<noteq> 0) p1 of
                      None \<Rightarrow> None
                    | Some p2 \<Rightarrow>
                        (let p3 = (if control AND 0x20 \<noteq> 0 then p2 + 1 else p2) in
                         if messageLength < p3 + 3 then None else Some p3))))"

definition from_peer :: "device \<Rightarrow> bytes \<Rightarrow> u16 \<Rightarrow> bool" where
  "from_peer d fromAddress fromPort \<longleftrightarrow>
     (let p = g_peer d; n = unat (TransportAddressLength d) in
      bound p \<and> take n fromAddress = take n (connectionString p) \<and>
      fromPort = push_bit 8 (ucast (connectionString p ! n)) OR ucast (connectionString p ! (n + 1)))"

definition HandleReplyFromPeer :: "int \<Rightarrow> device \<Rightarrow> bytes \<Rightarrow> nat \<Rightarrow> bytes \<Rightarrow> u16 \<Rightarrow> device" where
  "HandleReplyFromPeer now d message messageLength fromAddress fromPort =
     (if \<not> from_peer d fromAddress fromPort then d
      else case apdu_start d message messageLength of
        None \<Rightarrow> d
      | Some position \<Rightarrow>
        (let apdu = drop position message; apduLength = messageLength - position;
             pduType = drop_bit 4 (apdu ! 0); invokeId = apdu ! 1; p = g_peer d;
             isReadProperty = (readPropertyPending p \<and> invokeId = readPropertyInvokeId p);
             isReadPropertyMultiple =
               (readPropertyMultiplePending p \<and> invokeId = readPropertyMultipleInvokeId p) in
         if \<not> isReadProperty \<and> \<not> isReadPropertyMultiple then d
         else
           let p1 = (if isReadProperty then p\<lparr>readPropertyPending := False, lastAnswer := now\<rparr>
                     else p\<lparr>readPropertyMultiplePending := False, lastAnswer := now\<rparr>);
               d1 = d\<lparr>g_peer := p1\<rparr> in
           if isReadPropertyMultiple \<and> pduType = 6 \<and> 3 \<le> apduLength \<and> apdu ! 2 = 9
           then d1\<lparr>g_peer := p1\<lparr>readPropertyMultipleUnsupported := True, sensorFaultReported := False\<rparr>\<rparr>
           else if pduType \<noteq> 3 \<or> bit (apdu ! 0) 3
           then SetDiamondReliability d1 RELIABILITY_UNRELIABLE_OTHER
           else if isReadProperty \<and> apdu ! 2 = ucast SERVICE_READ_PROPERTY
           then HandleReadPropertyAck d1 apdu apduLength
           else if isReadPropertyMultiple \<and> apdu ! 2 = ucast SERVICE_READ_PROPERTY_MULTIPLE
           then HandleReadPropertyMultipleAck d1 apdu apduLength
           else d1))"

end
