(* ===== verification/Udp6_Socket.thy ===== *)
theory Udp6_Socket
  imports Prelude
begin

text \<open>
  The BACnet/IPv6 socket (common/SimpleUDP6.cpp): which interface a datagram leaves by. A
  link-local address means something on one interface only, so the socket remembers the interface
  each link-local sender was heard on, in a ring of 32 slots. The operating system's socket calls
  are the environment: what \<open>sendto\<close> and \<open>recvfrom\<close> do is an argument, and what is handed to
  \<open>sendto\<close> is the result.
\<close>

section \<open>State\<close>

abbreviation (input) MAX_REMEMBERED_SENDERS :: nat where "MAX_REMEMBERED_SENDERS \<equiv> 32"

record RememberedSender =
  inUse :: bool
  sender_address :: bytes
  interfaceIndex :: u32

record udp6 =
  m_connected :: bool
  m_localPort :: u16
  m_group :: bytes
  m_interfaces :: "u32 list"
  m_senders :: "RememberedSender list"
  m_nextSender :: nat

definition DEFAULT_GROUP :: bytes where
  "DEFAULT_GROUP = [0xFF, 0x02, 0, 0, 0, 0, 0, 0, 0, 0, 0, 0, 0, 0, 0xBA, 0xC0]"

definition new_udp6 :: udp6 where
  "new_udp6 = \<lparr>m_connected = False, m_localPort = 0, m_group = DEFAULT_GROUP, m_interfaces = [],
     m_senders = replicate MAX_REMEMBERED_SENDERS
       \<lparr>inUse = False, sender_address = replicate 16 0, interfaceIndex = 0\<rparr>,
     m_nextSender = 0\<rparr>"

definition IsLinkLocal :: "bytes \<Rightarrow> bool" where
  "IsLinkLocal address \<longleftrightarrow> address ! 0 = 0xFE \<and> address ! 1 AND 0xC0 = 0x80"

section \<open>Operations\<close>

text \<open>
  \<open>Connect\<close>: \<open>opened\<close> and \<open>bindOk\<close> are the outcome of \<open>socket\<close> and \<open>bind\<close>, \<open>candidates\<close>
  what \<open>ListMulticastInterfaces\<close> finds, \<open>joins\<close> whether an interface joins the group.
\<close>

definition Connect6 ::
  "udp6 \<Rightarrow> bool \<Rightarrow> bool \<Rightarrow> u32 list \<Rightarrow> (u32 \<Rightarrow> bool) \<Rightarrow> u16 \<Rightarrow> u32 \<Rightarrow> bytes option \<Rightarrow> udp6 \<times> bool" where
  "Connect6 s opened bindOk candidates joins localPort ifIndex multicastGroup =
     (if \<not> opened then (s, False)
      else let s1 = s\<lparr>m_group := (case multicastGroup of None \<Rightarrow> DEFAULT_GROUP | Some g \<Rightarrow> take 16 g)\<rparr> in
        if \<not> bindOk then (s1\<lparr>m_connected := False, m_interfaces := []\<rparr>, False)
        else (s1\<lparr>m_localPort := localPort,
                 m_interfaces := filter joins (if ifIndex \<noteq> 0 then [ifIndex] else candidates),
                 m_connected := True\<rparr>, True))"

definition Disconnect6 :: "udp6 \<Rightarrow> udp6" where
  "Disconnect6 s = s\<lparr>m_connected := False, m_interfaces := []\<rparr>"

text \<open>The first slot that holds an address, as the two loops look for it.\<close>

definition sender_slot :: "udp6 \<Rightarrow> bytes \<Rightarrow> nat option" where
  "sender_slot s address =
     find (\<lambda>i. inUse (m_senders s ! i) \<and> sender_address (m_senders s ! i) = address)
       [0..<MAX_REMEMBERED_SENDERS]"

definition RememberSender :: "udp6 \<Rightarrow> bytes \<Rightarrow> u32 \<Rightarrow> udp6" where
  "RememberSender s address ifIndex =
     (if ifIndex = 0 \<or> \<not> IsLinkLocal address then s
      else case sender_slot s address of
        Some i \<Rightarrow> s\<lparr>m_senders := (m_senders s)[i := (m_senders s ! i)\<lparr>interfaceIndex := ifIndex\<rparr>]\<rparr>
      | None \<Rightarrow> s\<lparr>m_senders := (m_senders s)[m_nextSender s :=
                   \<lparr>inUse = True, sender_address = address, interfaceIndex = ifIndex\<rparr>],
                 m_nextSender := (m_nextSender s + 1) mod MAX_REMEMBERED_SENDERS\<rparr>)"

definition InterfaceOf :: "udp6 \<Rightarrow> bytes \<Rightarrow> u32" where
  "InterfaceOf s address =
     (case sender_slot s address of
        Some i \<Rightarrow> interfaceIndex (m_senders s ! i)
      | None \<Rightarrow> (case m_interfaces s of [] \<Rightarrow> 0 | i # _ \<Rightarrow> i))"

text \<open>What a send hands to \<open>sendto\<close>: address, port, scope and octets.\<close>

type_synonym sendto6 = "bytes \<times> u16 \<times> u32 \<times> bytes"

definition Send6 :: "udp6 \<Rightarrow> (sendto6 \<Rightarrow> int) \<Rightarrow> bytes \<Rightarrow> u16 \<Rightarrow> bytes \<Rightarrow> u16 \<times> sendto6 list" where
  "Send6 s sendto ipAddress port data =
     (if \<not> m_connected s then (0, [])
      else let call = (take 16 ipAddress, port, if IsLinkLocal ipAddress then InterfaceOf s ipAddress else 0, data);
               sent = sendto call
           in (if 0 < sent then of_int sent else 0, [call]))"

definition SendMulticast :: "udp6 \<Rightarrow> (sendto6 \<Rightarrow> int) \<Rightarrow> bytes \<Rightarrow> u16 \<times> sendto6 list" where
  "SendMulticast s sendto data =
     (if \<not> m_connected s then (0, [])
      else let calls = map (\<lambda>i. (m_group s, m_localPort s, i, data))
                 (if m_interfaces s \<noteq> [] then m_interfaces s else [0])
           in (fold (\<lambda>call firstSent. if 0 < sendto call \<and> firstSent = 0 then of_int (sendto call) else firstSent)
                 calls 0, calls))"

text \<open>
  \<open>queued\<close>: the datagram waiting at the socket - octets, sender, scope and port - of which
  \<open>recvfrom\<close> copies at most \<open>maxLength\<close> octets and drops the rest.
\<close>

definition Receive6 ::
  "udp6 \<Rightarrow> u16 \<Rightarrow> (bytes \<times> bytes \<times> u32 \<times> u16) option \<Rightarrow> udp6 \<times> (bytes \<times> bytes \<times> u16) option" where
  "Receive6 s maxLength queued =
     (if \<not> m_connected s then (s, None)
      else case queued of
          None \<Rightarrow> (s, None)
        | Some (data, from, scope, port) \<Rightarrow>
            (let received = take (unat maxLength) data in
             if received = [] then (s, None) else (RememberSender s from scope, Some (received, from, port))))"

section \<open>The ring of senders\<close>

definition udp6_inv :: "udp6 \<Rightarrow> bool" where
  "udp6_inv s \<longleftrightarrow> length (m_senders s) = MAX_REMEMBERED_SENDERS \<and> m_nextSender s < MAX_REMEMBERED_SENDERS \<and>
     (\<forall>i j. i < 32 \<longrightarrow> j < 32 \<longrightarrow> inUse (m_senders s ! i) \<longrightarrow> inUse (m_senders s ! j) \<longrightarrow>
        sender_address (m_senders s ! i) = sender_address (m_senders s ! j) \<longrightarrow> i = j)"

lemma new_udp6_inv: "udp6_inv new_udp6"
  by (simp add: udp6_inv_def new_udp6_def)

lemma sender_slot_Some:
  "sender_slot s a = Some i \<Longrightarrow> i < 32 \<and> inUse (m_senders s ! i) \<and> sender_address (m_senders s ! i) = a"
  unfolding sender_slot_def by (subst (asm) find_upt_Some_iff) auto

lemma sender_slot_None:
  "sender_slot s a = None \<Longrightarrow> i < 32 \<Longrightarrow> inUse (m_senders s ! i) \<Longrightarrow> sender_address (m_senders s ! i) \<noteq> a"
  unfolding sender_slot_def by (subst (asm) find_upt_None_iff) auto

text \<open>With the invariant the slot of an address is unique, so the search order does not matter.\<close>

lemma sender_slot_eq:
  assumes "udp6_inv s" "i < 32" "inUse (m_senders s ! i)" "sender_address (m_senders s ! i) = a"
  shows "sender_slot s a = Some i"
proof (cases "sender_slot s a")
  case None
  with sender_slot_None [OF None assms(2,3)] assms(4) show ?thesis by simp
next
  case (Some j)
  have "j = i" using sender_slot_Some [OF Some] assms unfolding udp6_inv_def by metis
  with Some show ?thesis by simp
qed

lemma RememberSender_inv:
  assumes "udp6_inv s"
  shows "udp6_inv (RememberSender s a ifIndex)"
proof (cases "ifIndex = 0 \<or> \<not> IsLinkLocal a")
  case False
  have len: "length (m_senders s) = 32" and nxt: "m_nextSender s < 32"
    and uniq: "\<And>i j. i < 32 \<Longrightarrow> j < 32 \<Longrightarrow> inUse (m_senders s ! i) \<Longrightarrow> inUse (m_senders s ! j) \<Longrightarrow>
        sender_address (m_senders s ! i) = sender_address (m_senders s ! j) \<Longrightarrow> i = j"
    using assms by (auto simp: udp6_inv_def)
  show ?thesis
  proof (cases "sender_slot s a")
    case None
    with False len nxt show ?thesis
      using uniq sender_slot_None [OF None]
      by (auto simp: RememberSender_def udp6_inv_def nth_list_update)
  next
    case (Some k)
    let ?ms = "(m_senders s)[k := (m_senders s ! k)\<lparr>interfaceIndex := ifIndex\<rparr>]"
    have same: "inUse (?ms ! i) = inUse (m_senders s ! i) \<and> sender_address (?ms ! i) = sender_address (m_senders s ! i)"
      if "i < 32" for i
      using that len by (cases "i = k") simp_all
    have eq: "RememberSender s a ifIndex = s\<lparr>m_senders := ?ms\<rparr>"
      using False Some by (simp add: RememberSender_def)
    have "i = j" if "i < 32" "j < 32" "inUse (?ms ! i)" "inUse (?ms ! j)"
        "sender_address (?ms ! i) = sender_address (?ms ! j)" for i j
      using uniq [of i j] same [of i] same [of j] that by simp
    moreover have "length ?ms = 32" using len by simp
    ultimately show ?thesis unfolding eq udp6_inv_def using nxt by simp
  qed
qed (use assms in \<open>auto simp: RememberSender_def\<close>)

text \<open>A remembered address answers with its interface at once, in its slot.\<close>

lemma RememberSender_slot:
  assumes "udp6_inv s" "ifIndex \<noteq> 0" "IsLinkLocal a"
  shows "\<exists>k. sender_slot (RememberSender s a ifIndex) a = Some k \<and>
     k = (case sender_slot s a of None \<Rightarrow> m_nextSender s | Some i \<Rightarrow> i) \<and>
     interfaceIndex (m_senders (RememberSender s a ifIndex) ! k) = ifIndex"
proof -
  let ?k = "case sender_slot s a of None \<Rightarrow> m_nextSender s | Some i \<Rightarrow> i"
  let ?s = "RememberSender s a ifIndex"
  have len: "length (m_senders s) = 32" and nxt: "m_nextSender s < 32" using assms(1) by (auto simp: udp6_inv_def)
  have k: "?k < 32" using nxt sender_slot_Some by (auto split: option.split)
  have "inUse (m_senders ?s ! ?k) \<and> sender_address (m_senders ?s ! ?k) = a \<and> interfaceIndex (m_senders ?s ! ?k) = ifIndex"
    using assms(2,3) len nxt sender_slot_Some [of s a]
    by (auto simp: RememberSender_def split: option.split)
  with sender_slot_eq [OF RememberSender_inv [OF assms(1)] k] show ?thesis by blast
qed

end
