(* ===== verification/Transport.thy ===== *)
theory Transport
  imports C_String Remote_Peer Udp4_Socket Udp6_Socket
begin

text \<open>
  The transport callbacks of main.cpp (section 2f): the device with its two UDP sockets, the
  receive and send callbacks the BACnet stack calls on the active data link, and the start-up
  I-Am and Who-Is broadcasts. Datagrams handed to the operating system are the result; what
  \<open>sendto\<close> returns for one of them is an argument.
\<close>

section \<open>State\<close>

record transport =
  dev :: device
  g_udp :: udp4
  g_udp6 :: udp6

datatype outgoing = Out4 sendto4 | Out6 sendto6

type_synonym datagram = "bytes \<times> bytes \<times> u32 \<times> u16" \<comment> \<open>octets, sender, scope, port\<close>

definition port_octets :: "u16 \<Rightarrow> bytes" where
  "port_octets port = [ucast (drop_bit 8 port), ucast (port AND 0xFF)]"

definition port_of :: "u8 \<Rightarrow> u8 \<Rightarrow> u16" where
  "port_of hi lo = push_bit 8 (ucast hi) OR ucast lo"

section \<open>Receiving\<close>

definition ReceiveFromUdp ::
  "int \<Rightarrow> transport \<Rightarrow> u16 \<Rightarrow> u8 \<Rightarrow> datagram option \<Rightarrow> transport \<times> (bytes \<times> bytes) option" where
  "ReceiveFromUdp now t maxMessageLength maxConnectionStringLength queued =
     (let d = dev t; ipv6 = (dataLink (g_options d) = IPv6) in
      if maxConnectionStringLength < TransportConnectionStringLength d then (t, None)
      else
        let (t1, received) =
          (if ipv6 then case Receive6 (g_udp6 t) maxMessageLength queued of
                          (s, r) \<Rightarrow> (t\<lparr>g_udp6 := s\<rparr>, r)
           else (t, UdpReceive (g_udp t) maxMessageLength
                      (map_option (\<lambda>(data, from, _, port). (data, from, port)) queued)))
        in case received of
             None \<Rightarrow> (t1, None)
           | Some (data, fromAddress, fromPort) \<Rightarrow>
               (let source = take (unat (TransportAddressLength d)) fromAddress @ port_octets fromPort;
                    d1 = (if dataLink (g_options d) = IPv4 \<and> fromPort \<noteq> udpPort (g_options d)
                          then d\<lparr>g_lastPeerIp := take 4 fromAddress, g_lastPeerPort := fromPort,
                                 g_hasLastPeer := True\<rparr>
                          else d);
                    d2 = HandleReplyFromPeer now d1 data (length data) fromAddress fromPort
                in (t1\<lparr>dev := d2\<rparr>, Some (data, source))))"

text \<open>The Network Port instance, and the message with its source.\<close>

definition CallbackReceiveMessage ::
  "int \<Rightarrow> transport \<Rightarrow> u16 \<Rightarrow> u8 \<Rightarrow> datagram option \<Rightarrow> transport \<times> u32 \<times> (bytes \<times> bytes) option" where
  "CallbackReceiveMessage now t maxMessageLength maxConnectionStringLength queued =
     (let port = ActiveNetworkPortInstance (dev t) in
      case dataLink (g_options (dev t)) of
        IPv4 \<Rightarrow> (case ReceiveFromUdp now t maxMessageLength maxConnectionStringLength queued of
                    (t1, r) \<Rightarrow> (t1, port, r))
      | IPv6 \<Rightarrow> (case ReceiveFromUdp now t maxMessageLength maxConnectionStringLength queued of
                    (t1, r) \<Rightarrow> (t1, port, r))
      | SC \<Rightarrow> (if \<not> BBC_WITH_SC (dev t) then (t, port, None)
               else case ReceiveFromHub (sc (dev t)) maxMessageLength maxConnectionStringLength of
                   (n, r) \<Rightarrow> (t\<lparr>dev := (dev t)\<lparr>sc := n\<rparr>\<rparr>, port,
                              map_option (\<lambda>(data, uri). (data, octets_of uri)) r))
      | MSTP \<Rightarrow> (t, port, None))"

section \<open>Sending\<close>

definition SendToUdp6 ::
  "transport \<Rightarrow> (outgoing \<Rightarrow> int) \<Rightarrow> bytes \<Rightarrow> bytes option \<Rightarrow> bool \<Rightarrow> u16 \<times> outgoing list" where
  "SendToUdp6 t sendto message destination broadcast =
     (case (if broadcast then None else destination) of
        None \<Rightarrow> (case SendMulticast (g_udp6 t) (\<lambda>c. sendto (Out6 c)) message of (n, cs) \<Rightarrow> (n, map Out6 cs))
      | Some c \<Rightarrow>
          (if c = [] then (case SendMulticast (g_udp6 t) (\<lambda>c. sendto (Out6 c)) message of (n, cs) \<Rightarrow> (n, map Out6 cs))
           else if length c < 18 then (0, [])
           else case Send6 (g_udp6 t) (\<lambda>c. sendto (Out6 c)) c (port_of (c ! 16) (c ! 17)) message of
               (n, cs) \<Rightarrow> (n, map Out6 cs)))"

definition SendToUdp ::
  "transport \<Rightarrow> (outgoing \<Rightarrow> int) \<Rightarrow> bytes \<Rightarrow> bytes option \<Rightarrow> u16 \<times> outgoing list" where
  "SendToUdp t sendto message destination =
     (let d = dev t;
          send = (\<lambda>to port. case UdpSend (g_udp t) (\<lambda>c. sendto (Out4 c)) to port message of
                    (n, cs) \<Rightarrow> (n, map Out4 cs));
          addressless = (destination = None \<or> destination = Some []);
          to = (if addressless then LocalBroadcastConnString d else take 6 (the destination))
      in if \<not> addressless \<and> length (the destination) < 6 then (0, [])
         else let (sent, cs) = send to (port_of (to ! 4) (to ! 5)) in
           if addressless \<and> g_hasLastPeer d \<and> IsStackChosenBroadcast message (length message)
           then (sent, cs @ snd (send (g_lastPeerIp d) (g_lastPeerPort d)))
           else (sent, cs))"

definition CallbackSendMessage ::
  "transport \<Rightarrow> (outgoing \<Rightarrow> int) \<Rightarrow> bytes \<Rightarrow> bytes option \<Rightarrow> u32 \<Rightarrow> bool \<Rightarrow> transport \<times> u16 \<times> outgoing list" where
  "CallbackSendMessage t sendto message destination networkPortInstance broadcast =
     (if networkPortInstance \<noteq> ActiveNetworkPortInstance (dev t) then (t, 0, [])
      else case dataLink (g_options (dev t)) of
        IPv4 \<Rightarrow> (t, SendToUdp t sendto message destination)
      | IPv6 \<Rightarrow> (t, SendToUdp6 t sendto message destination broadcast)
      | SC \<Rightarrow> (if \<not> BBC_WITH_SC (dev t) then (t, 0, [])
               else case SendToHub (sc (dev t)) message (text_of (case destination of None \<Rightarrow> [] | Some c \<Rightarrow> c)) of
                   (n, sent) \<Rightarrow> (t\<lparr>dev := (dev t)\<lparr>sc := n\<rparr>\<rparr>, sent, []))
      | MSTP \<Rightarrow> (t, 0, []))"

section \<open>Start-up broadcasts\<close>

definition Ipv6MulticastConnectionString :: "device \<Rightarrow> bytes" where
  "Ipv6MulticastConnectionString d =
     [0xFF, 0x02, 0, 0, 0, 0, 0, 0, 0, 0, 0, 0, 0, 0, 0xBA, 0xC0] @ port_octets (udpPort (g_options d))"

definition MSTP_BROADCAST_MAC_ADDRESS :: u8 where
  "MSTP_BROADCAST_MAC_ADDRESS = 0xFF"

definition SendIAmBroadcast :: "device \<Rightarrow> device" where
  "SendIAmBroadcast d =
     (case dataLink (g_options d) of
        IPv4 \<Rightarrow> d\<lparr>stackCalls := stackCalls d @
          [SendIAm (g_deviceInstance d) (LocalBroadcastConnString d) NETWORK_PORT_INSTANCE 0]\<rparr>
      | IPv6 \<Rightarrow> d\<lparr>stackCalls := stackCalls d @
          [SendIAm (g_deviceInstance d) (Ipv6MulticastConnectionString d) IPV6_NETWORK_PORT_INSTANCE 0]\<rparr>
      | MSTP \<Rightarrow> d\<lparr>stackCalls := stackCalls d @
          [SendIAm (g_deviceInstance d) [MSTP_BROADCAST_MAC_ADDRESS] MSTP_NETWORK_PORT_INSTANCE 0]\<rparr>
      | SC \<Rightarrow>
          (if BBC_WITH_SC d \<and> ConnectedHubUri (sc d) \<noteq> ''''
           then let uri = octets_of (ConnectedHubUri (sc d)) in
             d\<lparr>stackCalls := stackCalls d @
               [SendIAm (g_deviceInstance d) (take (length uri mod 256) uri) SC_NETWORK_PORT_INSTANCE 0]\<rparr>
           else d))"

definition SendWhoIsBroadcast :: "device \<Rightarrow> device" where
  "SendWhoIsBroadcast d =
     (case dataLink (g_options d) of
        IPv4 \<Rightarrow> d\<lparr>stackCalls := stackCalls d @
          [SendWhoIs (LocalBroadcastConnString d) NETWORK_PORT_INSTANCE 0]\<rparr>
      | IPv6 \<Rightarrow> d\<lparr>stackCalls := stackCalls d @
          [SendWhoIs (Ipv6MulticastConnectionString d) IPV6_NETWORK_PORT_INSTANCE 0]\<rparr>
      | MSTP \<Rightarrow> d\<lparr>stackCalls := stackCalls d @
          [SendWhoIs [MSTP_BROADCAST_MAC_ADDRESS] MSTP_NETWORK_PORT_INSTANCE 65535]\<rparr>
      | SC \<Rightarrow>
          (if BBC_WITH_SC d \<and> ConnectedHubUri (sc d) \<noteq> ''''
           then let uri = octets_of (ConnectedHubUri (sc d)) in
             d\<lparr>stackCalls := stackCalls d @
               [SendWhoIs (take (length uri mod 256) uri) SC_NETWORK_PORT_INSTANCE 0]\<rparr>
           else d))"

end
