(* ===== verification/Helper_Udp.thy ===== *)
theory Helper_Udp
  imports Udp4_Socket
begin

text \<open>
  The multi-port UDP transport of common/CASExampleHelper.cpp: up to four sockets, one per
  Network Port, polled in round-robin order, and the choice of the host's primary IPv4
  interface. The interface list of \<open>getifaddrs\<close> and the datagrams waiting at each socket are
  arguments.
\<close>

section \<open>The primary interface\<close>

record ifaddr =
  is_inet :: bool
  is_loopback :: bool
  is_up :: bool
  ifa_ip :: bytes
  ifa_mask :: "bytes option"
  ifa_speed :: "int option" \<comment> \<open>the number in \<open>/sys/class/net/<name>/speed\<close>\<close>

text \<open>\<open>ifs\<close> is \<open>None\<close> when \<open>getifaddrs\<close> fails.\<close>

definition GetPrimaryIPv4 :: "ifaddr list option \<Rightarrow> (bytes \<times> bytes) option" where
  "GetPrimaryIPv4 ifs =
     (case ifs of
        None \<Rightarrow> None
      | Some l \<Rightarrow>
          map_option (\<lambda>a. (ifa_ip a, case ifa_mask a of None \<Rightarrow> [0, 0, 0, 0] | Some m \<Rightarrow> m))
            (find (\<lambda>a. is_inet a \<and> \<not> is_loopback a \<and> is_up a) l))"

text \<open>Bits per second; the \<open>double\<close> is exact below \<open>2 ^ 53\<close>.\<close>

definition GetPrimaryLinkSpeedBitsPerSecond :: "ifaddr list option \<Rightarrow> int option" where
  "GetPrimaryLinkSpeedBitsPerSecond ifs =
     (case ifs of
        None \<Rightarrow> None
      | Some l \<Rightarrow>
          map_option (\<lambda>a. the (ifa_speed a) * 1000000)
            (find (\<lambda>a. is_inet a \<and> \<not> is_loopback a \<and> is_up a \<and>
                        (case ifa_speed a of None \<Rightarrow> False | Some mbps \<Rightarrow> 0 < mbps)) l))"

definition GetLocalBroadcastIPv4 :: "ifaddr list option \<Rightarrow> bytes" where
  "GetLocalBroadcastIPv4 ifs =
     (case GetPrimaryIPv4 ifs of
        Some (ip, netmask) \<Rightarrow> map (\<lambda>i. ip ! i OR NOT (netmask ! i)) [0..<4]
      | None \<Rightarrow> [255, 255, 255, 255])"

section \<open>The table of sockets\<close>

abbreviation (input) MAX_UDP_BINDINGS :: nat where "MAX_UDP_BINDINGS \<equiv> 4"

record UdpBinding =
  ub_udp :: udp4
  ub_port :: u16
  ub_instance :: u32
  ub_bound :: bool
  ub_peerIp :: bytes
  ub_peerPort :: u16
  ub_hasPeer :: bool

record helper_udp =
  g_udpBindings :: "UdpBinding list"
  g_udpBindingCount :: nat
  g_port :: u16
  g_networkPortInstance :: u32
  s_nextBindingToCheck :: nat

definition new_binding :: UdpBinding where
  "new_binding = \<lparr>ub_udp = \<lparr>u4_connected = False\<rparr>, ub_port = 0, ub_instance = 0, ub_bound = False,
     ub_peerIp = [0, 0, 0, 0], ub_peerPort = 0, ub_hasPeer = False\<rparr>"

definition new_helper_udp :: helper_udp where
  "new_helper_udp = \<lparr>g_udpBindings = replicate MAX_UDP_BINDINGS new_binding, g_udpBindingCount = 0,
     g_port = 47808, g_networkPortInstance = 1, s_nextBindingToCheck = 0\<rparr>"

definition FindUdpBindingByInstance :: "helper_udp \<Rightarrow> u32 \<Rightarrow> nat option" where
  "FindUdpBindingByInstance h networkPortInstance =
     find (\<lambda>i. ub_instance (g_udpBindings h ! i) = networkPortInstance) [0..<g_udpBindingCount h]"

definition SetNetworkPortInstance :: "helper_udp \<Rightarrow> u32 \<Rightarrow> helper_udp" where
  "SetNetworkPortInstance h networkPortInstance = h\<lparr>g_networkPortInstance := networkPortInstance\<rparr>"

text \<open>The second half of \<open>SetupUDP\<close>, on the binding found or made; the outcomes of \<open>socket\<close> and \<open>bind\<close>.\<close>

definition connect_binding :: "helper_udp \<Rightarrow> nat \<Rightarrow> bool \<Rightarrow> bool \<Rightarrow> u16 \<Rightarrow> u32 \<Rightarrow> helper_udp \<times> bool" where
  "connect_binding h i opened bindOk port networkPortInstance =
     (let b = g_udpBindings h ! i; (u, ok) = UdpConnect (ub_udp b) opened bindOk in
      if \<not> ok then (h\<lparr>g_udpBindings := (g_udpBindings h)[i := b\<lparr>ub_udp := u\<rparr>]\<rparr>, False)
      else (h\<lparr>g_udpBindings := (g_udpBindings h)[i := b\<lparr>ub_udp := u, ub_port := port, ub_bound := True\<rparr>],
              g_port := (if networkPortInstance = g_networkPortInstance h then port else g_port h)\<rparr>, True))"

definition SetupUDP :: "helper_udp \<Rightarrow> bool \<Rightarrow> bool \<Rightarrow> u16 \<Rightarrow> u32 \<Rightarrow> helper_udp \<times> bool" where
  "SetupUDP h opened bindOk port networkPortInstance =
     (case FindUdpBindingByInstance h networkPortInstance of
        Some i \<Rightarrow> connect_binding h i opened bindOk port networkPortInstance
      | None \<Rightarrow>
          (if MAX_UDP_BINDINGS \<le> g_udpBindingCount h then (h, False)
           else let i = g_udpBindingCount h in
             connect_binding
               (h\<lparr>g_udpBindings := (g_udpBindings h)[i := (g_udpBindings h ! i)\<lparr>ub_instance := networkPortInstance\<rparr>],
                  g_udpBindingCount := i + 1\<rparr>)
               i opened bindOk port networkPortInstance))"

definition ShutdownUDP :: "helper_udp \<Rightarrow> helper_udp" where
  "ShutdownUDP h =
     h\<lparr>g_udpBindings :=
         map (\<lambda>(i, b). if i < g_udpBindingCount h \<and> ub_bound b
                        then b\<lparr>ub_udp := UdpDisconnect (ub_udp b), ub_bound := False\<rparr> else b)
           (enumerate 0 (g_udpBindings h))\<rparr>"

section \<open>Receiving\<close>

text \<open>The order in which a call looks at the sockets.\<close>

definition poll_order :: "helper_udp \<Rightarrow> nat list" where
  "poll_order h =
     map (\<lambda>k. (s_nextBindingToCheck h + k) mod g_udpBindingCount h) [0..<g_udpBindingCount h]"

definition poll_one :: "helper_udp \<Rightarrow> u16 \<Rightarrow> (nat \<Rightarrow> datagram4 option) \<Rightarrow> nat \<Rightarrow> datagram4 option" where
  "poll_one h maxMessageLength queued i =
     (let b = g_udpBindings h ! i in
      if ub_bound b then UdpReceive (ub_udp b) maxMessageLength (queued i) else None)"

definition remember_peer :: "helper_udp \<Rightarrow> u32 \<Rightarrow> bytes \<Rightarrow> u16 \<Rightarrow> helper_udp" where
  "remember_peer h servicedInstance fromIp fromPort =
     h\<lparr>g_udpBindings :=
         map (\<lambda>(i, b). if i < g_udpBindingCount h \<and> ub_bound b \<and> ub_instance b = servicedInstance \<and> fromPort \<noteq> ub_port b
                        then b\<lparr>ub_peerIp := take 4 fromIp, ub_peerPort := fromPort, ub_hasPeer := True\<rparr> else b)
           (enumerate 0 (g_udpBindings h))\<rparr>"

text \<open>The instance, the octets and the connection string of the datagram that was taken.\<close>

definition HelperReceiveMessage ::
  "helper_udp \<Rightarrow> u16 \<Rightarrow> u8 \<Rightarrow> (nat \<Rightarrow> datagram4 option) \<Rightarrow> helper_udp \<times> (u32 \<times> bytes \<times> bytes) option" where
  "HelperReceiveMessage h maxMessageLength maxConnectionStringLength queued =
     (if maxConnectionStringLength < 6 \<or> g_udpBindingCount h = 0 then (h, None)
      else case find (\<lambda>i. poll_one h maxMessageLength queued i \<noteq> None) (poll_order h) of
          None \<Rightarrow> (h\<lparr>s_nextBindingToCheck := (s_nextBindingToCheck h + 1) mod g_udpBindingCount h\<rparr>, None)
        | Some i \<Rightarrow>
            (case the (poll_one h maxMessageLength queued i) of (data, fromIp, fromPort) \<Rightarrow>
               let inst = ub_instance (g_udpBindings h ! i);
                   h1 = h\<lparr>s_nextBindingToCheck := (i + 1) mod g_udpBindingCount h\<rparr>
               in (remember_peer h1 inst fromIp fromPort,
                   Some (inst, data, take 4 fromIp @ [ucast (drop_bit 8 fromPort AND 0xFF), ucast (fromPort AND 0xFF)]))))"

section \<open>Sending\<close>

text \<open>Where a frame goes: address and port, or a refusal.\<close>

definition helper_destination ::
  "ifaddr list option \<Rightarrow> UdpBinding \<Rightarrow> bytes option \<Rightarrow> bool \<Rightarrow> (bytes \<times> u16) option" where
  "helper_destination ifs b destination broadcast =
     (if destination = None \<or> destination = Some [] then Some (GetLocalBroadcastIPv4 ifs, ub_port b)
      else let c = the destination in
        if length c < 6 then None
        else let ip = take 4 c; port = push_bit 8 (ucast (c ! 4)) OR ucast (c ! 5) :: u16 in
          if broadcast \<and> port = ub_port b \<and>
             (case GetPrimaryIPv4 ifs of None \<Rightarrow> False | Some (ownIp, _) \<Rightarrow> ip = ownIp)
          then Some (GetLocalBroadcastIPv4 ifs, port) else Some (ip, port))"

definition HelperSendMessage ::
  "helper_udp \<Rightarrow> ifaddr list option \<Rightarrow> (sendto4 \<Rightarrow> int) \<Rightarrow> bytes \<Rightarrow> bytes option \<Rightarrow> u32 \<Rightarrow> bool \<Rightarrow>
   u16 \<times> sendto4 list" where
  "HelperSendMessage h ifs sendto message destination networkPortInstance broadcast =
     (case FindUdpBindingByInstance h networkPortInstance of
        None \<Rightarrow> (0, [])
      | Some i \<Rightarrow>
          (let b = g_udpBindings h ! i; stringless = (destination = None \<or> destination = Some []) in
           if \<not> ub_bound b then (0, [])
           else case helper_destination ifs b destination broadcast of
               None \<Rightarrow> (0, [])
             | Some (ip, port) \<Rightarrow>
                 (let (sent, cs) = UdpSend (ub_udp b) sendto ip port message in
                  if stringless \<and> ub_hasPeer b \<and> HelperIsStackChosenBroadcast message (length message)
                  then (sent, cs @ snd (UdpSend (ub_udp b) sendto (ub_peerIp b) (ub_peerPort b) message))
                  else (sent, cs))))"

text \<open>\<open>SendIAm\<close>: the connection string handed to the stack.\<close>

definition HelperSendIAm :: "helper_udp \<Rightarrow> ifaddr list option \<Rightarrow> u32 \<Rightarrow> bytes" where
  "HelperSendIAm h ifs networkPortInstance =
     (let port = (case FindUdpBindingByInstance h networkPortInstance of
                    Some i \<Rightarrow> (if ub_bound (g_udpBindings h ! i) then ub_port (g_udpBindings h ! i) else g_port h)
                  | None \<Rightarrow> g_port h)
      in take 4 (GetLocalBroadcastIPv4 ifs) @ [ucast (drop_bit 8 port AND 0xFF), ucast (port AND 0xFF)])"

end
