(* ===== verification/Peer_Properties.thy ===== *)
theory Peer_Properties
  imports Remote_Peer Npdu_Encoding
begin

text \<open>
  Properties of the remote peer monitoring: who is listened to, what the answers do to Diamond, what
  silence does, and the invariant of every reachable state.
\<close>

section \<open>Where the APDU starts\<close>

text \<open>The BVLC header of a unicast, on the active IP data link.\<close>

definition unicast_header :: "device \<Rightarrow> bytes \<Rightarrow> bool" where
  "unicast_header d hdr \<longleftrightarrow>
     (if dataLink (g_options d) = IPv6 then length hdr = 10 \<and> hdr ! 0 = 0x82 \<and> hdr ! 1 = 0x01
      else length hdr = 4 \<and> hdr ! 0 = 0x81 \<and> hdr ! 1 = 0x0A)"

lemma bvll_length_header:
  assumes "unicast_header d hdr"
  shows "bvll_length d (hdr @ rest) (length (hdr @ rest)) = Some (length hdr)"
  using assms by (cases hdr) (auto simp: unicast_header_def bvll_length_def nth_append split: if_splits)

lemma apdu_start_encoded:
  fixes apdu :: bytes and flags hops :: u8
  assumes "unicast_header d hdr" "address_ok dest" "address_ok src"
  defines "frame \<equiv> hdr @ npdu_octets flags dest src hops @ apdu"
  shows "apdu_start d frame (length frame) =
    (if flags AND 0x80 = 0 \<and> 3 \<le> length apdu then Some (length frame - length apdu) else None)"
proof -
  note S = skip_both_addresses [OF assms(2,3), where pre = hdr and rest = apdu and flags = flags and hops = hops,
      folded frame_def]
  note H = npdu_octets_header [where pre = hdr and rest = apdu and flags = flags and dest = dest and src = src
      and hops = hops, folded frame_def]
  have L: "length frame = length hdr + length (npdu_octets flags dest src hops) + length apdu"
    by (simp add: frame_def)
  have B: "bvll_length d frame (length frame) = Some (length hdr)"
    unfolding frame_def by (rule bvll_length_header [OF assms(1)])
  have ge: "\<not> length frame < length hdr + 2" unfolding L length_npdu_octets by simp
  define q where "q = length hdr + 2 + length (address_octets dest) + length (address_octets src)"
  have e: "(if dest \<noteq> None then q + 1 else q) = length frame - length apdu"
    unfolding L length_npdu_octets q_def by simp
  have le: "length apdu \<le> length frame" unfolding L by simp
  show ?thesis
    unfolding apdu_start_def B option.case H Let_def control_bits S q_def [symmetric] e
    using ge le by auto
qed

section \<open>Who is listened to\<close>

definition pending_reply :: "device \<Rightarrow> u8 \<Rightarrow> bool" where
  "pending_reply d invoke \<longleftrightarrow>
     readPropertyPending (g_peer d) \<and> invoke = readPropertyInvokeId (g_peer d) \<or>
     readPropertyMultiplePending (g_peer d) \<and> invoke = readPropertyMultipleInvokeId (g_peer d)"



section \<open>The answers\<close>

text \<open>A ReadProperty-ACK of Present_Value, and a ReadPropertyMultiple-ACK of it and Status_Flags.\<close>

definition value_ack :: "u8 \<Rightarrow> u32 \<Rightarrow> f32 \<Rightarrow> bytes" where
  "value_ack invoke object v =
     [0x30, invoke, 12] @ context_octets 0 (u32_octets object) @ context_octets 1 [85] @
     [0x3E, 0x44] @ u32_octets v @ [0x3F]"

definition value_and_flags_ack :: "u8 \<Rightarrow> u32 \<Rightarrow> f32 \<Rightarrow> u8 \<Rightarrow> bytes" where
  "value_and_flags_ack invoke object v flags =
     [0x30, invoke, 14] @ context_octets 0 (u32_octets object) @ [0x1E] @
     context_octets 2 [85] @ [0x4E, 0x44] @ u32_octets v @ [0x4F] @
     context_octets 2 [111] @ [0x4E, 0x82, 4, flags, 0x4F, 0x1F]"

lemma value_ack_read:
  "rp_ack_loop (value_ack invoke object v) (length (value_ack invoke object v)) 3 0 = Some v"
  by (simp add: value_ack_def context_octets_def u32_octets_def rp_ack_loop.simps ReadTag_def Let_def
      tag_length_field_def ContentUnsigned_def ContentReal_def window_def upt_rec or.assoc u32_octets_join)

lemma value_and_flags_ack_read:
  "rpm_ack_loop (value_and_flags_ack invoke object v flags) (length (value_and_flags_ack invoke object v flags)) 3
     \<lparr>propertyIdentifier = 0, haveHumidity = False, humidity = 0, haveFault = False, fault = False\<rparr> =
   \<lparr>propertyIdentifier = PROPERTY_IDENTIFIER_STATUS_FLAGS, haveHumidity = True, humidity = v, haveFault = True,
     fault = (flags AND 0x40 \<noteq> 0)\<rparr>"
  by (simp add: value_and_flags_ack_def context_octets_def u32_octets_def rpm_ack_loop.simps ReadTag_def Let_def
      tag_length_field_def rpm_tag_def ContentStatusFlagsFault_def ContentUnsigned_def ContentReal_def window_def
      upt_rec or.assoc u32_octets_join)

lemma ack_octets:
  "value_ack invoke object v ! 0 = 0x30" "value_ack invoke object v ! 1 = invoke"
  "value_ack invoke object v ! 2 = 12" "3 \<le> length (value_ack invoke object v)"
  "value_and_flags_ack invoke object v flags ! 0 = 0x30" "value_and_flags_ack invoke object v flags ! 1 = invoke"
  "value_and_flags_ack invoke object v flags ! 2 = 14" "3 \<le> length (value_and_flags_ack invoke object v flags)"
  by (simp_all add: value_ack_def value_and_flags_ack_def)

lemma SetDiamondReliability_simps [simp]:
  "g_diamondReliability (SetDiamondReliability d r) = r"
  "g_analogValue1Value (SetDiamondReliability d r) = g_analogValue1Value d"
  "g_peer (SetDiamondReliability d r) = g_peer d"
  "g_options (SetDiamondReliability d r) = g_options d"
  by (simp_all add: SetDiamondReliability_def)

lemma UpdateDiamondFromPeer_simps [simp]:
  "g_diamondReliability (UpdateDiamondFromPeer d v) = g_diamondReliability d"
  "g_analogValue1Value (UpdateDiamondFromPeer d v) =
     (if float_ne (g_analogValue1Value d) v then v else g_analogValue1Value d)"
  "g_peer (UpdateDiamondFromPeer d v) = g_peer d"
  "g_options (UpdateDiamondFromPeer d v) = g_options d"
  by (simp_all add: UpdateDiamondFromPeer_def)

text \<open>
  C29: The answers reach the object: an encoded ReadProperty-ACK or ReadPropertyMultiple-ACK from the
  peer, behind any NPDU addresses, sets Diamond to the very value it carries and its Reliability to
  NO_FAULT_DETECTED, unless the sensor is in fault, by this answer or by the last one that said so;
  then the value is held, and a fault just reported makes it UNRELIABLE_OTHER.
\<close>

theorem answers_update_diamond:
  fixes both :: bool and invoke flags control hops :: u8 and v :: f32 and object :: u32 and now :: int
  assumes sender: "from_peer d fromAddress fromPort"
    and hdr: "unicast_header d hdr" "address_ok dest" "address_ok src" "control AND 0x80 = 0"
    and asked: "if both then readPropertyMultiplePending (g_peer d) \<and> invoke = readPropertyMultipleInvokeId (g_peer d)
      else readPropertyPending (g_peer d) \<and> invoke = readPropertyInvokeId (g_peer d)"
  defines "frame \<equiv> hdr @ npdu_octets control dest src hops @
      (if both then value_and_flags_ack invoke object v flags else value_ack invoke object v)"
    and "bad \<equiv> (if both then flags AND 0x40 \<noteq> 0 else sensorFaultReported (g_peer d))"
  defines "d' \<equiv> HandleReplyFromPeer now d frame (length frame) fromAddress fromPort"
  shows "g_analogValue1Value d' =
      (if \<not> bad \<and> float_ne (g_analogValue1Value d) v then v else g_analogValue1Value d) \<and>
    g_diamondReliability d' = (if \<not> bad then RELIABILITY_NO_FAULT_DETECTED
      else if both then RELIABILITY_UNRELIABLE_OTHER else g_diamondReliability d) \<and>
    sensorFaultReported (g_peer d') = bad \<and> lastAnswer (g_peer d') = now"
proof -
  define apdu where "apdu = (if both then value_and_flags_ack invoke object v flags else value_ack invoke object v)"
  have f: "frame = hdr @ npdu_octets control dest src hops @ apdu" by (simp add: frame_def apdu_def)
  have l3: "3 \<le> length apdu" by (simp add: apdu_def ack_octets)
  have start: "apdu_start d frame (length frame) = Some (length frame - length apdu)"
    unfolding f using apdu_start_encoded [OF hdr(1-3), of control hops apdu] hdr(4) l3 by simp
  have rest: "drop (length frame - length apdu) frame = apdu" "length frame - (length frame - length apdu) = length apdu"
    by (simp_all add: f)
  have type: "drop_bit 4 (0x30 :: u8) = 3" "\<not> bit (0x30 :: u8) 3" by simp_all
  show ?thesis
  proof (cases both)
    case True
    then have a: "apdu = value_and_flags_ack invoke object v flags" by (simp add: apdu_def)
    show ?thesis
      unfolding d'_def HandleReplyFromPeer_def start option.case rest Let_def
      unfolding a ack_octets type
      using sender asked True
      by (auto simp: HandleReadPropertyMultipleAck_def value_and_flags_ack_read bad_def)
  next
    case False
    then have a: "apdu = value_ack invoke object v" by (simp add: apdu_def)
    show ?thesis
      unfolding d'_def HandleReplyFromPeer_def start option.case rest Let_def
      unfolding a ack_octets type
      using sender asked False
      by (auto simp: HandleReadPropertyAck_def value_ack_read bad_def)
  qed
qed

text \<open>A device that has bound to its peer at 10.0.0.3 and polled it once.\<close>

definition bound_device :: device where
  "bound_device = HookIAm 0 (new_device True default_options undefined) REMOTE_DEVICE_INSTANCE
     [10, 0, 0, 3, 0xBA, 0xC0] 6 0"

lemma bound_device_eq: "bound_device = (new_device True default_options undefined)
     \<lparr>g_peer := new_peer\<lparr>bound := True, connectionString := [10, 0, 0, 3, 0xBA, 0xC0] @ replicate 12 0,
       lastAnswer := 0, lastPoll := -1000000000\<rparr>\<rparr>"
  by (simp add: bound_device_def HookIAm_def IsIpDataLink_def TransportConnectionStringLength_def
      TransportAddressLength_def new_device_def default_options_def new_peer_def Let_def)

definition polled_device :: device where
  "polled_device = PollPeer 0 (Some 1) bound_device"

lemma polled_device_peer:
  "from_peer polled_device [10, 0, 0, 3] 47808" "readPropertyPending (g_peer polled_device)"
  "readPropertyInvokeId (g_peer polled_device) = 1" "\<not> sensorFaultReported (g_peer polled_device)"
  "dataLink (g_options polled_device) = IPv4" "g_analogValue1Value polled_device = 0x42480000"
  "bound (g_peer polled_device)"
  by (simp_all add: polled_device_def bound_device_eq PollPeer_def new_device_def new_peer_def default_options_def
      from_peer_def TransportAddressLength_def MillisecondsSince_def SetDiamondReliability_def Let_def)

theorem answers_update_diamond_witness:
  "g_analogValue1Value (HandleReplyFromPeer 7 polled_device
     ([0x81, 0x0A, 0, 23] @ npdu_octets 0 None None 0 @ value_ack 1 0x00000001 0x42000000) 23 [10, 0, 0, 3] 47808) =
   0x42000000"
proof -
  have h: "unicast_header polled_device [0x81, 0x0A, 0, 23]" by (simp add: unicast_header_def polled_device_peer)
  have l: "length (npdu_octets 0 None None 0) = 2" "length (value_ack 1 1 0x42000000) = 17" by code_simp+
  have "float_ne 0x42480000 0x42000000" by code_simp
  then show ?thesis
    using answers_update_diamond [OF polled_device_peer(1) h, where both = False and control = 0 and dest = None and
      src = None and hops = 0 and invoke = 1 and object = 1 and v = "0x42000000" and now = 7]
    by (simp add: polled_device_peer address_ok_def l)
qed

section \<open>Silence\<close>

text \<open>Elapsed milliseconds below \<open>2 ^ 32\<close> are what \<open>MillisecondsSince\<close> returns.\<close>

lemma MillisecondsSince_value:
  assumes "since \<le> now" "(now - since) div 1000000 < 2 ^ 32"
  shows "uint (MillisecondsSince now since) = (now - since) div 1000000"
proof -
  have "0 \<le> (now - since) div 1000000" using assms(1) by (simp add: pos_imp_zdiv_nonneg_iff)
  with assms show ?thesis by (simp add: MillisecondsSince_def uint_word_of_int_eq take_bit_int_eq_self)
qed

definition poll_request :: "device \<Rightarrow> stack_call" where
  "poll_request d =
     (let p = g_peer d; rpm = (pollCount p mod 2 = 1 \<and> \<not> readPropertyMultipleUnsupported p) in
      SendReadProperty (if rpm then ucast SERVICE_READ_PROPERTY_MULTIPLE else ucast SERVICE_READ_PROPERTY)
        (take (unat (TransportConnectionStringLength d)) (connectionString p)) (ActiveNetworkPortInstance d)
        (if rpm then 2 else 1) (take (if rpm then 30 else 15) poll_elements))"

text \<open>
  C30: Polling reports a silent peer: after more than three seconds without an answer Diamond goes to
  COMMUNICATION_FAILURE with its value held, and the change is announced once; a request goes out
  exactly when one second, or three while the peer is lost, has passed since the last one. The
  32-bit millisecond count is exact for 49 days.
\<close>

theorem silent_peer_is_reported:
  fixes d :: device and now :: int and sent :: "u8 option"
  assumes b: "bound (g_peer d)"
    and a: "lastAnswer (g_peer d) \<le> now" "(now - lastAnswer (g_peer d)) div 1000000 < 2 ^ 32"
    and p: "lastPoll (g_peer d) \<le> now" "(now - lastPoll (g_peer d)) div 1000000 < 2 ^ 32"
  defines "lost \<equiv> 3000 < (now - lastAnswer (g_peer d)) div 1000000"
    and "news \<equiv> 3000 < (now - lastAnswer (g_peer d)) div 1000000 \<and>
      g_diamondReliability d \<noteq> RELIABILITY_COMMUNICATION_FAILURE"
    and "due \<equiv> (if 3000 < (now - lastAnswer (g_peer d)) div 1000000 then 3000 else 1000)
      \<le> (now - lastPoll (g_peer d)) div 1000000"
    and "d' \<equiv> PollPeer now sent d"
  shows "g_diamondReliability d' = (if lost then RELIABILITY_COMMUNICATION_FAILURE else g_diamondReliability d) \<and>
    g_analogValue1Value d' = g_analogValue1Value d \<and>
    stackCalls d' = stackCalls d @
      (if news then [UpdateValue (g_deviceInstance d) OBJECT_TYPE_ANALOG_VALUE ANALOG_VALUE_INSTANCE
         PROPERTY_IDENTIFIER_RELIABILITY] else []) @
      (if due then [poll_request d] else []) \<and>
    lastPoll (g_peer d') = (if due then now else lastPoll (g_peer d))"
proof -
  have L: "REMOTE_COMMS_LOSS_MILLISECONDS < MillisecondsSince now (lastAnswer (g_peer d)) \<longleftrightarrow> lost"
    unfolding lost_def word_less_alt MillisecondsSince_value [OF a] by simp
  define d1 where "d1 = (if lost \<and> g_diamondReliability d \<noteq> RELIABILITY_COMMUNICATION_FAILURE
      then SetDiamondReliability d RELIABILITY_COMMUNICATION_FAILURE else d)"
  have d1: "g_peer d1 = g_peer d" "g_options d1 = g_options d" "g_analogValue1Value d1 = g_analogValue1Value d"
    "g_diamondReliability d1 = (if lost then RELIABILITY_COMMUNICATION_FAILURE else g_diamondReliability d)"
    "stackCalls d1 = stackCalls d @ (if news then [UpdateValue (g_deviceInstance d) OBJECT_TYPE_ANALOG_VALUE
       ANALOG_VALUE_INSTANCE PROPERTY_IDENTIFIER_RELIABILITY] else [])"
    by (auto simp: d1_def SetDiamondReliability_def news_def lost_def)
  have D: "MillisecondsSince now (lastPoll (g_peer d)) <
      (if lost then REMOTE_LOST_POLL_INTERVAL_MILLISECONDS else REMOTE_POLL_INTERVAL_MILLISECONDS) \<longleftrightarrow> \<not> due"
    unfolding due_def lost_def [symmetric] word_less_alt MillisecondsSince_value [OF p] by auto
  have port: "ActiveNetworkPortInstance d1 = ActiveNetworkPortInstance d"
    by (simp add: ActiveNetworkPortInstance_def d1(2))
  show ?thesis
    unfolding d'_def PollPeer_def L Let_def d1_def [symmetric] d1(1) D
    using b d1 port by (auto simp: poll_request_def Let_def split: option.split)
qed

theorem silent_peer_is_reported_witness:
  "g_diamondReliability (PollPeer 4000000000 None (polled_device\<lparr>g_diamondReliability := RELIABILITY_NO_FAULT_DETECTED\<rparr>)) =
     RELIABILITY_COMMUNICATION_FAILURE"
proof -
  have "lastAnswer (g_peer polled_device) = 0" "lastPoll (g_peer polled_device) = 0"
    by (simp_all add: polled_device_def bound_device_eq PollPeer_def new_device_def new_peer_def MillisecondsSince_def
        SetDiamondReliability_def Let_def)
  then show ?thesis
    using silent_peer_is_reported [where d = "polled_device\<lparr>g_diamondReliability := RELIABILITY_NO_FAULT_DETECTED\<rparr>"
        and now = 4000000000 and sent = None]
    by (simp add: polled_device_peer)
qed

section \<open>Reachable states\<close>

text \<open>
  Every order of I-Am hooks, polls and datagrams, whatever the rest of the program does to the rest
  of the device in between; the stack's contract is that an I-Am's connection string has its length.
\<close>

inductive peer_reachable :: "device \<Rightarrow> bool" where
  start: "peer_reachable (new_device withSc opts node)"
| heard: "peer_reachable d \<Longrightarrow> length connString = unat len \<Longrightarrow>
    peer_reachable (HookIAm now d deviceIdentifier connString len sourceNetwork)"
| polled: "peer_reachable d \<Longrightarrow> peer_reachable (PollPeer now sent d)"
| answered: "peer_reachable d \<Longrightarrow> peer_reachable (HandleReplyFromPeer now d message n fromAddress fromPort)"
| elsewhere: "peer_reachable d \<Longrightarrow> g_peer d' = g_peer d \<Longrightarrow> g_diamondReliability d' = g_diamondReliability d \<Longrightarrow>
    peer_reachable d'"

definition peer_ok :: "device \<Rightarrow> bool" where
  "peer_ok d \<longleftrightarrow> peer_inv (g_peer d) \<and>
     g_diamondReliability d \<in> {RELIABILITY_NO_FAULT_DETECTED, RELIABILITY_UNRELIABLE_OTHER,
       RELIABILITY_COMMUNICATION_FAILURE} \<and>
     (g_diamondReliability d = RELIABILITY_NO_FAULT_DETECTED \<longrightarrow>
        bound (g_peer d) \<and> \<not> sensorFaultReported (g_peer d)) \<and>
     (readPropertyPending (g_peer d) \<or> readPropertyMultiplePending (g_peer d) \<longrightarrow> bound (g_peer d)) \<and>
     (sensorFaultReported (g_peer d) \<longrightarrow> bound (g_peer d))"

lemma HookIAm_ok:
  assumes "peer_ok d" "length connString = unat len"
  shows "peer_ok (HookIAm now d deviceIdentifier connString len sourceNetwork)"
  using assms by (auto simp: HookIAm_def peer_ok_def peer_inv_def Let_def TransportConnectionStringLength_def
      TransportAddressLength_def)

lemma peer_ok_peer_update:
  "peer_ok d \<Longrightarrow> bound p = bound (g_peer d) \<Longrightarrow> connectionString p = connectionString (g_peer d) \<Longrightarrow>
   sensorFaultReported p = sensorFaultReported (g_peer d) \<Longrightarrow> bound (g_peer d) \<Longrightarrow>
   peer_ok (d\<lparr>stackCalls := calls, g_peer := p\<rparr>) \<and> peer_ok (d\<lparr>g_peer := p, stackCalls := calls\<rparr>)"
  by (simp add: peer_ok_def peer_inv_def)

lemma peer_ok_unreliable:
  "peer_ok d \<Longrightarrow> r \<in> {RELIABILITY_UNRELIABLE_OTHER, RELIABILITY_COMMUNICATION_FAILURE} \<Longrightarrow>
   peer_ok (SetDiamondReliability d r)"
  by (auto simp: peer_ok_def)

lemma PollPeer_ok:
  assumes "peer_ok d"
  shows "peer_ok (PollPeer now sent d)"
proof (cases "bound (g_peer d)")
  case True
  define d1 where "d1 = (if REMOTE_COMMS_LOSS_MILLISECONDS < MillisecondsSince now (lastAnswer (g_peer d)) \<and>
      g_diamondReliability d \<noteq> RELIABILITY_COMMUNICATION_FAILURE
    then SetDiamondReliability d RELIABILITY_COMMUNICATION_FAILURE else d)"
  have "peer_ok d1" "bound (g_peer d1)"
    using assms True by (simp_all add: d1_def peer_ok_unreliable)
  moreover from this have "peer_ok (d1\<lparr>stackCalls := calls, g_peer := p\<rparr>) \<and>
      peer_ok (d1\<lparr>g_peer := p, stackCalls := calls\<rparr>)"
    if "bound p = bound (g_peer d1)" "connectionString p = connectionString (g_peer d1)"
      "sensorFaultReported p = sensorFaultReported (g_peer d1)" for p calls
    using that by (intro peer_ok_peer_update)
  ultimately show ?thesis
    unfolding PollPeer_def Let_def d1_def [symmetric] using True by (simp split: option.split)
qed (use assms in \<open>simp add: PollPeer_def\<close>)

lemma HandleReadPropertyAck_ok:
  "peer_ok d \<Longrightarrow> bound (g_peer d) \<Longrightarrow> peer_ok (HandleReadPropertyAck d apdu n)"
  by (auto simp: HandleReadPropertyAck_def peer_ok_def peer_inv_def split: option.split)

lemma HandleReadPropertyMultipleAck_ok:
  "peer_ok d \<Longrightarrow> bound (g_peer d) \<Longrightarrow> peer_ok (HandleReadPropertyMultipleAck d apdu n)"
  by (auto simp: HandleReadPropertyMultipleAck_def peer_ok_def peer_inv_def Let_def)

lemma from_peer_bound: "from_peer d fromAddress fromPort \<Longrightarrow> bound (g_peer d)"
  by (simp add: from_peer_def Let_def)

lemma HandleReplyFromPeer_ok:
  assumes "peer_ok d"
  shows "peer_ok (HandleReplyFromPeer now d message n fromAddress fromPort)"
proof (cases "from_peer d fromAddress fromPort")
  case True
  note b = from_peer_bound [OF this]
  define p where "p rp = (if rp then (g_peer d)\<lparr>readPropertyPending := False, lastAnswer := now\<rparr>
      else (g_peer d)\<lparr>readPropertyMultiplePending := False, lastAnswer := now\<rparr>)" for rp
  have ok: "peer_ok (d\<lparr>g_peer := p rp\<rparr>)" and pb: "bound (p rp)" for rp
    using assms b by (auto simp: peer_ok_def peer_inv_def p_def)
  have "peer_ok (SetDiamondReliability (d\<lparr>g_peer := p rp\<rparr>) RELIABILITY_UNRELIABLE_OTHER)"
    "peer_ok (d\<lparr>g_peer := (p rp)\<lparr>readPropertyMultipleUnsupported := True, sensorFaultReported := False\<rparr>\<rparr>)" for rp
    using ok [of rp] pb [of rp] by (auto simp: peer_ok_def peer_inv_def)
  then show ?thesis
    unfolding HandleReplyFromPeer_def Let_def p_def [symmetric]
    using assms ok pb by (auto simp: HandleReadPropertyAck_ok HandleReadPropertyMultipleAck_ok split: option.split)
qed (use assms in \<open>simp add: HandleReplyFromPeer_def\<close>)

text \<open>
  In every state the monitoring can reach, Diamond is NO_FAULT_DETECTED only while the device has
  bound to its peer and the peer's sensor is not known to be in fault; its Reliability is one of the
  three values the program uses, requests are open only with a bound peer, and the stored address
  keeps its 18 octets.
\<close>

lemma diamond_reliability_invariant:
  "peer_reachable d \<Longrightarrow> peer_ok d"
proof (induction rule: peer_reachable.induct)
  case (start withSc opts node)
  then show ?case by (simp add: peer_ok_def peer_inv_def new_device_def new_peer_def)
next
  case (elsewhere d d')
  then show ?case by (simp add: peer_ok_def)
qed (simp_all add: HookIAm_ok PollPeer_ok HandleReplyFromPeer_ok)

end
