(* ===== verification/Transport_Properties.thy ===== *)
theory Transport_Properties
  imports Transport Helper_Udp Peer_Properties
begin

text \<open>
  Properties of the two transports: the header parsers against the encoder, the refinement of the
  example helper's transport by the program's, and the one place where they differ.
\<close>

section \<open>NPDU\<close>

lemma nth_rest: "(pre @ xs @ rest) ! (length pre + length xs + k) = rest ! k"
  by (simp add: nth_append)

text \<open>
  C34: The hand-written header parsers find the APDU the standard's encoder put there, behind any
  addresses: a stack-chosen broadcast is recognised exactly when it is an Original-Unicast or
  -Broadcast that carries a network message or an I-Am or I-Have, in both copies of that function,
  and the reply handler's APDU is the encoded one, exactly for a unicast application message.
\<close>

theorem npdu_parsers_correct:
  fixes fn a b flags hops :: u8 and apdu :: bytes
  assumes adr: "address_ok dest" "address_ok src"
  defines "frame \<equiv> [0x81, fn, a, b] @ npdu_octets flags dest src hops @ apdu"
  shows "(IsStackChosenBroadcast frame (length frame) \<longleftrightarrow>
      fn \<in> {0x0A, 0x0B} \<and> (flags AND 0x80 \<noteq> 0 \<or>
        (\<exists>pdu service rest. apdu = pdu # service # rest \<and> drop_bit 4 pdu = 1 \<and> (service = 0 \<or> service = 1)))) \<and>
    (HelperIsStackChosenBroadcast frame (length frame) \<longleftrightarrow> IsStackChosenBroadcast frame (length frame)) \<and>
    (dataLink (g_options d) \<noteq> IPv6 \<longrightarrow> apdu_start d frame (length frame) =
      (if fn = 0x0A \<and> flags AND 0x80 = 0 \<and> 3 \<le> length apdu then Some (length frame - length apdu) else None))"
proof -
  define pre where "pre = [0x81, fn, a, b]"
  define n where "n = length frame"
  have lp: "length pre = 4" by (simp add: pre_def)
  have f: "frame = pre @ npdu_octets flags dest src hops @ apdu" by (simp add: frame_def pre_def)
  have hd: "frame ! 0 = 0x81" "frame ! 1 = fn" by (simp_all add: f pre_def)
  define q where "q = 6 + length (address_octets dest)"
  define p where "p = q + length (address_octets src)"
  define r where "r = (if dest = None then p else p + 1)"
  have H: "frame ! 4 = 1" "frame ! 5 = npdu_control flags dest src"
    using npdu_octets_header [where pre = pre and rest = apdu and flags = flags and dest = dest and src = src and hops = hops, folded f] lp by simp_all
  have S: "skip_address frame n (dest \<noteq> None) 6 = Some q" "skip_address frame n (src \<noteq> None) q = Some p"
    using skip_both_addresses [OF adr, where pre = pre and rest = apdu and flags = flags and hops = hops, folded f]
    by (simp_all add: lp n_def q_def p_def)
  have rl: "length (pre @ npdu_octets flags dest src hops) = r"
    by (simp add: lp length_npdu_octets r_def p_def q_def)
  have n: "n = r + length apdu" using rl by (simp add: n_def f)
  have r6: "6 \<le> r" by (simp add: r_def p_def q_def)
  have hop: "(if dest \<noteq> None then p + 1 else p) = r" by (simp add: r_def)
  have at: "frame ! (r + k) = apdu ! k" for k
    unfolding rl [symmetric] f length_append by (rule nth_rest)
  have ans: "answers_at frame n \<longleftrightarrow> flags AND 0x80 \<noteq> 0 \<or>
      (2 \<le> length apdu \<and> drop_bit 4 (apdu ! 0) = 1 \<and> (apdu ! 1 = 0 \<or> apdu ! 1 = 1))"
    unfolding answers_at_def H Let_def control_bits S option.case hop
    using n r6 at [of 0] at [of 1] by auto
  have start: "apdu_start d frame n =
      (if fn = 0x0A \<and> flags AND 0x80 = 0 \<and> 3 \<le> length apdu then Some r else None)"
    if v4: "dataLink (g_options d) \<noteq> IPv6"
  proof (cases "fn = 0x0A")
    case True
    then have "unicast_header d pre" using v4 by (simp add: unicast_header_def pre_def)
    then show ?thesis
      using apdu_start_encoded [OF _ adr, of d pre flags hops apdu, folded f n_def] True n by simp
  qed (use v4 hd n r6 in \<open>simp add: apdu_start_def bvll_length_def\<close>)
  have two: "(2 \<le> length apdu \<and> drop_bit 4 (apdu ! 0) = 1 \<and> (apdu ! 1 = 0 \<or> apdu ! 1 = 1)) \<longleftrightarrow>
      (\<exists>pdu service rest. apdu = pdu # service # rest \<and> drop_bit 4 pdu = 1 \<and> (service = 0 \<or> service = 1))"
    by (cases apdu; cases "tl apdu") auto
  have "IsStackChosenBroadcast frame n \<longleftrightarrow> fn \<in> {0x0A, 0x0B} \<and> answers_at frame n"
    "HelperIsStackChosenBroadcast frame n \<longleftrightarrow> fn \<in> {0x0A, 0x0B} \<and> answers_at frame n"
    using hd n r6 by (auto simp: IsStackChosenBroadcast_def HelperIsStackChosenBroadcast_def)
  moreover have "length frame - length apdu = r" using n by (simp add: n_def)
  ultimately show ?thesis using ans start two unfolding n_def [symmetric] by simp
qed

theorem npdu_parsers_correct_witness:
  "let frame = [0x81, 0x0B, 0, 14, 1, 0x20, 0xFF, 0xFF, 0, 0xFF, 0x10, 0, 0xC4, 2]
   in IsStackChosenBroadcast frame (length frame)"
proof -
  have e: "[0x81, 0x0B, 0, 14] @ npdu_octets 0 (Some (0xFFFF, [])) None 0xFF @ [0x10, 0, 0xC4, 2] =
      [0x81, 0x0B, 0, 14, 1, 0x20, 0xFF, 0xFF, 0, 0xFF, 0x10, 0, 0xC4, 2]"
    by code_simp
  show ?thesis
    using npdu_parsers_correct [where fn = "0x0B" and a = 0 and b = 14 and flags = 0 and dest = "Some (0xFFFF, [])"
        and src = None and hops = "0xFF" and apdu = "[0x10, 0, 0xC4, 2]"]
    unfolding e Let_def by (simp add: address_ok_def)
qed

section \<open>What a reply leaves alone\<close>

definition same_transport :: "device \<Rightarrow> device \<Rightarrow> bool" where
  "same_transport d d' \<longleftrightarrow> g_options d' = g_options d \<and> g_lastPeerIp d' = g_lastPeerIp d \<and>
     g_lastPeerPort d' = g_lastPeerPort d \<and> g_hasLastPeer d' = g_hasLastPeer d \<and>
     g_ipAddress d' = g_ipAddress d \<and> g_ipSubnetMask d' = g_ipSubnetMask d \<and>
     g_bacnetIpUdpPort d' = g_bacnetIpUdpPort d"

lemma same_transport_refl [simp]: "same_transport d d"
  by (simp add: same_transport_def)

lemma SetDiamondReliability_transport [simp]: "same_transport d (SetDiamondReliability d r)"
  by (simp add: same_transport_def SetDiamondReliability_def)

lemma UpdateDiamondFromPeer_transport [simp]: "same_transport d (UpdateDiamondFromPeer d v)"
  by (simp add: same_transport_def UpdateDiamondFromPeer_def)

lemma same_transport_trans: "same_transport a b \<Longrightarrow> same_transport b c \<Longrightarrow> same_transport a c"
  by (simp add: same_transport_def)

lemma peer_update_transport [simp]: "same_transport d (d\<lparr>g_peer := p\<rparr>)"
  by (simp add: same_transport_def)

lemma HandleReadPropertyAck_transport: "same_transport d (HandleReadPropertyAck d apdu n)"
  unfolding HandleReadPropertyAck_def
  by (auto split: option.split intro: same_transport_trans [OF UpdateDiamondFromPeer_transport SetDiamondReliability_transport])

lemma HandleReadPropertyMultipleAck_transport: "same_transport d (HandleReadPropertyMultipleAck d apdu n)"
proof -
  have "same_transport d (SetDiamondReliability (d\<lparr>g_peer := p\<rparr>) r)"
    "same_transport d (SetDiamondReliability (UpdateDiamondFromPeer (d\<lparr>g_peer := p\<rparr>) v) r)" for p r v
    using same_transport_trans [OF peer_update_transport SetDiamondReliability_transport]
      same_transport_trans [OF same_transport_trans [OF peer_update_transport UpdateDiamondFromPeer_transport]
        SetDiamondReliability_transport] by blast+
  then show ?thesis unfolding HandleReadPropertyMultipleAck_def Let_def by simp
qed

lemma HandleReplyFromPeer_transport: "same_transport d (HandleReplyFromPeer now d m n from port)"
proof -
  have A: "same_transport d (HandleReadPropertyAck (d\<lparr>g_peer := p\<rparr>) apdu k)"
    "same_transport d (HandleReadPropertyMultipleAck (d\<lparr>g_peer := p\<rparr>) apdu k)"
    "same_transport d (SetDiamondReliability (d\<lparr>g_peer := p\<rparr>) r)" for p apdu k r
    using same_transport_trans [OF peer_update_transport] HandleReadPropertyAck_transport
      HandleReadPropertyMultipleAck_transport SetDiamondReliability_transport by blast+
  show ?thesis
    unfolding HandleReplyFromPeer_def Let_def by (auto simp: A split: option.split)
qed

section \<open>One port\<close>

definition one_port :: "helper_udp \<Rightarrow> transport \<Rightarrow> bool" where
  "one_port h t \<longleftrightarrow>
     (let b = g_udpBindings h ! 0; d = dev t in
      g_udpBindingCount h = 1 \<and> 1 \<le> length (g_udpBindings h) \<and> s_nextBindingToCheck h = 0 \<and>
      dataLink (g_options d) = IPv4 \<and> ub_bound b \<and> ub_udp b = g_udp t \<and> ub_instance b = NETWORK_PORT_INSTANCE \<and>
      ub_port b = udpPort (g_options d) \<and> g_bacnetIpUdpPort d = ub_port b \<and>
      ub_peerIp b = g_lastPeerIp d \<and> ub_peerPort b = g_lastPeerPort d \<and> ub_hasPeer b = g_hasLastPeer d)"

definition as_datagram :: "datagram4 \<Rightarrow> datagram" where
  "as_datagram q = (case q of (data, from, port) \<Rightarrow> (data, from, 0, port))"

lemma strip_scope: "map_option (\<lambda>(data, from, _, port). (data, from, port)) (map_option as_datagram q) = q"
  by (cases q) (auto simp: as_datagram_def)

lemma one_port_poll:
  assumes "one_port h t"
  shows "find (\<lambda>i. poll_one h m queued i \<noteq> None) (poll_order h) =
      (if UdpReceive (g_udp t) m (queued 0) = None then None else Some 0)"
    "poll_one h m queued 0 = UdpReceive (g_udp t) m (queued 0)"
  using assms by (auto simp: one_port_def poll_order_def poll_one_def Let_def)

lemma receive_simulation:
  fixes maxLen :: u16 and now :: int
  assumes s: "one_port h t" and len: "6 \<le> maxConn"
    and q: "\<And>data from port. queued 0 = Some (data, from, port) \<Longrightarrow> length from = 4"
  defines "H \<equiv> HelperReceiveMessage h maxLen maxConn queued"
    and "T \<equiv> CallbackReceiveMessage now t maxLen maxConn (map_option as_datagram (queued 0))"
  shows "one_port (fst H) (fst T) \<and>
    snd (snd T) = map_option snd (snd H) \<and> (\<forall>i r. snd H = Some (i, r) \<longrightarrow> i = fst (snd T))"
proof -
  have v4: "dataLink (g_options (dev t)) = IPv4" and c: "g_udpBindingCount h = 1" "1 \<le> length (g_udpBindings h)"
    "s_nextBindingToCheck h = 0"
    using s by (auto simp: one_port_def Let_def)
  have al: "TransportAddressLength (dev t) = 4" "TransportConnectionStringLength (dev t) = 6"
    using v4 by (simp_all add: TransportAddressLength_def TransportConnectionStringLength_def)
  have ge: "\<not> maxConn < 6" using len by simp
  have R: "T = (case ReceiveFromUdp now t maxLen maxConn (map_option as_datagram (queued 0)) of
      (t1, r) \<Rightarrow> (t1, NETWORK_PORT_INSTANCE, r))"
    using v4 by (simp add: T_def CallbackReceiveMessage_def ActiveNetworkPortInstance_def)
  show ?thesis
  proof (cases "UdpReceive (g_udp t) maxLen (queued 0)")
    case None
    then have "H = (h\<lparr>s_nextBindingToCheck := 0\<rparr>, None)"
      unfolding H_def HelperReceiveMessage_def one_port_poll [OF s] using ge c by simp
    moreover have "T = (t, NETWORK_PORT_INSTANCE, None)"
      unfolding R using None ge v4 by (simp add: ReceiveFromUdp_def al strip_scope)
    ultimately show ?thesis using s by (simp add: one_port_def Let_def)
  next
    case (Some r)
    obtain data frm port where r: "r = (data, frm, port)" by (cases r)
    have f4: "length frm = 4"
      using UdpReceive_SomeD [OF Some [unfolded r]] q by blast
    define b where "b = g_udpBindings h ! 0"
    have b: "ub_bound b" "ub_instance b = NETWORK_PORT_INSTANCE" "ub_port b = udpPort (g_options (dev t))"
      using s by (simp_all add: one_port_def b_def Let_def)
    define d1 where "d1 = (if port \<noteq> udpPort (g_options (dev t))
        then (dev t)\<lparr>g_lastPeerIp := take 4 frm, g_lastPeerPort := port, g_hasLastPeer := True\<rparr> else dev t)"
    define d2 where "d2 = HandleReplyFromPeer now d1 data (length data) frm port"
    have st: "same_transport d1 d2" unfolding d2_def by (rule HandleReplyFromPeer_transport)
    have T': "T = (t\<lparr>dev := d2\<rparr>, NETWORK_PORT_INSTANCE, Some (data, take 4 frm @ port_octets port))"
      unfolding R using Some r ge v4
      by (simp add: ReceiveFromUdp_def al strip_scope d2_def d1_def Let_def)
    have H': "H = (remember_peer (h\<lparr>s_nextBindingToCheck := 0\<rparr>) NETWORK_PORT_INSTANCE frm port,
        Some (NETWORK_PORT_INSTANCE, data, take 4 frm @ [ucast (drop_bit 8 port AND 0xFF), ucast (port AND 0xFF)]))"
      unfolding H_def HelperReceiveMessage_def one_port_poll(1) [OF s]
      using Some r ge c b by (simp add: one_port_poll(2) [OF s] b_def Let_def)
    have po: "port_octets port = [ucast (drop_bit 8 port AND 0xFF), ucast (port AND 0xFF)]"
    proof -
      have "drop_bit 8 port AND 0xFF = take_bit 8 (drop_bit 8 port)" by (simp add: take_bit_eq_mask mask_eq_exp_minus_1)
      also have "\<dots> = drop_bit 8 port" by (simp add: take_bit_drop_bit take_bit_word_eq_self)
      finally show ?thesis by (simp add: port_octets_def)
    qed
    have b': "g_udpBindings (fst H) ! 0 =
        (if port \<noteq> ub_port b then b\<lparr>ub_peerIp := take 4 frm, ub_peerPort := port, ub_hasPeer := True\<rparr> else b)"
    proof -
      obtain x xs where gb: "g_udpBindings h = x # xs" using c(2) by (cases "g_udpBindings h") auto
      show ?thesis using c b by (auto simp: H' remember_peer_def b_def gb)
    qed
    have "one_port (fst H) (t\<lparr>dev := d2\<rparr>)"
      using s st unfolding one_port_def Let_def b' b_def [symmetric]
      by (auto simp: H' remember_peer_def same_transport_def d1_def b(3))
    then show ?thesis by (simp add: T' H' po)
  qed
qed

lemma send_simulation:
  assumes s: "one_port h t"
    and ip: "GetPrimaryIPv4 ifs = Some (g_ipAddress (dev t), g_ipSubnetMask (dev t))"
    and own: "\<not> (broadcast \<and> (\<exists>c. destination = Some c \<and> 6 \<le> length c \<and> take 4 c = g_ipAddress (dev t) \<and>
        port_of (c ! 4) (c ! 5) = udpPort (g_options (dev t))))"
  shows "CallbackSendMessage t sendto message destination NETWORK_PORT_INSTANCE broadcast =
    (let (n, cs) = HelperSendMessage h ifs (\<lambda>c. sendto (Out4 c)) message destination NETWORK_PORT_INSTANCE broadcast
     in (t, n, map Out4 cs))"
proof -
  define b where "b = g_udpBindings h ! 0"
  have b: "ub_bound b" "ub_instance b = NETWORK_PORT_INSTANCE" "ub_port b = udpPort (g_options (dev t))" "ub_udp b = g_udp t"
    "g_bacnetIpUdpPort (dev t) = ub_port b" "ub_peerIp b = g_lastPeerIp (dev t)" "ub_peerPort b = g_lastPeerPort (dev t)"
    "ub_hasPeer b = g_hasLastPeer (dev t)" and v4: "dataLink (g_options (dev t)) = IPv4" and c: "g_udpBindingCount h = 1"
    using s by (simp_all add: one_port_def b_def Let_def)
  have fnd: "FindUdpBindingByInstance h NETWORK_PORT_INSTANCE = Some 0"
    using c b(2) by (simp add: FindUdpBindingByInstance_def b_def)
  have bc: "LocalBroadcastConnString (dev t) =
      GetLocalBroadcastIPv4 ifs @ port_octets (ub_port b)"
    by (simp add: LocalBroadcastConnString_def GetLocalBroadcastIPv4_def ip port_octets_def b(5))
  have lb: "length (GetLocalBroadcastIPv4 ifs) = 4" by (simp add: GetLocalBroadcastIPv4_def ip)
  have pj: "port_of (port_octets p ! 0) (port_octets p ! 1) = p" for p
    using u16_octets_join by (simp add: port_of_def port_octets_def)
  have nt: "(GetLocalBroadcastIPv4 ifs @ port_octets p) ! 4 = port_octets p ! 0"
    "(GetLocalBroadcastIPv4 ifs @ port_octets p) ! 5 = port_octets p ! 1" for p
    using lb by (simp_all add: nth_append)
  have lbc: "port_of (LocalBroadcastConnString (dev t) ! 4) (LocalBroadcastConnString (dev t) ! 5) = udpPort (g_options (dev t))"
    "UdpSend u f (LocalBroadcastConnString (dev t)) q m = UdpSend u f (GetLocalBroadcastIPv4 ifs) q m" for u f q m
    unfolding bc nt pj using b(3) lb by (simp_all add: UdpSend_def)
  have rule: "IsStackChosenBroadcast message (length message) = HelperIsStackChosenBroadcast message (length message)"
    by (simp add: IsStackChosenBroadcast_def HelperIsStackChosenBroadcast_def)
  have send4: "UdpSend u f (GetLocalBroadcastIPv4 ifs @ port_octets p) q m = UdpSend u f (GetLocalBroadcastIPv4 ifs) q m"
    "UdpSend u f (take 6 x) q m = UdpSend u f (take 4 x) q m" for u f p q m x
    using lb by (simp_all add: UdpSend_def)
  show ?thesis
  proof (cases "destination = None \<or> destination = Some []")
    case True
    have hd: "helper_destination ifs b destination broadcast = Some (GetLocalBroadcastIPv4 ifs, ub_port b)"
      using True by (auto simp: helper_destination_def)
    show ?thesis
      unfolding CallbackSendMessage_def SendToUdp_def HelperSendMessage_def fnd
      using True v4 b
      by (simp add: ActiveNetworkPortInstance_def b_def [symmetric] hd lbc rule Let_def split: prod.split)
  next
    case False
    then obtain x where x: "destination = Some x" "x \<noteq> []" by (cases destination) auto
    have hd: "helper_destination ifs b destination broadcast =
        (if length x < 6 then None else Some (take 4 x, port_of (x ! 4) (x ! 5)))"
      using False own x b(3) ip by (auto simp: helper_destination_def Let_def port_of_def)
    show ?thesis
      unfolding CallbackSendMessage_def SendToUdp_def HelperSendMessage_def fnd
      using x v4 b
      by (simp add: ActiveNetworkPortInstance_def b_def [symmetric] hd [unfolded x(1)] send4 Let_def split: prod.split)
  qed
qed

text \<open>A program with one port of each kind, set up alike.\<close>

definition one_port_helper :: helper_udp where
  "one_port_helper = fst (SetupUDP new_helper_udp True True 47808 NETWORK_PORT_INSTANCE)"

definition one_port_device :: transport where
  "one_port_device =
     \<lparr>dev = (new_device True default_options undefined)\<lparr>g_ipAddress := [10, 0, 0, 2], g_ipSubnetMask := [255, 255, 255, 0]\<rparr>,
      g_udp = \<lparr>u4_connected = True\<rparr>, g_udp6 = new_udp6\<rparr>"

definition one_interface :: "ifaddr list option" where
  "one_interface = Some [\<lparr>is_inet = True, is_loopback = False, is_up = True, ifa_ip = [10, 0, 0, 2],
     ifa_mask = Some [255, 255, 255, 0], ifa_speed = None\<rparr>]"

lemma one_port_example:
  "one_port one_port_helper one_port_device"
  "GetPrimaryIPv4 one_interface = Some (g_ipAddress (dev one_port_device), g_ipSubnetMask (dev one_port_device))"
  by (simp_all add: one_port_def one_port_helper_def one_port_device_def one_interface_def GetPrimaryIPv4_def
      SetupUDP_def FindUdpBindingByInstance_def connect_binding_def UdpConnect_def new_helper_udp_def new_binding_def
      new_device_def default_options_def Let_def)

text \<open>
  C32: The transport callbacks of the program refine the multi-port transport of the example helper,
  for one IPv4 port: from related states both receive the same datagram with the same connection
  string and port and end in related states, and both send the same datagrams and return the same
  count, for every destination but a broadcast to the device's own address.
\<close>

theorem one_port_refinement:
  fixes now :: int and maxLen :: u16 and maxConn :: u8
  assumes s: "one_port h t" and len: "6 \<le> maxConn"
    and ip: "GetPrimaryIPv4 ifs = Some (g_ipAddress (dev t), g_ipSubnetMask (dev t))"
    and own: "\<not> (broadcast \<and> (\<exists>c. destination = Some c \<and> 6 \<le> length c \<and> take 4 c = g_ipAddress (dev t) \<and>
        port_of (c ! 4) (c ! 5) = udpPort (g_options (dev t))))"
    and q: "\<forall>data from port. queued 0 = Some (data, from, port) \<longrightarrow> length from = 4"
  defines "H \<equiv> HelperReceiveMessage h maxLen maxConn queued"
    and "T \<equiv> CallbackReceiveMessage now t maxLen maxConn (map_option as_datagram (queued 0))"
  shows "one_port (fst H) (fst T) \<and>
    snd (snd T) = map_option snd (snd H) \<and> (snd H = None \<or> fst (the (snd H)) = fst (snd T)) \<and>
    CallbackSendMessage t sendto message destination NETWORK_PORT_INSTANCE broadcast =
      (let (n, cs) = HelperSendMessage h ifs (\<lambda>c. sendto (Out4 c)) message destination NETWORK_PORT_INSTANCE broadcast
       in (t, n, map Out4 cs))"
proof -
  note R = receive_simulation [OF s len, where queued = queued and maxLen = maxLen and now = now, folded H_def T_def]
  have "snd H = None \<or> fst (the (snd H)) = fst (snd T)" using R q by (cases "snd H") auto
  with R q send_simulation [OF s ip own] show ?thesis by blast
qed

theorem one_port_refinement_witness:
  "snd (snd (CallbackReceiveMessage 0 one_port_device 1500 6 (Some ([1], [10, 0, 0, 3], 0, 47808)))) =
     map_option snd (snd (HelperReceiveMessage one_port_helper 1500 6 (\<lambda>_. Some ([1], [10, 0, 0, 3], 47808))))"
proof -
  have "map_option as_datagram (Some ([1], [10, 0, 0, 3], 47808)) = Some ([1], [10, 0, 0, 3], 0, 47808)"
    by (simp add: as_datagram_def)
  then show ?thesis
    using one_port_refinement [OF one_port_example(1) _ one_port_example(2), where queued = "\<lambda>_. Some ([1], [10, 0, 0, 3], 47808)"
        and maxLen = 1500 and maxConn = 6 and now = 0 and broadcast = False and destination = None]
    by simp
qed

text \<open>
  The exception of the refinement: a broadcast the stack addresses to the device's own address
  and port goes to the device itself in the program and to the subnet's broadcast address in the
  helper.
\<close>

lemma own_address_broadcast:
  assumes s: "one_port h t"
    and ip: "GetPrimaryIPv4 ifs = Some (g_ipAddress (dev t), g_ipSubnetMask (dev t))"
    and len: "length (g_ipAddress (dev t)) = 4" and conn: "u4_connected (g_udp t)"
  defines "own \<equiv> g_ipAddress (dev t) @ port_octets (udpPort (g_options (dev t)))"
  shows "snd (snd (CallbackSendMessage t sendto message (Some own) NETWORK_PORT_INSTANCE True)) =
      [Out4 (g_ipAddress (dev t), udpPort (g_options (dev t)), message)] \<and>
    snd (HelperSendMessage h ifs sendto4 message (Some own) NETWORK_PORT_INSTANCE True) =
      [(GetLocalBroadcastIPv4 ifs, udpPort (g_options (dev t)), message)]"
proof -
  define b where "b = g_udpBindings h ! 0"
  have b: "ub_bound b" "ub_instance b = NETWORK_PORT_INSTANCE" "ub_port b = udpPort (g_options (dev t))" "ub_udp b = g_udp t"
    and v4: "dataLink (g_options (dev t)) = IPv4" and c: "g_udpBindingCount h = 1"
    using s by (simp_all add: one_port_def b_def Let_def)
  have fnd: "FindUdpBindingByInstance h NETWORK_PORT_INSTANCE = Some 0"
    using c b(2) by (simp add: FindUdpBindingByInstance_def b_def)
  have lb: "length (GetLocalBroadcastIPv4 ifs) = 4" by (simp add: GetLocalBroadcastIPv4_def ip)
  have o: "take 4 own = g_ipAddress (dev t)" "length own = 6" "own \<noteq> []"
    "port_of (own ! 4) (own ! 5) = udpPort (g_options (dev t))"
    "push_bit 8 (ucast (own ! 4)) OR ucast (own ! 5) = udpPort (g_options (dev t))"
    using len u16_octets_join [of "udpPort (g_options (dev t))"]
    by (auto simp: own_def port_octets_def port_of_def nth_append)
  show ?thesis
    using b v4 fnd conn o lb ip len
    by (simp add: CallbackSendMessage_def SendToUdp_def HelperSendMessage_def ActiveNetworkPortInstance_def
        b_def [symmetric] helper_destination_def Let_def UdpSend_def)
qed

end
