(* ===== verification/Socket_Properties.thy ===== *)
theory Socket_Properties
  imports Helper_Udp Udp6_Socket
begin

text \<open>
  Properties of the sockets: no port of the round-robin poll starves, and replies to link-local
  senders leave on the right interface while the ring remembers them.
\<close>

section \<open>Fair polling\<close>

text \<open>The state after \<open>k\<close> calls; \<open>q k i\<close> is the datagram waiting at socket \<open>i\<close> in call \<open>k\<close>.\<close>

fun after_calls :: "helper_udp \<Rightarrow> u16 \<Rightarrow> u8 \<Rightarrow> (nat \<Rightarrow> nat \<Rightarrow> datagram4 option) \<Rightarrow> nat \<Rightarrow> helper_udp" where
  "after_calls h m c q 0 = h"
| "after_calls h m c q (Suc k) = fst (HelperReceiveMessage (after_calls h m c q k) m c (q k))"

definition same_sockets :: "helper_udp \<Rightarrow> helper_udp \<Rightarrow> bool" where
  "same_sockets h h' \<longleftrightarrow> g_udpBindingCount h' = g_udpBindingCount h \<and>
     length (g_udpBindings h') = length (g_udpBindings h) \<and>
     (\<forall>i < length (g_udpBindings h).
        ub_bound (g_udpBindings h' ! i) = ub_bound (g_udpBindings h ! i) \<and>
        ub_udp (g_udpBindings h' ! i) = ub_udp (g_udpBindings h ! i) \<and>
        ub_instance (g_udpBindings h' ! i) = ub_instance (g_udpBindings h ! i))"

lemma same_sockets_refl: "same_sockets h h" and same_sockets_trans:
  "same_sockets a b \<Longrightarrow> same_sockets b c \<Longrightarrow> same_sockets a c"
  by (auto simp: same_sockets_def)

lemma remember_peer_sockets: "same_sockets h (remember_peer h inst ip port)"
  by (auto simp: same_sockets_def remember_peer_def nth_enumerate_eq)

lemma same_sockets_next: "same_sockets h (h\<lparr>s_nextBindingToCheck := k\<rparr>)"
  by (simp add: same_sockets_def)

lemma receive_sockets: "same_sockets h (fst (HelperReceiveMessage h m c q))"
  unfolding HelperReceiveMessage_def Let_def
  by (auto simp: same_sockets_refl same_sockets_next split: option.split prod.split
      intro: same_sockets_trans [OF same_sockets_next remember_peer_sockets])

lemma after_calls_sockets: "same_sockets h (after_calls h m c q k)"
  by (induction k) (auto intro: same_sockets_refl same_sockets_trans receive_sockets)

text \<open>A call takes the first waiting socket in its order and starts the next call behind it.\<close>

lemma receive_at:
  assumes "6 \<le> c" "0 < n" "g_udpBindingCount h = n" "p < n"
    and some: "poll_one h m q ((s_nextBindingToCheck h + p) mod n) = Some (data, ip, port)"
    and first: "\<And>p'. p' < p \<Longrightarrow> poll_one h m q ((s_nextBindingToCheck h + p') mod n) = None"
  defines "i \<equiv> (s_nextBindingToCheck h + p) mod n"
  shows "s_nextBindingToCheck (fst (HelperReceiveMessage h m c q)) = (i + 1) mod n"
    "\<exists>src. snd (HelperReceiveMessage h m c q) = Some (ub_instance (g_udpBindings h ! i), data, src)"
proof -
  have "find (\<lambda>p. poll_one h m q ((s_nextBindingToCheck h + p) mod n) \<noteq> None) [0..<n] = Some p"
    unfolding find_upt_Some_iff using assms(4) some first by auto
  moreover have "find P (map f xs) = map_option f (find (\<lambda>x. P (f x)) xs)" for P and f :: "nat \<Rightarrow> nat" and xs
    by (induction xs) auto
  ultimately have f: "find (\<lambda>i. poll_one h m q i \<noteq> None) (poll_order h) = Some i"
    unfolding poll_order_def assms(3) i_def by simp
  have ge: "\<not> (c < 6 \<or> g_udpBindingCount h = 0)" using assms(1-3) by auto
  show "s_nextBindingToCheck (fst (HelperReceiveMessage h m c q)) = (i + 1) mod n"
    "\<exists>src. snd (HelperReceiveMessage h m c q) = Some (ub_instance (g_udpBindings h ! i), data, src)"
    unfolding HelperReceiveMessage_def f if_not_P [OF ge] option.case some [folded i_def] option.sel prod.case Let_def
    using assms(3) by (simp_all add: remember_peer_def)
qed

definition socket_waits :: "helper_udp \<Rightarrow> (nat \<Rightarrow> nat \<Rightarrow> datagram4 option) \<Rightarrow> nat \<Rightarrow> bool" where
  "socket_waits h q j \<longleftrightarrow> ub_bound (g_udpBindings h ! j) \<and> u4_connected (ub_udp (g_udpBindings h ! j)) \<and>
     (\<forall>k. \<exists>data ip port. q k j = Some (data, ip, port) \<and> data \<noteq> [])"

definition served :: "helper_udp \<Rightarrow> u16 \<Rightarrow> u8 \<Rightarrow> (nat \<Rightarrow> nat \<Rightarrow> datagram4 option) \<Rightarrow> nat \<Rightarrow> nat \<Rightarrow> bool" where
  "served h m c q j k \<longleftrightarrow> (\<exists>data ip port src. q k j = Some (data, ip, port) \<and>
     snd (HelperReceiveMessage (after_calls h m c q k) m c (q k)) =
       Some (ub_instance (g_udpBindings h ! j), take (unat m) data, src))"

lemma served_within:
  assumes c: "6 \<le> c" and m: "0 < m" and n: "g_udpBindingCount h = n" "n \<le> length (g_udpBindings h)" and j: "j < n"
    and w: "socket_waits h q j"
  shows "D < n \<Longrightarrow> (s_nextBindingToCheck (after_calls h m c q k) + D) mod n = j \<Longrightarrow> \<exists>k' \<le> k + D. served h m c q j k'"
proof (induction D arbitrary: k rule: less_induct)
  case (less D)
  define h' where "h' = after_calls h m c q k"
  define s where "s = s_nextBindingToCheck h'"
  have same: "same_sockets h h'" unfolding h'_def by (rule after_calls_sockets)
  have n': "g_udpBindingCount h' = n" "0 < n" using same n j by (auto simp: same_sockets_def)
  have bj: "ub_bound (g_udpBindings h' ! j)" "u4_connected (ub_udp (g_udpBindings h' ! j))"
      "ub_instance (g_udpBindings h' ! j) = ub_instance (g_udpBindings h ! j)"
    using same w n j by (auto simp: same_sockets_def socket_waits_def)
  obtain data ip port where q: "q k j = Some (data, ip, port)" "data \<noteq> []" using w unfolding socket_waits_def by blast
  have pj: "poll_one h' m (q k) j = Some (take (unat m) data, ip, port)"
    using bj q m by (simp add: poll_one_def UdpReceive_waiting)
  define P where "P p \<longleftrightarrow> poll_one h' m (q k) ((s + p) mod n) \<noteq> None" for p
  have "P D" using less.prems(2) pj by (simp add: P_def s_def h'_def)
  define p where "p = (LEAST p. P p)"
  have p: "P p" "p \<le> D" "\<And>p'. p' < p \<Longrightarrow> \<not> P p'"
    unfolding p_def using \<open>P D\<close> by (auto intro: LeastI Least_le dest: not_less_Least)
  define i where "i = (s + p) mod n"
  obtain dat ip' port' where some: "poll_one h' m (q k) i = Some (dat, ip', port')" using p(1) by (auto simp: P_def i_def)
  have first: "poll_one h' m (q k) ((s + p') mod n) = None" if "p' < p" for p' using p(3) [OF that] unfolding P_def by blast
  have pn: "p < n" using p(2) less.prems(1) by simp
  note R = receive_at [OF c n'(2,1) pn, where m = m and q = "q k", folded s_def, OF some [unfolded i_def] first, folded i_def]
  show ?case
  proof (cases "p = D")
    case True
    then have "i = j" using less.prems(2) by (simp add: i_def s_def h'_def)
    then have "served h m c q j k" unfolding served_def using R(2) some pj q bj(3) by (auto simp: h'_def)
    then show ?thesis by (intro exI [of _ k]) simp
  next
    case False
    then have "p < D" using p(2) by simp
    obtain e where e: "D = p + 1 + e" using less_imp_add_positive [OF \<open>p < D\<close>] by (metis Suc_eq_plus1 Suc_pred add.assoc add.commute)
    have "s_nextBindingToCheck (after_calls h m c q (Suc k)) = (i + 1) mod n" using R(1) by (simp add: h'_def)
    moreover have "((i + 1) mod n + e) mod n = (s + D) mod n"
      unfolding i_def e by (metis add.assoc mod_add_left_eq)
    ultimately obtain k' where "k' \<le> Suc k + e" "served h m c q j k'"
      using less.IH [of e "Suc k"] less.prems by (auto simp: s_def h'_def e)
    then show ?thesis by (intro exI [of _ k']) (simp add: e)
  qed
qed

text \<open>
  C36: The round-robin poll starves no port: while datagrams keep waiting at a bound port, one of as
  many calls as there are ports hands a datagram of that port to the stack, whatever arrives at the
  others.
\<close>

theorem every_socket_served:
  assumes "6 \<le> c" "0 < m" "g_udpBindingCount h \<le> length (g_udpBindings h)" "s_nextBindingToCheck h < g_udpBindingCount h"
    "j < g_udpBindingCount h" "socket_waits h q j"
  shows "\<exists>k < g_udpBindingCount h. served h m c q j k"
proof -
  define n where "n = g_udpBindingCount h"
  define D where "D = (j + n - s_nextBindingToCheck h) mod n"
  have "D < n" using assms(5) by (simp add: D_def n_def)
  moreover have "(s_nextBindingToCheck h + D) mod n = j"
    unfolding D_def using assms(4,5) by (simp add: mod_simps n_def)
  ultimately obtain k where "k \<le> D" "served h m c q j k"
    using served_within [OF assms(1,2) n_def [symmetric] _ _ assms(6), of D 0] assms(3,5) by (auto simp: n_def)
  with \<open>D < n\<close> show ?thesis unfolding n_def by (intro exI [of _ k]) simp
qed

definition two_ports :: helper_udp where
  "two_ports = fst (SetupUDP (fst (SetupUDP new_helper_udp True True 47808 1)) True True 47809 2)"

theorem every_socket_served_witness:
  "\<exists>k < 2. served two_ports 1500 6 (\<lambda>_ _. Some ([1], [10, 0, 0, 1], 47810)) 1 k"
proof -
  have t: "two_ports = new_helper_udp\<lparr>g_udpBindings := [new_binding\<lparr>ub_udp := \<lparr>u4_connected = True\<rparr>, ub_port := 47808, ub_instance := 1, ub_bound := True\<rparr>,
      new_binding\<lparr>ub_udp := \<lparr>u4_connected = True\<rparr>, ub_port := 47809, ub_instance := 2, ub_bound := True\<rparr>, new_binding, new_binding],
      g_udpBindingCount := 2\<rparr>"
    by code_simp
  show ?thesis
    using every_socket_served [of 6 1500 two_ports 1 "\<lambda>_ _. Some ([1], [10, 0, 0, 1], 47810)"]
    by (simp add: t socket_waits_def new_helper_udp_def)
qed

section \<open>Ring\<close>

definition remember_all :: "(bytes \<times> u32) list \<Rightarrow> udp6 \<Rightarrow> udp6" where
  "remember_all later s = fold (\<lambda>(x, i) s. RememberSender s x i) later s"

lemma remember_all_inv: "udp6_inv s \<Longrightarrow> udp6_inv (remember_all later s)"
  unfolding remember_all_def by (induction later arbitrary: s) (auto simp: RememberSender_inv)

text \<open>A slot keeps its sender while the pointer has not come round to it.\<close>

lemma RememberSender_keeps:
  assumes "udp6_inv s" "sender_slot s a = Some k" "interfaceIndex (m_senders s ! k) = i" "x \<noteq> a"
    and d: "(k + 32 - m_nextSender s) mod 32 = Suc d"
  shows "sender_slot (RememberSender s x j) a = Some k \<and>
    interfaceIndex (m_senders (RememberSender s x j) ! k) = i \<and>
    ((k + 32 - m_nextSender (RememberSender s x j)) mod 32 = Suc d \<or>
     (k + 32 - m_nextSender (RememberSender s x j)) mod 32 = d)"
proof -
  let ?s = "RememberSender s x j"
  have k: "k < 32" "inUse (m_senders s ! k)" "sender_address (m_senders s ! k) = a"
    using sender_slot_Some [OF assms(2)] by auto
  have len: "length (m_senders s) = 32" and nx: "m_nextSender s < 32" using assms(1) by (auto simp: udp6_inv_def)
  have neq: "m_nextSender s \<noteq> k" using d by auto
  have slot: "inUse (m_senders ?s ! k) \<and> sender_address (m_senders ?s ! k) = a \<and> interfaceIndex (m_senders ?s ! k) = i"
  proof (cases "j = 0 \<or> \<not> IsLinkLocal x")
    case False
    show ?thesis
    proof (cases "sender_slot s x")
      case None
      then show ?thesis using False neq k assms(3) by (simp add: RememberSender_def)
    next
      case (Some l)
      have "l \<noteq> k" using sender_slot_Some [OF Some] k(3) assms(4) by auto
      then show ?thesis using False Some k assms(3) by (simp add: RememberSender_def)
    qed
  qed (use k assms(3) in \<open>auto simp: RememberSender_def\<close>)
  have ptr: "m_nextSender ?s = m_nextSender s \<or> m_nextSender ?s = (m_nextSender s + 1) mod 32"
    by (auto simp: RememberSender_def split: option.split)
  have "(k + 32 - (m_nextSender s + 1) mod 32) mod 32 = d"
  proof (cases "m_nextSender s + 1 < 32")
    case True
    then have e: "(k + 32 - m_nextSender s) = Suc (k + 32 - (m_nextSender s + 1))" using nx by simp
    from d show ?thesis unfolding e using True by (simp add: mod_Suc split: if_splits)
  next
    case False
    then have "m_nextSender s = 31" using nx by simp
    with d k(1) show ?thesis by (cases "k = 31") simp_all
  qed
  with ptr d have "(k + 32 - m_nextSender ?s) mod 32 = Suc d \<or> (k + 32 - m_nextSender ?s) mod 32 = d" by metis
  with slot show ?thesis using sender_slot_eq [OF RememberSender_inv [OF assms(1)] k(1)] by blast
qed

lemma remember_all_keeps:
  "udp6_inv s \<Longrightarrow> sender_slot s a = Some k \<Longrightarrow> interfaceIndex (m_senders s ! k) = i \<Longrightarrow>
   a \<notin> fst ` set later \<Longrightarrow> length later \<le> (k + 32 - m_nextSender s) mod 32 \<Longrightarrow>
   InterfaceOf (remember_all later s) a = i"
proof (induction later arbitrary: s)
  case Nil
  then show ?case by (simp add: remember_all_def InterfaceOf_def)
next
  case (Cons e later)
  obtain x j where e: "e = (x, j)" by (cases e)
  obtain d where d: "(k + 32 - m_nextSender s) mod 32 = Suc d"
    using Cons.prems(5) by (cases "(k + 32 - m_nextSender s) mod 32") auto
  have "x \<noteq> a" using Cons.prems(4) e by auto
  note keep = RememberSender_keeps [OF Cons.prems(1-3) this d, of j]
  have "remember_all (e # later) s = remember_all later (RememberSender s x j)" by (simp add: remember_all_def e)
  moreover have "length later \<le> (k + 32 - m_nextSender (RememberSender s x j)) mod 32"
    using keep Cons.prems(5) d by auto
  ultimately show ?case
    using Cons.IH [OF RememberSender_inv [OF Cons.prems(1)]] keep Cons.prems(4) by auto
qed

text \<open>
  A reply to a link-local sender leaves on the interface the sender was heard on, as long as at
  most 31 datagrams of other senders arrived since: the ring of 32 senders has not come round.
\<close>

lemma link_local_interface:
  fixes port :: u16
  assumes inv: "udp6_inv s" and ll: "IsLinkLocal a" and i: "i \<noteq> 0" and conn: "m_connected s"
    and data: "data \<noteq> []" and m: "0 < maxLength" and new: "sender_slot s a = None"
    and later: "a \<notin> fst ` set later" "length later \<le> 31"
  defines "s1 \<equiv> fst (Receive6 s maxLength (Some (data, a, i, port)))"
  shows "udp6_inv s1 \<and>
    snd (Send6 (remember_all later s1) sendto a port' msg) = [(take 16 a, port', i, msg)]"
proof -
  have s1: "s1 = RememberSender s a i"
    using conn data m by (simp add: s1_def Receive6_def Let_def word_less_nat_alt)
  have nx: "m_nextSender s < 32" using inv by (simp add: udp6_inv_def)
  obtain k where k: "sender_slot s1 a = Some k" "k = m_nextSender s" "interfaceIndex (m_senders s1 ! k) = i"
    using RememberSender_slot [OF inv i ll] new by (auto simp: s1)
  have inv1: "udp6_inv s1" unfolding s1 by (rule RememberSender_inv [OF inv])
  have "m_nextSender s1 = (m_nextSender s + 1) mod 32" using i ll new by (simp add: s1 RememberSender_def)
  then have "(k + 32 - m_nextSender s1) mod 32 = 31"
    unfolding k(2) using nx by (cases "m_nextSender s = 31") simp_all
  then have "InterfaceOf (remember_all later s1) a = i"
    using remember_all_keeps [OF inv1 k(1,3) later(1)] later(2) by simp
  moreover have "m_connected (remember_all later s1)"
  proof -
    have "m_connected (RememberSender t x j) = m_connected t" for t x j by (simp add: RememberSender_def split: option.split)
    then have "m_connected (remember_all l t) = m_connected t" for l t
      unfolding remember_all_def by (induction l arbitrary: t) auto
    then show ?thesis using conn s1 by (simp add: RememberSender_def split: option.split)
  qed
  ultimately show ?thesis using inv1 ll by (simp add: Send6_def Let_def)
qed

text \<open>
  The ring is first in, first out, not least recently heard: a sender whose slot is next is
  forgotten by the next new sender, even when its own datagram arrived immediately before.
\<close>

lemma refreshed_sender_forgotten:
  assumes inv: "udp6_inv s" and slot: "sender_slot s a = Some (m_nextSender s)"
    and b: "IsLinkLocal b" "sender_slot s b = None" "j \<noteq> 0"
  shows "sender_slot (RememberSender (RememberSender s a i) b j) a = None"
proof -
  let ?k = "m_nextSender s" and ?s1 = "RememberSender s a i"
  have len: "length (m_senders s) = 32" and k: "?k < 32" using inv by (auto simp: udp6_inv_def)
  have ab: "a \<noteq> b" using slot b(2) by auto
  have s1: "m_nextSender ?s1 = ?k" "\<And>l. l < 32 \<Longrightarrow> inUse (m_senders ?s1 ! l) = inUse (m_senders s ! l) \<and>
      sender_address (m_senders ?s1 ! l) = sender_address (m_senders s ! l)"
    using slot len k by (auto simp: RememberSender_def nth_list_update)
  have eq: "sender_slot ?s1 x = sender_slot s x" for x
    unfolding sender_slot_def by (rule find_cong) (use s1(2) in auto)
  have inv1: "udp6_inv ?s1" by (rule RememberSender_inv [OF inv])
  have s2: "RememberSender ?s1 b j = ?s1\<lparr>m_senders := (m_senders ?s1)[?k := \<lparr>inUse = True, sender_address = b, interfaceIndex = j\<rparr>],
      m_nextSender := (?k + 1) mod 32\<rparr>"
    using b eq s1(1) by (simp add: RememberSender_def)
  have "\<not> (inUse (m_senders (RememberSender ?s1 b j) ! l) \<and> sender_address (m_senders (RememberSender ?s1 b j) ! l) = a)"
    if l: "l < 32" for l
  proof (cases "l = ?k")
    case True
    then show ?thesis unfolding s2 using inv1 ab k by (auto simp: udp6_inv_def)
  next
    case False
    have "\<not> (inUse (m_senders ?s1 ! l) \<and> sender_address (m_senders ?s1 ! l) = a)"
      using sender_slot_eq [OF inv1 l, of a] eq [of a] slot False by auto
    then show ?thesis unfolding s2 using False by simp
  qed
  then show ?thesis unfolding sender_slot_def find_upt_None_iff by blast
qed

end
