(* ===== verification/Cari_Tree.thy ===== *)
theory Cari_Tree
  imports C_String Sorted_Containers "HOL-Library.List_Lexorder" "HOL-Library.Char_ord"
begin

text \<open>
  Paths and trees of the CARI importer (sc/cari.cpp, sc/cari.h): the checks of path names and of
  the names inside a CARI zip, and the tree in memory. A \<open>std::map\<close> is an association list in
  key order, a \<open>std::set\<close> an ascending list; both compare strings as unsigned characters.
\<close>

section \<open>Texts\<close>

text \<open>\<open>std::getline\<close> with a delimiter, until it fails: a trailing empty part is not a part.\<close>

fun getlines :: "char \<Rightarrow> string \<Rightarrow> string \<Rightarrow> string list" where
  "getlines d part [] = (if part = [] then [] else [part])"
| "getlines d part (c # cs) = (if c = d then part # getlines d [] cs else getlines d (part @ [c]) cs)"

definition Split :: "string \<Rightarrow> string list" where
  "Split path = getlines CHR ''/'' [] path"

definition StartsWith :: "string \<Rightarrow> string \<Rightarrow> bool" where
  "StartsWith s prefix \<longleftrightarrow> take (length prefix) s = prefix"

definition EndsWith :: "string \<Rightarrow> string \<Rightarrow> bool" where
  "EndsWith s suffix \<longleftrightarrow> length suffix \<le> length s \<and> drop (length s - length suffix) s = suffix"

definition control_char :: "char \<Rightarrow> bool" where
  "control_char c \<longleftrightarrow> (of_char c :: nat) < 0x20 \<or> c = CHR 0x7F"

definition IsSafeZipPath :: "string \<Rightarrow> bool" where
  "IsSafeZipPath path \<longleftrightarrow>
     (if path = [] \<or> hd path = CHR ''/'' \<or> CHR 0x5C \<in> set path \<or> CHR '':'' \<in> set path then False
      else list_all (\<lambda>part. part \<noteq> [] \<and> part \<noteq> ''.'' \<and> part \<noteq> ''..'' \<and> \<not> list_ex control_char part) (Split path))"

text \<open>\<open>strchr\<close> also finds the terminator, so the character 0 is refused by either test.\<close>

definition IsValidName :: "string \<Rightarrow> bool" where
  "IsValidName text \<longleftrightarrow>
     text \<noteq> [] \<and> length text \<le> 128 \<and>
     list_all (\<lambda>c. \<not> control_char c \<and> c \<notin> set ''<>:/|?*'' \<and> c \<noteq> CHR 0x22 \<and> c \<noteq> CHR 0x5C) text"

definition DeviceInstance :: "string \<Rightarrow> u32 option" where
  "DeviceInstance folder =
     (if \<not> StartsWith folder ''device-'' \<or> length folder = 7 \<or> 14 < length folder then None
      else let digits = drop 7 folder in
        if list_ex (\<lambda>c. \<not> is_digit c) digits then None
        else let v = fst (strtoul_digits digits) in if 4194302 < v then None else Some (of_nat v))"

text \<open>The \<open>name\<close> of a file called prefix, name, \<open>.pem\<close>; \<open>substr\<close> clamps a wrapped count.\<close>

definition FileName :: "string \<Rightarrow> string \<Rightarrow> string option" where
  "FileName file prefix =
     (if \<not> StartsWith file prefix \<or> \<not> EndsWith file ''.pem'' then None
      else let rest = drop (length prefix) file;
               name = (if length file < length prefix + 4 then rest else take (length file - length prefix - 4) rest)
           in if IsValidName name then Some name else None)"

section \<open>Trees\<close>

abbreviation (input) MAX_ZIP_BYTES :: nat where "MAX_ZIP_BYTES \<equiv> 4 * 1024 * 1024"
abbreviation (input) MAX_ENTRIES :: nat where "MAX_ENTRIES \<equiv> 4096"
abbreviation (input) MAX_TOTAL_UNCOMPRESSED :: nat where "MAX_TOTAL_UNCOMPRESSED \<equiv> 16 * 1024 * 1024"
abbreviation (input) MAX_VENDOR_DATA :: nat where "MAX_VENDOR_DATA \<equiv> 1024 * 1024"
abbreviation (input) MAX_NOTES :: nat where "MAX_NOTES \<equiv> 10 * 1024"
abbreviation (input) MAX_PEM :: nat where "MAX_PEM \<equiv> 64 * 1024"

record Tree =
  files :: "(string \<times> bytes) list"
  folders :: "string list"

definition new_Tree :: Tree where "new_Tree = \<lparr>files = [], folders = []\<rparr>"

definition Has :: "Tree \<Rightarrow> string \<Rightarrow> bool" where
  "Has t path \<longleftrightarrow> map_of (files t) path \<noteq> None"

text \<open>The loop of \<open>AddFolder\<close>: every prefix of the path.\<close>

fun add_prefixes :: "string \<Rightarrow> string list \<Rightarrow> string list \<Rightarrow> string list" where
  "add_prefixes partial [] fs = fs"
| "add_prefixes partial (part # parts) fs =
     (let partial' = partial @ (if partial = [] then '''' else ''/'') @ part
      in add_prefixes partial' parts (set_insert partial' fs))"

definition AddFolder :: "Tree \<Rightarrow> string \<Rightarrow> Tree" where
  "AddFolder t path = t\<lparr>folders := add_prefixes [] (Split path) (folders t)\<rparr>"

text \<open>The part of a path before its last slash, when it has one.\<close>

definition parent_of :: "string \<Rightarrow> string option" where
  "parent_of path =
     (if CHR ''/'' \<in> set path then Some (rev (tl (dropWhile (\<lambda>c. c \<noteq> CHR ''/'') (rev path)))) else None)"

definition AddFile :: "Tree \<Rightarrow> string \<Rightarrow> bytes \<Rightarrow> Tree" where
  "AddFile t path octets =
     (let t1 = (case parent_of path of None \<Rightarrow> t | Some p \<Rightarrow> AddFolder t p)
      in t1\<lparr>files := map_insert path octets (files t1)\<rparr>)"

definition Remove :: "Tree \<Rightarrow> string \<Rightarrow> Tree" where
  "Remove t path = t\<lparr>files := filter (\<lambda>(p, _). p \<noteq> path) (files t)\<rparr>"

end
