(* ===== verification/Cari_Disk.thy ===== *)
theory Cari_Disk
  imports Cari_Tree
begin

text \<open>
  The tree on disk (sc/cari.cpp): \<open>WriteToDir\<close> and \<open>ReadFromDir\<close>. The file system is a map from
  paths to contents with the set of folders and of the files only their owner may use. Which files
  can be opened, what a write really leaves in a file (the code does not check \<open>write\<close> or \<open>close\<close>),
  and which folders can be made are the environment's choice. What a recursive directory iterator
  lists, relative to the base, is an argument.
\<close>

record file_system =
  fs_files :: "string \<rightharpoonup> bytes"
  fs_folders :: "string set"
  fs_private :: "string set"

record dir_env =
  canOpen :: "string \<Rightarrow> bool"
  canMake :: "string \<Rightarrow> bool"
  stored :: "string \<Rightarrow> bytes \<Rightarrow> bytes"

text \<open>\<open>base / rel\<close> for a relative path.\<close>

definition path_append :: "string \<Rightarrow> string \<Rightarrow> string" where
  "path_append base rel =
     (if base = [] then rel else if last base = CHR ''/'' then base @ rel else base @ ''/'' @ rel)"

text \<open>It is the base, a slash where it has none, and the path.\<close>

definition dir_prefix :: "string \<Rightarrow> string" where
  "dir_prefix base = (if base = [] then [] else if last base = CHR ''/'' then base else base @ ''/'')"

lemma path_append_prefix: "path_append base rel = dir_prefix base @ rel"
  by (simp add: path_append_def dir_prefix_def)

lemma path_append_inject [simp]: "path_append base p = path_append base q \<longleftrightarrow> p = q"
  by (simp add: path_append_prefix)

text \<open>The path and its ancestors.\<close>

definition ancestors :: "string \<Rightarrow> string list" where
  "ancestors path =
     map (\<lambda>n. take n path) (filter (\<lambda>n. n = length path \<or> path ! n = CHR ''/'') [1..<length path + 1])"

definition create_directories :: "dir_env \<Rightarrow> string \<Rightarrow> file_system \<Rightarrow> file_system" where
  "create_directories env path fs =
     (if canMake env path then fs\<lparr>fs_folders := set (ancestors path) \<union> fs_folders fs\<rparr> else fs)"

text \<open>The two loops; \<open>Inl\<close> carries the refused path.\<close>

datatype dir_error = UnsafeFolder string | UnsafeFile string | CouldNotWriteFile string

fun write_folders :: "dir_env \<Rightarrow> string \<Rightarrow> string list \<Rightarrow> file_system \<Rightarrow> file_system \<times> dir_error option" where
  "write_folders env base [] fs = (fs, None)"
| "write_folders env base (f # rest) fs =
     (if \<not> IsSafeZipPath f then (fs, Some (UnsafeFolder f))
      else write_folders env base rest (create_directories env (path_append base f) fs))"

definition write_file :: "dir_env \<Rightarrow> string \<Rightarrow> bytes \<Rightarrow> bool \<Rightarrow> file_system \<Rightarrow> file_system \<times> bool" where
  "write_file env path octets isPrivate fs =
     (let fs1 = (case parent_of path of None \<Rightarrow> fs | Some q \<Rightarrow> create_directories env q fs) in
      if \<not> canOpen env path then (fs1, False)
      else (fs1\<lparr>fs_files := (fs_files fs1)(path \<mapsto> stored env path octets),
                fs_private := (if isPrivate then insert path (fs_private fs1) else fs_private fs1)\<rparr>, True))"

definition BaseName :: "string \<Rightarrow> string" where
  "BaseName path = rev (takeWhile (\<lambda>c. c \<noteq> CHR ''/'') (rev path))"

fun write_files :: "dir_env \<Rightarrow> string \<Rightarrow> (string \<times> bytes) list \<Rightarrow> file_system \<Rightarrow> file_system \<times> dir_error option" where
  "write_files env base [] fs = (fs, None)"
| "write_files env base ((p, octets) # rest) fs =
     (if \<not> IsSafeZipPath p then (fs, Some (UnsafeFile p))
      else let path = path_append base p in
        case write_file env path octets (StartsWith (BaseName path) ''key-'') fs of
          (fs1, False) \<Rightarrow> (fs1, Some (CouldNotWriteFile path))
        | (fs1, True) \<Rightarrow> write_files env base rest fs1)"

definition WriteToDir :: "dir_env \<Rightarrow> Tree \<Rightarrow> string \<Rightarrow> file_system \<Rightarrow> file_system \<times> dir_error option" where
  "WriteToDir env t base fs =
     (case write_folders env base (folders t) fs of
        (fs1, Some e) \<Rightarrow> (fs1, Some e)
      | (fs1, None) \<Rightarrow> write_files env base (files t) fs1)"

text \<open>What the iterator meets; anything that is neither a folder nor a regular file is passed over.\<close>

datatype dir_item = Folder string | Regular string bytes | Special string

definition ReadFromDir :: "bool \<Rightarrow> dir_item list \<Rightarrow> Tree option" where
  "ReadFromDir hasCert1 items =
     (if \<not> hasCert1 then None
      else Some (fold (\<lambda>item t. case item of
             Folder f \<Rightarrow> AddFolder t f
           | Regular p octets \<Rightarrow> AddFile t p octets
           | Special _ \<Rightarrow> t) items (AddFolder new_Tree ''cert1'')))"

end
