(* ===== verification/Cert_Layout.thy ===== *)
theory Cert_Layout
  imports Cari_Disk Sc_Node
begin

text \<open>
  Where the node's certificate files are (sc/cert_layout.cpp): an existing CARI tree is found by
  its node files, a new one is named after the device. What \<open>cert1\<close> holds, in the order the
  directory iterator lists it, and which files exist are arguments.
\<close>

section \<open>Paths\<close>

abbreviation (input) NODE_PORT_ID :: string where "NODE_PORT_ID \<equiv> ''4''"
abbreviation (input) NODE_FILE_NAME :: string where "NODE_FILE_NAME \<equiv> ''node''"

record NodeCertPaths =
  np_certDir :: string
  np_portFolder :: string
  np_folderDeviceInstance :: u32
  np_note :: string
  np_operationalCertificate :: string
  np_certificateSigningRequest :: string
  np_issuerCertificate1 :: string
  np_issuerCertificate2 :: string
  np_privateKey :: string
  np_pendingPrivateKey :: string
  np_trustedIssuers :: string

definition JoinPath :: "string \<Rightarrow> string \<Rightarrow> string" where
  "JoinPath directory relative = path_append directory relative"

text \<open>\<open>strtoul\<close> of at most seven digits does not overflow.\<close>

definition ParseDeviceFolder :: "string \<Rightarrow> u32 option" where
  "ParseDeviceFolder name =
     (if take 7 name \<noteq> ''device-'' \<or> length name = 7 then None
      else let digits = drop 7 name in
        if list_ex (\<lambda>c. \<not> is_digit c) digits \<or> 7 < length digits then None
        else let v = fst (strtoul_digits digits) in if 4194302 < v then None else Some (of_nat v))"

record cert1_dir =
  c1_present :: bool
  c1_entries :: "(string \<times> bool) list" \<comment> \<open>name, is a directory\<close>
  c1_exists :: "string \<Rightarrow> bool"

text \<open>The port folders with a node file in them, with the device instance of their name.\<close>

definition FindNodePorts :: "cert1_dir \<Rightarrow> string \<Rightarrow> (string \<times> u32) list" where
  "FindNodePorts world certDir =
     List.map_filter (\<lambda>(name, isDirectory).
       case (if isDirectory then ParseDeviceFolder name else None) of
         None \<Rightarrow> None
       | Some inst \<Rightarrow>
           (let folder = ''cert1/'' @ name @ ''/port-'' @ NODE_PORT_ID; port = path_append certDir folder in
            if c1_exists world (port @ ''/key-'' @ NODE_FILE_NAME @ ''.pem'') \<or>
               c1_exists world (port @ ''/csr-'' @ NODE_FILE_NAME @ ''.pem'') \<or>
               c1_exists world (port @ ''/opr-'' @ NODE_FILE_NAME @ ''.pem'')
            then Some (folder, inst) else None)) (c1_entries world)"

definition FillCari :: "string \<Rightarrow> string \<Rightarrow> u32 \<Rightarrow> NodeCertPaths" where
  "FillCari directory portFolder inst =
     \<lparr>np_certDir = directory, np_portFolder = portFolder, np_folderDeviceInstance = inst, np_note = '''',
      np_operationalCertificate = JoinPath directory (portFolder @ ''/opr-'' @ NODE_FILE_NAME @ ''.pem''),
      np_certificateSigningRequest = JoinPath directory (portFolder @ ''/csr-'' @ NODE_FILE_NAME @ ''.pem''),
      np_issuerCertificate1 = JoinPath directory ''cert1/issuer/iss-1.pem'',
      np_issuerCertificate2 = JoinPath directory ''cert1/issuer/iss-2.pem'',
      np_privateKey = JoinPath directory (portFolder @ ''/key-'' @ NODE_FILE_NAME @ ''.pem''),
      np_pendingPrivateKey = JoinPath directory (''key-'' @ NODE_FILE_NAME @ ''-pending.pem''),
      np_trustedIssuers = JoinPath directory ''trusted-issuers.pem''\<rparr>"

definition NewNodeCertPaths :: "string \<Rightarrow> u32 \<Rightarrow> NodeCertPaths" where
  "NewNodeCertPaths certDir deviceInstance =
     FillCari certDir (''cert1/device-'' @ decimal (unat deviceInstance) @ ''/port-'' @ NODE_PORT_ID) deviceInstance"

text \<open>The last port folder of this device, or else the first one found.\<close>

definition chosen_port :: "(string \<times> u32) list \<Rightarrow> u32 \<Rightarrow> string \<times> u32" where
  "chosen_port ports deviceInstance =
     (case find (\<lambda>p. snd p = deviceInstance) (rev ports) of Some p \<Rightarrow> p | None \<Rightarrow> hd ports)"

definition port_note :: "(string \<times> u32) list \<Rightarrow> string \<times> u32 \<Rightarrow> u32 \<Rightarrow> string" where
  "port_note ports chosen deviceInstance =
     (let note = (if snd chosen \<noteq> deviceInstance
                  then ''the certificate folder '' @ fst chosen @ '' is for device instance '' @
                       decimal (unat (snd chosen)) @ '', but this device is '' @ decimal (unat deviceInstance) @
                       ''; using it anyway (rename the folder to device-'' @ decimal (unat deviceInstance) @ '' to match)''
                  else '''')
      in if 1 < length ports
         then note @ (if note = '''' then '''' else ''; '') @ decimal (length ports) @
              '' node port folders found under cert1/, using '' @ fst chosen
         else note)"

definition ResolveNodeCertPaths :: "cert1_dir \<Rightarrow> string \<Rightarrow> u32 \<Rightarrow> NodeCertPaths" where
  "ResolveNodeCertPaths world certDirArgument deviceInstance =
     (if \<not> c1_present world then NewNodeCertPaths certDirArgument deviceInstance
      else let ports = FindNodePorts world certDirArgument in
        if ports = [] then NewNodeCertPaths certDirArgument deviceInstance
        else let chosen = chosen_port ports deviceInstance in
          (FillCari certDirArgument (fst chosen) (snd chosen))\<lparr>np_note := port_note ports chosen deviceInstance\<rparr>)"

text \<open>\<open>relative\<close>: what \<open>fs::relative\<close> returns, \<open>None\<close> for its error.\<close>

definition RelativeTo :: "string option \<Rightarrow> string \<Rightarrow> string" where
  "RelativeTo relative path =
     (case relative of
        None \<Rightarrow> path
      | Some r \<Rightarrow> (if r = '''' \<or> take 2 r = ''..'' then path else r))"

text \<open>\<open>CertificateFilePath\<close> and the layout \<open>PrepareCertificates\<close> installs.\<close>

definition CertificateFilePath :: "NodeCertPaths \<Rightarrow> u32 \<Rightarrow> string" where
  "CertificateFilePath p fileInstance =
     (if fileInstance = FILE_OPERATIONAL_CERTIFICATE_INSTANCE then np_operationalCertificate p
      else if fileInstance = FILE_ISSUER_CERTIFICATE_1_INSTANCE then np_issuerCertificate1 p
      else if fileInstance = FILE_ISSUER_CERTIFICATE_2_INSTANCE then np_issuerCertificate2 p
      else if fileInstance = FILE_CERTIFICATE_SIGNING_REQUEST_INSTANCE then np_certificateSigningRequest p
      else '''')"

definition node_layout :: "NodeCertPaths \<Rightarrow> Layout" where
  "node_layout p =
     sc_layout (CertificateFilePath p FILE_OPERATIONAL_CERTIFICATE_INSTANCE)
       (CertificateFilePath p FILE_ISSUER_CERTIFICATE_1_INSTANCE)
       (CertificateFilePath p FILE_ISSUER_CERTIFICATE_2_INSTANCE)
       (CertificateFilePath p FILE_CERTIFICATE_SIGNING_REQUEST_INSTANCE)
       (np_privateKey p) (np_pendingPrivateKey p)"

end
