(* ===== verification/Cari_Zip.thy ===== *)
theory Cari_Zip
  imports Cari_Tree
begin

text \<open>
  The zip reader and writer of the CARI importer (sc/cari.cpp). zlib is not part of the
  repository: its three functions are the fields of \<open>zlib\<close>. \<open>size_t\<close> is a \<open>nat\<close>; sums the
  code forms in 32 bits are words. A refusal is a constructor of \<open>zip_error\<close>, and
  \<open>OutOfBounds\<close> is the outcome the code does not have: a read outside the file.
\<close>

section \<open>Little-endian fields\<close>

definition Get16 :: "bytes \<Rightarrow> nat \<Rightarrow> u16" where
  "Get16 b at = ucast (b ! at) OR push_bit 8 (ucast (b ! (at + 1)))"

definition Get32 :: "bytes \<Rightarrow> nat \<Rightarrow> u32" where
  "Get32 b at = ucast (Get16 b at) OR push_bit 16 (ucast (Get16 b (at + 2)))"

definition Put16 :: "u16 \<Rightarrow> bytes" where
  "Put16 v = [ucast (v AND 0xFF), ucast (drop_bit 8 v)]"

definition Put32 :: "u32 \<Rightarrow> bytes" where
  "Put32 v = Put16 (ucast (v AND 0xFFFF)) @ Put16 (ucast (drop_bit 16 v))"

abbreviation (input) LOCAL_HEADER_SIG :: u32 where "LOCAL_HEADER_SIG \<equiv> 0x04034b50"
abbreviation (input) CENTRAL_HEADER_SIG :: u32 where "CENTRAL_HEADER_SIG \<equiv> 0x02014b50"
abbreviation (input) END_OF_CENTRAL_DIR_SIG :: u32 where "END_OF_CENTRAL_DIR_SIG \<equiv> 0x06054b50"

section \<open>zlib\<close>

datatype z_rc = Z_STREAM_END | Z_BUF_ERROR | Z_OTHER

text \<open>
  \<open>z_inflate\<close>: the return code of \<open>inflate(Z_FINISH)\<close> and the octets it put into an output buffer
  of the given size; \<open>None\<close> when \<open>inflateInit2\<close> fails. \<open>z_deflate\<close>: the whole raw stream.
\<close>

record zlib =
  z_inflate :: "bytes \<Rightarrow> nat \<Rightarrow> (z_rc \<times> bytes) option"
  z_deflate :: "bytes \<Rightarrow> bytes"
  z_crc32 :: "bytes \<Rightarrow> u32"

definition Inflate :: "zlib \<Rightarrow> bytes \<Rightarrow> nat \<Rightarrow> bytes option" where
  "Inflate z inp expected =
     (case z_inflate z inp expected of
        None \<Rightarrow> None
      | Some (rc, out) \<Rightarrow>
          (if rc = Z_STREAM_END \<and> length out = expected \<or> expected = 0 \<and> rc = Z_BUF_ERROR
           then Some (take expected (out @ replicate expected 0)) else None))"

definition Deflate :: "zlib \<Rightarrow> bytes \<Rightarrow> bytes" where
  "Deflate z inp = z_deflate z inp"

section \<open>Reading\<close>

datatype zip_error = TooLarge nat | NotAZip | NoEndRecord | MultiPart | TooManyEntries u16
  | DirectoryOutOfRange | DamagedEntry nat | NameOutOfRange | Encrypted string | Zip64
  | UnsupportedMethod string u16 | UnsafePath string | UnpacksTooLarge | DamagedLocalHeader string
  | DataOutOfRange string | SizeMismatch string | CannotDecompress string | CrcMismatch string
  | AppearsTwice string | OutOfBounds

record central_header =
  ch_flags :: u16
  ch_method :: u16
  ch_crc :: u32
  ch_csize :: u32
  ch_usize :: u32
  ch_nameLen :: u16
  ch_extraLen :: u16
  ch_commentLen :: u16
  ch_localOffset :: u32

text \<open>The fields of the central header at \<open>at\<close>; all of them lie in its 46 octets.\<close>

definition central_header_at :: "bytes \<Rightarrow> nat \<Rightarrow> central_header option" where
  "central_header_at zipBytes at =
     (if length zipBytes < at + 46 then None
      else Some \<lparr>ch_flags = Get16 zipBytes (at + 8), ch_method = Get16 zipBytes (at + 10), ch_crc = Get32 zipBytes (at + 16),
                 ch_csize = Get32 zipBytes (at + 20), ch_usize = Get32 zipBytes (at + 24), ch_nameLen = Get16 zipBytes (at + 28),
                 ch_extraLen = Get16 zipBytes (at + 30), ch_commentLen = Get16 zipBytes (at + 32),
                 ch_localOffset = Get32 zipBytes (at + 42)\<rparr>)"

text \<open>The data of a file entry, from its local header on.\<close>

definition entry_data :: "zlib \<Rightarrow> bytes \<Rightarrow> central_header \<Rightarrow> string \<Rightarrow> zip_error + bytes" where
  "entry_data z zipBytes h name =
     (if length zipBytes < unat (ch_localOffset h) + 30 \<or> Get32 zipBytes (unat (ch_localOffset h)) \<noteq> LOCAL_HEADER_SIG
      then Inl (DamagedLocalHeader name)
      else
        let dataAt = unat (ch_localOffset h + 30 + ucast (Get16 zipBytes (unat (ch_localOffset h) + 26)) +
              ucast (Get16 zipBytes (unat (ch_localOffset h) + 28)));
            compressed = take (unat (ch_csize h)) (drop dataAt zipBytes)
        in if length zipBytes < dataAt + unat (ch_csize h) then Inl (DataOutOfRange name)
           else
             let unpacked = (if ch_method h = 0
                             then (if ch_csize h \<noteq> ch_usize h then Inl (SizeMismatch name) else Inr compressed)
                             else case Inflate z compressed (unat (ch_usize h)) of
                                 None \<Rightarrow> Inl (CannotDecompress name)
                               | Some d \<Rightarrow> Inr d)
             in case unpacked of
                  Inl e \<Rightarrow> Inl e
                | Inr d \<Rightarrow> (if z_crc32 z d \<noteq> ch_crc h then Inl (CrcMismatch name) else Inr d))"

text \<open>One round of the loop over the central directory: the next position, the total so far, the tree.\<close>

definition read_entry ::
  "zlib \<Rightarrow> bytes \<Rightarrow> nat \<Rightarrow> nat \<Rightarrow> nat \<Rightarrow> nat \<Rightarrow> Tree \<Rightarrow> zip_error + (nat \<times> nat \<times> Tree)" where
  "read_entry z zipBytes eocd i at acc t =
     (if eocd < at + 46 then Inl (DamagedEntry i)
      else case central_header_at zipBytes at of
          None \<Rightarrow> Inl OutOfBounds
        | Some h \<Rightarrow>
          (if Get32 zipBytes at \<noteq> CENTRAL_HEADER_SIG then Inl (DamagedEntry i)
           else if eocd < at + 46 + unat (ch_nameLen h) then Inl NameOutOfRange
           else
             let fullName = text_of (take (unat (ch_nameLen h)) (drop (at + 46) zipBytes));
                 at' = at + (46 + unat (ch_nameLen h) + unat (ch_extraLen h) + unat (ch_commentLen h));
                 isFolder = (fullName \<noteq> [] \<and> last fullName = CHR ''/'');
                 name = (if isFolder then butlast fullName else fullName)
             in if ch_flags h AND 0x0001 \<noteq> 0 then Inl (Encrypted fullName)
                else if ch_csize h = 0xFFFFFFFF \<or> ch_usize h = 0xFFFFFFFF \<or> ch_localOffset h = 0xFFFFFFFF
                then Inl Zip64
                else if ch_method h \<noteq> 0 \<and> ch_method h \<noteq> 8 then Inl (UnsupportedMethod fullName (ch_method h))
                else if \<not> IsSafeZipPath name then Inl (UnsafePath name)
                else if isFolder then Inr (at', acc, AddFolder t name)
                else if MAX_TOTAL_UNCOMPRESSED < acc + unat (ch_usize h) then Inl UnpacksTooLarge
                else case entry_data z zipBytes h name of
                    Inl e \<Rightarrow> Inl e
                  | Inr d \<Rightarrow> (if Has t name then Inl (AppearsTwice name)
                              else Inr (at', acc + unat (ch_usize h), AddFile t name d))))"

text \<open>\<open>n\<close> entries from the \<open>i\<close>-th on.\<close>

fun read_entries ::
  "zlib \<Rightarrow> bytes \<Rightarrow> nat \<Rightarrow> nat \<Rightarrow> nat \<Rightarrow> nat \<Rightarrow> nat \<Rightarrow> Tree \<Rightarrow> zip_error + Tree" where
  "read_entries z zipBytes eocd i 0 at acc t = Inr t"
| "read_entries z zipBytes eocd i (Suc n) at acc t =
     (case read_entry z zipBytes eocd i at acc t of
        Inl e \<Rightarrow> Inl e
      | Inr (at', acc', t') \<Rightarrow> read_entries z zipBytes eocd (i + 1) n at' acc' t')"

text \<open>The search for the end record, from the last possible place backwards.\<close>

definition find_end_record :: "bytes \<Rightarrow> nat option" where
  "find_end_record zipBytes =
     (let lowest = (if 65557 < length zipBytes then length zipBytes - 65557 else 0)
      in find (\<lambda>at. Get32 zipBytes at = END_OF_CENTRAL_DIR_SIG) (rev [lowest..<length zipBytes - 22 + 1]))"

definition ReadZip :: "zlib \<Rightarrow> bytes \<Rightarrow> zip_error + Tree" where
  "ReadZip z zipBytes =
     (if MAX_ZIP_BYTES < length zipBytes then Inl (TooLarge (length zipBytes))
      else if length zipBytes < 22 \<or> Get32 zipBytes 0 \<noteq> LOCAL_HEADER_SIG then Inl NotAZip
      else case find_end_record zipBytes of
          None \<Rightarrow> Inl NoEndRecord
        | Some eocd \<Rightarrow>
          (if length zipBytes < eocd + 22 then Inl OutOfBounds
           else
             let entries = Get16 zipBytes (eocd + 10); cdSize = Get32 zipBytes (eocd + 12); cdOffset = Get32 zipBytes (eocd + 16) in
             if Get16 zipBytes (eocd + 4) \<noteq> 0 \<or> Get16 zipBytes (eocd + 6) \<noteq> 0 \<or> entries \<noteq> Get16 zipBytes (eocd + 8)
             then Inl MultiPart
             else if MAX_ENTRIES < unat entries then Inl (TooManyEntries entries)
             else if eocd < unat cdOffset + unat cdSize then Inl DirectoryOutOfRange
             else read_entries z zipBytes eocd 0 (unat entries) (unat cdOffset) 0 new_Tree))"

section \<open>Writing\<close>

text \<open>The local time of the call, as \<open>struct tm\<close> has it.\<close>

record dos_clock =
  dc_year :: int
  dc_mon :: int
  dc_mday :: int
  dc_hour :: int
  dc_min :: int
  dc_sec :: int

definition dosTime :: "dos_clock \<Rightarrow> u16" where
  "dosTime t = of_int (or (or (push_bit 11 (dc_hour t)) (push_bit 5 (dc_min t))) (dc_sec t div 2))"

definition dosDate :: "dos_clock \<Rightarrow> u16" where
  "dosDate t = of_int (or (or (push_bit 9 (dc_year t - 80)) (push_bit 5 (dc_mon t + 1))) (dc_mday t))"

type_synonym zip_entry = "string \<times> bytes"

definition zip_entries :: "Tree \<Rightarrow> zip_entry list" where
  "zip_entries t = map (\<lambda>f. (f @ ''/'', [])) (folders t) @ files t"

definition folder_entry :: "zip_entry \<Rightarrow> bool" where
  "folder_entry e \<longleftrightarrow> last (fst e) = CHR ''/''"

definition entry_body :: "zlib \<Rightarrow> zip_entry \<Rightarrow> bytes" where
  "entry_body z e = (if folder_entry e then [] else Deflate z (snd e))"

definition local_octets :: "zlib \<Rightarrow> dos_clock \<Rightarrow> zip_entry \<Rightarrow> bytes" where
  "local_octets z now e =
     Put32 LOCAL_HEADER_SIG @ Put16 20 @ Put16 0x0800 @ Put16 (if folder_entry e then 0 else 8) @
     Put16 (dosTime now) @ Put16 (dosDate now) @ Put32 (z_crc32 z (snd e)) @
     Put32 (of_nat (length (entry_body z e))) @ Put32 (of_nat (length (snd e))) @
     Put16 (of_nat (length (fst e))) @ Put16 0"

definition central_octets :: "zlib \<Rightarrow> dos_clock \<Rightarrow> zip_entry \<Rightarrow> nat \<Rightarrow> bytes" where
  "central_octets z now e offset =
     Put32 CENTRAL_HEADER_SIG @ Put16 20 @ Put16 20 @ Put16 0x0800 @ Put16 (if folder_entry e then 0 else 8) @
     Put16 (dosTime now) @ Put16 (dosDate now) @ Put32 (z_crc32 z (snd e)) @
     Put32 (of_nat (length (entry_body z e))) @ Put32 (of_nat (length (snd e))) @
     Put16 (of_nat (length (fst e))) @ Put16 0 @ Put16 0 @ Put16 0 @ Put16 0 @
     Put32 (if folder_entry e then 0x10 else 0) @ Put32 (of_nat offset)"

text \<open>The loop: the zip so far and the central directory so far.\<close>

definition write_entry :: "zlib \<Rightarrow> dos_clock \<Rightarrow> zip_entry \<Rightarrow> bytes \<times> bytes \<Rightarrow> bytes \<times> bytes" where
  "write_entry z now e zc =
     (case zc of (zipBytes, central) \<Rightarrow>
        (zipBytes @ local_octets z now e @ octets_of (fst e) @ entry_body z e,
         central @ central_octets z now e (length zipBytes) @ octets_of (fst e)))"

definition WriteZip :: "zlib \<Rightarrow> dos_clock \<Rightarrow> Tree \<Rightarrow> bytes" where
  "WriteZip z now t =
     (let entries = zip_entries t; (zipBytes, central) = fold (write_entry z now) entries ([], []) in
      zipBytes @ central @ Put32 END_OF_CENTRAL_DIR_SIG @ Put16 0 @ Put16 0 @
      Put16 (of_nat (length entries)) @ Put16 (of_nat (length entries)) @
      Put32 (of_nat (length central)) @ Put32 (of_nat (length zipBytes)) @ Put16 0)"

end
