(* ===== verification/Cari_Rules.thy ===== *)
theory Cari_Rules
  imports Cari_Tree
begin

text \<open>
  The CARI rules of sc/cari.cpp: the check of every path of a tree (\<open>Validate\<close>) and the list of its
  signing requests (\<open>ListCsrs\<close>). A problem is the path it is about and a constructor for its text.
\<close>

section \<open>Validation\<close>

datatype cari_reason = MustBeInsideCert1 | IssuerInRequest | NotDeviceOrIssuer | NotRouterOrPort
  | UnexpectedFolder | LargerThan1MB | LargerThan10kB | NotACariFileName bool | IssuerFilesInRequest
  | NotAnIssuerFile | NotAPortFile bool | LargerThan64kB | NotAPlace | NoDeviceFolder | NoPortFolder

type_synonym cari_problem = "string \<times> cari_reason"

record folder_scan =
  fs_problems :: "cari_problem list"
  fs_sawDevice :: bool
  fs_devicesWithPort :: "string list"

definition problem :: "folder_scan \<Rightarrow> string \<Rightarrow> cari_reason \<Rightarrow> folder_scan" where
  "problem s path why = s\<lparr>fs_problems := fs_problems s @ [(path, why)]\<rparr>"

text \<open>One folder; \<open>p[i]\<close> is \<open>p ! i\<close>, in range wherever it is read.\<close>

definition check_folder :: "bool \<Rightarrow> string \<Rightarrow> folder_scan \<Rightarrow> folder_scan" where
  "check_folder response folder s =
     (let p = Split folder in
      if p ! 0 \<noteq> ''cert1'' then problem s folder MustBeInsideCert1
      else if length p = 1 then s
      else if length p = 2 \<and> p ! 1 = ''issuer''
      then (if \<not> response then problem s folder IssuerInRequest else s)
      else if DeviceInstance (p ! 1) = None then problem s folder NotDeviceOrIssuer
      else if length p = 2 then s\<lparr>fs_sawDevice := True\<rparr>
      else if length p = 3 \<and> p ! 2 = ''router'' then s
      else if \<not> StartsWith (p ! 2) ''port-'' \<or> \<not> IsValidName (drop 5 (p ! 2)) then problem s folder NotRouterOrPort
      else if length p = 3 then s\<lparr>fs_devicesWithPort := set_insert (p ! 1) (fs_devicesWithPort s)\<rparr>
      else if length p = 4 \<and> p ! 3 = ''hub'' then s
      else problem s folder UnexpectedFolder)"

definition check_file :: "bool \<Rightarrow> string \<times> bytes \<Rightarrow> cari_problem list" where
  "check_file response f =
     (case f of (path, octets) \<Rightarrow>
        let size' = length octets; p = Split path in
        if p ! 0 \<noteq> ''cert1'' \<or> length p < 2 then [(path, MustBeInsideCert1)]
        else if length p = 2
        then (if p ! 1 = ''vendor-data'' then (if MAX_VENDOR_DATA < size' then [(path, LargerThan1MB)] else [])
              else if p ! 1 = ''request-notes.txt'' then (if MAX_NOTES < size' then [(path, LargerThan10kB)] else [])
              else if response \<and> (p ! 1 = ''response-notes.txt'' \<or> p ! 1 = ''errors.txt'')
              then (if MAX_NOTES < size' \<and> p ! 1 \<noteq> ''errors.txt'' then [(path, LargerThan10kB)] else [])
              else [(path, NotACariFileName response)])
        else if length p = 3 \<and> p ! 1 = ''issuer''
        then (if \<not> response then [(path, IssuerFilesInRequest)]
              else if p ! 2 \<noteq> ''iss-1.pem'' \<and> p ! 2 \<noteq> ''iss-2.pem'' then [(path, NotAnIssuerFile)] else [])
        else if length p = 4 \<and> DeviceInstance (p ! 1) \<noteq> None \<and> StartsWith (p ! 2) ''port-''
        then (let known = (FileName (p ! 3) ''csr-'' \<noteq> None \<or> FileName (p ! 3) ''key-'' \<noteq> None \<or>
                           response \<and> FileName (p ! 3) ''opr-'' \<noteq> None)
              in if \<not> known then [(path, NotAPortFile response)]
                 else if MAX_PEM < size' then [(path, LargerThan64kB)] else [])
        else [(path, NotAPlace)])"

definition check_port_folder :: "string list \<Rightarrow> string \<Rightarrow> cari_problem list" where
  "check_port_folder devicesWithPort folder =
     (let p = Split folder in
      if length p = 2 \<and> DeviceInstance (p ! 1) \<noteq> None \<and> p ! 1 \<notin> set devicesWithPort
      then [(folder, NoPortFolder)] else [])"

definition Validate :: "Tree \<Rightarrow> bool \<Rightarrow> cari_problem list" where
  "Validate t response =
     (let s = fold (check_folder response) (folders t)
                \<lparr>fs_problems = [], fs_sawDevice = False, fs_devicesWithPort = []\<rparr>
      in fs_problems s @ concat (map (check_file response) (files t)) @
         (if fs_sawDevice s then [] else [(''cert1/'', NoDeviceFolder)]) @
         concat (map (check_port_folder (fs_devicesWithPort s)) (folders t)))"

section \<open>Signing requests\<close>

record CsrEntry =
  csr_deviceFolder :: string
  csr_deviceInstance :: u32
  csr_portFolder :: string
  csr_name :: string
  csr_csrPath :: string
  csr_oprPath :: string
  csr_keyPath :: string
  csr_isHubPort :: bool
  csr_isRouter :: bool

definition csr_entry :: "Tree \<Rightarrow> string \<Rightarrow> CsrEntry option" where
  "csr_entry t path =
     (let p = Split path in
      if length p \<noteq> 4 \<or> p ! 0 \<noteq> ''cert1'' then None
      else case DeviceInstance (p ! 1) of
          None \<Rightarrow> None
        | Some inst \<Rightarrow>
            (if \<not> StartsWith (p ! 2) ''port-'' then None
             else case FileName (p ! 3) ''csr-'' of
                 None \<Rightarrow> None
               | Some name \<Rightarrow>
                   (let port = ''cert1/'' @ p ! 1 @ ''/'' @ p ! 2; key = port @ ''/key-'' @ name @ ''.pem'' in
                    Some \<lparr>csr_deviceFolder = p ! 1, csr_deviceInstance = inst, csr_portFolder = p ! 2,
                          csr_name = name, csr_csrPath = path, csr_oprPath = port @ ''/opr-'' @ name @ ''.pem'',
                          csr_keyPath = (if Has t key then key else ''''),
                          csr_isHubPort = (port @ ''/hub'' \<in> set (folders t)),
                          csr_isRouter = (''cert1/'' @ p ! 1 @ ''/router'' \<in> set (folders t))\<rparr>)))"

definition ListCsrs :: "Tree \<Rightarrow> CsrEntry list" where
  "ListCsrs t = List.map_filter (\<lambda>(path, _). csr_entry t path) (files t)"

end
