(* ===== verification/Cert_Tool.thy ===== *)
theory Cert_Tool
  imports Cert_Layout Cari_Zip Cari_Rules
begin

text \<open>
  The node's certificate request and the installation of its answer (sc/cert_tool.cpp). The disk is
  that of the certificate store, with the set of files only their owner may use. OpenSSL is the
  record \<open>tool_crypto\<close>. Whether a file can be opened and what an unchecked write leaves in it are
  the environment's choice. The texts that are only printed (subject, expiry, fingerprints) are left
  out, and a file is named by the path the code builds, not by its absolute form.
\<close>

section \<open>Files\<close>

record tool_state =
  store :: cert_store
  ownerOnly :: "path set"

record tool_env =
  opens :: "path \<Rightarrow> bool"
  keeps :: "path \<Rightarrow> bytes \<Rightarrow> bytes"
  toolTime :: int

definition ToolReadFile :: "tool_state \<Rightarrow> path \<Rightarrow> bytes" where
  "ToolReadFile s path = (case ReadDisk (store s) path of None \<Rightarrow> [] | Some b \<Rightarrow> b)"

definition tool_exists :: "tool_state \<Rightarrow> path \<Rightarrow> bool" where
  "tool_exists s path \<longleftrightarrow> disk (store s) path \<noteq> None"

definition ToolWriteFile :: "tool_env \<Rightarrow> path \<Rightarrow> bytes \<Rightarrow> bool \<Rightarrow> tool_state \<Rightarrow> tool_state \<times> bool" where
  "ToolWriteFile env path content isPrivate s =
     (if \<not> opens env path then (s, False)
      else (s\<lparr>store := (store s)\<lparr>disk := (disk (store s))
                 (path \<mapsto> \<lparr>fileBytes = keeps env path content, fileModified = toolTime env\<rparr>)\<rparr>,
              ownerOnly := (if isPrivate then insert path (ownerOnly s) else ownerOnly s)\<rparr>, True))"

section \<open>OpenSSL\<close>

record ('cert, 'key, 'req) tool_crypto =
  pemCert :: "bytes \<Rightarrow> 'cert option"           \<comment> \<open>\<open>PEM_read_bio_X509\<close>\<close>
  derCert :: "bytes \<Rightarrow> 'cert option"           \<comment> \<open>\<open>d2i_X509\<close>\<close>
  pemReq :: "bytes \<Rightarrow> 'req option"             \<comment> \<open>\<open>PEM_read_bio_X509_REQ\<close>\<close>
  derReq :: "bytes \<Rightarrow> 'req option"             \<comment> \<open>\<open>d2i_X509_REQ\<close>\<close>
  reqKey :: "'req \<Rightarrow> 'key option"              \<comment> \<open>\<open>X509_REQ_get0_pubkey\<close>\<close>
  certKey :: "'cert \<Rightarrow> 'key"                   \<comment> \<open>\<open>X509_get0_pubkey\<close>\<close>
  sameKey :: "'key \<Rightarrow> 'key \<Rightarrow> bool"             \<comment> \<open>\<open>EVP_PKEY_eq\<close> is 1\<close>
  expired :: "'cert \<Rightarrow> bool"                   \<comment> \<open>\<open>notAfter\<close> lies in the past\<close>
  checkCa :: "'cert \<Rightarrow> bool"                   \<comment> \<open>\<open>X509_check_ca\<close> is not 0\<close>
  checkIssued :: "'cert \<Rightarrow> 'cert \<Rightarrow> bool"       \<comment> \<open>issuer, subject: \<open>X509_check_issued\<close> is \<open>X509_V_OK\<close>\<close>
  verifiedBy :: "'cert \<Rightarrow> 'key \<Rightarrow> bool"         \<comment> \<open>\<open>X509_verify\<close> is 1\<close>
  certPem :: "'cert \<Rightarrow> bytes"                  \<comment> \<open>\<open>PEM_write_bio_X509\<close>, empty when it fails\<close>
  newKey :: "'key option"                      \<comment> \<open>\<open>EVP_EC_gen\<close>\<close>
  makeReq :: "'key \<Rightarrow> string \<Rightarrow> string \<Rightarrow> 'req option" \<comment> \<open>key, subject, alternative name\<close>
  keyPem :: "'key \<Rightarrow> bytes"
  reqPem :: "'req \<Rightarrow> bytes"

definition CertFromBytes :: "('cert, 'key, 'req) tool_crypto \<Rightarrow> bytes \<Rightarrow> 'cert option" where
  "CertFromBytes cr b = (case pemCert cr b of Some c \<Rightarrow> Some c | None \<Rightarrow> derCert cr b)"

definition ReqFromBytes :: "('cert, 'key, 'req) tool_crypto \<Rightarrow> bytes \<Rightarrow> 'req option" where
  "ReqFromBytes cr b = (case pemReq cr b of Some r \<Rightarrow> Some r | None \<Rightarrow> derReq cr b)"

section \<open>The request\<close>

fun replace_first :: "string \<Rightarrow> string \<Rightarrow> string \<Rightarrow> string" where
  "replace_first token by [] = []"
| "replace_first token by (c # cs) =
     (if take (length token) (c # cs) = token then by @ drop (length token) (c # cs)
      else c # replace_first token by cs)"

definition REQUEST_NOTES :: string where
  "REQUEST_NOTES =
     ''Certificate request for a BACnet/SC node (CAS BACnet Stack B-BC example).'' @ [CHR 0x0A, CHR 0x0A] @
     ''Sign cert1/device-%INSTANCE%/port-4/csr-node.pem. This port is a BACnet/SC node'' @ [CHR 0x0A] @
     ''that connects to a hub: its certificate needs extendedKeyUsage clientAuth (and'' @ [CHR 0x0A] @
     ''serverAuth, for direct connections).'' @ [CHR 0x0A, CHR 0x0A] @
     ''Return a CARI response: this tree plus opr-node.pem next to the CSR and your'' @ [CHR 0x0A] @
     ''issuer certificate(s) in cert1/issuer/. Then install it on the device with'' @ [CHR 0x0A] @
     ''--import-cari.'' @ [CHR 0x0A]"

datatype request_error = NoRequestYet | NotARequest

definition request_tree :: "NodeCertPaths \<Rightarrow> bytes \<Rightarrow> Tree" where
  "request_tree np csr =
     AddFile (AddFile new_Tree (np_portFolder np @ ''/'' @ BaseName (np_certificateSigningRequest np)) csr)
       ''cert1/request-notes.txt''
       (octets_of (replace_first ''%INSTANCE%'' (decimal (unat (np_folderDeviceInstance np))) REQUEST_NOTES))"

definition NodeRequestZip ::
  "('cert, 'key, 'req) tool_crypto \<Rightarrow> zlib \<Rightarrow> dos_clock \<Rightarrow> NodeCertPaths \<Rightarrow> tool_state \<Rightarrow> request_error + bytes" where
  "NodeRequestZip cr z now np s =
     (if \<not> tool_exists s (np_certificateSigningRequest np) then Inl NoRequestYet
      else let csr = ToolReadFile s (np_certificateSigningRequest np) in
        if ReqFromBytes cr csr = None then Inl NotARequest
        else Inr (WriteZip z now (request_tree np csr)))"

datatype RequestResult = Created | AlreadyExists | Failed

definition request_zip_path :: "string \<Rightarrow> path" where
  "request_zip_path certDir = path_append certDir ''node-cari-request.zip''"

text \<open>The new key and request of a device that has none; \<open>None\<close> when it cannot be made.\<close>

definition new_key_and_request ::
  "('cert, 'key, 'req) tool_crypto \<Rightarrow> tool_env \<Rightarrow> NodeCertPaths \<Rightarrow> string \<Rightarrow> string \<Rightarrow> tool_state \<Rightarrow> tool_state \<times> bool" where
  "new_key_and_request cr env np subjectCn altName s =
     (case newKey cr of
        None \<Rightarrow> (s, False)
      | Some key \<Rightarrow>
        (case makeReq cr key subjectCn altName of
           None \<Rightarrow> (s, False)
         | Some csr \<Rightarrow>
           (if keyPem cr key = [] \<or> reqPem cr csr = [] then (s, False)
            else case ToolWriteFile env (np_privateKey np) (keyPem cr key) True s of
                (s1, False) \<Rightarrow> (s1, False)
              | (s1, True) \<Rightarrow> ToolWriteFile env (np_certificateSigningRequest np) (reqPem cr csr) False s1)))"

definition EnsureNodeRequest ::
  "('cert, 'key, 'req) tool_crypto \<Rightarrow> zlib \<Rightarrow> dos_clock \<Rightarrow> tool_env \<Rightarrow> NodeCertPaths \<Rightarrow> string \<Rightarrow> string \<Rightarrow> string \<Rightarrow>
   tool_state \<Rightarrow> tool_state \<times> RequestResult" where
  "EnsureNodeRequest cr z now env np certDir subjectCn altName s =
     (if tool_exists s (request_zip_path certDir) then (s, AlreadyExists)
      else
        let haveKey = tool_exists s (np_privateKey np);
            havePendingKey = (np_pendingPrivateKey np \<noteq> '''' \<and> tool_exists s (np_pendingPrivateKey np));
            (s1, ok) = (if tool_exists s (np_certificateSigningRequest np) then (s, True)
                        else if haveKey \<or> havePendingKey then (s, False)
                        else new_key_and_request cr env np subjectCn altName s)
        in if \<not> ok then (s1, Failed)
           else case NodeRequestZip cr z now np s1 of
               Inl _ \<Rightarrow> (s1, Failed)
             | Inr zipBytes \<Rightarrow>
                 (case ToolWriteFile env (request_zip_path certDir) zipBytes False s1 of
                    (s2, False) \<Rightarrow> (s2, Failed)
                  | (s2, True) \<Rightarrow> (s2, Created)))"

section \<open>The response\<close>

datatype import_error = ZipProblem zip_error | NoOwnRequest | OwnRequestUnreadable | NoCertificateInZip
  | NoneForThisKey nat | CertificateExpired | IssuerUnreadable string | IssuerNotCa string
  | NoIssuerInZip | NotSignedByIssuer | TooManyIssuers nat | CouldNotWritePem

record ResponseFiles =
  rf_operationalCertificate :: bytes
  rf_issuers :: "bytes list"
  rf_source :: string

definition candidates :: "NodeCertPaths \<Rightarrow> Tree \<Rightarrow> string list" where
  "candidates np t =
     (let own = (if np_portFolder np = '''' then '''' else np_portFolder np @ ''/opr-'' @ NODE_FILE_NAME @ ''.pem'')
      in (if own \<noteq> '''' \<and> Has t own then [own] else []) @
         filter (\<lambda>p. StartsWith (BaseName p) ''opr-'' \<and> p \<noteq> own) (map fst (files t)))"

definition file_of :: "Tree \<Rightarrow> string \<Rightarrow> bytes" where
  "file_of t path = (case map_of (files t) path of None \<Rightarrow> [] | Some b \<Rightarrow> b)"

fun find_operational ::
  "('cert, 'key, 'req) tool_crypto \<Rightarrow> 'key \<Rightarrow> Tree \<Rightarrow> string list \<Rightarrow> (string \<times> 'cert) option" where
  "find_operational cr key t [] = None"
| "find_operational cr key t (path # rest) =
     (case CertFromBytes cr (file_of t path) of
        Some crt \<Rightarrow> (if sameKey cr (certKey cr crt) key then Some (path, crt) else find_operational cr key t rest)
      | None \<Rightarrow> find_operational cr key t rest)"

fun read_issuers ::
  "('cert, 'key, 'req) tool_crypto \<Rightarrow> (string \<times> bytes) list \<Rightarrow> import_error + 'cert list" where
  "read_issuers cr [] = Inr []"
| "read_issuers cr ((path, content) # rest) =
     (if StartsWith path ''cert1/issuer/'' \<and> StartsWith (BaseName path) ''iss-''
      then (case CertFromBytes cr content of
              None \<Rightarrow> Inl (IssuerUnreadable path)
            | Some crt \<Rightarrow>
                (if \<not> checkCa cr crt then Inl (IssuerNotCa path)
                 else case read_issuers cr rest of Inl e \<Rightarrow> Inl e | Inr cs \<Rightarrow> Inr (crt # cs)))
      else read_issuers cr rest)"

definition signs :: "('cert, 'key, 'req) tool_crypto \<Rightarrow> 'cert \<Rightarrow> 'cert \<Rightarrow> bool" where
  "signs cr issuer leaf \<longleftrightarrow> checkIssued cr issuer leaf \<and> verifiedBy cr leaf (certKey cr issuer)"

text \<open>\<open>find_if\<close> and \<open>rotate\<close>: the first issuer that signed the certificate moves to the front.\<close>

fun signer_first ::
  "('cert, 'key, 'req) tool_crypto \<Rightarrow> 'cert \<Rightarrow> 'cert list \<Rightarrow> 'cert list \<Rightarrow> 'cert list option" where
  "signer_first cr leaf before [] = None"
| "signer_first cr leaf before (c # cs) =
     (if signs cr c leaf then Some (c # before @ cs) else signer_first cr leaf (before @ [c]) cs)"

definition ReadCariResponse ::
  "('cert, 'key, 'req) tool_crypto \<Rightarrow> zlib \<Rightarrow> NodeCertPaths \<Rightarrow> tool_state \<Rightarrow> bytes \<Rightarrow> import_error + ResponseFiles" where
  "ReadCariResponse cr z np s zipBytes =
     (case ReadZip z zipBytes of
        Inl e \<Rightarrow> Inl (ZipProblem e)
      | Inr t \<Rightarrow>
        (if \<not> tool_exists s (np_certificateSigningRequest np) then Inl NoOwnRequest
         else case Option.bind (ReqFromBytes cr (ToolReadFile s (np_certificateSigningRequest np))) (reqKey cr) of
             None \<Rightarrow> Inl OwnRequestUnreadable
           | Some csrKey \<Rightarrow>
             (if candidates np t = [] then Inl NoCertificateInZip
              else case find_operational cr csrKey t (candidates np t) of
                  None \<Rightarrow> Inl (NoneForThisKey (length (candidates np t)))
                | Some (source, operational) \<Rightarrow>
                  (if expired cr operational then Inl CertificateExpired
                   else case read_issuers cr (files t) of
                       Inl e \<Rightarrow> Inl e
                     | Inr issuers \<Rightarrow>
                       (if issuers = [] then Inl NoIssuerInZip
                        else case signer_first cr operational [] issuers of
                            None \<Rightarrow> Inl NotSignedByIssuer
                          | Some ordered \<Rightarrow>
                            (if 2 < length ordered then Inl (TooManyIssuers (length ordered))
                             else if [] \<in> set (map (certPem cr) ordered) \<or> certPem cr operational = []
                             then Inl CouldNotWritePem
                             else Inr \<lparr>rf_operationalCertificate = certPem cr operational,
                                       rf_issuers = map (certPem cr) ordered, rf_source = source\<rparr>))))))"

text \<open>\<open>ImportCariResponse\<close>: three files in place, one after the other; the zip is read from the disk.\<close>

definition ImportCariResponse ::
  "('cert, 'key, 'req) tool_crypto \<Rightarrow> zlib \<Rightarrow> tool_env \<Rightarrow> NodeCertPaths \<Rightarrow> path \<Rightarrow> tool_state \<Rightarrow> tool_state \<times> bool" where
  "ImportCariResponse cr z env np zipPath s =
     (if \<not> tool_exists s zipPath then (s, False)
      else case ReadCariResponse cr z np s (ToolReadFile s zipPath) of
          Inl _ \<Rightarrow> (s, False)
        | Inr f \<Rightarrow>
          (case ToolWriteFile env (np_operationalCertificate np) (rf_operationalCertificate f) False s of
             (s1, False) \<Rightarrow> (s1, False)
           | (s1, True) \<Rightarrow>
             (case ToolWriteFile env (np_issuerCertificate1 np) (rf_issuers f ! 0) False s1 of
                (s2, False) \<Rightarrow> (s2, False)
              | (s2, True) \<Rightarrow>
                ToolWriteFile env (np_issuerCertificate2 np)
                  (if 1 < length (rf_issuers f) then rf_issuers f ! 1 else rf_issuers f ! 0) False s2)))"

end
