(* ===== verification/Cari_Paths.thy ===== *)
theory Cari_Paths
  imports Cari_Zip
begin

text \<open>
  Lemmas on the paths and trees of the CARI importer: a safe path is its parts joined by slashes,
  splitting and joining are inverse, and a tree that is built by \<open>AddFolder\<close> and \<open>AddFile\<close> from safe
  paths keeps the well-formedness \<open>tree_ok\<close>.
\<close>

section \<open>Joining parts\<close>

fun join :: "string list \<Rightarrow> string" where
  "join [] = []"
| "join (x # xs) = x @ concat (map (\<lambda>y. CHR ''/'' # y) xs)"

lemma join_append: "xs \<noteq> [] \<Longrightarrow> join (xs @ ys) = join xs @ concat (map (\<lambda>y. CHR ''/'' # y) ys)"
  by (cases xs) simp_all

lemma set_join: "set (join xs) \<subseteq> insert CHR ''/'' (\<Union> (set ` set xs))"
  by (cases xs) auto

definition part_ok :: "string \<Rightarrow> bool" where
  "part_ok x \<longleftrightarrow> x \<noteq> [] \<and> x \<noteq> ''.'' \<and> x \<noteq> ''..'' \<and>
     list_all (\<lambda>c. \<not> control_char c \<and> c \<noteq> CHR ''/'' \<and> c \<noteq> CHR 0x5C \<and> c \<noteq> CHR '':'') x"

definition path_ok :: "string \<Rightarrow> bool" where
  "path_ok p \<longleftrightarrow> (\<exists>ps. ps \<noteq> [] \<and> list_all part_ok ps \<and> p = join ps)"

lemma part_okD: "part_ok x \<Longrightarrow> x \<noteq> []" "part_ok x \<Longrightarrow> CHR ''/'' \<notin> set x"
  "part_ok x \<Longrightarrow> CHR 0x5C \<notin> set x \<and> CHR '':'' \<notin> set x"
  by (auto simp: part_ok_def list_all_iff)

lemma getlines_append:
  "d \<notin> set x \<Longrightarrow> getlines d part (x @ s) = getlines d (part @ x) s"
  by (induction x arbitrary: part) auto

lemma getlines_join_tail:
  "list_all part_ok ps \<Longrightarrow> getlines CHR ''/'' x (concat (map (\<lambda>y. CHR ''/'' # y) ps) @ s) =
     (if s = [] then (if x = [] \<and> ps = [] then [] else x # ps) else
      (if ps = [] then getlines CHR ''/'' x s else x # butlast ps @ getlines CHR ''/'' (last ps) s))"
proof (induction ps arbitrary: x)
  case (Cons p ps)
  then have "CHR ''/'' \<notin> set p" "p \<noteq> []" using part_okD by auto
  then show ?case using Cons by (auto simp: getlines_append)
qed simp

lemma Split_join:
  assumes "list_all part_ok ps"
  shows "Split (join ps) = ps"
proof (cases ps)
  case (Cons x xs)
  then have "CHR ''/'' \<notin> set x" "x \<noteq> []" using assms part_okD by auto
  then show ?thesis using getlines_join_tail [of xs x "[]"] assms Cons by (simp add: Split_def getlines_append)
qed (simp add: Split_def)

lemma Split_join_slash:
  assumes "list_all part_ok ps" "ps \<noteq> []"
  shows "Split (join ps @ ''/'') = ps"
proof (cases ps)
  case (Cons x xs)
  then have "CHR ''/'' \<notin> set x" "x \<noteq> []" using assms part_okD by auto
  moreover have "CHR ''/'' \<notin> set (last xs)" if "xs \<noteq> []"
    using assms Cons that part_okD(2) by (simp add: list_all_iff)
  ultimately show ?thesis using getlines_join_tail [of xs x "''/''"] assms Cons
    by (auto simp: Split_def getlines_append)
qed (use assms in simp)

section \<open>Safe paths\<close>

lemma getlines_parts: "x \<in> set (getlines d part s) \<Longrightarrow> d \<notin> set part \<Longrightarrow> d \<notin> set x \<and> set x \<subseteq> set part \<union> set s"
  by (induction d part s rule: getlines.induct) (auto split: if_splits)

lemma join_getlines:
  "d = CHR ''/'' \<Longrightarrow> part @ s \<noteq> [] \<Longrightarrow> [] \<notin> set (getlines d part s) \<Longrightarrow>
   getlines d part s \<noteq> [] \<and>
   (join (getlines d part s) = part @ s \<or> join (getlines d part s) @ ''/'' = part @ s)"
proof (induction d part s rule: getlines.induct)
  case (2 d part c cs)
  show ?case
  proof (cases "c = d")
    case True
    show ?thesis
    proof (cases "cs = []")
      case False
      with 2 True have IH: "getlines d [] cs \<noteq> []" "join (getlines d [] cs) = cs \<or> join (getlines d [] cs) @ ''/'' = cs"
        by auto
      then obtain y ys where "getlines d [] cs = y # ys" by (cases "getlines d [] cs") auto
      with IH True 2(3) show ?thesis by auto
    qed (use True 2 in auto)
  qed (use 2 in auto)
qed auto

lemma IsSafeZipPath_iff:
  "IsSafeZipPath p \<longleftrightarrow>
     (\<exists>ps. ps \<noteq> [] \<and> list_all part_ok ps \<and> (p = join ps \<or> p = join ps @ ''/''))"
proof
  assume s: "IsSafeZipPath p"
  have ok: "part_ok x" if "x \<in> set (Split p)" for x
  proof -
    have "CHR ''/'' \<notin> set x" "set x \<subseteq> set p"
      using getlines_parts [of x "CHR ''/''" "[]" p] that by (auto simp: Split_def)
    then show ?thesis using s that
      by (auto simp: IsSafeZipPath_def part_ok_def list_all_iff list_ex_iff split: if_splits)
  qed
  then have "[] \<notin> set (Split p)" using part_okD(1) by blast
  moreover have "p \<noteq> []" using s by (simp add: IsSafeZipPath_def split: if_splits)
  ultimately have "Split p \<noteq> []" "join (Split p) = p \<or> join (Split p) @ ''/'' = p"
    using join_getlines [of "CHR ''/''" "[]" p] unfolding Split_def by simp_all
  then show "\<exists>ps. ps \<noteq> [] \<and> list_all part_ok ps \<and> (p = join ps \<or> p = join ps @ ''/'')"
    using ok by (intro exI [of _ "Split p"]) (auto simp: list_all_iff)
next
  assume "\<exists>ps. ps \<noteq> [] \<and> list_all part_ok ps \<and> (p = join ps \<or> p = join ps @ ''/'')"
  then obtain ps where ps: "ps \<noteq> []" "list_all part_ok ps" "p = join ps \<or> p = join ps @ ''/''" by blast
  then obtain x xs where x: "ps = x # xs" by (cases ps) auto
  have sp: "Split p = ps" using ps Split_join [of ps] Split_join_slash [of ps] by auto
  have x1: "x \<noteq> []" "CHR ''/'' \<notin> set x" using ps(2) x part_okD [of x] by auto
  then have "hd x \<noteq> CHR ''/''" by (cases x) auto
  then have hd: "hd p \<noteq> CHR ''/''" "p \<noteq> []" using ps(3) x x1 by auto
  have "CHR 0x5C \<notin> set y \<and> CHR '':'' \<notin> set y" if "y \<in> set ps" for y
    using ps(2) that part_okD(3) by (simp add: list_all_iff)
  moreover have "set p \<subseteq> insert CHR ''/'' (\<Union> (set ` set ps))" using ps(3) set_join [of ps] by auto
  ultimately have "CHR 0x5C \<notin> set p" "CHR '':'' \<notin> set p" by auto
  moreover have "list_all (\<lambda>part. part \<noteq> [] \<and> part \<noteq> ''.'' \<and> part \<noteq> ''..'' \<and> \<not> list_ex control_char part) ps"
    using ps(2) by (rule list.pred_mono_strong) (auto simp: part_ok_def list_all_iff list_ex_iff)
  ultimately show "IsSafeZipPath p" using hd by (simp add: IsSafeZipPath_def sp)
qed

lemma path_ok_safe: "path_ok p \<Longrightarrow> IsSafeZipPath p"
  unfolding path_ok_def IsSafeZipPath_iff by blast

lemma join_not_empty: "ps \<noteq> [] \<Longrightarrow> list_all part_ok ps \<Longrightarrow> join ps \<noteq> []"
  using part_okD(1) by (cases ps) auto

lemma last_join:
  assumes "ps \<noteq> []" "list_all part_ok ps"
  shows "last (join ps) \<noteq> CHR ''/''"
proof -
  obtain xs x where ps: "ps = xs @ [x]" using assms(1) by (cases ps rule: rev_cases) auto
  then have x: "x \<noteq> []" "CHR ''/'' \<notin> set x" using assms(2) part_okD [of x] by auto
  then have "last (join ps) = last x" by (cases xs) (simp_all add: ps)
  then show ?thesis using x last_in_set by metis
qed

lemma path_ok_last: "path_ok p \<Longrightarrow> p \<noteq> [] \<and> last p \<noteq> CHR ''/''"
  by (auto simp: path_ok_def last_join join_not_empty)

lemma safe_path_ok:
  assumes "IsSafeZipPath p" "last p \<noteq> CHR ''/''"
  shows "path_ok p"
proof -
  obtain ps where ps: "ps \<noteq> []" "list_all part_ok ps" "p = join ps \<or> p = join ps @ ''/''"
    using assms(1) unfolding IsSafeZipPath_iff by blast
  have "p \<noteq> join ps @ ''/''" using assms(2) by (intro notI) simp
  with ps show ?thesis unfolding path_ok_def by blast
qed

section \<open>Prefixes and parents\<close>

fun partials :: "string \<Rightarrow> string list \<Rightarrow> string list" where
  "partials p [] = []"
| "partials p (x # xs) = (let p' = p @ (if p = [] then '''' else ''/'') @ x in p' # partials p' xs)"

lemma add_prefixes_partials: "add_prefixes p parts fs = fold set_insert (partials p parts) fs"
  by (induction p parts fs rule: add_prefixes.induct) (simp_all add: Let_def)

definition prefixes_of :: "string \<Rightarrow> string set" where
  "prefixes_of p = set (partials [] (Split p))"

lemma partials_join:
  "pre \<noteq> [] \<Longrightarrow> join pre \<noteq> [] \<Longrightarrow>
   y \<in> set (partials (join pre) ps) \<longleftrightarrow> (\<exists>k < length ps. y = join (pre @ take (Suc k) ps))"
proof (induction ps arbitrary: pre)
  case (Cons x ps)
  have e: "join pre @ (if join pre = [] then '''' else ''/'') @ x = join (pre @ [x])"
    using Cons.prems by (simp add: join_append)
  have "join (pre @ [x]) \<noteq> []" using Cons.prems by (simp add: join_append)
  then have "y \<in> set (partials (join pre) (x # ps)) \<longleftrightarrow>
      y = join (pre @ [x]) \<or> (\<exists>k < length ps. y = join ((pre @ [x]) @ take (Suc k) ps))"
    using Cons.IH [of "pre @ [x]"] unfolding partials.simps Let_def e by simp
  then show ?case by (simp add: Ex_less_Suc2)
qed simp

lemma prefixes_join:
  assumes "ps \<noteq> []" "list_all part_ok ps"
  shows "y \<in> prefixes_of (join ps) \<longleftrightarrow> (\<exists>k < length ps. y = join (take (Suc k) ps))"
proof -
  obtain x xs where ps: "ps = x # xs" using assms(1) by (cases ps) auto
  have x: "x \<noteq> []" using assms(2) ps part_okD by auto
  have "y \<in> prefixes_of (join ps) \<longleftrightarrow> y = x \<or> y \<in> set (partials (join [x]) xs)"
    unfolding prefixes_of_def Split_join [OF assms(2)] by (simp add: ps)
  also have "\<dots> \<longleftrightarrow> y = x \<or> (\<exists>k < length xs. y = join ([x] @ take (Suc k) xs))"
    using x by (subst partials_join) simp_all
  finally show ?thesis by (simp add: ps Ex_less_Suc2)
qed

lemma list_all_take: "list_all P xs \<Longrightarrow> list_all P (take k xs)"
  by (auto simp: list_all_iff dest: in_set_takeD)

text \<open>The prefixes of a path are paths, the path is one of them, and so are their prefixes.\<close>

lemma prefixes_path_ok: "path_ok p \<Longrightarrow> y \<in> prefixes_of p \<Longrightarrow> path_ok y"
proof -
  assume "path_ok p" "y \<in> prefixes_of p"
  then obtain ps k where ps: "ps \<noteq> []" "list_all part_ok ps" "k < length ps" "y = join (take (Suc k) ps)"
    using prefixes_join unfolding path_ok_def by blast
  then show "path_ok y" unfolding path_ok_def by (intro exI [of _ "take (Suc k) ps"]) (simp add: list_all_take)
qed

lemma path_in_prefixes: "path_ok p \<Longrightarrow> p \<in> prefixes_of p"
proof -
  assume "path_ok p"
  then obtain ps where ps: "ps \<noteq> []" "list_all part_ok ps" "p = join ps" unfolding path_ok_def by blast
  then show ?thesis by (auto simp: prefixes_join intro!: exI [of _ "length ps - 1"])
qed

lemma prefixes_trans: "path_ok p \<Longrightarrow> y \<in> prefixes_of p \<Longrightarrow> prefixes_of y \<subseteq> prefixes_of p"
proof -
  assume "path_ok p" "y \<in> prefixes_of p"
  then obtain ps k where ps: "ps \<noteq> []" "list_all part_ok ps" "p = join ps" "k < length ps" "y = join (take (Suc k) ps)"
    using prefixes_join unfolding path_ok_def by blast
  show ?thesis
  proof
    fix z assume "z \<in> prefixes_of y"
    then obtain j where "j < length (take (Suc k) ps)" "z = join (take (Suc j) (take (Suc k) ps))"
      using ps by (auto simp: prefixes_join list_all_take)
    then have "j < length ps" "z = join (take (Suc j) ps)" using ps(4) by (simp_all add: take_take min_absorb1)
    then show "z \<in> prefixes_of p" using ps by (auto simp: prefixes_join)
  qed
qed

lemma prefixes_slash: "IsSafeZipPath p \<Longrightarrow> \<exists>q. path_ok q \<and> prefixes_of p = prefixes_of q"
  unfolding IsSafeZipPath_iff path_ok_def prefixes_of_def
  using Split_join Split_join_slash by metis

lemma parent_of_join:
  assumes "list_all part_ok (ps @ [x])"
  shows "parent_of (join (ps @ [x])) = (if ps = [] then None else Some (join ps))"
proof -
  have x: "CHR ''/'' \<notin> set x" using assms part_okD(2) by simp
  show ?thesis
  proof (cases "ps = []")
    case False
    have "join (ps @ [x]) = join ps @ CHR ''/'' # x" using False by (simp add: join_append)
    then show ?thesis using False x by (simp add: parent_of_def dropWhile_append)
  qed (use x in \<open>simp add: parent_of_def\<close>)
qed

lemma parent_path_ok: "path_ok p \<Longrightarrow> parent_of p = Some q \<Longrightarrow> path_ok q"
proof -
  assume "path_ok p" and q: "parent_of p = Some q"
  then obtain ps where ps: "ps \<noteq> []" "list_all part_ok ps" "p = join ps" unfolding path_ok_def by blast
  then obtain xs x where "ps = xs @ [x]" by (cases ps rule: rev_cases) auto
  with ps q have "xs \<noteq> []" "q = join xs" "list_all part_ok xs" by (auto simp: parent_of_join split: if_splits)
  then show ?thesis unfolding path_ok_def by blast
qed

section \<open>Well-formed trees\<close>

definition tree_ok :: "Tree \<Rightarrow> bool" where
  "tree_ok t \<longleftrightarrow> map_ok (files t) \<and> set_ok (folders t) \<and>
     (\<forall>f \<in> set (folders t). path_ok f \<and> prefixes_of f \<subseteq> set (folders t)) \<and>
     (\<forall>p \<in> fst ` set (files t). path_ok p) \<and>
     (\<forall>p \<in> fst ` set (files t). \<forall>q. parent_of p = Some q \<longrightarrow> prefixes_of q \<subseteq> set (folders t))"

lemma new_Tree_ok: "tree_ok new_Tree"
  by (simp add: tree_ok_def new_Tree_def map_ok_def set_ok_def)

lemma set_fold_insert: "set (fold set_insert xs fs) = set xs \<union> set fs"
  by (induction xs arbitrary: fs) auto

lemma set_ok_fold_insert: "set_ok fs \<Longrightarrow> set_ok (fold set_insert xs fs)"
  by (induction xs arbitrary: fs) (simp_all add: set_ok_insert)

lemma folders_AddFolder: "set (folders (AddFolder t p)) = prefixes_of p \<union> set (folders t)"
  by (simp add: AddFolder_def add_prefixes_partials set_fold_insert prefixes_of_def)

lemma files_AddFolder [simp]: "files (AddFolder t p) = files t"
  by (simp add: AddFolder_def)

lemma AddFolder_ok:
  assumes "tree_ok t" "IsSafeZipPath p"
  shows "tree_ok (AddFolder t p)"
proof -
  obtain q where q: "path_ok q" "prefixes_of p = prefixes_of q" using prefixes_slash [OF assms(2)] by blast
  have "set_ok (folders (AddFolder t p))"
    using assms(1) by (simp add: AddFolder_def add_prefixes_partials set_ok_fold_insert tree_ok_def)
  moreover have "path_ok f \<and> prefixes_of f \<subseteq> prefixes_of q \<union> set (folders t)"
    if "f \<in> prefixes_of q \<union> set (folders t)" for f
    using that assms(1) prefixes_path_ok [OF q(1)] prefixes_trans [OF q(1)] unfolding tree_ok_def by blast
  ultimately show ?thesis
    using assms(1) unfolding tree_ok_def folders_AddFolder q(2) files_AddFolder by blast
qed

lemma AddFile_ok:
  assumes "tree_ok t" "path_ok p"
  shows "tree_ok (AddFile t p d)"
proof -
  define t1 where "t1 = (case parent_of p of None \<Rightarrow> t | Some q \<Rightarrow> AddFolder t q)"
  have ok: "tree_ok t1"
    using assms parent_path_ok [OF assms(2)] by (auto simp: t1_def AddFolder_ok path_ok_safe split: option.split)
  have par: "prefixes_of q \<subseteq> set (folders t1)" if "parent_of p = Some q" for q
    using that by (simp add: t1_def folders_AddFolder)
  have "folders (AddFile t p d) = folders t1" "files (AddFile t p d) = map_insert p d (files t1)"
    unfolding AddFile_def t1_def [symmetric] Let_def by simp_all
  then show ?thesis
    using ok par assms(2) unfolding tree_ok_def by (simp add: map_ok_insert del: image_insert)
qed

end
