(* ===== verification/Cari_Roundtrip.thy ===== *)
theory Cari_Roundtrip
  imports Cari_Paths
begin

text \<open>
  What the zip writer wrote is what the zip reader reads: the fixed-width fields, one entry, the
  whole central directory, and the tree rebuilt from it.
\<close>

section \<open>Fields\<close>

lemma Put_lengths [simp]: "length (Put16 v) = 2" "length (Put32 w) = 4"
  by (simp_all add: Put16_def Put32_def)

lemma u16_little_join:
  "ucast (ucast (v AND 0xFF) :: u8) OR push_bit 8 (ucast (ucast (drop_bit 8 v) :: u8)) = (v :: u16)"
proof (rule bit_word_eqI)
  fix n assume "n < LENGTH(16)"
  moreover have "v AND 0xFF = take_bit 8 v" by (simp add: take_bit_eq_mask mask_eq_exp_minus_1)
  ultimately show "bit (ucast (ucast (v AND 0xFF) :: u8) OR push_bit 8 (ucast (ucast (drop_bit 8 v) :: u8)) :: u16) n = bit v n"
    by (cases "n < 8") (auto simp: bit_simps bit_ucast_iff)
qed

lemma u32_little_join:
  "ucast (ucast (w AND 0xFFFF) :: u16) OR push_bit 16 (ucast (ucast (drop_bit 16 w) :: u16)) = (w :: u32)"
proof (rule bit_word_eqI)
  fix n assume "n < LENGTH(32)"
  moreover have "w AND 0xFFFF = take_bit 16 w" by (simp add: take_bit_eq_mask mask_eq_exp_minus_1)
  ultimately show "bit (ucast (ucast (w AND 0xFFFF) :: u16) OR push_bit 16 (ucast (ucast (drop_bit 16 w) :: u16)) :: u32) n = bit w n"
    by (cases "n < 16") (auto simp: bit_simps bit_ucast_iff)
qed

named_theorems fields "reading a field of a header written field by field"

lemma Get_after: "Get16 (pre @ b) (length pre + k) = Get16 b k" "Get32 (pre @ b) (length pre + k) = Get32 b k"
proof -
  show g: "Get16 (pre @ b) (length pre + k) = Get16 b k" for k
    unfolding Get16_def add.assoc nth_append_length_plus ..
  show "Get32 (pre @ b) (length pre + k) = Get32 b k"
    unfolding Get32_def add.assoc g ..
qed

lemma Get_at: "Get16 (pre @ b) (length pre) = Get16 b 0" "Get32 (pre @ b) (length pre) = Get32 b 0"
  using Get_after [of pre b 0] by simp_all

lemma Get_append: "length a \<le> k \<Longrightarrow> Get16 (a @ b) k = Get16 b (k - length a)"
  "length a \<le> k \<Longrightarrow> Get32 (a @ b) k = Get32 b (k - length a)"
  using Get_after [of a b "k - length a"] by simp_all

lemma Get16_here [fields]: "Get16 (Put16 v @ b) 0 = v"
  by (simp add: Get16_def Put16_def u16_little_join)

lemma Get16_skip16 [fields]: "2 \<le> k \<Longrightarrow> Get16 (Put16 v @ b) k = Get16 b (k - 2)"
  using Get_append(1) [of "Put16 v"] by simp

lemma Get16_skip32 [fields]: "4 \<le> k \<Longrightarrow> Get16 (Put32 w @ b) k = Get16 b (k - 4)"
  using Get_append(1) [of "Put32 w"] by simp

lemma Get32_here [fields]: "Get32 (Put32 w @ b) 0 = w"
  by (simp add: Get32_def Put32_def Get16_here Get16_skip16 u32_little_join)

lemma Get32_skip [fields]:
  "2 \<le> k \<Longrightarrow> Get32 (Put16 v @ b) k = Get32 b (k - 2)"
  "4 \<le> k \<Longrightarrow> Get32 (Put32 w @ b) k = Get32 b (k - 4)"
  using Get_append(2) [of "Put16 v"] Get_append(2) [of "Put32 w"] by simp_all

section \<open>The writer's output\<close>

definition local_block :: "zlib \<Rightarrow> dos_clock \<Rightarrow> zip_entry \<Rightarrow> bytes" where
  "local_block z now e = local_octets z now e @ octets_of (fst e) @ entry_body z e"

definition locals :: "zlib \<Rightarrow> dos_clock \<Rightarrow> zip_entry list \<Rightarrow> bytes" where
  "locals z now es = concat (map (local_block z now) es)"

fun centrals :: "zlib \<Rightarrow> dos_clock \<Rightarrow> nat \<Rightarrow> zip_entry list \<Rightarrow> bytes" where
  "centrals z now off [] = []"
| "centrals z now off (e # es) =
     central_octets z now e off @ octets_of (fst e) @ centrals z now (off + length (local_block z now e)) es"

lemma write_entries:
  "fold (write_entry z now) es (b, c) = (b @ locals z now es, c @ centrals z now (length b) es)"
  by (induction es arbitrary: b c) (simp_all add: write_entry_def local_block_def locals_def)

definition end_record :: "nat \<Rightarrow> bytes \<Rightarrow> bytes \<Rightarrow> bytes" where
  "end_record n loc cen =
     Put32 END_OF_CENTRAL_DIR_SIG @ Put16 0 @ Put16 0 @ Put16 (of_nat n) @ Put16 (of_nat n) @
     Put32 (of_nat (length cen)) @ Put32 (of_nat (length loc)) @ Put16 0"

lemma WriteZip_layout:
  "WriteZip z now t = (let es = zip_entries t in
     locals z now es @ centrals z now 0 es @ end_record (length es) (locals z now es) (centrals z now 0 es))"
  by (simp add: WriteZip_def write_entries end_record_def Let_def)

lemma octet_lengths [simp]:
  "length (local_octets z now e) = 30" "length (central_octets z now e off) = 46" "length (end_record n loc cen) = 22"
  by (simp_all add: local_octets_def central_octets_def end_record_def)

section \<open>One entry\<close>

text \<open>The documented behaviour of zlib the import relies on: inflating what was deflated.\<close>

definition zlib_ok :: "zlib \<Rightarrow> bool" where
  "zlib_ok z \<longleftrightarrow> (\<forall>d. z_inflate z (z_deflate z d) (length d) = Some (Z_STREAM_END, d))"

lemma Inflate_Deflate: "zlib_ok z \<Longrightarrow> Inflate z (Deflate z d) (length d) = Some d"
  by (simp add: zlib_ok_def Inflate_def Deflate_def)

definition entry_ok :: "zip_entry \<Rightarrow> bool" where
  "entry_ok e \<longleftrightarrow> length (fst e) < 65536 \<and> length (snd e) \<le> MAX_TOTAL_UNCOMPRESSED \<and>
     (if folder_entry e then fst e \<noteq> [] \<and> path_ok (butlast (fst e)) else path_ok (fst e))"

definition add_entry :: "zip_entry \<Rightarrow> Tree \<Rightarrow> Tree" where
  "add_entry e t = (if folder_entry e then AddFolder t (butlast (fst e)) else AddFile t (fst e) (snd e))"

definition entry_size :: "zip_entry \<Rightarrow> nat" where
  "entry_size e = (if folder_entry e then 0 else length (snd e))"

lemma unat_small: "n < 2 ^ 32 \<Longrightarrow> unat (of_nat n :: u32) = n" "m < 65536 \<Longrightarrow> unat (of_nat m :: u16) = m"
  by (simp_all add: unat_of_nat)

lemma small_not_max: "n < 0xFFFFFFFF \<Longrightarrow> (of_nat n :: u32) \<noteq> 0xFFFFFFFF"
  by (auto simp: word_unat_eq_iff unat_of_nat)

lemma central_header_written:
  assumes "b = X @ central_octets z now e off @ rest"
  shows "central_header_at b (length X) =
     Some \<lparr>ch_flags = 0x0800, ch_method = (if folder_entry e then 0 else 8), ch_crc = z_crc32 z (snd e),
           ch_csize = of_nat (length (entry_body z e)), ch_usize = of_nat (length (snd e)),
           ch_nameLen = of_nat (length (fst e)), ch_extraLen = 0, ch_commentLen = 0, ch_localOffset = of_nat off\<rparr>"
    "Get32 b (length X) = CENTRAL_HEADER_SIG"
  unfolding assms central_header_at_def
  by (simp_all add: Get_after Get_at central_octets_def fields)

lemma entry_data_written:
  assumes z: "zlib_ok z" and b: "b = L @ local_block z now e @ rest" and len: "length b \<le> MAX_ZIP_BYTES"
    and ok: "entry_ok e" "\<not> folder_entry e"
    and h: "ch_localOffset h = of_nat (length L)" "ch_csize h = of_nat (length (entry_body z e))"
      "ch_usize h = of_nat (length (snd e))" "ch_method h = 8" "ch_crc h = z_crc32 z (snd e)"
  shows "entry_data z b h name = Inr (snd e)"
proof -
  have lb: "length b = length L + 30 + length (fst e) + length (entry_body z e) + length rest"
    by (simp add: b local_block_def)
  have u: "unat (ch_localOffset h) = length L" "unat (ch_csize h) = length (entry_body z e)"
    "unat (ch_usize h) = length (snd e)"
    using len lb ok(1) unfolding h entry_ok_def by (simp_all add: unat_small)
  have f: "Get32 b (length L) = LOCAL_HEADER_SIG" "Get16 b (length L + 26) = of_nat (length (fst e))"
    "Get16 b (length L + 28) = 0"
    unfolding b local_block_def by (simp_all add: Get_after Get_at local_octets_def fields)
  have n: "unat (of_nat (length (fst e)) :: u16) = length (fst e)"
    using ok(1) by (simp add: entry_ok_def unat_small)
  have at: "unat (ch_localOffset h + 30 + ucast (of_nat (length (fst e)) :: u16) + ucast (0 :: u16)) =
      length L + 30 + length (fst e)"
  proof -
    have "(ucast (of_nat (length (fst e)) :: u16) :: u32) = of_nat (length (fst e))"
      using ok(1) by (simp add: word_unat_eq_iff unsigned_ucast_eq unat_of_nat take_bit_nat_eq_self entry_ok_def)
    then have "ch_localOffset h + 30 + ucast (of_nat (length (fst e)) :: u16) + ucast (0 :: u16) =
        (of_nat (length L + 30 + length (fst e)) :: u32)"
      by (simp add: h)
    moreover have "length L + 30 + length (fst e) < 2 ^ 32" using len lb by simp
    ultimately show ?thesis by (simp only: unat_small)
  qed
  have body: "take (length (entry_body z e)) (drop (length L + 30 + length (fst e)) b) = entry_body z e"
    by (simp add: b local_block_def)
  have inf: "Inflate z (entry_body z e) (length (snd e)) = Some (snd e)"
    using ok(2) Inflate_Deflate [OF z] by (simp add: entry_body_def)
  show ?thesis
    unfolding entry_data_def u f at using lb inf body by (simp add: h Let_def)
qed

lemma read_entry_written:
  assumes z: "zlib_ok z" and C: "b = X @ central_octets z now e (length L) @ octets_of (fst e) @ R"
    and L: "b = L @ local_block z now e @ rest" and len: "length b \<le> MAX_ZIP_BYTES"
    and eocd: "length X + 46 + length (fst e) \<le> eocd" and ok: "entry_ok e"
    and fresh: "\<not> folder_entry e \<Longrightarrow> \<not> Has t (fst e)" and fits: "acc + entry_size e \<le> MAX_TOTAL_UNCOMPRESSED"
  shows "read_entry z b eocd i (length X) acc t =
    Inr (length X + 46 + length (fst e), acc + entry_size e, add_entry e t)"
proof -
  have lens: "length (entry_body z e) < 0xFFFFFFFF" "length (snd e) < 0xFFFFFFFF" "length L < 0xFFFFFFFF"
    using len ok by (simp_all add: L local_block_def entry_ok_def)
  note H = central_header_written [OF C]
  have n: "unat (of_nat (length (fst e)) :: u16) = length (fst e)" "unat (of_nat (length (snd e)) :: u32) = length (snd e)"
    using ok lens by (simp_all add: entry_ok_def unat_small)
  have "drop (length X + 46) b = octets_of (fst e) @ R" by (simp add: C)
  then have nm: "text_of (take (length (fst e)) (drop (length X + 46) b)) = fst e" by simp
  have ne: "fst e \<noteq> []" using ok path_ok_last by (auto simp: entry_ok_def split: if_splits)
  have safe: "IsSafeZipPath (if folder_entry e then butlast (fst e) else fst e)"
    using ok path_ok_safe by (simp add: entry_ok_def split: if_splits)
  have bits: "(0x0800 :: u16) AND 1 = 0" by simp
  note small = small_not_max [OF lens(1)] small_not_max [OF lens(2)] small_not_max [OF lens(3)]
  show ?thesis
  proof (cases "folder_entry e")
    case True
    then show ?thesis
      unfolding read_entry_def H option.case Let_def central_header.select_convs n nm
      using eocd ne safe small by (simp add: folder_entry_def add_entry_def entry_size_def)
  next
    case False
    then have "last (fst e) \<noteq> CHR ''/''" by (simp add: folder_entry_def)
    moreover have "entry_data z b \<lparr>ch_flags = 0x0800, ch_method = 8, ch_crc = z_crc32 z (snd e),
        ch_csize = of_nat (length (entry_body z e)), ch_usize = of_nat (length (snd e)),
        ch_nameLen = of_nat (length (fst e)), ch_extraLen = 0, ch_commentLen = 0, ch_localOffset = of_nat (length L)\<rparr>
        (fst e) = Inr (snd e)"
      by (rule entry_data_written [OF z L len ok False]) simp_all
    ultimately show ?thesis
      unfolding read_entry_def H option.case Let_def central_header.select_convs n nm
      using False eocd safe small fresh fits by (simp add: add_entry_def entry_size_def)
  qed
qed

section \<open>The whole directory\<close>

lemma read_entries_written:
  assumes z: "zlib_ok z" and len: "length b \<le> MAX_ZIP_BYTES"
  shows "b = X @ centrals z now (length L) es @ E \<Longrightarrow> b = L @ locals z now es @ rest \<Longrightarrow>
    eocd = length X + length (centrals z now (length L) es) \<Longrightarrow> list_all entry_ok es \<Longrightarrow>
    acc + sum_list (map entry_size es) \<le> MAX_TOTAL_UNCOMPRESSED \<Longrightarrow> distinct (map fst es) \<Longrightarrow>
    (\<And>e. e \<in> set es \<Longrightarrow> \<not> folder_entry e \<Longrightarrow> \<not> Has t (fst e)) \<Longrightarrow>
    read_entries z b eocd i (length es) (length X) acc t = Inr (fold add_entry es t)"
proof (induction es arbitrary: X L acc t i)
  case (Cons e es)
  define X' where "X' = X @ central_octets z now e (length L) @ octets_of (fst e)"
  define L' where "L' = L @ local_block z now e"
  have Lr: "b = L @ local_block z now e @ locals z now es @ rest" using Cons.prems(2) by (simp add: locals_def)
  have Xr: "b = X @ central_octets z now e (length L) @ octets_of (fst e) @
      centrals z now (length L + length (local_block z now e)) es @ E"
    using Cons.prems(1) by simp
  have ok: "entry_ok e" "list_all entry_ok es" using Cons.prems(4) by simp_all
  have step: "read_entry z b eocd i (length X) acc t =
      Inr (length X', acc + entry_size e, add_entry e t)"
    using read_entry_written [OF z Xr Lr len _ ok(1)] Cons.prems(3,5,7) by (simp add: X'_def)
  have "\<not> Has (add_entry e t) (fst e')" if "e' \<in> set es" "\<not> folder_entry e'" for e'
  proof -
    have "fst e' \<noteq> fst e" using Cons.prems(6) that(1) by (auto simp: image_iff)
    then show ?thesis
      using Cons.prems(7) [of e'] that by (auto simp: add_entry_def Has_def AddFile_def Let_def split: option.split)
  qed
  then have "read_entries z b eocd (i + 1) (length es) (length X') (acc + entry_size e) (add_entry e t) =
      Inr (fold add_entry es (add_entry e t))"
    using Cons.prems(3,5,6) ok(2) Xr Lr by (intro Cons.IH [where L = L']) (simp_all add: X'_def L'_def add.assoc)
  with step show ?case by simp
qed simp

end
