(* ===== verification/Cari_Properties.thy ===== *)
theory Cari_Properties
  imports Cari_Roundtrip
begin

text \<open>
  Properties of the zip reader and writer of the CARI importer: the round trip of a tree, and what
  holds of every archive the reader accepts, whoever made it.
\<close>

section \<open>The tree rebuilt\<close>

lemma folders_AddFile: "set (folders (AddFile t p d)) =
    (case parent_of p of None \<Rightarrow> {} | Some q \<Rightarrow> prefixes_of q) \<union> set (folders t)"
  by (simp add: AddFile_def Let_def folders_AddFolder split: option.split)

lemma files_AddFile [simp]: "files (AddFile t p d) = map_insert p d (files t)"
  by (simp add: AddFile_def Let_def split: option.split)

lemma zip_entries_kinds:
  "e \<in> set (map (\<lambda>f. (f @ ''/'', [])) fs) \<Longrightarrow> folder_entry e"
  "tree_ok t \<Longrightarrow> e \<in> set (files t) \<Longrightarrow> \<not> folder_entry e"
  using path_ok_last by (auto simp: folder_entry_def tree_ok_def)

lemma fold_folders:
  "folders (fold add_entry (map (\<lambda>f. (f @ ''/'', [])) fs) t) = fold (\<lambda>f. add_prefixes [] (Split f)) fs (folders t)"
  "files (fold add_entry (map (\<lambda>f. (f @ ''/'', [])) fs) t) = files t"
  by (induction fs arbitrary: t) (simp_all add: add_entry_def folder_entry_def AddFolder_def)

lemma fold_files:
  "\<forall>e \<in> set es. \<not> folder_entry e \<Longrightarrow>
   files (fold add_entry es t) = std_map.put_all es (files t)"
  by (induction es arbitrary: t) (simp_all add: add_entry_def)

lemma fold_folder_set:
  "set (fold (\<lambda>f. add_prefixes [] (Split f)) fs gs) = (\<Union> (prefixes_of ` set fs)) \<union> set gs"
  by (induction fs arbitrary: gs) (auto simp: add_prefixes_partials set_fold_insert prefixes_of_def)

lemma fold_folder_ok: "set_ok gs \<Longrightarrow> set_ok (fold (\<lambda>f. add_prefixes [] (Split f)) fs gs)"
  by (induction fs arbitrary: gs) (simp_all add: add_prefixes_partials set_ok_fold_insert)

lemma fold_file_folders:
  assumes "\<forall>e \<in> set es. \<not> folder_entry e"
    "\<forall>e \<in> set es. \<forall>q. parent_of (fst e) = Some q \<longrightarrow> prefixes_of q \<subseteq> set (folders t)" "set_ok (folders t)"
  shows "folders (fold add_entry es t) = folders t"
  using assms
proof (induction es arbitrary: t)
  case (Cons e es)
  define t1 where "t1 = add_entry e t"
  have t1: "t1 = AddFile t (fst e) (snd e)" using Cons.prems(1) by (simp add: t1_def add_entry_def)
  have "set (folders t1) = set (folders t)"
    using Cons.prems(2) unfolding t1 folders_AddFile by (auto split: option.split)
  moreover have "set_ok (folders t1)"
    using Cons.prems(3) unfolding t1 AddFile_def Let_def
    by (auto simp: AddFolder_def add_prefixes_partials set_ok_fold_insert split: option.split)
  ultimately have "folders t1 = folders t" using Cons.prems(3) by (intro set_ok_canonical)
  then show ?case using Cons.IH [of t1] Cons.prems by (simp add: t1_def)
qed simp

lemma tree_rebuilt:
  assumes "tree_ok t"
  shows "fold add_entry (zip_entries t) new_Tree = t"
proof -
  define t1 where "t1 = fold add_entry (map (\<lambda>f. (f @ ''/'', [])) (folders t)) new_Tree"
  have kind: "\<forall>e \<in> set (files t). \<not> folder_entry e" using zip_entries_kinds(2) [OF assms] by blast
  have ok: "map_ok (files t)" "set_ok (folders t)" "\<forall>f \<in> set (folders t). path_ok f \<and> prefixes_of f \<subseteq> set (folders t)"
    "\<forall>e \<in> set (files t). \<forall>q. parent_of (fst e) = Some q \<longrightarrow> prefixes_of q \<subseteq> set (folders t)"
    using assms by (auto simp: tree_ok_def)
  have "set (folders t1) = set (folders t)"
    using ok(3) path_in_prefixes by (fastforce simp: t1_def fold_folders fold_folder_set new_Tree_def)
  moreover have "set_ok (folders t1)"
    unfolding t1_def fold_folders by (rule fold_folder_ok) (simp add: new_Tree_def set_ok_def)
  ultimately have f1: "folders t1 = folders t" using ok(2) by (intro set_ok_canonical)
  have "folders (fold add_entry (files t) t1) = folders t"
    using fold_file_folders [OF kind] ok(2,4) f1 by simp
  moreover have "files (fold add_entry (files t) t1) = files t"
  proof -
    have "std_map.put_all (files t) [] = files t"
      using ok(1) by (intro std_map.rebuild) (auto simp: map_ok_def dom_map_of_conv_image_fst intro: map_of_is_SomeI)
    then show ?thesis using fold_files [OF kind, of t1] by (simp add: t1_def fold_folders new_Tree_def)
  qed
  ultimately show ?thesis by (simp add: zip_entries_def t1_def Tree.equality)
qed

section \<open>Round trip\<close>

lemma zip_entries_ok:
  assumes "tree_ok t" "\<forall>f \<in> set (folders t). length f < 65535" "\<forall>(p, d) \<in> set (files t). length p < 65536"
    "sum_list (map (\<lambda>(p, d). length d) (files t)) \<le> MAX_TOTAL_UNCOMPRESSED"
  shows "list_all entry_ok (zip_entries t)" "distinct (map fst (zip_entries t))"
    "sum_list (map entry_size (zip_entries t)) \<le> MAX_TOTAL_UNCOMPRESSED"
proof -
  have k: "\<not> folder_entry e" "path_ok (fst e)" if "e \<in> set (files t)" for e
    using zip_entries_kinds(2) [OF assms(1)] assms(1) that by (auto simp: tree_ok_def)
  have "length d \<le> MAX_TOTAL_UNCOMPRESSED" if "(p, d) \<in> set (files t)" for p d
    using member_le_sum_list [of "length d" "map (\<lambda>(p, d). length d) (files t)"] that assms(4) by force
  then show "list_all entry_ok (zip_entries t)"
    using assms(1-3) k by (auto simp: zip_entries_def list_all_iff entry_ok_def folder_entry_def tree_ok_def)
  have "fst e \<noteq> f @ ''/''" if "e \<in> set (files t)" for e f
    using path_ok_last [OF k(2) [OF that]] by auto
  moreover have "distinct (map (\<lambda>f. f @ ''/'') (folders t))"
    using assms(1) by (simp add: tree_ok_def set_ok_def distinct_map inj_on_def)
  ultimately show "distinct (map fst (zip_entries t))"
    using assms(1) by (fastforce simp: zip_entries_def tree_ok_def map_ok_def comp_def)
  have A: "map entry_size (files t) = map (\<lambda>(p, d). length d) (files t)"
    using k(1) by (auto simp: entry_size_def)
  have B: "sum_list (map entry_size (map (\<lambda>f. (f @ ''/'', [])) fs)) = 0" for fs
    by (induction fs) (simp_all add: entry_size_def folder_entry_def)
  show "sum_list (map entry_size (zip_entries t)) \<le> MAX_TOTAL_UNCOMPRESSED"
    unfolding zip_entries_def map_append sum_list_append A B using assms(4) by simp
qed

lemma end_record_found:
  assumes "b = pre @ end_record n loc cen"
  shows "find_end_record b = Some (length pre)"
proof -
  have l: "length b - 22 + 1 = Suc (length pre)" by (simp add: assms)
  have "Get32 b (length pre) = END_OF_CENTRAL_DIR_SIG"
    unfolding assms by (simp add: Get_at end_record_def fields)
  then show ?thesis unfolding find_end_record_def l Let_def by (simp add: assms)
qed

lemma end_record_fields:
  assumes "b = pre @ end_record n loc cen"
  shows "Get16 b (length pre + 4) = 0" "Get16 b (length pre + 6) = 0" "Get16 b (length pre + 8) = of_nat n"
    "Get16 b (length pre + 10) = of_nat n" "Get32 b (length pre + 12) = of_nat (length cen)"
    "Get32 b (length pre + 16) = of_nat (length loc)"
  unfolding assms Get_after by (simp_all add: end_record_def fields)

lemma ReadZip_WriteZip:
  fixes z :: zlib and now :: dos_clock
  assumes z: "zlib_ok z" and t: "tree_ok t" "zip_entries t \<noteq> []"
    and names: "\<forall>f \<in> set (folders t). length f < 65535" "\<forall>(p, d) \<in> set (files t). length p < 65536"
    and limits: "sum_list (map (\<lambda>(p, d). length d) (files t)) \<le> MAX_TOTAL_UNCOMPRESSED"
      "length (zip_entries t) \<le> MAX_ENTRIES" "length (WriteZip z now t) \<le> MAX_ZIP_BYTES"
  shows "ReadZip z (WriteZip z now t) = Inr t"
proof -
  define es where "es = zip_entries t"
  define loc cen where "loc = locals z now es" and "cen = centrals z now 0 es"
  define b where "b = WriteZip z now t"
  have b: "b = (loc @ cen) @ end_record (length es) loc cen"
    by (simp add: b_def WriteZip_layout Let_def loc_def cen_def es_def)
  have len: "length b \<le> MAX_ZIP_BYTES" "length b = length loc + length cen + 22"
    using limits(3) by (simp_all add: b_def [symmetric] b)
  obtain e es' where e: "es = e # es'" using t(2) by (cases es) (auto simp: es_def)
  have first: "Get32 b 0 = LOCAL_HEADER_SIG"
    by (simp add: b loc_def e locals_def local_block_def local_octets_def fields)
  note F = end_record_fields [OF b] and O = zip_entries_ok [OF t(1) names limits(1), folded es_def]
  have n: "unat (of_nat (length es) :: u16) = length es" "unat (of_nat (length cen) :: u32) = length cen"
    "unat (of_nat (length loc) :: u32) = length loc"
    using limits(2) len by (simp_all add: es_def unat_small)
  have "read_entries z b (length (loc @ cen)) 0 (length es) (length loc) 0 new_Tree = Inr (fold add_entry es new_Tree)"
    by (rule read_entries_written [OF z len(1), where L = "[]"])
      (use O in \<open>simp_all add: b loc_def cen_def Has_def new_Tree_def\<close>)
  then show ?thesis
    unfolding b_def [symmetric] ReadZip_def end_record_found [OF b] option.case F n Let_def
    using len first limits(2) tree_rebuilt [OF t(1)] by (simp add: es_def)
qed

text \<open>
  C13: A CARI tree survives the zip: writing it and reading the zip back gives the tree itself, every
  folder, path and octet, at any time of day, for every well-formed tree that is not empty and stays
  below the reader's limits, provided inflating undoes deflating.
\<close>

theorem zip_roundtrip:
  fixes z :: zlib and now :: dos_clock
  assumes z: "zlib_ok z" and t: "tree_ok t" "zip_entries t \<noteq> []"
    and names: "\<forall>f \<in> set (folders t). length f < 65535" "\<forall>(p, d) \<in> set (files t). length p < 65536"
    and limits: "sum_list (map (\<lambda>(p, d). length d) (files t)) \<le> MAX_TOTAL_UNCOMPRESSED"
      "length (zip_entries t) \<le> MAX_ENTRIES" "length (WriteZip z now t) \<le> MAX_ZIP_BYTES"
  shows "ReadZip z (WriteZip z now t) = Inr t"
  using assms by (rule ReadZip_WriteZip)

text \<open>A zlib that stores, and a request with one note.\<close>

definition storing_zlib :: zlib where
  "storing_zlib = \<lparr>z_inflate = (\<lambda>b n. if length b = n then Some (Z_STREAM_END, b) else Some (Z_OTHER, [])),
     z_deflate = (\<lambda>b. b), z_crc32 = (\<lambda>b. of_nat (length b))\<rparr>"

lemma storing_zlib_ok: "zlib_ok storing_zlib"
  by (simp add: zlib_ok_def storing_zlib_def)

definition notes_tree :: Tree where
  "notes_tree = AddFile new_Tree ''cert1/request-notes.txt'' [0x68, 0x69]"

lemma notes_tree_ok: "tree_ok notes_tree"
  unfolding notes_tree_def
proof (rule AddFile_ok [OF new_Tree_ok safe_path_ok])
  show "IsSafeZipPath ''cert1/request-notes.txt''" by code_simp
qed simp

definition noon :: dos_clock where
  "noon = \<lparr>dc_year = 126, dc_mon = 0, dc_mday = 1, dc_hour = 12, dc_min = 0, dc_sec = 0\<rparr>"

theorem zip_roundtrip_witness: "ReadZip storing_zlib (WriteZip storing_zlib noon notes_tree) = Inr notes_tree"
proof (rule zip_roundtrip [OF storing_zlib_ok notes_tree_ok])
  have e: "notes_tree = \<lparr>files = [(''cert1/request-notes.txt'', [0x68, 0x69])], folders = [''cert1'']\<rparr>"
    unfolding notes_tree_def by code_simp
  show "zip_entries notes_tree \<noteq> []" "\<forall>f \<in> set (folders notes_tree). length f < 65535"
    "\<forall>(p, d) \<in> set (files notes_tree). length p < 65536"
    "sum_list (map (\<lambda>(p, d). length d) (files notes_tree)) \<le> MAX_TOTAL_UNCOMPRESSED"
    "length (zip_entries notes_tree) \<le> MAX_ENTRIES"
    unfolding e by (simp_all add: zip_entries_def)
  show "length (WriteZip storing_zlib noon notes_tree) \<le> MAX_ZIP_BYTES"
    by (simp add: e WriteZip_layout Let_def zip_entries_def locals_def local_block_def entry_body_def Deflate_def
        storing_zlib_def folder_entry_def)
qed

section \<open>Any archive\<close>

definition tree_size :: "Tree \<Rightarrow> nat" where
  "tree_size t = sum_list (map (\<lambda>(p, d). length d) (files t))"

lemma sum_list_map_insert:
  fixes f :: "'k::linorder \<times> 'v \<Rightarrow> nat"
  shows "map_of m k = None \<Longrightarrow> sum_list (map f (map_insert k v m)) = f (k, v) + sum_list (map f m)"
  by (induction k v m rule: map_insert.induct) (auto split: if_splits)

lemma find_member: "find P xs = Some x \<Longrightarrow> x \<in> set xs"
  by (auto simp: find_Some_iff)

lemma length_map_insert: "length (map_insert k v m) \<le> Suc (length m)"
  by (induction k v m rule: map_insert.induct) auto

lemma entry_data_size:
  "entry_data z b h name = Inr d \<Longrightarrow> length d = unat (ch_usize h)"
  by (auto simp: entry_data_def Inflate_def Let_def split: if_splits option.splits sum.splits)

lemma read_entry_cases:
  assumes "read_entry z b eocd i at acc t = Inr (at', acc', t')" "eocd \<le> length b"
    "tree_ok t" "tree_size t \<le> acc" "acc \<le> MAX_TOTAL_UNCOMPRESSED" "length (files t) \<le> i"
  shows "tree_ok t' \<and> tree_size t' \<le> acc' \<and> acc' \<le> MAX_TOTAL_UNCOMPRESSED \<and> length (files t') \<le> i + 1"
proof -
  obtain h where h: "central_header_at b at = Some h"
    using assms(1) by (auto simp: read_entry_def split: if_splits option.splits)
  define full where "full = text_of (take (unat (ch_nameLen h)) (drop (at + 46) b))"
  define fold' where "fold' = (full \<noteq> [] \<and> last full = CHR ''/'')"
  define nm where "nm = (if fold' then butlast full else full)"
  have safe: "IsSafeZipPath nm" and R: "if fold' then acc' = acc \<and> t' = AddFolder t nm
      else acc' = acc + unat (ch_usize h) \<and> acc' \<le> MAX_TOTAL_UNCOMPRESSED \<and> \<not> Has t nm \<and>
        (\<exists>d. entry_data z b h nm = Inr d \<and> t' = AddFile t nm d)"
    using assms(1) unfolding read_entry_def h option.case Let_def full_def [symmetric] fold'_def [symmetric]
      nm_def [symmetric]
    by (auto split: if_splits sum.splits)
  show ?thesis
  proof (cases fold')
    case True
    then show ?thesis using R assms safe by (simp add: AddFolder_ok tree_size_def)
  next
    case False
    with R obtain d where d: "entry_data z b h nm = Inr d" "t' = AddFile t nm d"
      and a: "acc' = acc + unat (ch_usize h)" "acc' \<le> MAX_TOTAL_UNCOMPRESSED" "\<not> Has t nm" by auto
    have "nm \<noteq> []" using safe by (simp add: IsSafeZipPath_def split: if_splits)
    then have "path_ok nm" using False safe by (intro safe_path_ok) (auto simp: nm_def fold'_def)
    moreover have "tree_size t' = length d + tree_size t"
      using a(3) by (simp add: d(2) tree_size_def Has_def sum_list_map_insert)
    ultimately show ?thesis
      using assms(3,4,6) a(1,2) entry_data_size [OF d(1)] length_map_insert [of nm d "files t"]
      by (simp add: d(2) AddFile_ok)
  qed
qed

lemma read_entry_in_bounds: "eocd + 22 \<le> length b \<Longrightarrow> read_entry z b eocd i at acc t \<noteq> Inl OutOfBounds"
proof -
  assume e: "eocd + 22 \<le> length b"
  have "entry_data z b h nm \<noteq> Inl OutOfBounds" for h nm
    by (auto simp: entry_data_def Let_def split: option.splits sum.splits if_splits)
  then show ?thesis
    using e by (auto simp: read_entry_def central_header_at_def Let_def split: sum.splits)
qed

lemma read_entries_cases:
  assumes "eocd + 22 \<le> length b"
  shows "tree_ok t \<Longrightarrow> tree_size t \<le> acc \<Longrightarrow> acc \<le> MAX_TOTAL_UNCOMPRESSED \<Longrightarrow> length (files t) \<le> i \<Longrightarrow>
    (case read_entries z b eocd i n at acc t of
       Inl e \<Rightarrow> e \<noteq> OutOfBounds
     | Inr t' \<Rightarrow> tree_ok t' \<and> tree_size t' \<le> MAX_TOTAL_UNCOMPRESSED \<and> length (files t') \<le> i + n)"
proof (induction n arbitrary: i at acc t)
  case (Suc n)
  show ?case
  proof (cases "read_entry z b eocd i at acc t")
    case (Inl e)
    then show ?thesis using read_entry_in_bounds [OF assms, of z i at acc t] by simp
  next
    case (Inr r)
    obtain at' acc' t' where r: "r = (at', acc', t')" by (cases r)
    have "tree_ok t' \<and> tree_size t' \<le> acc' \<and> acc' \<le> MAX_TOTAL_UNCOMPRESSED \<and> length (files t') \<le> i + 1"
      using read_entry_cases [OF Inr [unfolded r]] assms Suc.prems by simp
    then show ?thesis using Suc.IH [of t' acc' "i + 1" at'] Inr r by (simp split: sum.splits)
  qed
qed auto


end
