(* ===== verification/Cert_Layout_Properties.thy ===== *)
theory Cert_Layout_Properties
  imports Cert_Layout Cari_Rules Cari_Paths
begin

text \<open>
  Properties of the certificate layout: which paths \<open>ResolveNodeCertPaths\<close> chooses, and that they
  are a layout the certificate store can work with.
\<close>

section \<open>The paths of a node\<close>

text \<open>Told apart by their ends.\<close>

lemma node_paths_distinct:
  fixes d f :: string and inst :: u32
  defines "p \<equiv> FillCari d f inst"
  shows "distinct [np_operationalCertificate p, np_issuerCertificate1 p, np_issuerCertificate2 p,
      np_certificateSigningRequest p, np_privateKey p, np_pendingPrivateKey p]"
    "\<forall>q \<in> {np_operationalCertificate p, np_issuerCertificate1 p, np_issuerCertificate2 p,
      np_certificateSigningRequest p, np_privateKey p, np_pendingPrivateKey p}. take 4 (rev q) = ''mep.''"
proof -
  have tails: "take 13 (rev (f @ ''/opr-node.pem'')) = ''mep.edon-rpo/''"
    "take 13 (rev (f @ ''/csr-node.pem'')) = ''mep.edon-rsc/''"
    "take 13 (rev (f @ ''/key-node.pem'')) = ''mep.edon-yek/''"
    "take 13 (rev ''cert1/issuer/iss-1.pem'') = ''mep.1-ssi/reu''"
    "take 13 (rev ''cert1/issuer/iss-2.pem'') = ''mep.2-ssi/reu''"
    "take 13 (rev ''key-node-pending.pem'') = ''mep.gnidnep-e''"
    by simp_all
  have neq: "a \<noteq> b" if "take 13 (rev a) = x" "take 13 (rev b) = y" "x \<noteq> y" for a b x y :: string
    using that by auto
  note ne = neq [OF tails(1) tails(2)] neq [OF tails(1) tails(3)] neq [OF tails(1) tails(4)]
    neq [OF tails(1) tails(5)] neq [OF tails(1) tails(6)] neq [OF tails(2) tails(3)]
    neq [OF tails(2) tails(4)] neq [OF tails(2) tails(5)] neq [OF tails(2) tails(6)]
    neq [OF tails(3) tails(4)] neq [OF tails(3) tails(5)] neq [OF tails(3) tails(6)]
    neq [OF tails(4) tails(5)] neq [OF tails(4) tails(6)] neq [OF tails(5) tails(6)]
  show "distinct [np_operationalCertificate p, np_issuerCertificate1 p, np_issuerCertificate2 p,
      np_certificateSigningRequest p, np_privateKey p, np_pendingPrivateKey p]"
    using ne [symmetric] ne by (simp add: p_def FillCari_def JoinPath_def)
  show "\<forall>q \<in> {np_operationalCertificate p, np_issuerCertificate1 p, np_issuerCertificate2 p,
      np_certificateSigningRequest p, np_privateKey p, np_pendingPrivateKey p}. take 4 (rev q) = ''mep.''"
    by (simp add: p_def FillCari_def JoinPath_def path_append_prefix)
qed

lemma tmp_of_end: "take 4 (rev (tmp_of q)) = ''pmt.''"
  by (simp add: tmp_of_def)

lemma node_layout_FillCari: "layout_ok (node_layout (FillCari d f inst))"
proof -
  let ?p = "FillCari d f inst"
  note D = node_paths_distinct(1) [of d f inst] and E = node_paths_distinct(2) [of d f inst]
  have "p \<noteq> tmp_of q" if "take 4 (rev p) = ''mep.''" for p q
    using that tmp_of_end [of q] by auto
  moreover have "p \<noteq> []" if "take 4 (rev p) = ''mep.''" for p :: path using that by auto
  ultimately have "layout_ok (sc_layout (np_operationalCertificate ?p) (np_issuerCertificate1 ?p)
      (np_issuerCertificate2 ?p) (np_certificateSigningRequest ?p) (np_privateKey ?p) (np_pendingPrivateKey ?p))"
    using E by (intro sc_layout_ok [OF D]) blast+
  then show ?thesis by (simp add: node_layout_def CertificateFilePath_def)
qed

section \<open>The folder chosen\<close>

lemma StartsWith_device: "StartsWith s ''device-'' \<longleftrightarrow> take 7 s = ''device-''"
  by (simp add: StartsWith_def eval_nat_numeral)

lemma ParseDeviceFolder_DeviceInstance: "ParseDeviceFolder = DeviceInstance"
  by (auto simp: fun_eq_iff ParseDeviceFolder_def DeviceInstance_def StartsWith_device Let_def)

lemma decimal_length: "n < 10 ^ k \<Longrightarrow> 0 < k \<Longrightarrow> length (decimal n) \<le> k"
proof (induction n arbitrary: k rule: decimal.induct)
  case (1 n)
  show ?case
  proof (cases "n < 10")
    case False
    then obtain j where k: "k = Suc j" "0 < j" using 1(2,3) by (cases k; cases "k - 1") auto
    then have "n div 10 < 10 ^ j" using 1(2) by (simp add: div_less_iff_less_mult mult.commute)
    then show ?thesis using 1(1) [OF False, of j] False k by (subst decimal.simps) simp
  qed (use 1 in \<open>subst decimal.simps, simp\<close>)
qed

lemma own_folder_name:
  assumes "inst \<le> (4194302 :: u32)"
  shows "DeviceInstance (''device-'' @ decimal (unat inst)) = Some inst"
proof -
  have i: "unat inst \<le> 4194302" using assms by (simp add: word_le_nat_alt)
  have "length (decimal (unat inst)) \<le> 7" using i by (intro decimal_length) simp_all
  moreover have "list_ex (\<lambda>c. \<not> is_digit c) (decimal (unat inst)) = False"
    using decimal_digits by (auto simp: list_ex_iff)
  ultimately show ?thesis
    using i decimal_digits [of "unat inst"] by (simp add: DeviceInstance_def StartsWith_def strtoul_decimal)
qed

lemma DeviceInstance_name:
  assumes "DeviceInstance name = Some i"
  shows "\<exists>ds. name = ''device-'' @ ds \<and> ds \<noteq> [] \<and> (\<forall>c \<in> set ds. is_digit c) \<and> i \<le> 4194302"
proof (intro exI conjI)
  have "take 7 name = ''device-''" using assms by (simp add: DeviceInstance_def StartsWith_device split: if_splits)
  then show n: "name = ''device-'' @ drop 7 name" by (metis append_take_drop_id)
  have "length name \<noteq> 7" using assms by (auto simp: DeviceInstance_def split: if_splits)
  moreover have "7 \<le> length name" by (subst n) simp
  ultimately show "drop 7 name \<noteq> []" by simp
  show "\<forall>c \<in> set (drop 7 name). is_digit c"
    using assms by (auto simp: DeviceInstance_def list_ex_iff Let_def split: if_splits)
  obtain v where v: "i = of_nat v" "v \<le> 4194302"
    using assms by (auto simp: DeviceInstance_def Let_def split: if_splits)
  then have "unat i = v" by (simp add: unat_of_nat take_bit_nat_eq_self)
  with v show "i \<le> 4194302" by (simp add: word_le_nat_alt)
qed

lemma FindNodePorts_iff:
  "(folder, i) \<in> set (FindNodePorts w d) \<longleftrightarrow>
     (\<exists>name. (name, True) \<in> set (c1_entries w) \<and> DeviceInstance name = Some i \<and>
        folder = ''cert1/'' @ name @ ''/port-4'' \<and>
        (c1_exists w (np_privateKey (FillCari d folder i)) \<or>
         c1_exists w (np_certificateSigningRequest (FillCari d folder i)) \<or>
         c1_exists w (np_operationalCertificate (FillCari d folder i))))"
proof -
  define entry where "entry = (\<lambda>name isDirectory.
       case (if isDirectory then DeviceInstance name else None) of
         None \<Rightarrow> None
       | Some inst \<Rightarrow>
           (let folder = ''cert1/'' @ name @ ''/port-'' @ NODE_PORT_ID; port = path_append d folder in
            if c1_exists w (port @ ''/key-'' @ NODE_FILE_NAME @ ''.pem'') \<or>
               c1_exists w (port @ ''/csr-'' @ NODE_FILE_NAME @ ''.pem'') \<or>
               c1_exists w (port @ ''/opr-'' @ NODE_FILE_NAME @ ''.pem'')
            then Some (folder, inst) else None))"
  have m: "y \<in> set (List.map_filter f xs) \<longleftrightarrow> (\<exists>x \<in> set xs. f x = Some y)"
    for y :: "string \<times> u32" and f and xs :: "(string \<times> bool) list"
    by (force simp: map_filter_def)
  have pa: "path_append d x @ y = path_append d (x @ y)" for x y by (simp add: path_append_prefix)
  show ?thesis
  proof -
    have e: "entry name b = Some (folder, i) \<longleftrightarrow> b \<and> DeviceInstance name = Some i \<and>
        folder = ''cert1/'' @ name @ ''/port-4'' \<and>
        (c1_exists w (np_privateKey (FillCari d folder i)) \<or>
         c1_exists w (np_certificateSigningRequest (FillCari d folder i)) \<or>
         c1_exists w (np_operationalCertificate (FillCari d folder i)))" for name b
      by (cases b; cases "DeviceInstance name")
        (auto simp add: entry_def Let_def FillCari_def JoinPath_def pa)
    have "(folder, i) \<in> set (FindNodePorts w d) \<longleftrightarrow>
        (\<exists>x \<in> set (c1_entries w). (case x of (name, b) \<Rightarrow> entry name b) = Some (folder, i))"
      unfolding FindNodePorts_def m ParseDeviceFolder_DeviceInstance entry_def ..
    also have "\<dots> \<longleftrightarrow> (\<exists>name b. (name, b) \<in> set (c1_entries w) \<and> entry name b = Some (folder, i))"
      by force
    finally show ?thesis unfolding e ex_bool_eq by simp
  qed
qed

text \<open>The port folders the program takes into account.\<close>

definition node_ports :: "cert1_dir \<Rightarrow> string \<Rightarrow> (string \<times> u32) list" where
  "node_ports w d = (if c1_present w then FindNodePorts w d else [])"

lemma chosen_port_cases:
  assumes "ports \<noteq> []"
  shows "chosen_port ports i \<in> set ports" "(folder, i) \<in> set ports \<Longrightarrow> snd (chosen_port ports i) = i"
proof -
  have "p \<in> set ports" "snd p = i" if "find (\<lambda>p. snd p = i) (rev ports) = Some p" for p
    using that nth_mem [of _ "rev ports"] by (auto simp: find_Some_iff simp del: nth_mem)
  then show "chosen_port ports i \<in> set ports"
    using assms by (auto simp: chosen_port_def split: option.split)
  assume "(folder, i) \<in> set ports"
  then have "find (\<lambda>p. snd p = i) (rev ports) \<noteq> None" by (auto simp: find_None_iff)
  then show "snd (chosen_port ports i) = i"
    using \<open>\<And>p. find (\<lambda>p. snd p = i) (rev ports) = Some p \<Longrightarrow> snd p = i\<close>
    by (auto simp: chosen_port_def split: option.split)
qed

lemma resolved:
  "ResolveNodeCertPaths w d inst =
     (let ports = node_ports w d; chosen = chosen_port ports inst in
      if ports = [] then NewNodeCertPaths d inst
      else (FillCari d (fst chosen) (snd chosen))\<lparr>np_note := port_note ports chosen inst\<rparr>)"
  by (simp add: ResolveNodeCertPaths_def node_ports_def Let_def)

lemma node_layout_note [simp]: "node_layout (p\<lparr>np_note := t\<rparr>) = node_layout p"
  by (simp add: node_layout_def CertificateFilePath_def)

lemma note_fields: "np_note (p\<lparr>np_note := t\<rparr>) = t" "np_portFolder (p\<lparr>np_note := t\<rparr>) = np_portFolder p"
  "np_folderDeviceInstance (p\<lparr>np_note := t\<rparr>) = np_folderDeviceInstance p"
  "np_privateKey (p\<lparr>np_note := t\<rparr>) = np_privateKey p"
  "np_certificateSigningRequest (p\<lparr>np_note := t\<rparr>) = np_certificateSigningRequest p"
  "np_operationalCertificate (p\<lparr>np_note := t\<rparr>) = np_operationalCertificate p"
  by simp_all

lemma FillCari_fields [simp]: "np_portFolder (FillCari d f i) = f" "np_folderDeviceInstance (FillCari d f i) = i"
  "np_note (FillCari d f i) = []"
  by (simp_all add: FillCari_def)

lemma port_note_empty: "port_note ports chosen inst = [] \<longleftrightarrow> snd chosen = inst \<and> length ports \<le> 1"
  by (auto simp: port_note_def Let_def)

lemma device_name_ok: "DeviceInstance name = Some i \<Longrightarrow> part_ok name"
proof -
  assume "DeviceInstance name = Some i"
  then obtain ds where ds: "name = ''device-'' @ ds" "\<forall>c \<in> set ds. is_digit c"
    using DeviceInstance_name by blast
  have plain: "list_all (\<lambda>c. \<not> control_char c \<and> c \<noteq> CHR ''/'' \<and> c \<noteq> CHR 0x5C \<and> c \<noteq> CHR '':'') ''device-0123456789''"
    by code_simp
  have "set ds \<subseteq> set ''0123456789''" using ds(2) unfolding is_digit_def by blast
  then have "set name \<subseteq> set ''device-0123456789''" unfolding ds(1) by fastforce
  then have "list_all (\<lambda>c. \<not> control_char c \<and> c \<noteq> CHR ''/'' \<and> c \<noteq> CHR 0x5C \<and> c \<noteq> CHR '':'') name"
    using plain unfolding list_all_iff by blast
  then show ?thesis unfolding part_ok_def by (simp add: ds(1))
qed

lemma port_folder_ok:
  assumes "DeviceInstance name = Some i"
  shows "path_ok (''cert1/'' @ name @ ''/port-4'')"
proof -
  have "part_ok ''cert1'' \<and> part_ok ''port-4''" by code_simp
  then show ?thesis
    unfolding path_ok_def using device_name_ok [OF assms]
    by (intro exI [of _ "[''cert1'', name, ''port-4'']"]) simp
qed


text \<open>Two folders, the second one this device's.\<close>

definition two_devices :: cert1_dir where
  "two_devices = \<lparr>c1_present = True, c1_entries = [(''device-7'', True), (''issuer'', True), (''device-9'', True)],
     c1_exists = (\<lambda>p. p \<in> {''certs/cert1/device-7/port-4/csr-node.pem'', ''certs/cert1/device-9/port-4/key-node.pem''})\<rparr>"

lemma two_devices_own: "(''cert1/device-9/port-4'', 9) \<in> set (node_ports two_devices ''certs'')"
proof -
  have "DeviceInstance ''device-9'' = Some 9"
    using own_folder_name [of 9] by (simp add: decimal.simps digit_char_def)
  moreover have "c1_exists two_devices (np_privateKey (FillCari ''certs'' ''cert1/device-9/port-4'' 9))"
    by (simp add: two_devices_def FillCari_def JoinPath_def path_append_def)
  ultimately have "(''cert1/device-9/port-4'', 9) \<in> set (FindNodePorts two_devices ''certs'')"
    unfolding FindNodePorts_iff by (intro exI [of _ "''device-9''"]) (simp add: two_devices_def)
  then show ?thesis by (simp add: node_ports_def two_devices_def)
qed


end
