(* ===== verification/Cert_Tool_Properties.thy ===== *)
theory Cert_Tool_Properties
  imports Cert_Tool Cari_Properties Cert_Layout_Properties "HOL-Library.Multiset"
begin

text \<open>
  Properties of the certificate request and of the import of its answer: what an accepted response
  was checked for, what an import changes, and what a request contains.
\<close>

section \<open>The certificate for this device's key\<close>

definition certificate_for ::
  "('cert, 'key, 'req) tool_crypto \<Rightarrow> 'key \<Rightarrow> Tree \<Rightarrow> string \<Rightarrow> 'cert \<Rightarrow> bool" where
  "certificate_for cr key t path c \<longleftrightarrow>
     CertFromBytes cr (file_of t path) = Some c \<and> sameKey cr (certKey cr c) key"

lemma find_operational_iff:
  "find_operational cr key t ps = Some (source, c) \<longleftrightarrow>
     (\<exists>pre post. ps = pre @ source # post \<and> certificate_for cr key t source c \<and>
        (\<forall>p \<in> set pre. \<forall>c'. \<not> certificate_for cr key t p c'))"
proof (induction ps)
  case (Cons p ps)
  define Q where "Q = (\<lambda>pre. certificate_for cr key t source c \<and> (\<forall>p \<in> set pre. \<forall>c'. \<not> certificate_for cr key t p c'))"
  have split: "(\<exists>pre post. p # ps = pre @ source # post \<and> Q pre) \<longleftrightarrow>
      (source = p \<and> Q []) \<or> (\<exists>pre post. ps = pre @ source # post \<and> Q (p # pre))"
    by (auto simp: Cons_eq_append_conv)
  have "find_operational cr key t (p # ps) = Some (source, c) \<longleftrightarrow>
      (source = p \<and> Q []) \<or> (\<exists>pre post. ps = pre @ source # post \<and> Q (p # pre))"
  proof (cases "\<exists>c'. certificate_for cr key t p c'")
    case True
    then obtain c' where c': "certificate_for cr key t p c'" by blast
    then have "find_operational cr key t (p # ps) = Some (p, c')" by (simp add: certificate_for_def)
    then show "find_operational cr key t (p # ps) = Some (source, c) \<longleftrightarrow>
        (source = p \<and> Q []) \<or> (\<exists>pre post. ps = pre @ source # post \<and> Q (p # pre))"
      using c' by (auto simp: Q_def certificate_for_def)
  next
    case False
    then have "find_operational cr key t (p # ps) = find_operational cr key t ps"
      by (auto simp: certificate_for_def split: option.split)
    then show "find_operational cr key t (p # ps) = Some (source, c) \<longleftrightarrow>
        (source = p \<and> Q []) \<or> (\<exists>pre post. ps = pre @ source # post \<and> Q (p # pre))"
      using False Cons.IH by (auto simp: Q_def)
  qed
  then show ?case unfolding split [symmetric] by (simp add: Q_def)
qed simp

section \<open>The issuers\<close>

definition issuer_file :: "string \<Rightarrow> bool" where
  "issuer_file path \<longleftrightarrow> StartsWith path ''cert1/issuer/'' \<and> StartsWith (BaseName path) ''iss-''"

definition issuer_files :: "Tree \<Rightarrow> bytes list" where
  "issuer_files t = map snd (filter (\<lambda>f. issuer_file (fst f)) (files t))"

lemma read_issuers_iff:
  "read_issuers cr fs = Inr cs \<longleftrightarrow>
     map (CertFromBytes cr) (map snd (filter (\<lambda>f. issuer_file (fst f)) fs)) = map Some cs \<and> list_all (checkCa cr) cs"
proof (induction fs arbitrary: cs)
  case (Cons f fs)
  obtain p b where f: "f = (p, b)" by (cases f)
  show ?case
  proof (cases "issuer_file p")
    case True
    then have rd: "read_issuers cr (f # fs) = (case CertFromBytes cr b of
        None \<Rightarrow> Inl (IssuerUnreadable p)
      | Some c \<Rightarrow> (if \<not> checkCa cr c then Inl (IssuerNotCa p)
                  else case read_issuers cr fs of Inl e \<Rightarrow> Inl e | Inr cs \<Rightarrow> Inr (c # cs)))"
      by (simp add: f issuer_file_def)
    show ?thesis
      using True Cons.IH [of "tl cs"] unfolding rd
      by (cases cs) (auto simp: f split: option.split sum.split)
  next
    case False
    then have "read_issuers cr (f # fs) = read_issuers cr fs"
      by (simp only: f issuer_file_def read_issuers.simps if_False)
    then show ?thesis using Cons.IH False by (simp add: f)
  qed
qed auto

lemma signer_first_Some:
  "signer_first cr leaf before cs = Some ys \<Longrightarrow>
     mset ys = mset before + mset cs \<and> ys \<noteq> [] \<and> signs cr (hd ys) leaf"
  by (induction cs arbitrary: before) (auto split: if_splits)

lemma signer_first_None: "signer_first cr leaf before cs = None \<longleftrightarrow> (\<forall>c \<in> set cs. \<not> signs cr c leaf)"
  by (induction cs arbitrary: before) auto

section \<open>An accepted response\<close>

definition own_key :: "('cert, 'key, 'req) tool_crypto \<Rightarrow> NodeCertPaths \<Rightarrow> tool_state \<Rightarrow> 'key option" where
  "own_key cr np s =
     (if tool_exists s (np_certificateSigningRequest np)
      then Option.bind (ReqFromBytes cr (ToolReadFile s (np_certificateSigningRequest np))) (reqKey cr)
      else None)"

text \<open>
  What the import demands of a response: the certificate is the first in the zip made for this
  device's key, it has not expired, every issuer file is a CA certificate, there are one or two, and
  the first one installed signed the certificate.
\<close>

definition genuine ::
  "('cert, 'key, 'req) tool_crypto \<Rightarrow> zlib \<Rightarrow> NodeCertPaths \<Rightarrow> tool_state \<Rightarrow> bytes \<Rightarrow> string \<Rightarrow> 'cert \<Rightarrow> 'cert list \<Rightarrow> bool" where
  "genuine cr z np s b source leaf issuers \<longleftrightarrow>
     (\<exists>t key. ReadZip z b = Inr t \<and> own_key cr np s = Some key \<and>
        (\<exists>pre post. candidates np t = pre @ source # post \<and> certificate_for cr key t source leaf \<and>
           (\<forall>p \<in> set pre. \<forall>c. \<not> certificate_for cr key t p c)) \<and>
        \<not> expired cr leaf \<and>
        image_mset (CertFromBytes cr) (mset (issuer_files t)) = image_mset Some (mset issuers) \<and>
        list_all (checkCa cr) issuers \<and> length issuers \<in> {1, 2} \<and> signs cr (hd issuers) leaf \<and>
        certPem cr leaf \<noteq> [] \<and> [] \<notin> set (map (certPem cr) issuers))"

lemma read_issuers_files:
  "read_issuers cr (files t) = Inr cs \<longleftrightarrow>
     map (CertFromBytes cr) (issuer_files t) = map Some cs \<and> list_all (checkCa cr) cs"
  unfolding read_issuers_iff issuer_files_def ..

lemma ReadCariResponse_genuine:
  assumes "ReadCariResponse cr z np s b = Inr f"
  shows "\<exists>leaf issuers. genuine cr z np s b (rf_source f) leaf issuers \<and>
    rf_operationalCertificate f = certPem cr leaf \<and> rf_issuers f = map (certPem cr) issuers"
proof -
  obtain t where t: "ReadZip z b = Inr t"
    using assms by (auto simp: ReadCariResponse_def split: sum.splits)
  obtain key where key: "own_key cr np s = Some key"
    using assms t by (auto simp: ReadCariResponse_def own_key_def split: if_splits option.splits)
  have ex: "tool_exists s (np_certificateSigningRequest np)" "Option.bind (ReqFromBytes cr
      (ToolReadFile s (np_certificateSigningRequest np))) (reqKey cr) = Some key"
    using key by (auto simp: own_key_def split: if_splits)
  note A = assms [unfolded ReadCariResponse_def t sum.case ex if_not_P if_P option.case, simplified ex, simplified]
  obtain source leaf where leaf: "find_operational cr key t (candidates np t) = Some (source, leaf)"
    using A by (auto split: if_splits option.splits)
  obtain issuers where iss: "read_issuers cr (files t) = Inr issuers"
    using A leaf by (auto split: if_splits sum.splits)
  obtain ordered where ord: "signer_first cr leaf [] issuers = Some ordered"
    using A leaf iss by (auto split: if_splits option.splits)
  have F: "\<not> expired cr leaf" "length ordered \<le> 2" "[] \<notin> set (map (certPem cr) ordered)" "certPem cr leaf \<noteq> []"
    "f = \<lparr>rf_operationalCertificate = certPem cr leaf, rf_issuers = map (certPem cr) ordered, rf_source = source\<rparr>"
    using A leaf iss ord by (auto split: if_splits)
  note S = signer_first_Some [OF ord] and I = iss [unfolded read_issuers_files]
  have m: "mset ordered = mset issuers" using S by simp
  then have "list_all (checkCa cr) ordered" using I by (metis list_all_iff set_mset_mset)
  moreover have "image_mset (CertFromBytes cr) (mset (issuer_files t)) = image_mset Some (mset ordered)"
    using I m by (metis mset_map)
  moreover have "length ordered \<in> {1, 2}"
  proof -
    have "length ordered \<noteq> 0" using S by simp
    then have "length ordered = 1 \<or> length ordered = 2" using F(2) by linarith
    then show ?thesis by simp
  qed
  ultimately have "genuine cr z np s b source leaf ordered"
    unfolding genuine_def using t key leaf [unfolded find_operational_iff] F S by blast
  then show ?thesis using F(5) by auto
qed

lemma genuine_ReadCariResponse:
  assumes "genuine cr z np s b source leaf issuers"
  shows "\<exists>f. ReadCariResponse cr z np s b = Inr f"
proof -
  obtain t key where G: "ReadZip z b = Inr t" "own_key cr np s = Some key"
      "find_operational cr key t (candidates np t) = Some (source, leaf)" "\<not> expired cr leaf"
      "image_mset (CertFromBytes cr) (mset (issuer_files t)) = image_mset Some (mset issuers)"
      "list_all (checkCa cr) issuers" "length issuers \<in> {1, 2}" "signs cr (hd issuers) leaf"
      "certPem cr leaf \<noteq> []" "[] \<notin> set (map (certPem cr) issuers)"
    using assms unfolding genuine_def find_operational_iff by blast
  have ex: "tool_exists s (np_certificateSigningRequest np)" "Option.bind (ReqFromBytes cr
      (ToolReadFile s (np_certificateSigningRequest np))) (reqKey cr) = Some key"
    using G(2) by (auto simp: own_key_def split: if_splits)
  define cs where "cs = map (the \<circ> CertFromBytes cr) (issuer_files t)"
  have C: "mset (map (CertFromBytes cr) (issuer_files t)) = mset (map Some issuers)" using G(5) by simp
  then have "set (map (CertFromBytes cr) (issuer_files t)) = set (map Some issuers)" by (rule mset_eq_setD)
  then have "CertFromBytes cr ` set (issuer_files t) = Some ` set issuers" by simp
  then have "CertFromBytes cr x \<in> Some ` set issuers" if "x \<in> set (issuer_files t)" for x using that by blast
  then have "CertFromBytes cr x = Some (the (CertFromBytes cr x))" if "x \<in> set (issuer_files t)" for x
    using that by fastforce
  then have "map (CertFromBytes cr) (issuer_files t) = map Some cs" unfolding cs_def by simp
  moreover have "image_mset the (mset (map (CertFromBytes cr) (issuer_files t))) = image_mset the (mset (map Some issuers))"
    unfolding C ..
  then have m: "mset cs = mset issuers" by (simp add: cs_def image_mset.compositionality comp_def)
  then have s: "set cs = set issuers" by (rule mset_eq_setD)
  ultimately have I: "read_issuers cr (files t) = Inr cs"
    using G(6) unfolding read_issuers_files by (simp add: list_all_iff)
  have ne: "issuers \<noteq> []" "cs \<noteq> []" using G(7) s by auto
  then have "signer_first cr leaf [] cs \<noteq> None" using G(8) s unfolding signer_first_None by (metis hd_in_set)
  then obtain ordered where O: "signer_first cr leaf [] cs = Some ordered" by blast
  then have "mset ordered = mset issuers" using signer_first_Some [OF O] m by simp
  then have "set ordered = set issuers" "length ordered = length issuers"
    by (auto dest: mset_eq_setD mset_eq_length)
  then have "\<not> 2 < length ordered" "\<not> ([] \<in> set (map (certPem cr) ordered) \<or> certPem cr leaf = [])"
    using G(7,9,10) by auto
  moreover have "candidates np t \<noteq> []" using G(3) by auto
  ultimately show ?thesis
    unfolding ReadCariResponse_def using G(1,3,4) ex I ne(2) O by simp
qed

section \<open>What an import changes\<close>

lemma ToolWriteFile_simps:
  "opens env p \<Longrightarrow> ToolWriteFile env p c False s =
     (s\<lparr>store := (store s)\<lparr>disk := (disk (store s))(p \<mapsto> \<lparr>fileBytes = keeps env p c, fileModified = toolTime env\<rparr>)\<rparr>\<rparr>, True)"
  "\<not> opens env p \<Longrightarrow> ToolWriteFile env p c priv s = (s, False)"
  by (simp_all add: ToolWriteFile_def)

definition installed :: "NodeCertPaths \<Rightarrow> path list" where
  "installed np = [np_operationalCertificate np, np_issuerCertificate1 np, np_issuerCertificate2 np]"

definition file_bytes :: "tool_state \<Rightarrow> path \<Rightarrow> bytes option" where
  "file_bytes s p = map_option fileBytes (disk (store s) p)"

lemma import_steps:
  fixes np :: NodeCertPaths
  assumes "distinct (installed np)" "rf_issuers f \<noteq> []" "length (rf_issuers f) \<le> 2"
    "tool_exists s zipPath" "ReadCariResponse cr z np s (ToolReadFile s zipPath) = Inr f"
  shows "case ImportCariResponse cr z env np zipPath s of (s', ok) \<Rightarrow>
      disk (store s') |` (- set (installed np)) = disk (store s) |` (- set (installed np)) \<and>
      ownerOnly s' = ownerOnly s \<and> (ok \<longleftrightarrow> list_all (opens env) (installed np)) \<and>
      (ok \<longrightarrow> map (file_bytes s') (installed np) =
        map Some (map2 (keeps env) (installed np) [rf_operationalCertificate f, hd (rf_issuers f), last (rf_issuers f)]))"
proof -
  obtain a as where iss: "rf_issuers f = a # as" "as = [] \<or> (\<exists>b. as = [b])"
    using assms(2,3) by (cases "rf_issuers f"; cases "tl (rf_issuers f)") auto
  have second: "1 < length (rf_issuers f) \<Longrightarrow> rf_issuers f ! 1 = last (rf_issuers f)"
    "\<not> 1 < length (rf_issuers f) \<Longrightarrow> rf_issuers f ! 0 = last (rf_issuers f)"
    "rf_issuers f ! 0 = hd (rf_issuers f)"
    using iss by auto
  show ?thesis
    using assms(1) second unfolding ImportCariResponse_def
    by (auto simp: assms(4,5) installed_def ToolWriteFile_def file_bytes_def restrict_map_def fun_eq_iff split: if_splits)
qed

lemma resolved_distinct: "distinct (installed (ResolveNodeCertPaths w d inst))"
proof -
  have D: "distinct (installed (FillCari d f i))" for f i
    using node_paths_distinct(1) [of d f i] by (simp add: installed_def)
  show ?thesis
    unfolding resolved Let_def NewNodeCertPaths_def using D by (simp add: installed_def)
qed


end
