(* ===== verification/Request_Properties.thy ===== *)
theory Request_Properties
  imports Cert_Tool_Properties
begin

text \<open>
  Properties of the certificate request: no file that exists is ever overwritten, the key is made
  once, and the zip holds the request, its notes and nothing else.
\<close>

section \<open>The tree of a request\<close>

definition request_notes :: "u32 \<Rightarrow> bytes" where
  "request_notes i = octets_of (replace_first ''%INSTANCE%'' (decimal (unat i)) REQUEST_NOTES)"

definition csr_zip_path :: "NodeCertPaths \<Rightarrow> string" where
  "csr_zip_path np = np_portFolder np @ ''/csr-node.pem''"

lemma BaseName_slash: "CHR ''/'' \<notin> set file \<Longrightarrow> BaseName (dir @ ''/'' @ file) = file"
proof -
  assume "CHR ''/'' \<notin> set file"
  then have "takeWhile (\<lambda>c. c \<noteq> CHR ''/'') (rev file @ CHR ''/'' # rev dir) = rev file"
    by (subst takeWhile_append2) auto
  then show ?thesis by (simp add: BaseName_def)
qed

lemma append_not_less [simp]: "\<not> (s @ t < (s :: string))"
  by (induction s) auto

lemma parts_ok: "part_ok ''cert1''" "part_ok ''port-4''" "part_ok ''csr-node.pem''" "part_ok ''request-notes.txt''"
  by code_simp+

lemma request_tree_shape:
  assumes name: "DeviceInstance name = Some i"
    and pf: "np_portFolder np = ''cert1/'' @ name @ ''/port-4''"
    and csr: "np_certificateSigningRequest np = dir @ ''/csr-node.pem''"
  shows "request_tree np csr =
    \<lparr>files = [(csr_zip_path np, csr), (''cert1/request-notes.txt'', request_notes (np_folderDeviceInstance np))],
     folders = [''cert1'', ''cert1/'' @ name, np_portFolder np]\<rparr>"
proof -
  have ok: "list_all part_ok [''cert1'', name, ''port-4'']" using device_name_ok [OF name] parts_ok by simp
  have p3: "np_portFolder np = join [''cert1'', name, ''port-4'']" by (simp add: pf)
  have par: "parent_of (csr_zip_path np) = Some (np_portFolder np)"
    using parent_of_join [of "[''cert1'', name, ''port-4'']" "''csr-node.pem''"] ok parts_ok
    unfolding p3 csr_zip_path_def by simp
  have base: "BaseName (np_certificateSigningRequest np) = ''csr-node.pem''"
    unfolding csr using BaseName_slash [of "''csr-node.pem''" dir] by simp
  have "Split (np_portFolder np) = [''cert1'', name, ''port-4'']" unfolding p3 using ok by (rule Split_join)
  then have t1: "AddFile new_Tree (csr_zip_path np) csr =
      \<lparr>files = [(csr_zip_path np, csr)], folders = [''cert1'', ''cert1/'' @ name, np_portFolder np]\<rparr>"
    unfolding AddFile_def par by (simp add: AddFolder_def new_Tree_def pf Let_def)
  have par2: "parent_of ''cert1/request-notes.txt'' = Some ''cert1''" by (simp add: parent_of_def)
  have split2: "Split ''cert1'' = [''cert1'']" by (simp add: Split_def)
  obtain ds where ds: "name = ''device-'' @ ds" using DeviceInstance_name [OF name] by blast
  have less: "csr_zip_path np < ''cert1/request-notes.txt''"
    by (simp add: csr_zip_path_def pf ds less_char_def)
  have "request_tree np csr = AddFile (AddFile new_Tree (csr_zip_path np) csr) ''cert1/request-notes.txt''
      (request_notes (np_folderDeviceInstance np))"
    by (simp add: request_tree_def base csr_zip_path_def request_notes_def)
  also have "\<dots> = \<lparr>files = [(csr_zip_path np, csr), (''cert1/request-notes.txt'', request_notes (np_folderDeviceInstance np))],
     folders = [''cert1'', ''cert1/'' @ name, np_portFolder np]\<rparr>"
    using less order_less_asym [OF less] less_imp_neq [OF less, symmetric]
    unfolding t1 unfolding AddFile_def par2 by (simp add: AddFolder_def split2 Let_def)
  finally show ?thesis .
qed

lemma name_facts:
  "FileName ''csr-node.pem'' ''csr-'' = Some ''node''" "StartsWith ''port-4'' ''port-''" "IsValidName ''4''"
  by code_simp+

lemma request_splits:
  assumes "DeviceInstance name = Some i"
  shows "Split ''cert1'' = [''cert1'']" "Split (''cert1/'' @ name) = [''cert1'', name]"
    "Split (''cert1/'' @ name @ ''/port-4'') = [''cert1'', name, ''port-4'']"
    "Split (''cert1/'' @ name @ ''/port-4/csr-node.pem'') = [''cert1'', name, ''port-4'', ''csr-node.pem'']"
    "Split ''cert1/request-notes.txt'' = [''cert1'', ''request-notes.txt'']"
proof -
  have ok: "list_all part_ok [''cert1'', name, ''port-4'', ''csr-node.pem'']"
    "list_all part_ok [''cert1'', ''request-notes.txt'']"
    using device_name_ok [OF assms] parts_ok by simp_all
  then have "Split (join ps) = ps" if "ps \<in> {[''cert1''], [''cert1'', name], [''cert1'', name, ''port-4''],
      [''cert1'', name, ''port-4'', ''csr-node.pem''], [''cert1'', ''request-notes.txt'']}" for ps
    using that by (intro Split_join) auto
  from this [of "[''cert1'']"] this [of "[''cert1'', name]"] this [of "[''cert1'', name, ''port-4'']"]
    this [of "[''cert1'', name, ''port-4'', ''csr-node.pem'']"] this [of "[''cert1'', ''request-notes.txt'']"]
  show "Split ''cert1'' = [''cert1'']" "Split (''cert1/'' @ name) = [''cert1'', name]"
    "Split (''cert1/'' @ name @ ''/port-4'') = [''cert1'', name, ''port-4'']"
    "Split (''cert1/'' @ name @ ''/port-4/csr-node.pem'') = [''cert1'', name, ''port-4'', ''csr-node.pem'']"
    "Split ''cert1/request-notes.txt'' = [''cert1'', ''request-notes.txt'']"
    by simp_all
qed

lemma replace_first_length: "length (replace_first token by s) \<le> length s + length by"
  by (induction token "by" s rule: replace_first.induct) auto

lemma notes_small: "i \<le> 4194302 \<Longrightarrow> length (request_notes i) \<le> MAX_NOTES"
proof -
  assume "i \<le> 4194302"
  then have "length (decimal (unat i)) \<le> 7" by (intro decimal_length) (simp_all add: word_le_nat_alt)
  moreover have "length REQUEST_NOTES \<le> 600" by (simp add: REQUEST_NOTES_def)
  ultimately show ?thesis
    using replace_first_length [of "''%INSTANCE%''" "decimal (unat i)" REQUEST_NOTES]
    unfolding request_notes_def length_octets_of by linarith
qed

lemma request_valid:
  assumes name: "DeviceInstance name = Some i"
    and split: "Split f1 = [''cert1'']" "Split f2 = [''cert1'', name]" "Split f3 = [''cert1'', name, ''port-4'']"
      "Split q1 = [''cert1'', name, ''port-4'', ''csr-node.pem'']" "Split q2 = [''cert1'', ''request-notes.txt'']"
    and small: "length csr \<le> MAX_PEM" "length notes \<le> MAX_NOTES"
  shows "Validate \<lparr>files = [(q1, csr), (q2, notes)], folders = [f1, f2, f3]\<rparr> False = []"
proof -
  obtain ds where ds: "name = ''device-'' @ ds" using DeviceInstance_name [OF name] by blast
  have n: "name \<noteq> ''issuer''" by (simp add: ds)
  have "check_folder False f1 s = s" "check_folder False f2 s = s\<lparr>fs_sawDevice := True\<rparr>"
    "check_folder False f3 s = s\<lparr>fs_devicesWithPort := set_insert name (fs_devicesWithPort s)\<rparr>" for s
    using n by (simp_all add: check_folder_def split name name_facts Let_def)
  moreover have "check_file False (q1, csr) = []" "check_file False (q2, notes) = []"
    using small by (simp_all add: check_file_def split name name_facts Let_def)
  moreover have "check_port_folder [name] f = []" if "f \<in> {f1, f2, f3}" for f
    using that by (auto simp: check_port_folder_def split Let_def)
  ultimately show ?thesis by (simp add: Validate_def)
qed

lemma request_csrs:
  assumes name: "DeviceInstance name = Some i"
    and p: "pf = ''cert1/'' @ name @ ''/port-4''" "q1 = pf @ ''/csr-node.pem''" "q2 = ''cert1/request-notes.txt''"
    and split: "Split q1 = [''cert1'', name, ''port-4'', ''csr-node.pem'']" "Split q2 = [''cert1'', ''request-notes.txt'']"
  shows "ListCsrs \<lparr>files = [(q1, csr), (q2, notes)], folders = [''cert1'', ''cert1/'' @ name, pf]\<rparr> =
    [\<lparr>csr_deviceFolder = name, csr_deviceInstance = i, csr_portFolder = ''port-4'', csr_name = ''node'',
      csr_csrPath = q1, csr_oprPath = pf @ ''/opr-node.pem'', csr_keyPath = '''', csr_isHubPort = False,
      csr_isRouter = False\<rparr>]"
proof -
  let ?t = "\<lparr>files = [(q1, csr), (q2, notes)], folders = [''cert1'', ''cert1/'' @ name, pf]\<rparr>"
  obtain ds where ds: "name = ''device-'' @ ds" using DeviceInstance_name [OF name] by blast
  have port: "''cert1/'' @ name @ ''/'' @ ''port-4'' = pf" by (simp add: p)
  have no: "Has ?t (pf @ ''/key-'' @ ''node'' @ ''.pem'') = False" "pf @ ''/hub'' \<notin> set (folders ?t)"
    "''cert1/'' @ name @ ''/router'' \<notin> set (folders ?t)"
    by (simp_all add: Has_def p ds)
  have "csr_entry ?t q1 = Some \<lparr>csr_deviceFolder = name, csr_deviceInstance = i, csr_portFolder = ''port-4'',
      csr_name = ''node'', csr_csrPath = q1, csr_oprPath = pf @ ''/opr-'' @ ''node'' @ ''.pem'', csr_keyPath = '''',
      csr_isHubPort = False, csr_isRouter = False\<rparr>"
    using no unfolding csr_entry_def split Let_def by (simp add: name name_facts port del: append.simps)
  moreover have "csr_entry ?t q2 = None" by (simp add: csr_entry_def split)
  ultimately show ?thesis by (simp add: ListCsrs_def map_filter_simps)
qed

section \<open>The request reads back\<close>

lemma resolved_folder:
  assumes "inst \<le> (4194302 :: u32)" and np_def: "np = ResolveNodeCertPaths w d inst"
  shows "\<exists>name. DeviceInstance name = Some (np_folderDeviceInstance np) \<and> np_portFolder np = ''cert1/'' @ name @ ''/port-4'' \<and>
    (\<exists>dir. np_certificateSigningRequest np = dir @ ''/csr-node.pem'')"
proof -
  have csr: "\<exists>dir. np_certificateSigningRequest (FillCari d f i) = dir @ ''/csr-node.pem''" for f i
    by (intro exI [of _ "path_append d f"]) (simp add: FillCari_def JoinPath_def path_append_prefix)
  show ?thesis
  proof (cases "node_ports w d = []")
    case True
    let ?name = "''device-'' @ decimal (unat inst)"
    have p: "np = FillCari d (''cert1/'' @ ?name @ ''/port-4'') inst"
      by (simp add: np_def resolved True NewNodeCertPaths_def)
    show ?thesis
      unfolding p FillCari_fields using own_folder_name [OF assms(1)] csr by blast
  next
    case False
    define c where "c = chosen_port (node_ports w d) inst"
    have p: "np = (FillCari d (fst c) (snd c))\<lparr>np_note := port_note (node_ports w d) c inst\<rparr>"
      by (simp add: np_def resolved False c_def Let_def)
    have "(fst c, snd c) \<in> set (FindNodePorts w d)"
      using chosen_port_cases(1) [OF False, of inst] False by (simp add: c_def node_ports_def split: if_splits)
    then show ?thesis
      unfolding p note_fields FillCari_fields FindNodePorts_iff using csr by blast
  qed
qed

lemma request_tree_sizes:
  assumes "DeviceInstance name = Some i" "length csr \<le> MAX_PEM" "length notes \<le> MAX_NOTES"
    and t: "t = \<lparr>files = [(''cert1/'' @ name @ ''/port-4/csr-node.pem'', csr), (''cert1/request-notes.txt'', notes)],
      folders = [''cert1'', ''cert1/'' @ name, ''cert1/'' @ name @ ''/port-4'']\<rparr>"
  shows "zip_entries t \<noteq> []" "\<forall>f \<in> set (folders t). length f < 65535" "\<forall>(p, c) \<in> set (files t). length p < 65536"
    "sum_list (map (\<lambda>(p, c). length c) (files t)) \<le> MAX_TOTAL_UNCOMPRESSED" "length (zip_entries t) \<le> MAX_ENTRIES"
proof -
  have "length name \<le> 14" using assms(1) by (auto simp: DeviceInstance_def split: if_splits)
  with assms(2,3) show "zip_entries t \<noteq> []" "\<forall>f \<in> set (folders t). length f < 65535"
    "\<forall>(p, c) \<in> set (files t). length p < 65536"
    "sum_list (map (\<lambda>(p, c). length c) (files t)) \<le> MAX_TOTAL_UNCOMPRESSED" "length (zip_entries t) \<le> MAX_ENTRIES"
    by (simp_all add: t zip_entries_def)
qed

text \<open>
  C15: The request zip of a device reads back as the tree it was made from: the signing request on
  disk under its place in the CARI tree, the notes, and nothing else, in particular no key. The tree
  keeps the CARI rules for a request and lists exactly one request to sign, for this folder's device
  instance; the certificate it asks for is the first file the import looks at.
\<close>

theorem request_reads_back:
  fixes inst :: u32
  assumes "inst \<le> 4194302" "zlib_ok z" "length csr \<le> MAX_PEM"
    and "np = ResolveNodeCertPaths w d inst" "t = request_tree np csr" "length (WriteZip z now t) \<le> MAX_ZIP_BYTES"
  shows "ReadZip z (WriteZip z now t) = Inr t \<and> Validate t False = [] \<and>
    files t = [(np_portFolder np @ ''/csr-node.pem'', csr),
      (''cert1/request-notes.txt'', request_notes (np_folderDeviceInstance np))] \<and>
    (\<exists>name. ListCsrs t =
      [\<lparr>csr_deviceFolder = name, csr_deviceInstance = np_folderDeviceInstance np, csr_portFolder = ''port-4'',
        csr_name = ''node'', csr_csrPath = np_portFolder np @ ''/csr-node.pem'',
        csr_oprPath = np_portFolder np @ ''/opr-node.pem'', csr_keyPath = '''', csr_isHubPort = False,
        csr_isRouter = False\<rparr>]) \<and>
    (\<forall>answer. Has answer (np_portFolder np @ ''/opr-node.pem'') \<longrightarrow>
       hd (candidates np answer) = np_portFolder np @ ''/opr-node.pem'')"
proof -
  let ?i = "np_folderDeviceInstance np" and ?pf = "np_portFolder np"
  let ?n = "request_notes ?i"
  obtain name dir where name: "DeviceInstance name = Some ?i" and pf: "?pf = ''cert1/'' @ name @ ''/port-4''"
    and dir: "np_certificateSigningRequest np = dir @ ''/csr-node.pem''"
    using resolved_folder [OF assms(1,4)] by blast
  have csr: "csr_zip_path np = ''cert1/'' @ name @ ''/port-4/csr-node.pem''" by (simp add: csr_zip_path_def pf)
  have t: "t = \<lparr>files = [(csr_zip_path np, csr), (''cert1/request-notes.txt'', ?n)],
      folders = [''cert1'', ''cert1/'' @ name, ?pf]\<rparr>"
    using request_tree_shape [OF name pf dir] assms(5) by simp
  note S = request_splits [OF name]
  have n: "length ?n \<le> MAX_NOTES" using DeviceInstance_name [OF name] by (intro notes_small) blast
  have "path_ok (csr_zip_path np)"
    unfolding path_ok_def using device_name_ok [OF name] parts_ok
    by (intro exI [of _ "[''cert1'', name, ''port-4'', ''csr-node.pem'']"]) (simp add: csr)
  moreover have "path_ok ''cert1/request-notes.txt''"
    unfolding path_ok_def using parts_ok by (intro exI [of _ "[''cert1'', ''request-notes.txt'']"]) simp
  ultimately have "tree_ok t"
    unfolding assms(5) request_tree_def dir using BaseName_slash [of "''csr-node.pem''" dir]
    by (simp add: AddFile_ok new_Tree_ok csr_zip_path_def)
  moreover have sizes: "t = \<lparr>files = [(''cert1/'' @ name @ ''/port-4/csr-node.pem'', csr), (''cert1/request-notes.txt'', ?n)],
      folders = [''cert1'', ''cert1/'' @ name, ''cert1/'' @ name @ ''/port-4'']\<rparr>"
    by (simp only: t csr pf)
  ultimately have "ReadZip z (WriteZip z now t) = Inr t"
    using assms(2,6) request_tree_sizes [OF name assms(3) n sizes] by (intro ReadZip_WriteZip)
  moreover have "Validate t False = []"
    unfolding sizes by (rule request_valid [OF name S assms(3) n])
  moreover have "ListCsrs t = [\<lparr>csr_deviceFolder = name, csr_deviceInstance = ?i, csr_portFolder = ''port-4'',
        csr_name = ''node'', csr_csrPath = ?pf @ ''/csr-node.pem'', csr_oprPath = ?pf @ ''/opr-node.pem'',
        csr_keyPath = '''', csr_isHubPort = False, csr_isRouter = False\<rparr>]"
    unfolding t csr_zip_path_def
    by (rule request_csrs [OF name pf refl refl]) (use S(4,5) in \<open>simp_all only: csr_zip_path_def [symmetric] csr\<close>)
  moreover have "hd (candidates np answer) = ?pf @ ''/opr-node.pem''" if "Has answer (?pf @ ''/opr-node.pem'')" for answer
    using that by (simp add: candidates_def pf Let_def)
  ultimately show ?thesis by (simp add: t csr_zip_path_def)
qed

text \<open>A new device with instance 9.\<close>

definition new_device_dir :: cert1_dir where
  "new_device_dir = \<lparr>c1_present = False, c1_entries = [], c1_exists = (\<lambda>_. False)\<rparr>"

theorem request_reads_back_witness:
  "ReadZip storing_zlib (WriteZip storing_zlib noon (request_tree (ResolveNodeCertPaths new_device_dir ''certs'' 9) [0x31])) =
   Inr (request_tree (ResolveNodeCertPaths new_device_dir ''certs'' 9) [0x31])"
proof -
  let ?np = "ResolveNodeCertPaths new_device_dir ''certs'' 9"
  let ?t = "request_tree ?np [0x31]"
  have p: "?np = FillCari ''certs'' ''cert1/device-9/port-4'' 9"
    by (simp add: ResolveNodeCertPaths_def new_device_dir_def NewNodeCertPaths_def decimal.simps digit_char_def)
  have n: "DeviceInstance ''device-9'' = Some 9"
    using own_folder_name [of 9] by (simp add: decimal.simps digit_char_def)
  have t: "?t = \<lparr>files = [(''cert1/device-9/port-4/csr-node.pem'', [0x31]), (''cert1/request-notes.txt'', request_notes 9)],
      folders = [''cert1'', ''cert1/device-9'', ''cert1/device-9/port-4'']\<rparr>"
    unfolding p
    using request_tree_shape [OF n, of "FillCari ''certs'' ''cert1/device-9/port-4'' 9" "''certs/cert1/device-9/port-4''" "[0x31]"]
    by (simp add: csr_zip_path_def) (simp add: FillCari_def JoinPath_def path_append_def)
  have "length (request_notes 9) \<le> MAX_NOTES" by (rule notes_small) simp
  then have "length (WriteZip storing_zlib noon ?t) \<le> MAX_ZIP_BYTES"
    unfolding t by (simp add: WriteZip_layout Let_def zip_entries_def locals_def local_block_def entry_body_def Deflate_def
        storing_zlib_def folder_entry_def)
  then show ?thesis
    using request_reads_back [OF _ storing_zlib_ok _ refl refl, of 9 "[0x31]" noon new_device_dir "''certs''"] by simp
qed

section \<open>Nothing is overwritten\<close>

lemma ToolWriteFile_new:
  "\<not> tool_exists s p \<Longrightarrow> disk (store s) \<subseteq>\<^sub>m disk (store (fst (ToolWriteFile env p c priv s)))"
  by (auto simp: ToolWriteFile_def tool_exists_def map_le_def)

lemma zip_not_pem: "request_zip_path d \<noteq> np_certificateSigningRequest (ResolveNodeCertPaths w e i)"
  "request_zip_path d \<noteq> np_privateKey (ResolveNodeCertPaths w e i)"
  "np_certificateSigningRequest (ResolveNodeCertPaths w e i) \<noteq> np_privateKey (ResolveNodeCertPaths w e i)"
proof -
  have z: "take 4 (rev (request_zip_path d)) = ''piz.''"
    by (simp add: request_zip_path_def path_append_prefix)
  have A: "request_zip_path d \<noteq> np_certificateSigningRequest (FillCari e f j) \<and>
      request_zip_path d \<noteq> np_privateKey (FillCari e f j) \<and>
      np_certificateSigningRequest (FillCari e f j) \<noteq> np_privateKey (FillCari e f j)" for f j
  proof -
    have "request_zip_path d \<noteq> q" if "take 4 (rev q) = ''mep.''" for q using that z by auto
    then show ?thesis using node_paths_distinct [of e f j] by simp
  qed
  show "request_zip_path d \<noteq> np_certificateSigningRequest (ResolveNodeCertPaths w e i)"
    "request_zip_path d \<noteq> np_privateKey (ResolveNodeCertPaths w e i)"
    "np_certificateSigningRequest (ResolveNodeCertPaths w e i) \<noteq> np_privateKey (ResolveNodeCertPaths w e i)"
    unfolding resolved Let_def NewNodeCertPaths_def using A by (simp_all add: note_fields)
qed

text \<open>What a new key and request leave behind when both are written.\<close>

definition fresh_key ::
  "('cert, 'key, 'req) tool_crypto \<Rightarrow> tool_env \<Rightarrow> NodeCertPaths \<Rightarrow> string \<Rightarrow> string \<Rightarrow> tool_state \<Rightarrow> tool_state \<Rightarrow> bool" where
  "fresh_key cr env np cn alt s s' \<longleftrightarrow>
     \<not> tool_exists s (np_privateKey np) \<and>
     (\<exists>key req. newKey cr = Some key \<and> makeReq cr key cn alt = Some req \<and>
        keyPem cr key \<noteq> [] \<and> reqPem cr req \<noteq> [] \<and>
        file_bytes s' (np_privateKey np) = Some (keeps env (np_privateKey np) (keyPem cr key)) \<and>
        file_bytes s' (np_certificateSigningRequest np) =
          Some (keeps env (np_certificateSigningRequest np) (reqPem cr req)) \<and>
        np_privateKey np \<in> ownerOnly s')"

lemma new_key_cases:
  assumes "\<not> tool_exists s (np_certificateSigningRequest np)" "\<not> tool_exists s (np_privateKey np)"
    "np_certificateSigningRequest np \<noteq> np_privateKey np"
    "new_key_and_request cr env np cn alt s = (s1, ok)"
  shows "disk (store s) \<subseteq>\<^sub>m disk (store s1)" "ok \<Longrightarrow> fresh_key cr env np cn alt s s1"
    "dom (disk (store s1)) \<subseteq> dom (disk (store s)) \<union> {np_privateKey np, np_certificateSigningRequest np}"
  using assms
  by (auto simp: new_key_and_request_def ToolWriteFile_def map_le_def tool_exists_def fresh_key_def file_bytes_def
      split: option.splits if_splits)

lemma NodeRequestZip_Inr:
  "NodeRequestZip cr z now np s = Inr b \<longleftrightarrow>
     (\<exists>csr. file_bytes s (np_certificateSigningRequest np) = Some csr \<and> ReqFromBytes cr csr \<noteq> None \<and>
        b = WriteZip z now (request_tree np csr))"
  by (auto simp: NodeRequestZip_def tool_exists_def file_bytes_def ToolReadFile_def ReadDisk_def Let_def)

lemma zip_written:
  assumes "ToolWriteFile env q b False s1 = (s2, True)" "\<not> tool_exists s q" "disk (store s) \<subseteq>\<^sub>m disk (store s1)"
  shows "disk (store s) \<subseteq>\<^sub>m disk (store s2)" "file_bytes s2 q = Some (keeps env q b)" "ownerOnly s2 = ownerOnly s1"
    "p \<noteq> q \<Longrightarrow> file_bytes s2 p = file_bytes s1 p"
  using assms by (auto simp: ToolWriteFile_def map_le_def tool_exists_def file_bytes_def split: if_splits)


end
