(* ===== verification/Cari_Rules_Properties.thy ===== *)
theory Cari_Rules_Properties
  imports Cari_Rules Cari_Properties
begin

text \<open>
  The CARI rules as a grammar of paths, and that \<open>Validate\<close> finds no problem exactly in the trees
  that keep it.
\<close>

section \<open>The grammar\<close>

definition device_name :: "string \<Rightarrow> bool" where "device_name d \<longleftrightarrow> DeviceInstance d \<noteq> None"

definition port_name :: "string \<Rightarrow> bool" where "port_name x \<longleftrightarrow> (\<exists>port. x = ''port-'' @ port \<and> IsValidName port)"

definition pem_name :: "string \<Rightarrow> string \<Rightarrow> bool" where
  "pem_name prefix x \<longleftrightarrow> (\<exists>name. x = prefix @ name @ ''.pem'' \<and> IsValidName name)"

inductive legal_folder :: "bool \<Rightarrow> string list \<Rightarrow> bool" for response where
  "legal_folder response [''cert1'']"
| "response \<Longrightarrow> legal_folder response [''cert1'', ''issuer'']"
| "device_name d \<Longrightarrow> legal_folder response [''cert1'', d]"
| "device_name d \<Longrightarrow> legal_folder response [''cert1'', d, ''router'']"
| "device_name d \<Longrightarrow> port_name x \<Longrightarrow> legal_folder response [''cert1'', d, x]"
| "device_name d \<Longrightarrow> port_name x \<Longrightarrow> legal_folder response [''cert1'', d, x, ''hub'']"

inductive legal_file :: "bool \<Rightarrow> string list \<Rightarrow> nat \<Rightarrow> bool" for response where
  "n \<le> MAX_VENDOR_DATA \<Longrightarrow> legal_file response [''cert1'', ''vendor-data''] n"
| "n \<le> MAX_NOTES \<Longrightarrow> legal_file response [''cert1'', ''request-notes.txt''] n"
| "response \<Longrightarrow> n \<le> MAX_NOTES \<Longrightarrow> legal_file response [''cert1'', ''response-notes.txt''] n"
| "response \<Longrightarrow> legal_file response [''cert1'', ''errors.txt''] n"
| "response \<Longrightarrow> x \<in> {''iss-1.pem'', ''iss-2.pem''} \<Longrightarrow> legal_file response [''cert1'', ''issuer'', x] n"
| "device_name d \<Longrightarrow> port_name x \<Longrightarrow> n \<le> MAX_PEM \<Longrightarrow>
     pem_name ''csr-'' f \<or> pem_name ''key-'' f \<or> response \<and> pem_name ''opr-'' f \<Longrightarrow>
     legal_file response [''cert1'', d, x, f] n"

text \<open>Every device folder has a port folder, and there is a device folder.\<close>

definition conforms :: "bool \<Rightarrow> Tree \<Rightarrow> bool" where
  "conforms response t \<longleftrightarrow>
     (\<forall>f \<in> set (folders t). legal_folder response (Split f)) \<and>
     (\<forall>(p, b) \<in> set (files t). legal_file response (Split p) (length b)) \<and>
     (\<exists>d. device_name d \<and> [''cert1'', d] \<in> Split ` set (folders t)) \<and>
     (\<forall>d. device_name d \<and> [''cert1'', d] \<in> Split ` set (folders t) \<longrightarrow>
        (\<exists>x. port_name x \<and> [''cert1'', d, x] \<in> Split ` set (folders t)))"

inductive_simps legal_folder_parts: "legal_folder r [a]" "legal_folder r [a, b]" "legal_folder r [a, b, c]"
  "legal_folder r [a, b, c, d]" "legal_folder r (a # b # c # d # e # q)"

inductive_simps legal_file_parts: "legal_file r [a] n" "legal_file r [a, b] n" "legal_file r [a, b, c] n"
  "legal_file r [a, b, c, d] n" "legal_file r (a # b # c # d # e # q) n"

section \<open>Names\<close>

lemma StartsWith_iff: "StartsWith s p \<longleftrightarrow> (\<exists>q. s = p @ q)"
  by (metis StartsWith_def append_eq_conv_conj append_take_drop_id)

lemma port_name_iff: "port_name x \<longleftrightarrow> StartsWith x ''port-'' \<and> IsValidName (drop 5 x)"
  by (auto simp: port_name_def StartsWith_iff)

lemma issuer_no_device: "\<not> device_name ''issuer''" "\<not> port_name ''router''"
  by (simp_all add: device_name_def DeviceInstance_def StartsWith_def port_name_def)

lemma EndsWith_iff: "EndsWith s p \<longleftrightarrow> (\<exists>q. s = q @ p)"
proof
  assume "EndsWith s p"
  then have "s = take (length s - length p) s @ p" by (metis EndsWith_def append_take_drop_id)
  then show "\<exists>q. s = q @ p" by blast
qed (auto simp: EndsWith_def)

lemma FileName_iff:
  assumes "last prefix \<notin> set ''.pem''" "prefix \<noteq> []"
  shows "(\<exists>n. FileName x prefix = Some n) \<longleftrightarrow> pem_name prefix x"
proof
  assume F: "\<exists>n. FileName x prefix = Some n"
  then have s: "StartsWith x prefix" "EndsWith x ''.pem''" by (auto simp: FileName_def split: if_splits)
  obtain r q where r: "x = prefix @ r" and q: "x = q @ ''.pem''"
    using s unfolding StartsWith_iff EndsWith_iff by blast
  obtain n where n: "r = n @ ''.pem''"
  proof -
    obtain us where us: "prefix = q @ us \<and> us @ r = ''.pem'' \<or> prefix @ us = q \<and> r = us @ ''.pem''"
      using iffD1 [OF append_eq_append_conv2 trans [OF r [symmetric] q]] by blast
    have "us = []" if "us @ r = ''.pem''" "prefix = q @ us"
    proof (rule ccontr)
      assume "us \<noteq> []"
      then have "last prefix = last us" "last us \<in> set us" using that(2) by simp_all
      moreover have "set us \<subseteq> set ''.pem''" unfolding that(1) [symmetric] by simp
      ultimately show False using assms(1) by (metis subsetD)
    qed
    then have "r = us @ ''.pem''" using us by (metis append_Nil)
    then show thesis by (rule that)
  qed
  then show "pem_name prefix x"
    using F by (auto simp: FileName_def pem_name_def r split: if_splits)
next
  assume "pem_name prefix x"
  then show "\<exists>n. FileName x prefix = Some n"
    by (auto simp: pem_name_def FileName_def StartsWith_def EndsWith_def)
qed

lemma FileName_prefixes:
  "FileName x ''csr-'' \<noteq> None \<longleftrightarrow> pem_name ''csr-'' x" "FileName x ''key-'' \<noteq> None \<longleftrightarrow> pem_name ''key-'' x"
  "FileName x ''opr-'' \<noteq> None \<longleftrightarrow> pem_name ''opr-'' x"
  using FileName_iff [of "''csr-''" x] FileName_iff [of "''key-''" x] FileName_iff [of "''opr-''" x] by auto

section \<open>One folder\<close>

lemma parts_cases:
  obtains "p = []" | a where "p = [a]" | a b where "p = [a, b]" | a b c where "p = [a, b, c]"
  | a b c d where "p = [a, b, c, d]" | a b c d e q where "p = a # b # c # d # e # q"
  by (metis list.exhaust)

lemma check_folder_legal:
  "Split f \<noteq> [] \<Longrightarrow> legal_folder r (Split f) \<Longrightarrow> fs_problems (check_folder r f s) = fs_problems s"
  using issuer_no_device
  by (cases "Split f" rule: parts_cases)
    (auto simp: check_folder_def legal_folder_parts problem_def device_name_def port_name_iff Let_def)

lemma check_folder_illegal:
  "Split f \<noteq> [] \<Longrightarrow> \<not> legal_folder r (Split f) \<Longrightarrow> fs_problems (check_folder r f s) \<noteq> []"
  using issuer_no_device
  by (cases "Split f" rule: parts_cases)
    (auto simp: check_folder_def legal_folder_parts problem_def device_name_def port_name_iff Let_def)

lemma check_folder_keeps: "fs_problems s \<noteq> [] \<Longrightarrow> fs_problems (check_folder r f s) \<noteq> []"
  by (simp add: check_folder_def problem_def Let_def)

lemma check_folder_seen:
  assumes "Split f \<noteq> []" "legal_folder r (Split f)"
  shows "fs_sawDevice (check_folder r f s) \<longleftrightarrow> fs_sawDevice s \<or> (\<exists>d. device_name d \<and> Split f = [''cert1'', d])"
    "set (fs_devicesWithPort (check_folder r f s)) =
       {d. \<exists>x. device_name d \<and> port_name x \<and> Split f = [''cert1'', d, x]} \<union> set (fs_devicesWithPort s)"
  using assms issuer_no_device
  by (cases "Split f" rule: parts_cases;
    auto simp: check_folder_def legal_folder_parts device_name_def port_name_iff Let_def)+

section \<open>All folders\<close>

lemma folders_problems:
  "\<forall>f \<in> set fs. Split f \<noteq> [] \<Longrightarrow> fs_problems (fold (check_folder r) fs s) = [] \<longleftrightarrow>
     fs_problems s = [] \<and> (\<forall>f \<in> set fs. legal_folder r (Split f))"
proof (induction fs arbitrary: s)
  case (Cons f fs)
  have "fs_problems (check_folder r f s) = [] \<longleftrightarrow> fs_problems s = [] \<and> legal_folder r (Split f)"
    using Cons.prems check_folder_legal [of f r s] check_folder_illegal [of f r s] check_folder_keeps [of s r f] by auto
  then show ?case using Cons by simp
qed simp

lemma folders_seen:
  "\<forall>f \<in> set fs. Split f \<noteq> [] \<and> legal_folder r (Split f) \<Longrightarrow>
   (fs_sawDevice (fold (check_folder r) fs s) \<longleftrightarrow>
      fs_sawDevice s \<or> (\<exists>d. device_name d \<and> [''cert1'', d] \<in> Split ` set fs)) \<and>
   set (fs_devicesWithPort (fold (check_folder r) fs s)) =
      {d. \<exists>x. device_name d \<and> port_name x \<and> [''cert1'', d, x] \<in> Split ` set fs} \<union> set (fs_devicesWithPort s)"
proof (induction fs arbitrary: s)
  case (Cons f fs)
  have f: "Split f \<noteq> []" "legal_folder r (Split f)" using Cons.prems by auto
  show ?case
    using Cons.IH [of "check_folder r f s"] Cons.prems unfolding fold_Cons comp_def check_folder_seen [OF f]
    by (auto simp: image_iff eq_commute)
qed simp

section \<open>One file\<close>

lemma check_file_iff:
  assumes "Split p \<noteq> []" "\<And>d x f. Split p = [''cert1'', d, x, f] \<Longrightarrow> device_name d \<Longrightarrow> StartsWith x ''port-'' \<Longrightarrow> port_name x"
  shows "check_file r (p, b) = [] \<longleftrightarrow> legal_file r (Split p) (length b)"
proof (cases "Split p" rule: parts_cases)
  case (3 a c)
  then show ?thesis by (auto simp: check_file_def legal_file_parts Let_def)
next
  case (4 a c d)
  then show ?thesis using issuer_no_device by (auto simp: check_file_def legal_file_parts Let_def)
next
  case (5 a d x f)
  have "DeviceInstance d \<noteq> None \<longleftrightarrow> device_name d" by (simp add: device_name_def)
  then show ?thesis
    using 5 assms(2) [of d x f] port_name_iff [of x]
    by (auto simp: check_file_def legal_file_parts Let_def FileName_prefixes simp del: not_None_eq split: if_splits)
qed (use assms(1) in \<open>auto simp: check_file_def legal_file_parts Let_def\<close>)

section \<open>The whole tree\<close>

lemma path_ok_Split: "path_ok p \<Longrightarrow> Split p \<noteq> [] \<and> list_all part_ok (Split p) \<and> p = join (Split p)"
  unfolding path_ok_def using Split_join by auto

lemma tree_ok_parent:
  assumes "tree_ok t" "p \<in> fst ` set (files t)" "Split p = ps @ [f]" "ps \<noteq> []"
  shows "ps \<in> Split ` set (folders t)"
proof -
  have p: "path_ok p" using assms(1,2) by (auto simp: tree_ok_def)
  then have ok: "list_all part_ok (ps @ [f])" "p = join (ps @ [f])" using path_ok_Split assms(3) by metis+
  then have q: "parent_of p = Some (join ps)" using parent_of_join assms(4) by simp
  have "join ps \<in> prefixes_of (join ps)" using parent_path_ok [OF p q] by (rule path_in_prefixes)
  moreover have "\<forall>q. parent_of p = Some q \<longrightarrow> prefixes_of q \<subseteq> set (folders t)"
    using assms(1,2) unfolding tree_ok_def by blast
  ultimately have "join ps \<in> set (folders t)" using q by blast
  then show ?thesis using Split_join [of ps] ok(1) by (metis image_eqI list_all_append)
qed

lemma check_port_folders:
  assumes "\<forall>f \<in> set fs. legal_folder r (Split f)"
  shows "concat (map (check_port_folder ds) fs) = [] \<longleftrightarrow>
    (\<forall>d. device_name d \<and> [''cert1'', d] \<in> Split ` set fs \<longrightarrow> d \<in> set ds)"
proof -
  have "check_port_folder ds f = [] \<longleftrightarrow> (\<forall>d. device_name d \<and> Split f = [''cert1'', d] \<longrightarrow> d \<in> set ds)" if "f \<in> set fs" for f
  proof -
    have l: "legal_folder r (Split f)" using assms that by blast
    show ?thesis
    proof (cases "Split f" rule: parts_cases)
      case (3 a b)
      then have "a = ''cert1''" using l by (auto simp: legal_folder_parts)
      then show ?thesis using 3 by (auto simp: check_port_folder_def device_name_def)
    qed (auto simp: check_port_folder_def)
  qed
  then show ?thesis by (fastforce simp: image_iff)
qed

text \<open>
  C14: For a well-formed tree (what the zip reader returns is one), \<open>Validate\<close> finds no problem exactly
  when the tree keeps the CARI rules: every folder and every file is one of the legal ones with a
  legal size, there is a device folder, and every device folder has a port folder.
\<close>

theorem Validate_iff_rules:
  assumes "tree_ok t"
  shows "Validate t response = [] \<longleftrightarrow> conforms response t"
proof (cases "\<forall>f \<in> set (folders t). legal_folder response (Split f)")
  case legal: True
  define s where "s = fold (check_folder response) (folders t) \<lparr>fs_problems = [], fs_sawDevice = False, fs_devicesWithPort = []\<rparr>"
  have ne: "\<forall>f \<in> set (folders t). Split f \<noteq> []" "\<forall>p \<in> fst ` set (files t). Split p \<noteq> []"
    using assms path_ok_Split by (auto simp: tree_ok_def)
  have F: "fs_problems s = []" using folders_problems [OF ne(1)] legal by (simp add: s_def)
  have S: "fs_sawDevice s \<longleftrightarrow> (\<exists>d. device_name d \<and> [''cert1'', d] \<in> Split ` set (folders t))"
    "set (fs_devicesWithPort s) = {d. \<exists>x. device_name d \<and> port_name x \<and> [''cert1'', d, x] \<in> Split ` set (folders t)}"
    using folders_seen [of "folders t" response] ne(1) legal by (simp_all add: s_def)
  have "check_file response (p, b) = [] \<longleftrightarrow> legal_file response (Split p) (length b)" if "(p, b) \<in> set (files t)" for p b
  proof (rule check_file_iff)
    have p: "p \<in> fst ` set (files t)" using that by force
    show "Split p \<noteq> []" using p ne(2) by blast
    fix d x f assume q: "Split p = [''cert1'', d, x, f]" "device_name d" "StartsWith x ''port-''"
    have "[''cert1'', d, x] \<in> Split ` set (folders t)" using tree_ok_parent [OF assms p, of "[''cert1'', d, x]" f] q(1) by simp
    then have "legal_folder response [''cert1'', d, x]" using legal by auto
    moreover have "x \<noteq> ''router''" using q(3) by (auto simp: StartsWith_iff)
    ultimately show "port_name x" by (simp add: legal_folder_parts)
  qed
  then have "concat (map (check_file response) (files t)) = [] \<longleftrightarrow>
      (\<forall>(p, b) \<in> set (files t). legal_file response (Split p) (length b))" by fastforce
  moreover have "Validate t response = [] \<longleftrightarrow> concat (map (check_file response) (files t)) = [] \<and> fs_sawDevice s \<and>
      concat (map (check_port_folder (fs_devicesWithPort s)) (folders t)) = []"
    unfolding Validate_def s_def [symmetric] Let_def F by simp
  ultimately show ?thesis
    unfolding conforms_def check_port_folders [OF legal] S mem_Collect_eq using legal by blast
next
  case False
  have "\<forall>f \<in> set (folders t). Split f \<noteq> []" using assms path_ok_Split by (auto simp: tree_ok_def)
  then show ?thesis
    using False folders_problems [of "folders t" response] by (auto simp: Validate_def conforms_def Let_def)
qed

theorem Validate_iff_rules_witness: "\<not> conforms True notes_tree"
proof -
  have "Validate notes_tree True \<noteq> []" unfolding notes_tree_def by code_simp
  then show ?thesis using Validate_iff_rules [OF notes_tree_ok] by simp
qed

end
