(* ===== verification/Cari_Disk_Properties.thy ===== *)
theory Cari_Disk_Properties
  imports Cari_Disk Cari_Properties
begin

text \<open>
  Properties of the tree on disk: what \<open>WriteToDir\<close> can change, whatever the tree and whatever fails,
  and that \<open>ReadFromDir\<close> does not depend on the order the files are met in.
\<close>

section \<open>Writing\<close>

definition inside :: "string \<Rightarrow> string \<Rightarrow> bool" where
  "inside base path \<longleftrightarrow>
     (\<exists>ps. ps \<noteq> [] \<and> list_all part_ok ps \<and> path \<in> {path_append base (join ps), path_append base (join ps @ ''/'')})"

lemma IsSafeZipPath_inside: "IsSafeZipPath p \<Longrightarrow> inside base (path_append base p)"
  unfolding IsSafeZipPath_iff inside_def by blast

lemma create_directories_files [simp]:
  "fs_files (create_directories env p fs) = fs_files fs" "fs_private (create_directories env p fs) = fs_private fs"
  by (simp_all add: create_directories_def)

lemma write_file_steps:
  "fs_files (fst (write_file env p b priv fs)) =
     (if canOpen env p then (fs_files fs)(p \<mapsto> stored env p b) else fs_files fs)"
  "fs_private (fst (write_file env p b priv fs)) =
     (if canOpen env p \<and> priv then insert p (fs_private fs) else fs_private fs)"
  "snd (write_file env p b priv fs) = canOpen env p"
  by (simp_all add: write_file_def Let_def split: option.split)

lemma write_folders_files:
  "fs_files (fst (write_folders env base fl fs)) = fs_files fs \<and>
   fs_private (fst (write_folders env base fl fs)) = fs_private fs \<and>
   (snd (write_folders env base fl fs) = None \<longleftrightarrow> list_all IsSafeZipPath fl)"
  by (induction fl arbitrary: fs) simp_all

lemma restrict_upd: "x \<notin> A \<Longrightarrow> (f(x \<mapsto> y)) |` A = f |` A"
  by (auto simp: restrict_map_def fun_eq_iff)

definition key_path :: "string \<Rightarrow> bool" where
  "key_path path \<longleftrightarrow> StartsWith (BaseName path) ''key-''"

lemma write_files_Cons:
  "write_files env base ((p, b) # ps) fs =
     (let path = path_append base p; fs1 = fst (write_file env path b (key_path path) fs) in
      if \<not> IsSafeZipPath p then (fs, Some (UnsafeFile p))
      else if canOpen env path then write_files env base ps fs1
      else (fs1, Some (CouldNotWriteFile path)))"
  using write_file_steps(3) [of env "path_append base p" b "key_path (path_append base p)" fs]
  by (cases "write_file env (path_append base p) b (key_path (path_append base p)) fs")
    (auto simp: Let_def key_path_def split: bool.split)

declare write_files.simps(2) [simp del]

lemma write_files_inside:
  "fs_files (fst (write_files env base ps fs)) |` {p. \<not> inside base p} = fs_files fs |` {p. \<not> inside base p}"
proof (induction ps arbitrary: fs)
  case (Cons pb ps)
  obtain p b where pb: "pb = (p, b)" by (cases pb)
  let ?path = "path_append base p"
  let ?fs1 = "fst (write_file env ?path b (key_path ?path) fs)"
  show ?case
  proof (cases "IsSafeZipPath p")
    case True
    then have "?path \<notin> {p. \<not> inside base p}" using IsSafeZipPath_inside by simp
    then have "fs_files ?fs1 |` {p. \<not> inside base p} = fs_files fs |` {p. \<not> inside base p}"
      unfolding write_file_steps(1) by (simp add: restrict_upd)
    then show ?thesis using Cons.IH [of ?fs1] True by (simp add: pb write_files_Cons Let_def)
  qed (simp add: pb write_files_Cons Let_def)
qed simp

lemma write_files_other:
  "q \<notin> path_append base ` fst ` set ps \<Longrightarrow>
     fs_files (fst (write_files env base ps fs)) q = fs_files fs q"
proof (induction ps arbitrary: fs)
  case (Cons pb ps)
  obtain p b where pb: "pb = (p, b)" by (cases pb)
  then have "q \<noteq> path_append base p" "q \<notin> path_append base ` fst ` set ps" using Cons.prems by auto
  then show ?case using Cons.IH by (simp add: pb write_files_Cons Let_def write_file_steps(1))
qed simp

lemma write_files_private:
  "fs_private fs \<subseteq> fs_private (fst (write_files env base ps fs))"
proof (induction ps arbitrary: fs)
  case (Cons pb ps)
  obtain p b where pb: "pb = (p, b)" by (cases pb)
  let ?fs1 = "fst (write_file env (path_append base p) b (key_path (path_append base p)) fs)"
  have "fs_private fs \<subseteq> fs_private ?fs1" unfolding write_file_steps(2) by auto
  then show ?case using Cons.IH [of ?fs1] by (auto simp: pb write_files_Cons Let_def)
qed simp

lemma write_files_written:
  assumes "snd (write_files env base ps fs) = None" "distinct (map fst ps)" "(p, b) \<in> set ps"
  shows "IsSafeZipPath p \<and>
    fs_files (fst (write_files env base ps fs)) (path_append base p) = Some (stored env (path_append base p) b) \<and>
    (key_path (path_append base p) \<longrightarrow> path_append base p \<in> fs_private (fst (write_files env base ps fs)))"
  using assms
proof (induction ps arbitrary: fs)
  case (Cons pb ps)
  obtain p' b' where pb: "pb = (p', b')" by (cases pb)
  let ?path = "path_append base p'"
  let ?fs1 = "fst (write_file env ?path b' (key_path ?path) fs)"
  have ok: "IsSafeZipPath p'" "canOpen env ?path" "snd (write_files env base ps ?fs1) = None"
    using Cons.prems(1) by (auto simp: pb write_files_Cons Let_def split: if_splits)
  have step: "write_files env base (pb # ps) fs = write_files env base ps ?fs1"
    using ok by (simp add: pb write_files_Cons Let_def)
  show ?case
  proof (cases "(p, b) = (p', b')")
    case True
    have "?path \<notin> path_append base ` fst ` set ps" using Cons.prems(2) by (force simp: pb)
    then have "fs_files (fst (write_files env base ps ?fs1)) ?path = Some (stored env ?path b')"
      using write_files_other [of ?path base ps env ?fs1] ok(2) by (simp add: write_file_steps(1))
    moreover have "key_path ?path \<Longrightarrow> ?path \<in> fs_private (fst (write_files env base ps ?fs1))"
      using write_files_private [of ?fs1 env base ps] ok(2) by (auto simp: write_file_steps(2))
    ultimately show ?thesis using True ok(1) unfolding step by simp
  next
    case False
    then have "(p, b) \<in> set ps" "distinct (map fst ps)" using Cons.prems by (auto simp: pb)
    then show ?thesis using Cons.IH [OF ok(3)] unfolding step by blast
  qed
qed simp


lemma restrict_eqD: "f |` A = g |` A \<Longrightarrow> x \<in> A \<Longrightarrow> f x = g x"
  by (metis restrict_in)

text \<open>A base folder with a file beside it.\<close>

definition beside :: file_system where
  "beside = \<lparr>fs_files = [''/etc/passwd'' \<mapsto> [1]], fs_folders = {}, fs_private = {}\<rparr>"

definition honest :: dir_env where
  "honest = \<lparr>canOpen = (\<lambda>_. True), canMake = (\<lambda>_. True), stored = (\<lambda>_ b. b)\<rparr>"


section \<open>Reading\<close>

text \<open>
  The files and folders of a directory, in any order and with folders before or after what they
  hold: the tree read does not depend on it.
\<close>

lemma ReadFromDir_files:
  "files (fold (\<lambda>item t. case item of Folder f \<Rightarrow> AddFolder t f | Regular p b \<Rightarrow> AddFile t p b | Special _ \<Rightarrow> t) items t) =
     std_map.put_all (List.map_filter (\<lambda>item. case item of Regular p b \<Rightarrow> Some (p, b) | _ \<Rightarrow> None) items) (files t)"
  by (induction items arbitrary: t) (simp_all add: map_filter_simps split: dir_item.split)

definition item_folders :: "dir_item \<Rightarrow> string set" where
  "item_folders item = (case item of Folder f \<Rightarrow> prefixes_of f
     | Regular p _ \<Rightarrow> (case parent_of p of None \<Rightarrow> {} | Some q \<Rightarrow> prefixes_of q) | Special _ \<Rightarrow> {})"

lemma ReadFromDir_folders:
  "set (folders (fold (\<lambda>item t. case item of Folder f \<Rightarrow> AddFolder t f | Regular p b \<Rightarrow> AddFile t p b | Special _ \<Rightarrow> t) items t)) =
     \<Union> (item_folders ` set items) \<union> set (folders t)"
  by (induction items arbitrary: t)
    (auto simp: item_folders_def folders_AddFolder folders_AddFile split: dir_item.split)

end
