(* ===== verification/Key_Password.thy ===== *)
theory Key_Password
  imports Cert_Activate Services
begin

text \<open>
  The password of an encrypted private key (sc/KeyPassword.cpp): recognising an encrypted key file,
  asking for the password at start-up, and handing it to OpenSSL afterwards. The key file is read
  from the disk of the certificate store. Whether a password decrypts a key is OpenSSL's answer
  (\<open>unlocks\<close>), and the console is the list of the lines that can still be read from it.
\<close>

section \<open>Recognising an encrypted key\<close>

definition ReadFileText :: "cert_store \<Rightarrow> path \<Rightarrow> bytes" where
  "ReadFileText s path = (case ReadDisk s path of None \<Rightarrow> [] | Some b \<Rightarrow> b)"

definition IsEncryptedKeyFile :: "cert_store \<Rightarrow> path \<Rightarrow> bool" where
  "IsEncryptedKeyFile s keyPath \<longleftrightarrow>
     (let text = ReadFileText s keyPath in
      find_sub (octets ''BEGIN ENCRYPTED PRIVATE KEY'') text \<noteq> None \<or>
      find_sub (octets ''Proc-Type: 4,ENCRYPTED'') text \<noteq> None)"

section \<open>Asking for the password\<close>

abbreviation (input) kMaxAttempts :: nat where "kMaxAttempts \<equiv> 3"

text \<open>\<open>getline\<close>, and the carriage return a Windows terminal leaves at the end.\<close>

definition ReadHiddenLine :: "string list \<Rightarrow> (string \<times> string list) option" where
  "ReadHiddenLine console =
     (case console of
        [] \<Rightarrow> None
      | line # rest \<Rightarrow>
          Some (if line \<noteq> [] \<and> last line = CHR 0x0D then butlast line else line, rest))"

text \<open>The attempts left; the result is the password that unlocked the key.\<close>

fun ask_password :: "(string \<Rightarrow> bool) \<Rightarrow> nat \<Rightarrow> string list \<Rightarrow> string option" where
  "ask_password unlocked 0 console = None"
| "ask_password unlocked (Suc n) console =
     (case ReadHiddenLine console of
        None \<Rightarrow> None
      | Some (typed, rest) \<Rightarrow> (if unlocked typed then Some typed else ask_password unlocked n rest))"

text \<open>
  \<open>Prepare\<close>: \<open>g_password\<close> afterwards (\<open>None\<close> while \<open>g_hasPassword\<close> is false), and the code's
  return value. OpenSSL is given the password as a C string.
\<close>

definition Prepare ::
  "(bytes \<Rightarrow> string \<Rightarrow> bool) \<Rightarrow> cert_store \<Rightarrow> path \<Rightarrow> string list \<Rightarrow> string option \<Rightarrow> string option \<times> bool" where
  "Prepare unlocks s keyPath console password =
     (let keyText = ReadFileText s keyPath in
      if keyText = [] \<or> \<not> IsEncryptedKeyFile s keyPath then (password, True)
      else case ask_password (\<lambda>typed. unlocks keyText (strlen_text typed)) kMaxAttempts console of
          Some typed \<Rightarrow> (Some typed, True)
        | None \<Rightarrow> (password, False))"

section \<open>Handing it out\<close>

definition Get :: "string option \<Rightarrow> string option" where
  "Get password = map_option strlen_text password"

text \<open>
  The OpenSSL callback: the number of octets it reports, and the buffer afterwards. A null buffer is
  \<open>None\<close>; the outer \<open>None\<close> is a write past the buffer's end.
\<close>

definition PemCallback :: "string option \<Rightarrow> bytes option \<Rightarrow> int \<Rightarrow> (nat \<times> bytes option) option" where
  "PemCallback password buffer bufferSize =
     (case (password, buffer) of
        (Some p, Some b) \<Rightarrow>
          (if bufferSize \<le> 0 \<or> bufferSize \<le> int (length p) then Some (0, buffer)
           else map_option (\<lambda>b'. (length p, Some b')) (mem_write b 0 (octets p @ [0])))
      | _ \<Rightarrow> Some (0, buffer))"

section \<open>What it guarantees\<close>

lemma ReadHiddenLine_Some:
  "ReadHiddenLine console = Some (typed, rest) \<Longrightarrow>
     \<exists>line. console = line # rest \<and> (typed = line \<or> line = typed @ [CHR 0x0D])"
  by (cases console) (auto simp: ReadHiddenLine_def split: if_splits dest!: append_butlast_last_id)

lemma ask_password_Some:
  "ask_password unlocked n console = Some p \<Longrightarrow>
     unlocked p \<and> (p \<in> set (take n console) \<or> p @ [CHR 0x0D] \<in> set (take n console))"
proof (induction unlocked n console rule: ask_password.induct)
  case (2 unlocked n console)
  then obtain typed rest where r: "ReadHiddenLine console = Some (typed, rest)"
    by (auto split: option.splits)
  then obtain line where line: "console = line # rest" "typed = line \<or> line = typed @ [CHR 0x0D]"
    using ReadHiddenLine_Some by blast
  show ?case
  proof (cases "unlocked typed")
    case True
    with 2(2) r have "p = typed" by simp
    with True line show ?thesis by auto
  next
    case False
    with 2 r have "unlocked p \<and> (p \<in> set (take n rest) \<or> p @ [CHR 0x0D] \<in> set (take n rest))" by simp
    with line(1) show ?thesis by auto
  qed
qed simp

lemma ask_password_None:
  "ask_password unlocked n console = None \<longleftrightarrow>
     (\<forall>line \<in> set (take n console). \<forall>p rest. ReadHiddenLine [line] = Some (p, rest) \<longrightarrow> \<not> unlocked p)"
  by (induction unlocked n console rule: ask_password.induct)
    (auto simp: ReadHiddenLine_def split: list.splits)

lemma Prepare_cases:
  assumes "Prepare unlocks s keyPath console None = (password, ok)"
  shows "ok \<Longrightarrow> IsEncryptedKeyFile s keyPath \<Longrightarrow>
      \<exists>p. password = Some p \<and> unlocks (ReadFileText s keyPath) (strlen_text p)"
    "\<not> ok \<Longrightarrow> IsEncryptedKeyFile s keyPath \<and> password = None"
proof -
  have "octets ''BEGIN ENCRYPTED PRIVATE KEY'' \<noteq> []" "octets ''Proc-Type: 4,ENCRYPTED'' \<noteq> []"
    by (simp_all add: octets_def)
  then have nonempty: "IsEncryptedKeyFile s keyPath \<Longrightarrow> ReadFileText s keyPath \<noteq> []"
    by (auto simp: IsEncryptedKeyFile_def Let_def)
  define unlocked where "unlocked = (\<lambda>typed. unlocks (ReadFileText s keyPath) (strlen_text typed))"
  have P: "Prepare unlocks s keyPath console None =
      (if \<not> IsEncryptedKeyFile s keyPath then (None, True)
       else case ask_password unlocked kMaxAttempts console of Some typed \<Rightarrow> (Some typed, True) | None \<Rightarrow> (None, False))"
    using nonempty by (auto simp: Prepare_def unlocked_def Let_def)
  show "\<exists>p. password = Some p \<and> unlocks (ReadFileText s keyPath) (strlen_text p)"
    if "ok" "IsEncryptedKeyFile s keyPath"
  proof -
    from that P assms obtain p where "ask_password unlocked kMaxAttempts console = Some p" "password = Some p"
      by (cases "ask_password unlocked kMaxAttempts console") auto
    with ask_password_Some show ?thesis unfolding unlocked_def by blast
  qed
  show "IsEncryptedKeyFile s keyPath \<and> password = None" if "\<not> ok"
    using that P assms by (auto split: if_splits option.splits)
qed

text \<open>The callback fills at most the octets OpenSSL offers, and ends the password with a NUL.\<close>

lemma PemCallback_in_bounds:
  assumes "length b = nat bufferSize"
  shows "\<exists>n b'. PemCallback password (Some b) bufferSize = Some (n, Some b') \<and> length b' = length b \<and>
    (case password of
       Some p \<Rightarrow> if int (length p) < bufferSize \<and> 0 < bufferSize then n = length p \<and> take (Suc n) b' = octets p @ [0]
                 else n = 0 \<and> b' = b
     | None \<Rightarrow> n = 0 \<and> b' = b)"
proof (cases password)
  case (Some p)
  show ?thesis
  proof (cases "int (length p) < bufferSize")
    case True
    with assms have fits: "length p < length b" by simp
    then have "mem_write b 0 (octets p @ [0]) = Some (octets p @ [0] @ drop (Suc (length p)) b)"
      by (simp add: mem_write_def octets_def)
    with True fits Some show ?thesis by (simp add: PemCallback_def octets_def)
  next
    case False
    with Some show ?thesis by (auto simp: PemCallback_def)
  qed
qed (simp add: PemCallback_def)

end
