(* ===== verification/Setup_Calls.thy ===== *)
theory Setup_Calls
  imports Device_State
begin

text \<open>
  The set-up calls of the BACnet stack API that \<open>main()\<close> (main.cpp) and
  \<open>ScNode::AddNetworkPort\<close> (sc/ScNode.cpp) make, as data: the calls in the order the code makes
  them are the output of start-up. What the stack answers to a call is its choice, and may depend
  on all the calls before it.
\<close>

section \<open>The calls\<close>

text \<open>
  One constructor per API function, its arguments in the code's order without the device instance
  where the function has it first and the code passes \<open>g_deviceInstance\<close>; that instance is the
  first argument here as well.
\<close>

datatype setup_call =
    AddDevice u32
  | SetServiceEnabled u32 u32 bool
  | AddObject u32 u16 u32
  | AddNetworkPortObject u32 u32 u8 u8 u16 u8 u32
  | SetPropertyEnabled u32 u16 u32 u32 bool
  | SetPropertyWritable u32 u16 u32 u32 bool
  | AddNotificationClassObject u32 u32 "u8 \<times> u8 \<times> u8" "bool \<times> bool \<times> bool"
  | AddRecipientToNotificationClass u32 u32 u8 "u8 list" "u8 list" u32 bool "bool \<times> bool \<times> bool"
      "bool \<times> u32" "bool \<times> u16 \<times> bytes"
      \<comment> \<open>class, days, from, to, process, confirmed, transitions, device choice, address choice\<close>
  | SetAlarmsAndEventsForObjectEnabled u32 u16 u32 u32 u8 "bool \<times> bool \<times> bool" bool bool
  | SetIntrinsicOutOfRangeAlgorithm u32 u16 u32 "f32 \<times> f32 \<times> f32" "bool \<times> bool" u32 "bool \<times> u32" bool
  | AddCalendarObject u32 u32
  | AddCalendarDateEntry u32 u32 u8 u8 u8 u8
  | AddScheduleObject u32 u32
  | AddScheduleObjectPropertyReference u32 u32 u32 u16 u32 u32 "bool \<times> u32"
  | SetSchedulePriorityForWriting u32 u32 u8
  | SetScheduleDefault u32 u32 u8 u32 f32
  | SetScheduleEffectivePeriod u32 u32 "u8 \<times> u8 \<times> u8" "u8 \<times> u8 \<times> u8"
  | AddScheduleWeeklyTimeValue u32 u32 u8 "u8 list" u8 u32 f32
  | AddScheduleExceptionEventWithCalendarReference u32 u32 u32 u8
  | AddScheduleExceptionTimeValue u32 u32 u32 "u8 list" u8 u32 f32
  | AddFileObject u32 u32 bool bool u8
  | SetBackupAndRestoreEnabled u32 u16 u16 u16 u16 bool
  | AddTrendLogObject u32 u32 u16 u32 u32 "bool \<times> u32" u32 "bool \<times> u32"
  | SetTrendLogStartStopTime u32 u16 u32 "u8 list" "u8 list"
  | SetTrendLogTypeToPolled u32 u16 u32 bool bool u32
  | SetIntrinsicBufferReadyAlgorithm u32 u16 u32 u32 u32 bool
  | AddTrendLogMultipleObject u32 u32 u32
  | AddLoggedObjectToTrendLogMultiple u32 u32 u16 u32 u32 "bool \<times> u32" "bool \<times> u32"
  | SetBACnetSCUuid bytes
  | SetBACnetSCHubConnectorForNetworkPort u32 u32 bytes "bytes \<times> u16" "bytes \<times> u16"
  | SetBACnetSCSettings u16 u16 u16 u16 u16 u16
  | SetBACnetSCCertificateFileObjects u32 u32 "bool \<times> u32" "bool \<times> u32" "u32 list"
  | ActivateNetworkPortPendingChanges u32 u32

section \<open>Making calls\<close>

text \<open>
  A set-up step takes the calls made so far to the calls made after it, with the code's success
  flag. Every call is followed by a test of its result: the first refusal ends the start-up.
\<close>

type_synonym stack_answers = "setup_call list \<Rightarrow> setup_call \<Rightarrow> bool"
type_synonym setup_step = "setup_call list \<Rightarrow> setup_call list \<times> bool"

fun make_calls :: "stack_answers \<Rightarrow> setup_call list \<Rightarrow> setup_step" where
  "make_calls accepts [] done_calls = (done_calls, True)"
| "make_calls accepts (c # cs) done_calls =
     (if accepts done_calls c then make_calls accepts cs (done_calls @ [c]) else (done_calls @ [c], False))"

definition and_then :: "setup_step \<Rightarrow> setup_step \<Rightarrow> setup_step" where
  "and_then f g done_calls = (case f done_calls of (made, ok) \<Rightarrow> if ok then g made else (made, False))"

definition give_up :: setup_step where "give_up done_calls = (done_calls, False)"

text \<open>What the stack has accepted: every call with its own history.\<close>

definition all_accepted :: "stack_answers \<Rightarrow> setup_call list \<Rightarrow> bool" where
  "all_accepted accepts cs \<longleftrightarrow> list_all (\<lambda>i. accepts (take i cs) (cs ! i)) [0..<length cs]"

section \<open>What a step did\<close>

text \<open>
  A step \<^emph>\<open>performs\<close> a list of calls: it makes them all when the stack accepts them, and otherwise
  ends with the first one the stack refuses.
\<close>

definition performs :: "stack_answers \<Rightarrow> setup_step \<Rightarrow> setup_call list \<Rightarrow> setup_call list \<Rightarrow> bool" where
  "performs accepts f before cs \<longleftrightarrow>
     (f before = (before @ cs, True) \<and> (\<forall>i < length cs. accepts (before @ take i cs) (cs ! i))) \<or>
     (\<exists>k < length cs. f before = (before @ take (Suc k) cs, False) \<and>
        (\<forall>i < k. accepts (before @ take i cs) (cs ! i)) \<and> \<not> accepts (before @ take k cs) (cs ! k))"

lemma make_calls_performs: "performs accepts (make_calls accepts cs) before cs"
proof (induction cs arbitrary: before)
  case Nil
  then show ?case by (simp add: performs_def)
next
  case (Cons c cs)
  show ?case
  proof (cases "accepts before c")
    case False
    then show ?thesis by (auto simp: performs_def intro!: exI [of _ 0])
  next
    case True
    have step: "(\<forall>i < Suc k. accepts (before @ take i (c # cs)) ((c # cs) ! i)) \<longleftrightarrow>
        (\<forall>i < k. accepts ((before @ [c]) @ take i cs) (cs ! i))" for k
      using True by (auto simp: less_Suc_eq_0_disj)
    from Cons [of "before @ [c]"] show ?thesis
      unfolding performs_def
    proof (elim disjE exE conjE, goal_cases)
      case 1
      then show ?case using True step [of "length cs"] by simp
    next
      case (2 k)
      then show ?case using True step [of k] by (intro disjI2 exI [of _ "Suc k"]) simp
    qed
  qed
qed

lemma and_then_performs:
  assumes "performs accepts f before cs" "performs accepts g (before @ cs) ds"
  shows "performs accepts (and_then f g) before (cs @ ds)"
  using assms(1) unfolding performs_def
proof (elim disjE exE conjE, goal_cases)
  case 1
  have part: "(\<forall>i < length cs + k. accepts (before @ take i (cs @ ds)) ((cs @ ds) ! i))"
    if "\<forall>i < k. accepts ((before @ cs) @ take i ds) (ds ! i)" for k
  proof (intro allI impI)
    fix i assume i: "i < length cs + k"
    show "accepts (before @ take i (cs @ ds)) ((cs @ ds) ! i)"
    proof (cases "i < length cs")
      case True
      then show ?thesis using 1 by (simp add: nth_append)
    next
      case False
      then show ?thesis using that [rule_format, of "i - length cs"] i by (simp add: nth_append)
    qed
  qed
  from assms(2) show ?case unfolding performs_def
  proof (elim disjE exE conjE, goal_cases)
    case 1
    then show ?case using \<open>f before = _\<close> part [of "length ds"] by (simp add: and_then_def)
  next
    case (2 k)
    then show ?case using \<open>f before = _\<close> part [of k]
      by (intro disjI2 exI [of _ "length cs + k"]) (simp add: and_then_def nth_append)
  qed
next
  case (2 k)
  then show ?case by (intro disjI2 exI [of _ k]) (simp add: and_then_def nth_append)
qed

lemma performs_True_iff:
  "performs accepts f before cs \<Longrightarrow>
   snd (f before) \<longleftrightarrow> (\<forall>i < length cs. accepts (before @ take i cs) (cs ! i))"
  unfolding performs_def by auto

end
