(* ===== verification/Node_Start.thy ===== *)
theory Node_Start
  imports Key_Password Cert_Tool Setup_Calls
begin

text \<open>
  Starting the BACnet/SC node (sc/ScNode.cpp): the device UUID that is made once and kept in a file,
  \<open>PrepareCertificates\<close>, which composes the certificate layout, the key password, the certificate
  store, the certificate request and the trust bundle, and \<open>AddNetworkPort\<close>, which configures the
  stack's BACnet/SC port. The numbers of \<open>std::random_device\<close>, the folders found under cert1 and
  whether libwebsockets could make its TLS context are arguments.
\<close>

section \<open>The device UUID\<close>

definition hex_value :: "u8 \<Rightarrow> u8 option" where
  "hex_value c =
     (if 48 \<le> c \<and> c \<le> 57 then Some (c - 48)
      else if 97 \<le> c \<and> c \<le> 102 then Some (c - 87)
      else if 65 \<le> c \<and> c \<le> 70 then Some (c - 55)
      else None)"

text \<open>
  \<open>strtoul(octetText, &parseEnd, 16)\<close> on two characters that are not white space, \<open>None\<close> unless it
  consumes both. It takes a sign before a digit; a minus negates in \<open>unsigned long\<close>.
\<close>

definition parse_octet :: "u8 \<Rightarrow> u8 \<Rightarrow> u8 option" where
  "parse_octet a b =
     (case (hex_value a, hex_value b) of
        (Some x, Some y) \<Rightarrow> Some (16 * x + y)
      | (None, Some y) \<Rightarrow> (if a = 43 then Some y else if a = 45 then Some (- y) else None)
      | _ \<Rightarrow> None)"

fun parse_octets :: "bytes \<Rightarrow> bytes option" where
  "parse_octets (a # b # rest) =
     (case parse_octet a b of
        None \<Rightarrow> None
      | Some v \<Rightarrow> map_option (\<lambda>vs. v # vs) (parse_octets rest))"
| "parse_octets _ = Some []"

definition isspace_octet :: "u8 \<Rightarrow> bool" where
  "isspace_octet c \<longleftrightarrow> c = 32 \<or> (9 \<le> c \<and> c \<le> 13)"

text \<open>\<open>existing >> hexText\<close>: the first word of the file.\<close>

definition first_word :: "bytes \<Rightarrow> bytes" where
  "first_word b = takeWhile (\<lambda>c. \<not> isspace_octet c) (dropWhile isspace_octet b)"

definition saved_uuid :: "bytes \<Rightarrow> bytes option" where
  "saved_uuid content =
     (let hexText = first_word content in if length hexText = 32 then parse_octets hexText else None)"

text \<open>\<open>%02x\<close>.\<close>

definition hex_digit :: "u8 \<Rightarrow> u8" where
  "hex_digit v = (if v < 10 then 48 + v else 87 + v)"

definition hex_octet :: "u8 \<Rightarrow> bytes" where
  "hex_octet v = [hex_digit (drop_bit 4 v), hex_digit (v AND 0x0F)]"

definition uuid_path :: "string \<Rightarrow> path" where
  "uuid_path certDir = path_append certDir ''sc-device-uuid.txt''"

definition new_uuid :: "(nat \<Rightarrow> u32) \<Rightarrow> bytes" where
  "new_uuid randomSource =
     (let u = map (\<lambda>i. ucast (randomSource i AND 0xFF)) [0..<16] in
      u[6 := (u ! 6 AND 0x0F) OR 0x40, 8 := (u ! 8 AND 0x3F) OR 0x80])"

text \<open>
  The 33 octets stay in the stream's buffer until it is destroyed, after the test: only a file that
  cannot be opened is noticed.
\<close>

definition LoadOrCreateDeviceUuid ::
  "tool_env \<Rightarrow> (nat \<Rightarrow> u32) \<Rightarrow> string \<Rightarrow> tool_state \<Rightarrow> tool_state \<times> bytes option" where
  "LoadOrCreateDeviceUuid env randomSource certDir s =
     (case Option.bind (ReadDisk (store s) (uuid_path certDir)) saved_uuid of
        Some uuid \<Rightarrow> (s, Some uuid)
      | None \<Rightarrow>
          (let uuid = new_uuid randomSource in
           case ToolWriteFile env (uuid_path certDir) (concat (map hex_octet uuid) @ [10]) False s of
             (s1, ok) \<Rightarrow> (s1, if ok then Some uuid else None)))"

section \<open>The certificates\<close>

text \<open>What \<open>PrepareCertificates\<close> is given by the world around it.\<close>

record ('cert, 'key, 'req) node_world =
  storeCrypto :: "('cert, 'key) crypto"
  toolCrypto :: "('cert, 'key, 'req) tool_crypto"
  zlibOf :: zlib
  dosClock :: dos_clock
  storeEnv :: io_env
  toolEnv :: tool_env
  cert1 :: cert1_dir
  unlocksKey :: "bytes \<Rightarrow> string \<Rightarrow> bool"
  consoleLines :: "string list"
  altNameOf :: string
  contextCreated :: bool

record prepared =
  pr_tool :: tool_state
  pr_paths :: NodeCertPaths
  pr_password :: "string option"
  pr_context :: bool

definition PrepareCertificates ::
  "('cert, 'key, 'req) node_world \<Rightarrow> string \<Rightarrow> u32 \<Rightarrow> string \<Rightarrow> tool_state \<Rightarrow> prepared \<times> bool" where
  "PrepareCertificates w certDir deviceInstance deviceName s =
     (let np = ResolveNodeCertPaths (cert1 w) certDir deviceInstance;
          (password, _) = Prepare (unlocksKey w) (store s) (np_privateKey np) (consoleLines w) None;
          (st1, _) = ReconcilePendingKey (storeCrypto w) (storeEnv w) (SetLayout (store s) (node_layout np));
          (s2, _) = EnsureNodeRequest (toolCrypto w) (zlibOf w) (dosClock w) (toolEnv w) np certDir deviceName
                      (altNameOf w) (s\<lparr>store := st1\<rparr>);
          p = \<lparr>pr_tool = s2, pr_paths = np, pr_password = password, pr_context = False\<rparr>
      in if \<not> tool_exists s2 (np_operationalCertificate np) then (p, False)
         else case WriteTrustedIssuerBundle (storeCrypto w) (storeEnv w) (store s2) (np_trustedIssuers np) of
             (st3, False) \<Rightarrow> (p\<lparr>pr_tool := s2\<lparr>store := st3\<rparr>\<rparr>, False)
           | (st3, True) \<Rightarrow>
               (p\<lparr>pr_tool := s2\<lparr>store := st3\<rparr>, pr_context := contextCreated w\<rparr>, contextCreated w))"

text \<open>The TLS files \<open>Start\<close> and \<open>ReloadCredentials\<close> load.\<close>

definition CurrentTlsFiles :: "prepared \<Rightarrow> path \<times> path \<times> path \<times> string option" where
  "CurrentTlsFiles p =
     (np_trustedIssuers (pr_paths p), np_operationalCertificate (pr_paths p), np_privateKey (pr_paths p),
      Get (pr_password p))"

text \<open>The node the running program then works with.\<close>

definition started_node :: "prepared \<Rightarrow> string \<Rightarrow> string \<Rightarrow> sc_node" where
  "started_node p primaryHubUri failoverHubUri =
     \<lparr>cert = store (pr_tool p),
      hub = \<lparr>g_context = pr_context p, g_connections = Map.empty, g_statusEvents = [], g_receivedFrames = [],
             g_reloading = False\<rparr>,
      g_reloadCredentialsRequested = False, g_hubConnectedEvent = False,
      g_primaryHubUri = primaryHubUri, g_failoverHubUri = failoverHubUri, g_hubConnectionStatus = 0,
      trustedIssuers = np_trustedIssuers (pr_paths p)\<rparr>"

section \<open>The Network Port\<close>

definition sc_status_calls :: "u32 \<Rightarrow> u32 \<Rightarrow> setup_call list" where
  "sc_status_calls deviceInstance port =
     AddNetworkPortObject deviceInstance port NETWORK_TYPE_SECURE_CONNECT PROTOCOL_LEVEL_BACNET_APPLICATION 0
       NETWORK_NUMBER_QUALITY_UNKNOWN REFERENCE_PORT_NONE #
     map (\<lambda>p. SetPropertyEnabled deviceInstance OBJECT_TYPE_NETWORK_PORT port p True)
       [PROPERTY_IDENTIFIER_CURRENT_HEALTH, PROPERTY_IDENTIFIER_SC_PRIMARY_HUB_CONNECTION_STATUS,
        PROPERTY_IDENTIFIER_SC_FAILOVER_HUB_CONNECTION_STATUS]"

definition sc_certificate_calls :: "u32 \<Rightarrow> u32 \<Rightarrow> string \<Rightarrow> string \<Rightarrow> bytes \<Rightarrow> setup_call list" where
  "sc_certificate_calls deviceInstance port primaryHubUri failoverHubUri uuid =
     [SetBACnetSCUuid uuid,
      SetBACnetSCHubConnectorForNetworkPort deviceInstance port []
        (octets_of primaryHubUri, of_nat (length primaryHubUri))
        (octets_of failoverHubUri, of_nat (length failoverHubUri)),
      SetBACnetSCSettings SC_MAXIMUM_BVLC_LENGTH SC_MAXIMUM_NPDU_LENGTH SC_CONNECT_WAIT_TIMEOUT
        SC_WEBSOCKET_CONNECT_TIMEOUT SC_WEBSOCKET_RECONNECT_DELAY SC_HEARTBEAT_TIMEOUT] @
     map (\<lambda>(f, writable). AddFileObject deviceInstance f writable False (ucast FILE_ACCESS_METHOD_STREAM))
       [(FILE_OPERATIONAL_CERTIFICATE_INSTANCE, True), (FILE_ISSUER_CERTIFICATE_1_INSTANCE, True),
        (FILE_ISSUER_CERTIFICATE_2_INSTANCE, True), (FILE_CERTIFICATE_SIGNING_REQUEST_INSTANCE, False)] @
     [SetBACnetSCCertificateFileObjects deviceInstance port (True, FILE_OPERATIONAL_CERTIFICATE_INSTANCE)
        (True, FILE_CERTIFICATE_SIGNING_REQUEST_INSTANCE)
        [FILE_ISSUER_CERTIFICATE_1_INSTANCE, FILE_ISSUER_CERTIFICATE_2_INSTANCE],
      ActivateNetworkPortPendingChanges deviceInstance port]"

text \<open>\<open>uuid\<close>: what \<open>LoadOrCreateDeviceUuid\<close> returned; \<open>None\<close> ends the set-up there.\<close>

definition AddNetworkPort ::
  "stack_answers \<Rightarrow> u32 \<Rightarrow> u32 \<Rightarrow> string \<Rightarrow> string \<Rightarrow> bytes option \<Rightarrow> setup_step" where
  "AddNetworkPort accepts deviceInstance port primaryHubUri failoverHubUri uuid =
     and_then (make_calls accepts (sc_status_calls deviceInstance port))
       (case uuid of
          None \<Rightarrow> give_up
        | Some u \<Rightarrow> make_calls accepts (sc_certificate_calls deviceInstance port primaryHubUri failoverHubUri u))"

end
