(* ===== verification/Node_Start_Properties.thy ===== *)
theory Node_Start_Properties
  imports Node_Start Sc_Properties Request_Properties
begin

text \<open>
  The correctness properties of starting the BACnet/SC node: the UUID is the same at every start, the
  certificates are set up the way the certificate store and the node need them, and no private key
  is replaced except by the pending key that belongs to the installed certificate.
\<close>

section \<open>The UUID\<close>

lemma hex_digit_value: "v < 16 \<Longrightarrow> hex_value (hex_digit v) = Some v \<and> \<not> isspace_octet (hex_digit v)"
proof -
  assume "v < 16"
  then have "unat v < 16" by (simp add: word_less_nat_alt)
  then have "unat v \<in> set [0..<16]" by simp
  moreover have "\<forall>n \<in> set [0..<16]. hex_value (hex_digit (of_nat n)) = Some (of_nat n) \<and>
      \<not> isspace_octet (hex_digit (of_nat n))"
    by (simp add: hex_value_def hex_digit_def isspace_octet_def upt_rec)
  ultimately have "hex_value (hex_digit (of_nat (unat v))) = Some (of_nat (unat v)) \<and>
      \<not> isspace_octet (hex_digit (of_nat (unat v)))" by blast
  then show ?thesis by simp
qed

lemma nibbles: "drop_bit 4 (v :: u8) < 16" "v AND 0x0F < 16" "16 * drop_bit 4 v + (v AND 0x0F) = v"
proof -
  have a: "unat (drop_bit 4 v) = unat v div 16" by (simp add: drop_bit_eq_div unat_div)
  have "v AND 0x0F = take_bit 4 v" by (simp add: take_bit_eq_mask mask_eq_exp_minus_1)
  then have b: "unat (v AND 0x0F) = unat v mod 16" by (simp add: take_bit_eq_mod unat_mod)
  have lt: "unat v < 256" using unsigned_less [of v] by simp
  show "drop_bit 4 v < 16" "v AND 0x0F < 16" using a b lt by (simp_all add: word_less_nat_alt)
  have "unat (16 * drop_bit 4 v) = 16 * (unat v div 16)" using a lt by (simp add: unat_word_ariths)
  then have "unat (16 * drop_bit 4 v + (v AND 0x0F)) = unat v" using b lt by (simp add: unat_word_ariths)
  then show "16 * drop_bit 4 v + (v AND 0x0F) = v" by (simp only: word_unat_eq_iff)
qed

lemma parse_hex_octet:
  "hex_octet v = [a, b] \<Longrightarrow> parse_octet a b = Some v"
  "c \<in> set (hex_octet v) \<Longrightarrow> \<not> isspace_octet c"
  using hex_digit_value [OF nibbles(1) [of v]] hex_digit_value [OF nibbles(2) [of v]] nibbles(3) [of v]
  by (auto simp: hex_octet_def parse_octet_def)

lemma parse_hex_octets: "parse_octets (concat (map hex_octet u)) = Some u"
proof (induction u)
  case (Cons v u)
  obtain a b where ab: "hex_octet v = [a, b]" by (simp add: hex_octet_def)
  with Cons parse_hex_octet(1) [OF ab] show ?case by simp
qed simp

lemma parse_octets_length: "parse_octets b = Some u \<Longrightarrow> length u = length b div 2"
  by (induction b arbitrary: u rule: parse_octets.induct) (auto split: option.splits)

lemma saved_uuid_of_new:
  assumes "length u = 16"
  shows "saved_uuid (concat (map hex_octet u) @ [10]) = Some u"
proof -
  let ?h = "concat (map hex_octet u)"
  have len: "length ?h = 32" using assms
    by (simp add: length_concat comp_def hex_octet_def sum_list_triv)
  have ns: "\<forall>c \<in> set ?h. \<not> isspace_octet c" using parse_hex_octet(2) by auto
  have "hd ?h \<in> set ?h" using len by (intro hd_in_set) (metis length_0_conv zero_neq_numeral)
  then have "dropWhile isspace_octet (?h @ [10]) = ?h @ [10]"
    using ns len by (cases ?h) auto
  moreover have "takeWhile (\<lambda>c. \<not> isspace_octet c) (?h @ [10]) = ?h"
    using ns by (simp add: takeWhile_append isspace_octet_def)
  ultimately have "first_word (?h @ [10]) = ?h" by (simp add: first_word_def)
  then show ?thesis using len by (simp add: saved_uuid_def parse_hex_octets)
qed

lemma saved_uuid_length: "saved_uuid b = Some u \<Longrightarrow> length u = 16"
  by (auto simp: saved_uuid_def Let_def dest!: parse_octets_length split: if_splits)

lemma new_uuid_shape:
  "length (new_uuid r) = 16" "drop_bit 4 (new_uuid r ! 6) = 4" "drop_bit 6 (new_uuid r ! 8) = 2"
proof -
  show "length (new_uuid r) = 16" by (simp add: new_uuid_def Let_def)
  have "drop_bit 4 ((x AND 0x0F) OR 0x40) = 4" for x :: u8
    unfolding drop_bit_or drop_bit_and by simp
  then show "drop_bit 4 (new_uuid r ! 6) = 4" by (simp add: new_uuid_def Let_def)
  have "drop_bit 6 ((x AND 0x3F) OR 0x80) = 2" for x :: u8
    unfolding drop_bit_or drop_bit_and by simp
  then show "drop_bit 6 (new_uuid r ! 8) = 2" by (simp add: new_uuid_def Let_def)
qed

text \<open>
  C35: The device UUID, from which the stack derives the device's address on the hub, is made once.
  When the file the first start writes is kept by the disk, every later start, with whatever random
  numbers, reads the same sixteen octets back and writes nothing; a UUID the program makes is a
  random one of RFC 4122, version 4; and a start that cannot save a new one fails.
\<close>

theorem device_uuid_stable:
  assumes "LoadOrCreateDeviceUuid env randomSource certDir s = (s1, result)"
    and "keeps env (uuid_path certDir) = (\<lambda>content. content)"
    and "file_bytes s2 (uuid_path certDir) = file_bytes s1 (uuid_path certDir)"
  shows "case result of
      Some u \<Rightarrow> length u = 16 \<and> LoadOrCreateDeviceUuid env' randomSource' certDir s2 = (s2, Some u) \<and>
        (s1 = s \<and> Option.bind (file_bytes s (uuid_path certDir)) saved_uuid = Some u \<or>
         u = new_uuid randomSource \<and> drop_bit 4 (u ! 6) = 4 \<and> drop_bit 6 (u ! 8) = 2)
    | None \<Rightarrow> s1 = s \<and> \<not> opens env (uuid_path certDir)"
proof -
  let ?p = "uuid_path certDir"
  have reads: "ReadDisk (store t) ?p = file_bytes t ?p" for t by (simp add: ReadDisk_def file_bytes_def)
  have again: "LoadOrCreateDeviceUuid env' randomSource' certDir s2 = (s2, Some u)"
    if "Option.bind (file_bytes s1 ?p) saved_uuid = Some u" for u
    using that assms(3) by (simp add: LoadOrCreateDeviceUuid_def reads)
  show ?thesis
  proof (cases "Option.bind (file_bytes s ?p) saved_uuid")
    case (Some u)
    then have "s1 = s" "result = Some u" using assms(1) by (simp_all add: LoadOrCreateDeviceUuid_def reads)
    moreover have "length u = 16" using Some saved_uuid_length by (auto simp: bind_eq_Some_conv)
    ultimately show ?thesis using Some again by simp
  next
    case None
    show ?thesis
    proof (cases "opens env ?p")
      case True
      then have r: "result = Some (new_uuid randomSource)"
        and "file_bytes s1 ?p = Some (concat (map hex_octet (new_uuid randomSource)) @ [10])"
        using assms(1,2) None by (auto simp: LoadOrCreateDeviceUuid_def reads ToolWriteFile_def file_bytes_def Let_def)
      then have "Option.bind (file_bytes s1 ?p) saved_uuid = Some (new_uuid randomSource)"
        by (simp add: saved_uuid_of_new new_uuid_shape)
      with again r show ?thesis by (simp add: new_uuid_shape)
    next
      case False
      then show ?thesis
        using assms(1) None by (auto simp: LoadOrCreateDeviceUuid_def reads ToolWriteFile_def Let_def)
    qed
  qed
qed

definition blank_disk :: tool_state where
  "blank_disk = \<lparr>store = \<lparr>g_layout = \<lparr>paths = Map.empty, readFallbackInstances = Map.empty,
      operationalInstance = 2, issuerInstances = [], privateKeyPath = [], pendingPrivateKeyPath = [], csrInstance = 5\<rparr>,
     g_staged = [], g_commitPromotesPendingKey = False, disk = Map.empty\<rparr>, ownerOnly = {}\<rparr>"

definition sound_disk :: tool_env where
  "sound_disk = \<lparr>opens = (\<lambda>p. True), keeps = (\<lambda>p content. content), toolTime = 0\<rparr>"

theorem device_uuid_stable_witness:
  "\<exists>s1. LoadOrCreateDeviceUuid sound_disk (\<lambda>i. 0xAB) ''certs'' blank_disk = (s1, Some (new_uuid (\<lambda>i. 0xAB))) \<and>
     LoadOrCreateDeviceUuid sound_disk (\<lambda>i. 0) ''certs'' s1 = (s1, Some (new_uuid (\<lambda>i. 0xAB)))"
proof -
  obtain s1 where s1: "LoadOrCreateDeviceUuid sound_disk (\<lambda>i. 0xAB) ''certs'' blank_disk =
      (s1, Some (new_uuid (\<lambda>i. 0xAB)))"
    by (simp add: LoadOrCreateDeviceUuid_def blank_disk_def sound_disk_def ReadDisk_def ToolWriteFile_def Let_def)
  have "keeps sound_disk (uuid_path ''certs'') = (\<lambda>content. content)" by (simp add: sound_disk_def)
  from device_uuid_stable [OF s1 this refl, of sound_disk "\<lambda>i. 0"] s1 show ?thesis by auto
qed

section \<open>The certificates\<close>

text \<open>The paths the node uses besides the six of the layout.\<close>

lemma trusted_issuers_apart:
  fixes w e i
  defines "np \<equiv> ResolveNodeCertPaths w e i"
  assumes "q \<in> {np_trustedIssuers np, tmp_of (np_trustedIssuers np)}"
  shows "q \<noteq> np_privateKey np" "q \<noteq> np_pendingPrivateKey np" "q \<notin> ran (paths (node_layout np))"
    "q \<noteq> np_operationalCertificate np"
proof -
  have A: "\<forall>p \<in> {np_operationalCertificate n, np_issuerCertificate1 n, np_issuerCertificate2 n,
        np_certificateSigningRequest n, np_privateKey n, np_pendingPrivateKey n}. q \<noteq> p"
    if n: "n = FillCari d f j" and q: "q \<in> {np_trustedIssuers n, tmp_of (np_trustedIssuers n)}" for n d f j
  proof -
    have "take 5 (rev (np_trustedIssuers n)) = ''mep.s''"
      by (simp add: n FillCari_def JoinPath_def path_append_prefix)
    moreover have "take 5 (rev p) \<noteq> ''mep.s''" if "p \<in> {np_operationalCertificate n, np_issuerCertificate1 n,
        np_issuerCertificate2 n, np_certificateSigningRequest n, np_privateKey n, np_pendingPrivateKey n}" for p
      using that by (auto simp: n FillCari_def JoinPath_def path_append_prefix)
    moreover have "take 4 (rev p) = ''mep.''" if "p \<in> {np_operationalCertificate n, np_issuerCertificate1 n,
        np_issuerCertificate2 n, np_certificateSigningRequest n, np_privateKey n, np_pendingPrivateKey n}" for p
      using node_paths_distinct(2) [of d f j] that n by blast
    moreover have "take 4 (rev (tmp_of p)) \<noteq> ''mep.''" for p using tmp_of_end [of p] by simp
    ultimately show ?thesis using q by (metis insertE singletonD)
  qed
  have "FillCari d f j = (FillCari d f j)\<lparr>np_note := ''''\<rparr>" for d f j by (simp add: FillCari_def)
  then have "\<exists>d f j t. np = (FillCari d f j)\<lparr>np_note := t\<rparr>"
    unfolding np_def resolved Let_def NewNodeCertPaths_def by (metis (full_types))
  then obtain d f j t where np: "np = (FillCari d f j)\<lparr>np_note := t\<rparr>" by blast
  have B: "\<forall>p \<in> {np_operationalCertificate np, np_issuerCertificate1 np, np_issuerCertificate2 np,
      np_certificateSigningRequest np, np_privateKey np, np_pendingPrivateKey np}. q \<noteq> p"
    using A [OF refl, of d f j] assms(2) by (simp add: np)
  then show "q \<noteq> np_privateKey np" "q \<noteq> np_pendingPrivateKey np" "q \<noteq> np_operationalCertificate np"
    by auto
  show "q \<notin> ran (paths (node_layout np))"
    using B by (auto simp: node_layout_def sc_layout_def CertificateFilePath_def)
qed

text \<open>The start-up promotion of the pending key, when it happens.\<close>

definition pending_key_belongs :: "('cert, 'key) crypto \<Rightarrow> cert_store \<Rightarrow> NodeCertPaths \<Rightarrow> bool" where
  "pending_key_belongs cr s np \<longleftrightarrow>
     (\<exists>pem leaf rest. ReadDisk s (np_operationalCertificate np) = Some pem \<and>
        ParseCertificates cr pem = Inr (leaf # rest) \<and>
        (\<exists>k. LoadKey cr s (np_pendingPrivateKey np) = Some k \<and> keyMatches cr leaf k) \<and>
        (\<forall>k. LoadKey cr s (np_privateKey np) = Some k \<longrightarrow> \<not> keyMatches cr leaf k))"

lemma node_layout_fields:
  "privateKeyPath (node_layout np) = np_privateKey np"
  "pendingPrivateKeyPath (node_layout np) = np_pendingPrivateKey np"
  "paths (node_layout np) (operationalInstance (node_layout np)) = Some (np_operationalCertificate np)"
  by (simp_all add: node_layout_def sc_layout_def CertificateFilePath_def)

lemma Reconcile_cases:
  assumes "ReconcilePendingKey cr env s = (s', ok)" "g_layout s = node_layout np"
  shows "s' = s \<or> pending_key_belongs cr s np \<and>
      (\<exists>f. disk s (np_pendingPrivateKey np) = Some f \<and>
         s' = s\<lparr>disk := (disk s)(np_pendingPrivateKey np := None, np_privateKey np \<mapsto> f)\<rparr>)"
  using assms(1)
  by (auto simp: ReconcilePendingKey_def PromotePendingKey_def rename_file_def assms(2) node_layout_fields Let_def
      pending_key_belongs_def split: if_splits option.splits sum.splits list.splits)

lemma ToolWriteFile_store:
  "ToolWriteFile env p b priv s = (s', ok) \<Longrightarrow>
     g_layout (store s') = g_layout (store s) \<and> g_staged (store s') = g_staged (store s)"
  by (auto simp: ToolWriteFile_def split: if_splits)

lemma new_key_store:
  "new_key_and_request cr env np cn alt s = (s', ok) \<Longrightarrow>
     g_layout (store s') = g_layout (store s) \<and> g_staged (store s') = g_staged (store s)"
  by (auto simp: new_key_and_request_def ToolWriteFile_def split: if_splits option.splits)

text \<open>One shape for the four ways through \<open>EnsureNodeRequest\<close>.\<close>

lemma EnsureNodeRequest_path:
  assumes "EnsureNodeRequest cr z now env np d cn alt s = (s', r)"
  shows "s' = s \<or> (\<exists>s1 ok. (s1 = s \<or> \<not> tool_exists s (np_certificateSigningRequest np) \<and>
      \<not> tool_exists s (np_privateKey np) \<and> new_key_and_request cr env np cn alt s = (s1, ok)) \<and>
    (s' = s1 \<or> \<not> tool_exists s (request_zip_path d) \<and>
      (\<exists>b. s' = fst (ToolWriteFile env (request_zip_path d) b False s1))))"
proof -
  define s1ok where "s1ok = (if tool_exists s (np_certificateSigningRequest np) then (s, True)
      else if tool_exists s (np_privateKey np) \<or>
              np_pendingPrivateKey np \<noteq> '''' \<and> tool_exists s (np_pendingPrivateKey np)
      then (s, False) else new_key_and_request cr env np cn alt s)"
  obtain s1 ok where s1: "s1ok = (s1, ok)" by (cases s1ok)
  have a: "s1 = s \<or> \<not> tool_exists s (np_certificateSigningRequest np) \<and> \<not> tool_exists s (np_privateKey np) \<and>
      new_key_and_request cr env np cn alt s = (s1, ok)"
    using s1 by (auto simp: s1ok_def split: if_splits)
  have "EnsureNodeRequest cr z now env np d cn alt s =
      (if tool_exists s (request_zip_path d) then (s, AlreadyExists)
       else if \<not> ok then (s1, Failed)
       else case NodeRequestZip cr z now np s1 of
           Inl _ \<Rightarrow> (s1, Failed)
         | Inr b \<Rightarrow> (case ToolWriteFile env (request_zip_path d) b False s1 of
             (s2, False) \<Rightarrow> (s2, Failed) | (s2, True) \<Rightarrow> (s2, Created)))"
    unfolding EnsureNodeRequest_def Let_def s1ok_def [symmetric] s1 by simp
  then have "fst (EnsureNodeRequest cr z now env np d cn alt s) =
      (if tool_exists s (request_zip_path d) then s else if \<not> ok then s1
       else case NodeRequestZip cr z now np s1 of
           Inl _ \<Rightarrow> s1 | Inr b \<Rightarrow> fst (ToolWriteFile env (request_zip_path d) b False s1))"
    by (simp split: sum.split prod.split bool.split)
  then have "s' = s \<or> s' = s1 \<or> \<not> tool_exists s (request_zip_path d) \<and>
      (\<exists>b. s' = fst (ToolWriteFile env (request_zip_path d) b False s1))"
    using assms by (auto split: if_splits sum.splits)
  with a show ?thesis by blast
qed

lemma EnsureNodeRequest_store:
  assumes "EnsureNodeRequest cr z now env np d cn alt s = (s', r)"
  shows "g_layout (store s') = g_layout (store s) \<and> g_staged (store s') = g_staged (store s)"
  using EnsureNodeRequest_path [OF assms] new_key_store [of cr env np cn alt s]
    ToolWriteFile_store [of env "request_zip_path d" _ False]
  by (metis prod.collapse)

lemma EnsureNodeRequest_le:
  assumes "EnsureNodeRequest cr z now env (ResolveNodeCertPaths w e i) d cn alt s = (s', r)"
  shows "disk (store s) \<subseteq>\<^sub>m disk (store s')"
proof -
  let ?np = "ResolveNodeCertPaths w e i"
  have new: "disk (store s) \<subseteq>\<^sub>m disk (store s1)"
    if "\<not> tool_exists s (np_certificateSigningRequest ?np)" "\<not> tool_exists s (np_privateKey ?np)"
      "new_key_and_request cr env ?np cn alt s = (s1, ok)" for s1 ok
    using new_key_cases(1) [OF that(1,2) zip_not_pem(3) that(3)] .
  have zip: "disk (store s) \<subseteq>\<^sub>m disk (store (fst (ToolWriteFile env (request_zip_path d) b False s1)))"
    if "disk (store s) \<subseteq>\<^sub>m disk (store s1)" "\<not> tool_exists s (request_zip_path d)" for s1 b
    using that by (auto simp: ToolWriteFile_def map_le_def tool_exists_def)
  from EnsureNodeRequest_path [OF assms] new zip show ?thesis by (metis map_le_refl)
qed

lemma WriteTrustedIssuerBundle_True:
  "WriteTrustedIssuerBundle cr env s p = (s', True) \<Longrightarrow>
     issuer_bundle cr s [] (issuerInstances (g_layout s)) \<noteq> [] \<and>
     map_option fileBytes (disk s' p) = Some (issuer_bundle cr s [] (issuerInstances (g_layout s)))"
  by (auto simp: WriteTrustedIssuerBundle_def AtomicWriteFileToDisk_def WriteTempFile_def ReplaceWithTemp_def
      rename_file_def Let_def split: if_splits option.splits)

text \<open>
  C9: Preparing the certificates leaves the node in the state the certificate store and the activation
  procedure rely on: a usable layout of the device's own folder with nothing staged, and a trust bundle
  file apart from every other file. No file that was there is changed, except the trust bundle and its
  temporary file, and except that the pending private key becomes the private key when it is the key of
  the installed certificate and the current key is not. The device goes on only with an operational
  certificate on disk and a bundle of at least one issuer certificate.
\<close>

theorem PrepareCertificates_sets_up:
  fixes w :: "('cert, 'key, 'req) node_world"
  assumes "np = ResolveNodeCertPaths (cert1 w) certDir inst"
    and "PrepareCertificates w certDir inst name s = (p, ok)"
    and "n = started_node p hub1 hub2"
  shows "store_inv (cert n) \<and> bundle_apart n \<and> g_layout (cert n) = node_layout np \<and> g_staged (cert n) = [] \<and>
    (\<exists>promoted.
      (promoted \<longrightarrow> pending_key_belongs (storeCrypto w) (store s) np \<and>
         disk (cert n) (np_privateKey np) = disk (store s) (np_pendingPrivateKey np)) \<and>
      (\<forall>q f. disk (store s) q = Some f \<and> q \<notin> {np_trustedIssuers np, tmp_of (np_trustedIssuers np)} \<and>
         \<not> (promoted \<and> q \<in> {np_privateKey np, np_pendingPrivateKey np}) \<longrightarrow> disk (cert n) q = Some f)) \<and>
    (ok \<longrightarrow> disk (cert n) (np_operationalCertificate np) \<noteq> None \<and> g_context (hub n) \<and>
      (\<exists>bundle. bundle \<noteq> [] \<and> ReadDisk (cert n) (np_trustedIssuers np) = Some bundle))"
proof -
  note T = trusted_issuers_apart [of _ "cert1 w" certDir inst, folded assms(1)]
  let ?b = "np_trustedIssuers np" and ?key = "np_privateKey np" and ?pend = "np_pendingPrivateKey np"
  let ?op = "np_operationalCertificate np" and ?st0 = "SetLayout (store s) (node_layout np)"
  obtain st1 r1 where st1: "ReconcilePendingKey (storeCrypto w) (storeEnv w) ?st0 = (st1, r1)"
    by (cases "ReconcilePendingKey (storeCrypto w) (storeEnv w) ?st0")
  obtain s2 r2 where s2: "EnsureNodeRequest (toolCrypto w) (zlibOf w) (dosClock w) (toolEnv w) np certDir name
      (altNameOf w) (s\<lparr>store := st1\<rparr>) = (s2, r2)"
    by (metis surj_pair)
  obtain st3 r3 where st3: "WriteTrustedIssuerBundle (storeCrypto w) (storeEnv w) (store s2) ?b = (st3, r3)"
    by (metis surj_pair)
  define written where "written \<longleftrightarrow> tool_exists s2 ?op"
  have p: "cert n = (if written then st3 else store s2)" "trustedIssuers n = ?b"
      "ok \<longleftrightarrow> written \<and> r3 \<and> contextCreated w" "ok \<Longrightarrow> g_context (hub n)"
    using assms(2) unfolding assms(3)
    by (auto simp: PrepareCertificates_def assms(1) [symmetric] st1 s2 st3 written_def started_node_def Let_def
        split: prod.splits if_splits bool.splits)
  have st0: "g_layout ?st0 = node_layout np" "g_staged ?st0 = []" "disk ?st0 = disk (store s)"
    by (simp_all add: SetLayout_def)
  note R = Reconcile_cases [OF st1 st0(1)]
  have l1: "g_layout st1 = node_layout np" "g_staged st1 = []" using R st0 by auto
  have l2: "g_layout (store s2) = node_layout np" "g_staged (store s2) = []"
    using EnsureNodeRequest_store [OF s2] l1 by simp_all
  have le: "disk st1 \<subseteq>\<^sub>m disk (store s2)"
    using EnsureNodeRequest_le [OF s2 [unfolded assms(1)]] by simp
  note W = WriteTrustedIssuerBundle_other [OF st3]
  have l3: "g_layout (cert n) = node_layout np" "g_staged (cert n) = []" using p(1) W l2 by auto
  have lay: "layout_ok (node_layout np)"
    unfolding assms(1) resolved Let_def NewNodeCertPaths_def using node_layout_FillCari by simp
  have inv: "store_inv (cert n)" using l3 lay by (simp add: store_inv_def)
  have keyne: "?key \<noteq> []"
    unfolding assms(1) resolved Let_def NewNodeCertPaths_def
    by (simp add: FillCari_def JoinPath_def path_append_prefix)
  have apart: "bundle_apart n"
    unfolding bundle_apart_def l3 p(2) node_layout_fields using T keyne by blast
  have kept2: "disk (cert n) q = Some f" if "disk st1 q = Some f" "q \<notin> {?b, tmp_of ?b}" for q f
    using that le p(1) W by (auto simp: map_le_def dom_def)
  have "\<exists>promoted. (promoted \<longrightarrow> pending_key_belongs (storeCrypto w) (store s) np \<and>
         disk (cert n) ?key = disk (store s) ?pend) \<and>
      (\<forall>q f. disk (store s) q = Some f \<and> q \<notin> {?b, tmp_of ?b} \<and>
         \<not> (promoted \<and> q \<in> {?key, ?pend}) \<longrightarrow> disk (cert n) q = Some f)"
  proof (cases "st1 = ?st0")
    case True
    then show ?thesis using kept2 st0(3) by (intro exI [of _ False]) auto
  next
    case False
    with R obtain f where f: "pending_key_belongs (storeCrypto w) ?st0 np" "disk (store s) ?pend = Some f"
        "disk st1 = (disk (store s))(?pend := None, ?key \<mapsto> f)"
      using st0(3) by auto
    have Rd: "ReadDisk ?st0 = ReadDisk (store s)" by (simp add: fun_eq_iff ReadDisk_def st0(3))
    then have Lk: "LoadKey (storeCrypto w) ?st0 = LoadKey (storeCrypto w) (store s)"
      by (simp add: fun_eq_iff LoadKey_def)
    have "pending_key_belongs (storeCrypto w) (store s) np"
      using f(1) unfolding pending_key_belongs_def Rd Lk .
    moreover have "?key \<notin> {?b, tmp_of ?b}" using T(1) [of ?key] by blast
    then have "disk (cert n) ?key = Some f" by (intro kept2) (simp_all add: f(3))
    moreover have "disk (cert n) q = Some g"
      if "disk (store s) q = Some g" "q \<notin> {?b, tmp_of ?b}" "q \<notin> {?key, ?pend}" for q g
      by (rule kept2) (use that f(3) in auto)
    ultimately show ?thesis using f(2) by (intro exI [of _ True]) simp
  qed
  moreover have "ok \<longrightarrow> disk (cert n) ?op \<noteq> None \<and> g_context (hub n) \<and>
      (\<exists>bundle. bundle \<noteq> [] \<and> ReadDisk (cert n) ?b = Some bundle)"
  proof
    assume ok
    then have w: written r3 using p(3) by blast+
    have "disk (store s2) ?op \<noteq> None" using w(1) by (simp add: written_def tool_exists_def)
    moreover have "disk st3 ?op = disk (store s2) ?op" using W T(4) by blast
    ultimately show "disk (cert n) ?op \<noteq> None \<and> g_context (hub n) \<and>
        (\<exists>bundle. bundle \<noteq> [] \<and> ReadDisk (cert n) ?b = Some bundle)"
      using WriteTrustedIssuerBundle_True [OF st3 [unfolded eqTrueI [OF w(2)]]] w p(1) p(4) [OF \<open>ok\<close>]
      by (auto simp: ReadDisk_def)
  qed
  ultimately show ?thesis using inv apart l3 by blast
qed

text \<open>A device that has a private key and nothing else keeps it.\<close>

definition plain_tools :: "(bytes, bytes, bytes) tool_crypto" where
  "plain_tools = \<lparr>pemCert = Some, derCert = Some, pemReq = Some, derReq = Some, reqKey = Some, certKey = id,
     sameKey = (=), expired = (\<lambda>c. False), checkCa = (\<lambda>c. True), checkIssued = (\<lambda>i c. True),
     verifiedBy = (\<lambda>c k. True), certPem = id, newKey = Some [1], makeReq = (\<lambda>k c a. Some [2]),
     keyPem = id, reqPem = id\<rparr>"

definition demo_world :: "(bytes, bytes, bytes) node_world" where
  "demo_world = \<lparr>storeCrypto = demo_crypto, toolCrypto = plain_tools, zlibOf = storing_zlib, dosClock = noon,
     storeEnv = \<lparr>writeOk = (\<lambda>p. True), renameOk = (\<lambda>p. True), timeNow = 0\<rparr>, toolEnv = sound_disk,
     cert1 = new_device_dir, unlocksKey = (\<lambda>b p. True), consoleLines = [], altNameOf = ''DNS:h'',
     contextCreated = True\<rparr>"

definition disk_with_key :: "path \<Rightarrow> tool_state" where
  "disk_with_key key = blank_disk\<lparr>store := (store blank_disk)
     \<lparr>disk := [key \<mapsto> \<lparr>fileBytes = [7], fileModified = 0\<rparr>]\<rparr>\<rparr>"

theorem PrepareCertificates_sets_up_witness:
  "let key = np_privateKey (ResolveNodeCertPaths new_device_dir ''certs'' 9);
       n = started_node (fst (PrepareCertificates demo_world ''certs'' 9 ''B-BC'' (disk_with_key key))) ''wss://hub'' ''''
   in store_inv (cert n) \<and> bundle_apart n \<and> disk (cert n) key = Some \<lparr>fileBytes = [7], fileModified = 0\<rparr>"
proof -
  define np where "np = ResolveNodeCertPaths (cert1 demo_world) ''certs'' 9"
  let ?s = "disk_with_key (np_privateKey np)"
  obtain p ok where p: "PrepareCertificates demo_world ''certs'' 9 ''B-BC'' ?s = (p, ok)" by (metis surj_pair)
  note T = trusted_issuers_apart [of _ "cert1 demo_world" "''certs''" 9, folded np_def]
  have K: "np_operationalCertificate np \<noteq> np_privateKey np"
    using node_paths_distinct(1) [of "''certs''"]
    by (simp add: np_def resolved Let_def NewNodeCertPaths_def note_fields)
  have D: "disk (store ?s) q = (if q = np_privateKey np then Some \<lparr>fileBytes = [7], fileModified = 0\<rparr> else None)" for q
    by (simp add: disk_with_key_def blank_disk_def)
  have no: "\<not> pending_key_belongs (storeCrypto demo_world) (store ?s) np"
    using K by (simp add: pending_key_belongs_def ReadDisk_def D)
  have apart: "np_privateKey np \<notin> {np_trustedIssuers np, tmp_of (np_trustedIssuers np)}" using T(1) by blast
  have np: "np = ResolveNodeCertPaths new_device_dir ''certs'' 9" by (simp add: np_def demo_world_def)
  have "store_inv (cert (started_node p ''wss://hub'' '''')) \<and> bundle_apart (started_node p ''wss://hub'' '''') \<and>
      disk (cert (started_node p ''wss://hub'' '''')) (np_privateKey np) = Some \<lparr>fileBytes = [7], fileModified = 0\<rparr>"
    using PrepareCertificates_sets_up [OF np_def p refl, of "''wss://hub''" "''''"] D [of "np_privateKey np"] no apart
    by (metis (full_types))
  then show ?thesis unfolding Let_def np [symmetric] p fst_conv .
qed

end
