(* ===== verification/Startup.thy ===== *)
theory Startup
  imports Transport Property_Text Helper_Args Node_Start
begin

text \<open>
  Start-up (\<open>main()\<close> of main.cpp after the command line has been accepted): the options become the
  device's state, the chosen data link is opened, the callbacks are registered, the device and its
  objects are configured through the stack, and the device announces itself on the two IP data links.
\<close>

section \<open>Options and data link\<close>

definition adopt_options :: "string list \<Rightarrow> device \<Rightarrow> device" where
  "adopt_options argv d =
     d\<lparr>g_deviceInstance := optDeviceInstance (g_options d),
       g_deviceName := ParseDeviceNameArg argv ''Chipkin Example B-BC''\<rparr>"

text \<open>
  What the operating system answers while the data link is opened: the two \<open>Connect\<close>s, the two
  address look-ups, the link speed as the \<open>float\<close> it is cut to, the serial port, and the
  certificates. \<open>GetLocalIPv6Address\<close> fills zeroes when it fails.
\<close>

record link_world =
  udpConnected :: bool
  localIPv4 :: "(bytes \<times> bytes) option"
  localIPv6 :: "LocalIPv6Address option"
  linkSpeed :: "f32 option"
  serialOpened :: bool
  certificatesReady :: bool

definition no_ipv6_address :: LocalIPv6Address where
  "no_ipv6_address = \<lparr>address = replicate 16 0, prefixLength = 0, defaultGateway = replicate 16 0,
     hasDnsServer = False, dnsServer = replicate 16 0\<rparr>"

text \<open>\<open>None\<close> is \<open>return 1\<close>. On POSIX an IPv6 address comes without a link speed.\<close>

definition OpenDataLink :: "link_world \<Rightarrow> device \<Rightarrow> device option" where
  "OpenDataLink w d0 =
     (let d = d0\<lparr>g_bacnetIpUdpPort := udpPort (g_options d0)\<rparr>;
          with_speed = (\<lambda>d. case linkSpeed w of None \<Rightarrow> d | Some f \<Rightarrow> d\<lparr>g_linkSpeedBitsPerSecond := f\<rparr>)
      in case dataLink (g_options d) of
           IPv4 \<Rightarrow>
             (if \<not> udpConnected w then None
              else Some (with_speed (case localIPv4 w of
                  None \<Rightarrow> d
                | Some (ip, netmask) \<Rightarrow> d\<lparr>g_ipAddress := ip, g_ipSubnetMask := netmask\<rparr>)))
         | IPv6 \<Rightarrow>
             (if \<not> udpConnected w then None
              else Some (with_speed (d\<lparr>g_ipv6Address := (case localIPv6 w of
                  None \<Rightarrow> no_ipv6_address | Some a \<Rightarrow> a)\<rparr>)))
         | MSTP \<Rightarrow> (if serialOpened w then Some d else None)
         | SC \<Rightarrow> (if certificatesReady w then Some d else None))"

section \<open>Callbacks\<close>

text \<open>The registrations in order: which API function gets which function. A later one replaces an earlier.\<close>

definition callback_registrations :: "device \<Rightarrow> (string \<times> string) list" where
  "callback_registrations d =
     [(''ReceiveMessageForPort'', ''HelperReceiveMessage''), (''SendMessageForPort'', ''HelperSendMessage''),
      (''GetSystemTime'', ''HelperGetSystemTime''),
      (''ReceiveMessageForPort'', ''CallbackReceiveMessage''), (''SendMessageForPort'', ''CallbackSendMessage''),
      (''HookIAm'', ''HookIAm''),
      (''GetPropertyReal'', ''GetPropertyReal''), (''GetPropertyEnumerated'', ''GetPropertyEnumerated''),
      (''GetPropertyUnsignedInteger'', ''GetPropertyUnsignedInteger''),
      (''GetPropertyCharacterString'', ''GetPropertyCharString''), (''GetPropertyBool'', ''GetPropertyBool''),
      (''GetPropertyOctetString'', ''GetPropertyOctetString''), (''GetPropertyTime'', ''GetPropertyTime''),
      (''GetPropertyDate'', ''GetPropertyDate''),
      (''SetPropertyReal'', ''SetPropertyReal''), (''SetPropertyEnumerated'', ''SetPropertyEnumerated''),
      (''SetPropertyUnsignedInteger'', ''SetPropertyUnsignedInteger''), (''SetPropertyNull'', ''SetPropertyNull''),
      (''SetPropertyBool'', ''SetPropertyBool''),
      (''DeviceCommunicationControl'', ''DeviceCommunicationControl''),
      (''ReinitializeDevice'', ''ReinitializeDevice''), (''SetSystemTime'', ''SetSystemTime''),
      (''AcknowledgeAlarm'', ''AcknowledgeAlarm''),
      (''ReadFile'', ''ReadFile''), (''WriteFile'', ''WriteFile''), (''PrepareBackup'', ''PrepareBackup''),
      (''CompleteBackup'', ''CompleteBackup''), (''PrepareRestore'', ''PrepareRestore''),
      (''CompleteRestore'', ''CompleteRestore''), (''NetworkPortCommand'', ''NetworkPortCommand'')] @
     (if dataLink (g_options d) = MSTP
      then [(''MSTPReceiveBytes'', ''CallbackReceiveBytes''), (''MSTPSendBytes'', ''CallbackSendBytes''),
            (''MSTPMicroseconds'', ''CallbackMicroseconds'')]
      else [])"

section \<open>The device and its objects\<close>

definition service_calls :: "u32 \<Rightarrow> setup_call list" where
  "service_calls device = map (\<lambda>s. SetServiceEnabled device s True)
     [SERVICE_READ_PROPERTY, SERVICE_READ_PROPERTY_MULTIPLE, SERVICE_WRITE_PROPERTY,
      SERVICE_WRITE_PROPERTY_MULTIPLE, SERVICE_DEVICE_COMMUNICATION_CONTROL, SERVICE_REINITIALIZE_DEVICE,
      SERVICE_TIME_SYNCHRONIZATION, SERVICE_UTC_TIME_SYNCHRONIZATION, SERVICE_ACKNOWLEDGE_ALARM,
      SERVICE_GET_EVENT_INFORMATION, SERVICE_CONFIRMED_EVENT_NOTIFICATION,
      SERVICE_UNCONFIRMED_EVENT_NOTIFICATION, SERVICE_ATOMIC_READ_FILE, SERVICE_ATOMIC_WRITE_FILE,
      SERVICE_READ_RANGE,
      SERVICE_WHO_IS, SERVICE_I_AM, SERVICE_WHO_HAS, SERVICE_I_HAVE]"

definition object_calls :: "u32 \<Rightarrow> setup_call list" where
  "object_calls device =
     [AddObject device OBJECT_TYPE_ANALOG_INPUT ANALOG_INPUT_INSTANCE,
      AddObject device OBJECT_TYPE_BINARY_INPUT BINARY_INPUT_INSTANCE,
      AddObject device OBJECT_TYPE_MULTI_STATE_INPUT MULTI_STATE_INPUT_INSTANCE,
      AddObject device OBJECT_TYPE_ANALOG_OUTPUT ANALOG_OUTPUT_INSTANCE,
      AddObject device OBJECT_TYPE_BINARY_OUTPUT BINARY_OUTPUT_INSTANCE,
      AddObject device OBJECT_TYPE_MULTI_STATE_OUTPUT MULTI_STATE_OUTPUT_INSTANCE,
      AddObject device OBJECT_TYPE_ANALOG_VALUE ANALOG_VALUE_INSTANCE]"

definition plain_port :: "u32 \<Rightarrow> u32 \<Rightarrow> u8 \<Rightarrow> setup_call" where
  "plain_port device port networkType =
     AddNetworkPortObject device port networkType NETWORK_PORT_PROTOCOL_LEVEL_BACNET_APPLICATION 0
       NETWORK_NUMBER_QUALITY_UNKNOWN NETWORK_PORT_REFERENCE_PORT_NONE"

text \<open>The ports that need no more than stack calls; \<open>Link_Speed\<close> has to be enabled on two of them.\<close>

definition port_calls :: "device \<Rightarrow> setup_call list" where
  "port_calls d =
     (let device = g_deviceInstance d;
          link_speed = SetPropertyEnabled device OBJECT_TYPE_NETWORK_PORT (ActiveNetworkPortInstance d)
                         PROPERTY_IDENTIFIER_LINK_SPEED True
      in case dataLink (g_options d) of
           IPv4 \<Rightarrow> [plain_port device NETWORK_PORT_INSTANCE NETWORK_PORT_NETWORK_TYPE_IPV4]
         | IPv6 \<Rightarrow> [plain_port device IPV6_NETWORK_PORT_INSTANCE NETWORK_PORT_NETWORK_TYPE_IPV6, link_speed]
         | MSTP \<Rightarrow> [plain_port device MSTP_NETWORK_PORT_INSTANCE NETWORK_PORT_NETWORK_TYPE_MSTP, link_speed]
         | SC \<Rightarrow> [])"

definition port_step :: "stack_answers \<Rightarrow> bytes option \<Rightarrow> device \<Rightarrow> setup_step" where
  "port_step accepts uuid d =
     (if dataLink (g_options d) = SC \<and> BBC_WITH_SC d
      then AddNetworkPort accepts (g_deviceInstance d) SC_NETWORK_PORT_INSTANCE
             (scPrimaryHubUri (g_options d)) (scFailoverHubUri (g_options d)) uuid
      else make_calls accepts (port_calls d))"

definition commandable_calls :: "u32 \<Rightarrow> setup_call list" where
  "commandable_calls device = concat (map (\<lambda>(objectType, inst).
       [SetPropertyEnabled device objectType inst PROPERTY_IDENTIFIER_PRIORITY_ARRAY True,
        SetPropertyEnabled device objectType inst PROPERTY_IDENTIFIER_RELINQUISH_DEFAULT True,
        SetPropertyWritable device objectType inst PROPERTY_IDENTIFIER_PRESENT_VALUE True])
     [(OBJECT_TYPE_ANALOG_OUTPUT, ANALOG_OUTPUT_INSTANCE), (OBJECT_TYPE_BINARY_OUTPUT, BINARY_OUTPUT_INSTANCE),
      (OBJECT_TYPE_MULTI_STATE_OUTPUT, MULTI_STATE_OUTPUT_INSTANCE)])"

text \<open>\<open>RECIPIENT_USE_BROADCAST\<close> is true: the recipient is the local broadcast, on BACnet/IP only.\<close>

definition alarm_calls :: "device \<Rightarrow> setup_call list" where
  "alarm_calls d =
     (let device = g_deviceInstance d in
      [SetPropertyEnabled device OBJECT_TYPE_ANALOG_VALUE ANALOG_VALUE_INSTANCE PROPERTY_IDENTIFIER_RELIABILITY True,
       AddNotificationClassObject device NOTIFICATION_CLASS_INSTANCE
         (NC_PRIORITY_TO_OFFNORMAL, NC_PRIORITY_TO_FAULT, NC_PRIORITY_TO_NORMAL) (True, False, True)] @
      (if dataLink (g_options d) = IPv4
       then [AddRecipientToNotificationClass device NOTIFICATION_CLASS_INSTANCE 0x7F [0, 0, 0, 0] [23, 59, 59, 99]
               RECIPIENT_PROCESS_IDENTIFIER False (True, True, True) (False, 0)
               (True, 0, LocalBroadcastConnString d)]
       else []) @
      [SetAlarmsAndEventsForObjectEnabled device OBJECT_TYPE_ANALOG_VALUE ANALOG_VALUE_INSTANCE
         NOTIFICATION_CLASS_INSTANCE NOTIFY_TYPE_ALARM (True, False, True) True True,
       SetPropertyWritable device OBJECT_TYPE_NOTIFICATION_CLASS NOTIFICATION_CLASS_INSTANCE
         PROPERTY_IDENTIFIER_RECIPIENT_LIST True,
       SetIntrinsicOutOfRangeAlgorithm device OBJECT_TYPE_ANALOG_VALUE ANALOG_VALUE_INSTANCE
         (0x41200000, 0x42B40000, 0x40000000) (True, True) ANALOG_VALUE_TIME_DELAY (False, 0) True])"

definition schedule_calls :: "u32 \<Rightarrow> setup_call list" where
  "schedule_calls device =
     [AddObject device OBJECT_TYPE_SCHEDULE SCHEDULE_INSTANCE,
      AddObject device OBJECT_TYPE_CALENDAR CALENDAR_INSTANCE,
      AddCalendarObject device CALENDAR_INSTANCE,
      AddCalendarDateEntry device CALENDAR_INSTANCE 0 12 25 255,
      SetPropertyWritable device OBJECT_TYPE_CALENDAR CALENDAR_INSTANCE PROPERTY_IDENTIFIER_DATE_LIST True,
      AddScheduleObject device SCHEDULE_INSTANCE,
      AddScheduleObjectPropertyReference device SCHEDULE_INSTANCE device OBJECT_TYPE_ANALOG_OUTPUT
        ANALOG_OUTPUT_INSTANCE PROPERTY_IDENTIFIER_PRESENT_VALUE (False, 0),
      AddScheduleObjectPropertyReference device SCHEDULE_INSTANCE REMOTE_DEVICE_INSTANCE OBJECT_TYPE_ANALOG_OUTPUT
        REMOTE_ANALOG_OUTPUT_INSTANCE PROPERTY_IDENTIFIER_PRESENT_VALUE (False, 0),
      SetSchedulePriorityForWriting device SCHEDULE_INSTANCE SCHEDULE_WRITE_PRIORITY,
      SetScheduleDefault device SCHEDULE_INSTANCE BACNET_DATATYPE_REAL 0 0x41A00000,
      SetScheduleEffectivePeriod device SCHEDULE_INSTANCE (0, 1, 1) (0, 12, 31),
      AddScheduleWeeklyTimeValue device SCHEDULE_INSTANCE 0 [8, 0, 0, 0] BACNET_DATATYPE_REAL 0 0x42960000,
      AddScheduleExceptionEventWithCalendarReference device SCHEDULE_INSTANCE CALENDAR_INSTANCE 1]"

text \<open>Start and stop time: hour, minute, second, hundredth, year, month, day, any weekday.\<close>

definition window_octets :: "tm \<Rightarrow> u8 list" where
  "window_octets t = [of_int (tm_hour t), of_int (tm_min t), of_int (tm_sec t), 0,
     of_int (tm_year t), of_int (tm_mon t + 1), of_int (tm_mday t), 255]"

text \<open>\<open>nowTm\<close> and \<open>stopTm\<close>: the UTC time now and ten minutes later.\<close>

definition log_calls :: "tm \<Rightarrow> tm \<Rightarrow> u32 \<Rightarrow> u32 \<Rightarrow> setup_call list" where
  "log_calls nowTm stopTm exceptionIndex device =
     [AddScheduleExceptionTimeValue device SCHEDULE_INSTANCE exceptionIndex [0, 0, 0, 0] BACNET_DATATYPE_REAL 0
        0x40A00000,
      AddFileObject device FILE_INSTANCE True True (ucast FILE_ACCESS_METHOD_STREAM),
      SetPropertyWritable device OBJECT_TYPE_FILE FILE_INSTANCE PROPERTY_IDENTIFIER_ARCHIVE True,
      SetBackupAndRestoreEnabled device 5 5 5 120 True,
      AddTrendLogObject device TREND_LOG_INSTANCE OBJECT_TYPE_ANALOG_INPUT ANALOG_INPUT_INSTANCE
        PROPERTY_IDENTIFIER_PRESENT_VALUE (False, 0) TREND_LOG_MAX_BUFFER_SIZE (False, 0),
      SetTrendLogStartStopTime device OBJECT_TYPE_TREND_LOG TREND_LOG_INSTANCE (window_octets nowTm)
        (window_octets stopTm),
      SetTrendLogTypeToPolled device OBJECT_TYPE_TREND_LOG TREND_LOG_INSTANCE True False
        TREND_LOG_POLL_INTERVAL_HUNDREDTHS,
      SetAlarmsAndEventsForObjectEnabled device OBJECT_TYPE_TREND_LOG TREND_LOG_INSTANCE NOTIFICATION_CLASS_INSTANCE
        NOTIFY_TYPE_EVENT (True, False, True) True True,
      SetIntrinsicBufferReadyAlgorithm device OBJECT_TYPE_TREND_LOG TREND_LOG_INSTANCE
        TREND_LOG_NOTIFICATION_THRESHOLD 0 True,
      AddTrendLogMultipleObject device TREND_LOG_MULTIPLE_INSTANCE TREND_LOG_MULTIPLE_MAX_BUFFER_SIZE,
      AddLoggedObjectToTrendLogMultiple device TREND_LOG_MULTIPLE_INSTANCE OBJECT_TYPE_ANALOG_INPUT
        ANALOG_INPUT_INSTANCE PROPERTY_IDENTIFIER_PRESENT_VALUE (False, 0) (False, 0),
      AddLoggedObjectToTrendLogMultiple device TREND_LOG_MULTIPLE_INSTANCE OBJECT_TYPE_ANALOG_VALUE
        ANALOG_VALUE_INSTANCE PROPERTY_IDENTIFIER_PRESENT_VALUE (False, 0) (False, 0),
      AddLoggedObjectToTrendLogMultiple device TREND_LOG_MULTIPLE_INSTANCE OBJECT_TYPE_ANALOG_OUTPUT
        ANALOG_OUTPUT_INSTANCE PROPERTY_IDENTIFIER_PRESENT_VALUE (False, 0) (False, 0),
      SetTrendLogTypeToPolled device OBJECT_TYPE_TREND_LOG_MULTIPLE TREND_LOG_MULTIPLE_INSTANCE True False
        TREND_LOG_POLL_INTERVAL_HUNDREDTHS]"

definition optional_calls :: "u32 \<Rightarrow> setup_call list" where
  "optional_calls device =
     [SetPropertyEnabled device OBJECT_TYPE_DEVICE device PROPERTY_IDENTIFIER_DESCRIPTION True,
      SetPropertyEnabled device OBJECT_TYPE_MULTI_STATE_INPUT MULTI_STATE_INPUT_INSTANCE
        PROPERTY_IDENTIFIER_STATE_TEXT True]"

text \<open>
  The whole set-up. The stack's answers, the index it gives the exception, the UUID
  \<open>LoadOrCreateDeviceUuid\<close> returned and the two times are the world.
\<close>

record setup_world =
  stackAccepts :: stack_answers
  exceptionIndexOf :: u32
  deviceUuid :: "bytes option"
  trendStart :: tm
  trendStop :: tm

definition configure_device :: "setup_world \<Rightarrow> device \<Rightarrow> setup_step" where
  "configure_device w d =
     (let device = g_deviceInstance d; calls = make_calls (stackAccepts w) in
      and_then (calls (AddDevice device # service_calls device @ object_calls device))
        (and_then (port_step (stackAccepts w) (deviceUuid w) d)
          (and_then (calls (optional_calls device @ commandable_calls device @ alarm_calls d @ schedule_calls device))
            (calls (log_calls (trendStart w) (trendStop w) (exceptionIndexOf w) device)))))"

section \<open>All of it\<close>

text \<open>
  The outcome of \<open>main()\<close> up to its loop: a process exit, or the running device with the calls that
  configured it and \<open>announcementPending\<close>.
\<close>

datatype start_result = Exit | Started device "setup_call list" bool

definition start_device :: "link_world \<Rightarrow> setup_world \<Rightarrow> string list \<Rightarrow> device \<Rightarrow> start_result" where
  "start_device lw w argv d0 =
     (let d1 = adopt_options argv d0 in
      if dataLink (g_options d1) = SC \<and> \<not> BBC_WITH_SC d1 then Exit
      else if BBC_WITH_SC d1 \<and> importCariZip (g_options d1) \<noteq> '''' then Exit
      else case OpenDataLink lw d1 of
          None \<Rightarrow> Exit
        | Some d2 \<Rightarrow>
            (let d3 = (if dataLink (g_options d2) = SC
                       then d2\<lparr>sc := (sc d2)\<lparr>g_primaryHubUri := scPrimaryHubUri (g_options d2),
                                             g_failoverHubUri := scFailoverHubUri (g_options d2)\<rparr>\<rparr>
                       else d2)
             in case configure_device w d3 [] of
                  (cs, False) \<Rightarrow> Exit
                | (cs, True) \<Rightarrow>
                    (if IsIpDataLink d3 then Started (SendWhoIsBroadcast (SendIAmBroadcast d3)) cs False
                     else Started d3 cs True)))"

end
