(* ===== verification/Startup_Properties.thy ===== *)
theory Startup_Properties
  imports Startup Device_Properties
begin

text \<open>
  The correctness properties of start-up: every set-up call refers only to objects an earlier call has
  added, no object is added twice, the first refusal ends the start-up, and every object that is added
  has a name of its own.
\<close>

section \<open>What a call adds and needs\<close>

type_synonym object_id = "u16 \<times> u32"

fun adds :: "setup_call \<Rightarrow> object_id list" where
  "adds (AddDevice d) = [(OBJECT_TYPE_DEVICE, d)]"
| "adds (AddObject d t i) = [(t, i)]"
| "adds (AddNetworkPortObject d i _ _ _ _ _) = [(OBJECT_TYPE_NETWORK_PORT, i)]"
| "adds (AddNotificationClassObject d i _ _) = [(OBJECT_TYPE_NOTIFICATION_CLASS, i)]"
| "adds (AddFileObject d i _ _ _) = [(OBJECT_TYPE_FILE, i)]"
| "adds (AddTrendLogObject d i _ _ _ _ _ _) = [(OBJECT_TYPE_TREND_LOG, i)]"
| "adds (AddTrendLogMultipleObject d i _) = [(OBJECT_TYPE_TREND_LOG_MULTIPLE, i)]"
| "adds _ = []"

text \<open>
  The objects of this device that have to exist. Files, trend logs and schedules name other objects;
  a schedule's reference to another device names none of this one.
\<close>

fun needs :: "setup_call \<Rightarrow> object_id list" where
  "needs (AddDevice d) = []"
| "needs (SetServiceEnabled d _ _) = [(OBJECT_TYPE_DEVICE, d)]"
| "needs (AddObject d _ _) = [(OBJECT_TYPE_DEVICE, d)]"
| "needs (AddNetworkPortObject d _ _ _ _ _ _) = [(OBJECT_TYPE_DEVICE, d)]"
| "needs (SetPropertyEnabled d t i _ _) = [(OBJECT_TYPE_DEVICE, d), (t, i)]"
| "needs (SetPropertyWritable d t i _ _) = [(OBJECT_TYPE_DEVICE, d), (t, i)]"
| "needs (AddNotificationClassObject d _ _ _) = [(OBJECT_TYPE_DEVICE, d)]"
| "needs (AddRecipientToNotificationClass d c _ _ _ _ _ _ _ _) =
     [(OBJECT_TYPE_DEVICE, d), (OBJECT_TYPE_NOTIFICATION_CLASS, c)]"
| "needs (SetAlarmsAndEventsForObjectEnabled d t i c _ _ _ _) =
     [(OBJECT_TYPE_DEVICE, d), (t, i), (OBJECT_TYPE_NOTIFICATION_CLASS, c)]"
| "needs (SetIntrinsicOutOfRangeAlgorithm d t i _ _ _ _ _) = [(OBJECT_TYPE_DEVICE, d), (t, i)]"
| "needs (AddCalendarObject d i) = [(OBJECT_TYPE_DEVICE, d), (OBJECT_TYPE_CALENDAR, i)]"
| "needs (AddCalendarDateEntry d i _ _ _ _) = [(OBJECT_TYPE_DEVICE, d), (OBJECT_TYPE_CALENDAR, i)]"
| "needs (AddScheduleObject d i) = [(OBJECT_TYPE_DEVICE, d), (OBJECT_TYPE_SCHEDULE, i)]"
| "needs (AddScheduleObjectPropertyReference d i d' t j _ _) =
     [(OBJECT_TYPE_DEVICE, d), (OBJECT_TYPE_SCHEDULE, i)] @ (if d' = d then [(t, j)] else [])"
| "needs (SetSchedulePriorityForWriting d i _) = [(OBJECT_TYPE_DEVICE, d), (OBJECT_TYPE_SCHEDULE, i)]"
| "needs (SetScheduleDefault d i _ _ _) = [(OBJECT_TYPE_DEVICE, d), (OBJECT_TYPE_SCHEDULE, i)]"
| "needs (SetScheduleEffectivePeriod d i _ _) = [(OBJECT_TYPE_DEVICE, d), (OBJECT_TYPE_SCHEDULE, i)]"
| "needs (AddScheduleWeeklyTimeValue d i _ _ _ _ _) = [(OBJECT_TYPE_DEVICE, d), (OBJECT_TYPE_SCHEDULE, i)]"
| "needs (AddScheduleExceptionEventWithCalendarReference d i j _) =
     [(OBJECT_TYPE_DEVICE, d), (OBJECT_TYPE_SCHEDULE, i), (OBJECT_TYPE_CALENDAR, j)]"
| "needs (AddScheduleExceptionTimeValue d i _ _ _ _ _) = [(OBJECT_TYPE_DEVICE, d), (OBJECT_TYPE_SCHEDULE, i)]"
| "needs (AddFileObject d _ _ _ _) = [(OBJECT_TYPE_DEVICE, d)]"
| "needs (SetBackupAndRestoreEnabled d _ _ _ _ _) = [(OBJECT_TYPE_DEVICE, d)]"
| "needs (AddTrendLogObject d _ t i _ _ _ _) = [(OBJECT_TYPE_DEVICE, d), (t, i)]"
| "needs (SetTrendLogStartStopTime d t i _ _) = [(OBJECT_TYPE_DEVICE, d), (t, i)]"
| "needs (SetTrendLogTypeToPolled d t i _ _ _) = [(OBJECT_TYPE_DEVICE, d), (t, i)]"
| "needs (SetIntrinsicBufferReadyAlgorithm d t i _ _ _) = [(OBJECT_TYPE_DEVICE, d), (t, i)]"
| "needs (AddTrendLogMultipleObject d _ _) = [(OBJECT_TYPE_DEVICE, d)]"
| "needs (AddLoggedObjectToTrendLogMultiple d i t j _ _ _) =
     [(OBJECT_TYPE_DEVICE, d), (OBJECT_TYPE_TREND_LOG_MULTIPLE, i), (t, j)]"
| "needs (SetBACnetSCUuid _) = []"
| "needs (SetBACnetSCHubConnectorForNetworkPort d i _ _ _) = [(OBJECT_TYPE_DEVICE, d), (OBJECT_TYPE_NETWORK_PORT, i)]"
| "needs (SetBACnetSCSettings _ _ _ _ _ _) = []"
| "needs (SetBACnetSCCertificateFileObjects d i (_, op) (_, csr) issuers) =
     [(OBJECT_TYPE_DEVICE, d), (OBJECT_TYPE_NETWORK_PORT, i), (OBJECT_TYPE_FILE, op), (OBJECT_TYPE_FILE, csr)] @
     map (\<lambda>f. (OBJECT_TYPE_FILE, f)) issuers"
| "needs (ActivateNetworkPortPendingChanges d i) = [(OBJECT_TYPE_DEVICE, d), (OBJECT_TYPE_NETWORK_PORT, i)]"

fun in_order :: "object_id list \<Rightarrow> setup_call list \<Rightarrow> bool" where
  "in_order known [] = True"
| "in_order known (c # cs) =
     (list_all (\<lambda>ob. ob \<in> set known) (needs c) \<and> list_all (\<lambda>ob. ob \<notin> set known) (adds c) \<and>
      in_order (known @ adds c) cs)"

lemma in_order_take: "in_order known cs \<Longrightarrow> in_order known (take n cs)"
  by (induction known cs arbitrary: n rule: in_order.induct) (simp_all add: take_Cons split: nat.split)

lemma in_order_append:
  "in_order known (cs @ ds) \<longleftrightarrow> in_order known cs \<and> in_order (known @ concat (map adds cs)) ds"
  by (induction known cs rule: in_order.induct) auto

section \<open>The whole list\<close>

definition port_list :: "setup_world \<Rightarrow> device \<Rightarrow> setup_call list" where
  "port_list w d =
     (if dataLink (g_options d) = SC
      then sc_status_calls (g_deviceInstance d) SC_NETWORK_PORT_INSTANCE @
        (case deviceUuid w of
           None \<Rightarrow> []
         | Some u \<Rightarrow> sc_certificate_calls (g_deviceInstance d) SC_NETWORK_PORT_INSTANCE
             (scPrimaryHubUri (g_options d)) (scFailoverHubUri (g_options d)) u)
      else port_calls d)"

definition all_calls :: "setup_world \<Rightarrow> device \<Rightarrow> setup_call list" where
  "all_calls w d =
     (let device = g_deviceInstance d in
      (AddDevice device # service_calls device @ object_calls device) @ port_list w d @
      (optional_calls device @ commandable_calls device @ alarm_calls d @ schedule_calls device) @
      log_calls (trendStart w) (trendStop w) (exceptionIndexOf w) device)"

definition port_objects :: "device \<Rightarrow> object_id list" where
  "port_objects d =
     (OBJECT_TYPE_NETWORK_PORT, ActiveNetworkPortInstance d) #
     (if dataLink (g_options d) = SC
      then map (\<lambda>f. (OBJECT_TYPE_FILE, f)) [FILE_OPERATIONAL_CERTIFICATE_INSTANCE,
        FILE_ISSUER_CERTIFICATE_1_INSTANCE, FILE_ISSUER_CERTIFICATE_2_INSTANCE,
        FILE_CERTIFICATE_SIGNING_REQUEST_INSTANCE]
      else [])"

definition first_objects :: "device \<Rightarrow> object_id list" where
  "first_objects d =
     [(OBJECT_TYPE_DEVICE, g_deviceInstance d), (OBJECT_TYPE_ANALOG_INPUT, ANALOG_INPUT_INSTANCE),
      (OBJECT_TYPE_BINARY_INPUT, BINARY_INPUT_INSTANCE), (OBJECT_TYPE_MULTI_STATE_INPUT, MULTI_STATE_INPUT_INSTANCE),
      (OBJECT_TYPE_ANALOG_OUTPUT, ANALOG_OUTPUT_INSTANCE), (OBJECT_TYPE_BINARY_OUTPUT, BINARY_OUTPUT_INSTANCE),
      (OBJECT_TYPE_MULTI_STATE_OUTPUT, MULTI_STATE_OUTPUT_INSTANCE), (OBJECT_TYPE_ANALOG_VALUE, ANALOG_VALUE_INSTANCE)]"

definition last_objects :: "object_id list" where
  "last_objects =
     [(OBJECT_TYPE_NOTIFICATION_CLASS, NOTIFICATION_CLASS_INSTANCE), (OBJECT_TYPE_SCHEDULE, SCHEDULE_INSTANCE),
      (OBJECT_TYPE_CALENDAR, CALENDAR_INSTANCE), (OBJECT_TYPE_FILE, FILE_INSTANCE),
      (OBJECT_TYPE_TREND_LOG, TREND_LOG_INSTANCE), (OBJECT_TYPE_TREND_LOG_MULTIPLE, TREND_LOG_MULTIPLE_INSTANCE)]"

text \<open>The objects of the running device.\<close>

definition configured_objects :: "device \<Rightarrow> object_id list" where
  "configured_objects d = first_objects d @ port_objects d @ last_objects"

lemma first_calls_ordered:
  "in_order [] (AddDevice n # service_calls n @ object_calls n)"
  "concat (map adds (AddDevice (g_deviceInstance d) # service_calls (g_deviceInstance d) @
     object_calls (g_deviceInstance d))) = first_objects d"
  by (simp_all add: service_calls_def object_calls_def first_objects_def)

lemma port_list_ordered:
  "in_order (first_objects d) (port_list w d)"
  "dataLink (g_options d) \<noteq> SC \<or> deviceUuid w \<noteq> None \<Longrightarrow> concat (map adds (port_list w d)) = port_objects d"
  by (cases "dataLink (g_options d)"; cases "deviceUuid w";
      simp add: port_list_def port_calls_def plain_port_def sc_status_calls_def sc_certificate_calls_def
        first_objects_def port_objects_def ActiveNetworkPortInstance_def Let_def)+

lemma last_calls_ordered:
  assumes "set (first_objects d) \<subseteq> set known" "set last_objects \<inter> set known = {}"
  shows "in_order known ((optional_calls (g_deviceInstance d) @ commandable_calls (g_deviceInstance d) @
      alarm_calls d @ schedule_calls (g_deviceInstance d)) @ log_calls t1 t2 e (g_deviceInstance d))"
    "concat (map adds ((optional_calls (g_deviceInstance d) @ commandable_calls (g_deviceInstance d) @
      alarm_calls d @ schedule_calls (g_deviceInstance d)) @ log_calls t1 t2 e (g_deviceInstance d))) = last_objects"
  using assms
  by (simp_all add: optional_calls_def commandable_calls_def alarm_calls_def schedule_calls_def log_calls_def
      first_objects_def last_objects_def Let_def)

lemma all_calls_ordered:
  assumes "dataLink (g_options d) \<noteq> SC \<or> deviceUuid w \<noteq> None"
  shows "in_order [] (all_calls w d)" "concat (map adds (all_calls w d)) = configured_objects d"
proof -
  let ?n = "g_deviceInstance d" and ?known = "first_objects d @ port_objects d"
  note F = first_calls_ordered(1) [of ?n] first_calls_ordered(2) [of d]
  note P = port_list_ordered(1) [of d w] port_list_ordered(2) [OF assms]
  have "set last_objects \<inter> set ?known = {}"
    by (simp add: last_objects_def first_objects_def port_objects_def)
  then have L: "in_order ?known ((optional_calls ?n @ commandable_calls ?n @ alarm_calls d @ schedule_calls ?n) @
        log_calls t1 t2 e ?n)"
    "concat (map adds ((optional_calls ?n @ commandable_calls ?n @ alarm_calls d @ schedule_calls ?n) @
        log_calls t1 t2 e ?n)) = last_objects" for t1 t2 e
    using last_calls_ordered [of d ?known] by simp_all
  show "in_order [] (all_calls w d)"
    unfolding all_calls_def Let_def in_order_append [of "[]"] in_order_append [of "first_objects d"]
      F(2) append.append_Nil P(2)
    using F(1) P(1) L(1) by blast
  show "concat (map adds (all_calls w d)) = configured_objects d"
    unfolding all_calls_def Let_def map_append [of _ "AddDevice ?n # service_calls ?n @ object_calls ?n"]
      map_append [of _ "port_list w d"] concat_append F(2) P(2) configured_objects_def
    using L(2) by simp
qed

lemma configure_performs:
  assumes "dataLink (g_options d) = SC \<longrightarrow> BBC_WITH_SC d" "dataLink (g_options d) \<noteq> SC \<or> deviceUuid w \<noteq> None"
  shows "performs (stackAccepts w) (configure_device w d) [] (all_calls w d)"
proof -
  have port: "performs (stackAccepts w) (port_step (stackAccepts w) (deviceUuid w) d) before (port_list w d)" for before
    using assms by (auto simp: port_step_def port_list_def AddNetworkPort_def
        intro!: and_then_performs make_calls_performs split: option.split)
  show ?thesis
    unfolding configure_device_def all_calls_def Let_def
    by (rule and_then_performs [where before = "[]", OF make_calls_performs])
      (intro and_then_performs port make_calls_performs)
qed

text \<open>Without a UUID the set-up of the BACnet/SC port stops before anything is configured in it.\<close>

lemma configure_without_uuid:
  assumes "dataLink (g_options d) = SC" "BBC_WITH_SC d" "deviceUuid w = None"
  shows "\<exists>n. configure_device w d [] = (take n
    ((AddDevice (g_deviceInstance d) # service_calls (g_deviceInstance d) @ object_calls (g_deviceInstance d)) @
     port_list w d), False)"
proof -
  let ?n = "g_deviceInstance d"
  let ?f = "AddDevice ?n # service_calls ?n @ object_calls ?n" and ?s = "sc_status_calls ?n SC_NETWORK_PORT_INSTANCE"
  have P: "performs (stackAccepts w) (and_then (make_calls (stackAccepts w) ?f) (make_calls (stackAccepts w) ?s)) [] (?f @ ?s)"
    by (rule and_then_performs [where before = "[]", OF make_calls_performs make_calls_performs])
  have C: "configure_device w d [] = (fst (and_then (make_calls (stackAccepts w) ?f) (make_calls (stackAccepts w) ?s) []), False)"
    by (simp add: configure_device_def port_step_def AddNetworkPort_def assms and_then_def give_up_def Let_def
        split: prod.split)
  have s: "port_list w d = ?s" by (simp add: port_list_def assms)
  from P show ?thesis unfolding C s performs_def by (metis append_Nil fst_conv order_refl take_all)
qed

section \<open>Names\<close>

lemma configured_objects_named:
  assumes "dataLink (g_options d) = SC \<longrightarrow> BBC_WITH_SC d"
  shows "list_all (\<lambda>(t, i). ObjectName d t i \<noteq> None) (configured_objects d)"
  using assms
  by (cases "dataLink (g_options d)")
    (simp_all add: configured_objects_def first_objects_def port_objects_def last_objects_def ObjectName_def
      fixed_names_def later_names_def DataLinkPortName_def ActiveNetworkPortInstance_def IsScCertificateFile_def
      IsCertificateFile_def)

lemma configured_objects_distinct: "distinct (configured_objects d)"
  by (simp add: configured_objects_def first_objects_def port_objects_def last_objects_def)

text \<open>
  C10: Start-up configures the device in an order the stack can work with, on each of the four data
  links and whatever the stack answers: no call refers to an object of the device that an earlier call
  has not added, and none adds an object twice. When every call is accepted, the objects of the device
  are exactly the configured ones, each answers Object_Name, and no two have the same name unless the
  device was given the name of another object. Otherwise the start-up ends with the first call the stack
  refuses, or because no device UUID could be saved, and nothing has been sent.
\<close>

theorem startup_configures:
  assumes "dataLink (g_options d) = SC \<longrightarrow> BBC_WITH_SC d"
    and "configure_device w d [] = (cs, ok)"
  shows "in_order [] cs \<and>
    (if ok
     then concat (map adds cs) = configured_objects d \<and>
       (\<forall>k < length cs. stackAccepts w (take k cs) (cs ! k)) \<and>
       list_all (\<lambda>(t, i). ObjectName d t i \<noteq> None) (configured_objects d) \<and>
       (g_deviceName d \<notin> set (map snd all_names) \<longrightarrow>
          distinct (map (\<lambda>(t, i). ObjectName d t i) (configured_objects d)))
     else (\<exists>cs' c. cs = cs' @ [c] \<and> \<not> stackAccepts w cs' c) \<or>
       dataLink (g_options d) = SC \<and> deviceUuid w = None)"
proof (cases "dataLink (g_options d) \<noteq> SC \<or> deviceUuid w \<noteq> None")
  case True
  note N = configured_objects_named [OF assms(1)]
  have D: "distinct (map (\<lambda>(t, i). ObjectName d t i) (configured_objects d))"
    if "g_deviceName d \<notin> set (map snd all_names)"
    unfolding distinct_map
  proof (intro conjI configured_objects_distinct inj_onI)
    fix a b assume ab: "a \<in> set (configured_objects d)" "b \<in> set (configured_objects d)"
      "(\<lambda>(t, i). ObjectName d t i) a = (\<lambda>(t, i). ObjectName d t i) b"
    obtain n where n: "ObjectName d (fst a) (snd a) = Some n"
      using N ab(1) by (auto simp: list_all_iff split_beta)
    then have "ObjectName d (fst b) (snd b) = Some n" using ab(3) by (simp add: split_beta)
    from object_names_unique [OF n this that] show "a = b" by (simp add: prod_eq_iff)
  qed
  from configure_performs [OF assms(1) True] assms(2)
  consider "cs = all_calls w d" ok "\<forall>i < length cs. stackAccepts w (take i cs) (cs ! i)"
    | k where "k < length (all_calls w d)" "cs = take (Suc k) (all_calls w d)" "\<not> ok"
        "\<not> stackAccepts w (take k (all_calls w d)) (all_calls w d ! k)"
    unfolding performs_def by auto
  then show ?thesis
  proof cases
    case 1
    then show ?thesis using all_calls_ordered [OF True] N D by simp
  next
    case 2
    then have "cs = take k (all_calls w d) @ [all_calls w d ! k]" by (simp add: take_Suc_conv_app_nth)
    then show ?thesis using 2 in_order_take [OF all_calls_ordered(1) [OF True], of "Suc k"] by auto
  qed
next
  case False
  from False assms(1) have "dataLink (g_options d) = SC" "BBC_WITH_SC d" "deviceUuid w = None" by simp_all
  from configure_without_uuid [OF this] assms(2) obtain n where n: "\<not> ok"
      "cs = take n ((AddDevice (g_deviceInstance d) # service_calls (g_deviceInstance d) @
         object_calls (g_deviceInstance d)) @ port_list w d)" by auto
  have "in_order [] ((AddDevice (g_deviceInstance d) # service_calls (g_deviceInstance d) @
      object_calls (g_deviceInstance d)) @ port_list w d)"
    unfolding in_order_append first_calls_ordered(2) append.append_Nil
    using first_calls_ordered(1) port_list_ordered(1) by blast
  then show ?thesis using n False in_order_take by simp
qed

text \<open>BACnet/IP with a stack that accepts everything.\<close>

definition noon_tm :: tm where
  "noon_tm = \<lparr>tm_year = 126, tm_mon = 0, tm_mday = 1, tm_hour = 12, tm_min = 0, tm_sec = 0, tm_wday = 4\<rparr>"

definition obliging_stack :: setup_world where
  "obliging_stack = \<lparr>stackAccepts = (\<lambda>before c. True), exceptionIndexOf = 0, deviceUuid = None,
     trendStart = noon_tm, trendStop = noon_tm\<lparr>tm_min := 10\<rparr>\<rparr>"

theorem startup_configures_witness:
  "concat (map adds (fst (configure_device obliging_stack (new_device False default_options (sc demo_device)) []))) =
   configured_objects (new_device False default_options (sc demo_device))"
proof -
  let ?d = "new_device False default_options (sc demo_device)"
  obtain cs ok where c: "configure_device obliging_stack ?d [] = (cs, ok)" by (metis surj_pair)
  have "dataLink (g_options ?d) \<noteq> SC" by (simp add: new_device_def default_options_def)
  then have "ok" "concat (map adds cs) = configured_objects ?d"
    using startup_configures [OF _ c] by (auto simp: obliging_stack_def split: if_splits)
  then show ?thesis by (simp add: c)
qed

end
