(* ===== verification/Float_Arithmetic.thy ===== *)
theory Float_Arithmetic
  imports Prelude
begin

text \<open>
  The addition of two C \<open>float\<close>s on their IEEE 754 bit patterns, rounded to nearest with ties to even:
  a finite value is an integer multiple of \<open>2\<^sup>-\<^sup>1\<^sup>4\<^sup>9\<close>, so that the sum is exact before it is rounded.
\<close>

abbreviation (input) f32_infinity :: f32 where "f32_infinity \<equiv> 0x7F800000"

definition f32_negative :: "f32 \<Rightarrow> bool" where "f32_negative x \<longleftrightarrow> bit x 31"

definition is_infinite :: "f32 \<Rightarrow> bool" where "is_infinite x \<longleftrightarrow> x AND 0x7FFFFFFF = f32_infinity"

text \<open>The magnitude in units of \<open>2\<^sup>-\<^sup>1\<^sup>4\<^sup>9\<close>.\<close>

definition f32_units :: "f32 \<Rightarrow> int" where
  "f32_units x =
     (let e = unat (drop_bit 23 x AND 0xFF); m = uint (x AND 0x7FFFFF);
          v = (if e = 0 then m else (m + 2 ^ 23) * 2 ^ (e - 1))
      in if f32_negative x then - v else v)"

definition f32_of_units :: "int \<Rightarrow> f32" where
  "f32_of_units v =
     (let n = nat \<bar>v\<bar>;
          pattern = (if n < 2 ^ 24 then n
                     else let shift = floor_log2 n - 23 in shift * 2 ^ 23 + round_even_div n (2 ^ shift));
          magnitude = (if 0x7F800000 \<le> pattern then f32_infinity else of_nat pattern)
      in if v < 0 then magnitude OR 0x80000000 else magnitude)"

text \<open>A NaN operand is passed on quietly; the sum of opposite infinities is the default NaN.\<close>

definition f32_add :: "f32 \<Rightarrow> f32 \<Rightarrow> f32" where
  "f32_add a b =
     (if is_nan a then a OR 0x00400000
      else if is_nan b then b OR 0x00400000
      else if is_infinite a then (if is_infinite b \<and> a \<noteq> b then 0xFFC00000 else a)
      else if is_infinite b then b
      else let v = f32_units a + f32_units b in
        if v = 0 then (if f32_negative a \<and> f32_negative b then 0x80000000 else 0)
        else f32_of_units v)"

definition f32_minus :: "f32 \<Rightarrow> f32" where "f32_minus x = x XOR 0x80000000"

text \<open>\<open>21.5f + 1.1f\<close> is 22.6f, one more \<open>1.1f\<close> down gives 21.5f back; overflow and NaN.\<close>

lemma f32_add_examples:
  "f32_add 0x41AC0000 0x3F8CCCCD = 0x41B4CCCD"
  "f32_add 0x41B4CCCD (f32_minus 0x3F8CCCCD) = 0x41AC0000"
  "f32_add 0x3F800000 0xBF800000 = 0"
  "is_nan (f32_add 0x7F800000 0xFF800000)"
  "f32_add 0x7F800000 0x3F8CCCCD = 0x7F800000"
  by (simp_all add: f32_add_def f32_units_def f32_of_units_def f32_negative_def f32_minus_def is_infinite_def
      is_nan_def Let_def floor_log2.simps round_even_div_def)

end
