(* ===== verification/Main_Loop.thy ===== *)
theory Main_Loop
  imports Startup Services Float_Arithmetic
begin

text \<open>
  The loop of \<open>main()\<close> (main.cpp): one pass runs the stack, does the data link's own work, polls the
  peer, carries out a restart that has come due, and handles a key. What \<open>BACnetStack_Tick()\<close> does
  through the callbacks, what libwebsockets delivers, the clocks and the keyboard are the pass's input.
  The MS/TP counters and the other lines the loop prints are not modelled.
\<close>

section \<open>State and input\<close>

record loop_state =
  lp_device :: device
  lp_pending :: bool               \<comment> \<open>\<open>announcementPending\<close>\<close>
  lp_running :: bool
  lp_setup :: "setup_call list"    \<comment> \<open>set-up calls made by the loop\<close>

text \<open>
  \<open>hubEvents\<close> is the \<open>lws_service\<close> call, \<open>statusReaction\<close> what the stack does when it is told the
  statuses of the hub connections.
\<close>

record pass_input =
  tick :: "device \<Rightarrow> device"
  inTokenRing :: bool
  steadyNow :: int
  hubEvents :: "sc_node \<Rightarrow> sc_node"
  statusReaction :: "(string \<times> WebSocketStatus) list \<Rightarrow> sc_node \<Rightarrow> sc_node"
  hubUris :: "string list"
  contextMade :: bool
  pollSent :: "u8 option"
  monotonicNow :: u64
  keyOctets :: string
  passClock :: clock_env

abbreviation (input) MSTP_ANNOUNCE_TIMEOUT_MILLISECONDS :: u32 where
  "MSTP_ANNOUNCE_TIMEOUT_MILLISECONDS \<equiv> 10000"

section \<open>The data link's own work\<close>

definition announce :: "device \<Rightarrow> device" where
  "announce d = SendWhoIsBroadcast (SendIAmBroadcast d)"

definition ServicePass :: "pass_input \<Rightarrow> sc_node \<Rightarrow> sc_node \<times> bool" where
  "ServicePass i n =
     (case ServiceNode (hubEvents i n) (hubUris i) (contextMade i) of
        (n1, statuses) \<Rightarrow> TakeHubConnectedEvent (statusReaction i statuses n1))"

text \<open>The device, \<open>announcementPending\<close>, and whether this pass announced the device.\<close>

definition DataLinkStep :: "int \<Rightarrow> pass_input \<Rightarrow> device \<Rightarrow> bool \<Rightarrow> device \<times> bool \<times> bool" where
  "DataLinkStep startTime i d pending =
     (if dataLink (g_options d) = MSTP
      then (if pending \<and> (inTokenRing i \<or>
                MSTP_ANNOUNCE_TIMEOUT_MILLISECONDS < MillisecondsSince (steadyNow i) startTime)
            then (announce d, False, True) else (d, pending, False))
      else if dataLink (g_options d) = SC \<and> BBC_WITH_SC d
      then (case ServicePass i (sc d) of
              (n, connected) \<Rightarrow>
                (if connected then (announce (d\<lparr>sc := n\<rparr>), False, True) else (d\<lparr>sc := n\<rparr>, pending, False)))
      else (d, pending, False))"

section \<open>The deferred restart\<close>

text \<open>
  The power-on values of a cold start: \<open>21.5f\<close>, \<open>50.0f\<close>, and the three outputs with no slot set and
  their defaults.
\<close>

definition power_on :: "device \<Rightarrow> device" where
  "power_on d =
     d\<lparr>g_analogInput1Value := 0x41AC0000, g_analogValue1Value := 0x42480000,
       g_analogOutput := new_Commandable 0 0x41A00000, g_binaryOutput := new_Commandable 0 0,
       g_multiStateOutput := new_Commandable 0 1\<rparr>"

definition RestartStep :: "u64 \<Rightarrow> device \<Rightarrow> device" where
  "RestartStep now d =
     (case RestartDue now d of
        (d1, None) \<Rightarrow> d1
      | (d1, Some kind) \<Rightarrow> SendIAmBroadcast (if kind = Cold then power_on d1 else d1))"

section \<open>Keys\<close>

text \<open>\<open>1.1f\<close> is \<open>0x3F8CCCCD\<close>. The demo key adds a weekly transition for this moment.\<close>

definition demo_transition :: "clock_env \<Rightarrow> device \<Rightarrow> setup_call option" where
  "demo_transition clock d =
     map_option (\<lambda>now. AddScheduleWeeklyTimeValue (g_deviceInstance d) SCHEDULE_INSTANCE
         (of_int ((tm_wday now + 6) mod 7)) [of_int (tm_hour now), of_int (tm_min now), of_int (tm_sec now), 0]
         BACNET_DATATYPE_REAL 0 0x42960000)
       (GetCurrentLocalTm clock d)"

definition KeyStep :: "clock_env \<Rightarrow> KeyCommand \<Rightarrow> loop_state \<Rightarrow> loop_state" where
  "KeyStep clock key s =
     (case key of
        Quit \<Rightarrow> s\<lparr>lp_running := False\<rparr>
      | ArrowUp \<Rightarrow> s\<lparr>lp_device := (lp_device s)\<lparr>g_analogInput1Value :=
                   f32_add (g_analogInput1Value (lp_device s)) 0x3F8CCCCD\<rparr>\<rparr>
      | ArrowDown \<Rightarrow> s\<lparr>lp_device := (lp_device s)\<lparr>g_analogInput1Value :=
                   f32_add (g_analogInput1Value (lp_device s)) (f32_minus 0x3F8CCCCD)\<rparr>\<rparr>
      | DemoAdvance \<Rightarrow> s\<lparr>lp_setup := lp_setup s @
                   (case demo_transition clock (lp_device s) of None \<Rightarrow> [] | Some c \<Rightarrow> [c])\<rparr>
      | _ \<Rightarrow> s)"

section \<open>One pass and many\<close>

definition loop_pass :: "int \<Rightarrow> pass_input \<Rightarrow> loop_state \<Rightarrow> loop_state \<times> bool" where
  "loop_pass startTime i s =
     (case DataLinkStep startTime i (tick i (lp_device s)) (lp_pending s) of
        (d1, pending, announced) \<Rightarrow>
          (let d2 = RestartStep (monotonicNow i) (PollPeer (steadyNow i) (pollSent i) d1) in
           (KeyStep (passClock i) (PollKey (keyOctets i)) (s\<lparr>lp_device := d2, lp_pending := pending\<rparr>), announced)))"

text \<open>The passes until the loop ends, with the passes that announced the device.\<close>

fun run_loop :: "int \<Rightarrow> pass_input list \<Rightarrow> loop_state \<Rightarrow> loop_state \<times> bool list" where
  "run_loop startTime [] s = (s, [])"
| "run_loop startTime (i # is) s =
     (if \<not> lp_running s then (s, [])
      else case loop_pass startTime i s of
          (s1, announced) \<Rightarrow> (case run_loop startTime is s1 of (s2, as) \<Rightarrow> (s2, announced # as)))"

definition loop_start :: "device \<Rightarrow> bool \<Rightarrow> loop_state" where
  "loop_start d pending = \<lparr>lp_device = d, lp_pending = pending, lp_running = True, lp_setup = []\<rparr>"

end
