(* ===== verification/Loop_Invariant.thy ===== *)
theory Loop_Invariant
  imports Main_Loop Peer_Properties Startup_Properties
begin

text \<open>
  The well-formedness of the device over every interleaving of the stack's callbacks with the passes of
  the main loop, and what neither of them changes.
\<close>

section \<open>What the stack may call during a tick\<close>

text \<open>
  The callbacks that change the device, with any arguments; the contracts of the stack and of the
  sockets are that a connection string and a sender's address have their lengths. Every change to the
  BACnet/SC node is one of its own operations, which leave the rest of the device alone.
\<close>

inductive callback :: "device \<Rightarrow> device \<Rightarrow> bool" where
  set_real: "callback d (fst (SetPropertyReal d di ot oi p v w))"
| set_enumerated: "callback d (fst (SetPropertyEnumerated d di ot oi p u w))"
| set_unsigned: "callback d (fst (SetPropertyUnsignedInteger env d di ot oi p u w))"
| set_null: "callback d (fst (SetPropertyNull d di ot oi p w))"
| set_bool: "callback d (fst (SetPropertyBool d di ot oi p b))"
| write_file: "WriteFile env d di fi start data = Some (d', r) \<Longrightarrow> callback d d'"
| restart: "callback d (RequestRestart now d kind delay)"
| node: "callback d (d\<lparr>sc := n\<rparr>)"
| clock: "callback d (fst (SetSystemTime cenv d di year month day hour minute second))"
| i_am: "length connString = unat len \<Longrightarrow> callback d (HookIAm now d instance connString len sourceNetwork)"
| received: "CallbackReceiveMessage now t maxLen maxConn queued = (t', port, r) \<Longrightarrow> dev t = d \<Longrightarrow>
    (\<And>data from scope fromPort. queued = Some (data, from, scope, fromPort) \<Longrightarrow>
       length from = unat (TransportAddressLength d)) \<Longrightarrow> callback d (dev t')"

text \<open>A ReinitializeDevice and a Network Port command are made of these.\<close>

lemma ReinitializeDevice_callbacks:
  "callback\<^sup>*\<^sup>* d (fst (ReinitializeDevice cr env now d di st pw len))"
proof -
  have a: "callback\<^sup>*\<^sup>* d (d\<lparr>sc := n\<rparr>)" for n by (rule r_into_rtranclp [of callback, OF node])
  have b: "callback\<^sup>*\<^sup>* d (RequestRestart now (d\<lparr>sc := n\<rparr>) k r)" for n k r
    by (rule rtranclp.rtrancl_into_rtrancl [OF a restart])
  have c: "callback\<^sup>*\<^sup>* d (RequestRestart now d k r)" for k r
    by (rule r_into_rtranclp [of callback, OF restart])
  show ?thesis
    using a b c by (auto simp: ReinitializeDevice_def Let_def split: prod.split sum.split if_splits)
qed

lemma NetworkPortCommand_callbacks: "callback\<^sup>*\<^sup>* d (fst (NetworkPortCommand cr env d di port command))"
  using r_into_rtranclp [of callback, OF node]
  by (auto simp: NetworkPortCommand_def split: prod.split)

section \<open>The well-formed device\<close>

definition device_ok :: "device \<Rightarrow> bool" where
  "device_ok d \<longleftrightarrow> device_inv d \<and> peer_ok d"

text \<open>Which of the device the peer's bookkeeping changes.\<close>

definition peer_frame :: "device \<Rightarrow> device \<Rightarrow> bool" where
  "peer_frame d d' \<longleftrightarrow> (\<exists>v r p c. d' = d\<lparr>g_analogValue1Value := v, g_diamondReliability := r, g_peer := p,
     stackCalls := c\<rparr>)"

lemma peer_frame_refl [simp]: "peer_frame d d"
  unfolding peer_frame_def
  by (intro exI [of _ "g_analogValue1Value d"] exI [of _ "g_diamondReliability d"] exI [of _ "g_peer d"]
      exI [of _ "stackCalls d"]) simp

lemma peer_frame_trans [trans]: "peer_frame a b \<Longrightarrow> peer_frame b c \<Longrightarrow> peer_frame a c"
  unfolding peer_frame_def by (elim exE, simp, (rule exI)+, rule refl)

lemma peer_frame_field [simp]:
  "peer_frame d (d\<lparr>g_peer := p\<rparr>)" "peer_frame d (d\<lparr>g_diamondReliability := r\<rparr>)"
  "peer_frame d (d\<lparr>g_analogValue1Value := v\<rparr>)" "peer_frame d (d\<lparr>stackCalls := c\<rparr>)"
  unfolding peer_frame_def
  by (intro exI [of _ "g_analogValue1Value d"] exI [of _ "g_diamondReliability d"] exI [of _ p]
      exI [of _ "stackCalls d"], simp,
     intro exI [of _ "g_analogValue1Value d"] exI [of _ r] exI [of _ "g_peer d"]
      exI [of _ "stackCalls d"], simp,
     intro exI [of _ v] exI [of _ "g_diamondReliability d"] exI [of _ "g_peer d"]
      exI [of _ "stackCalls d"], simp,
     intro exI [of _ "g_analogValue1Value d"] exI [of _ "g_diamondReliability d"] exI [of _ "g_peer d"]
      exI [of _ c], simp)

lemma peer_frame_calls [simp]:
  "peer_frame d (d\<lparr>g_diamondReliability := r, stackCalls := c\<rparr>)"
  "peer_frame d (d\<lparr>g_analogValue1Value := v, stackCalls := c\<rparr>)"
  "peer_frame d (d\<lparr>g_peer := p, stackCalls := c\<rparr>)"
  "peer_frame d (d\<lparr>stackCalls := c, g_peer := p\<rparr>)"
  by (rule peer_frame_trans [OF peer_frame_field(2) peer_frame_field(4)],
      rule peer_frame_trans [OF peer_frame_field(3) peer_frame_field(4)],
      rule peer_frame_trans [OF peer_frame_field(1) peer_frame_field(4)],
      rule peer_frame_trans [OF peer_frame_field(4) peer_frame_field(1)])

lemma Diamond_frame [simp]: "peer_frame d (SetDiamondReliability d r)" "peer_frame d (UpdateDiamondFromPeer d v)"
  by (simp_all add: SetDiamondReliability_def UpdateDiamondFromPeer_def)

lemma HookIAm_frame: "peer_frame d (HookIAm now d instance connString len sourceNetwork)"
  by (simp add: HookIAm_def Let_def)

lemma PollPeer_frame: "peer_frame d (PollPeer now sent d)"
proof -
  define d1 where "d1 = (if REMOTE_COMMS_LOSS_MILLISECONDS < MillisecondsSince now (lastAnswer (g_peer d)) \<and>
      g_diamondReliability d \<noteq> RELIABILITY_COMMUNICATION_FAILURE
    then SetDiamondReliability d RELIABILITY_COMMUNICATION_FAILURE else d)"
  have d1: "peer_frame d d1" by (simp add: d1_def)
  have "peer_frame d1 (d1\<lparr>g_peer := p, stackCalls := c\<rparr>)" "peer_frame d1 (d1\<lparr>stackCalls := c, g_peer := p\<rparr>)" for p c
    by simp_all
  with d1 have "peer_frame d (d1\<lparr>g_peer := p, stackCalls := c\<rparr>)" "peer_frame d (d1\<lparr>stackCalls := c, g_peer := p\<rparr>)"
    for p c
    using peer_frame_trans by blast+
  with d1 show ?thesis unfolding PollPeer_def Let_def d1_def [symmetric] by (simp split: option.split)
qed

lemma Ack_frame:
  "peer_frame d (HandleReadPropertyAck d apdu n)" "peer_frame d (HandleReadPropertyMultipleAck d apdu n)"
proof -
  have two: "peer_frame d (SetDiamondReliability (UpdateDiamondFromPeer d v) r)" for d v r
    by (rule peer_frame_trans [OF Diamond_frame(2) Diamond_frame(1)])
  then show "peer_frame d (HandleReadPropertyAck d apdu n)"
    by (simp add: HandleReadPropertyAck_def split: option.split)
  have "peer_frame d (SetDiamondReliability (UpdateDiamondFromPeer (d\<lparr>g_peer := p\<rparr>) v) r)"
    "peer_frame d (SetDiamondReliability (d\<lparr>g_peer := p\<rparr>) r)" for p v r
    by (rule peer_frame_trans [OF peer_frame_field(1) two], rule peer_frame_trans [OF peer_frame_field(1) Diamond_frame(1)])
  then show "peer_frame d (HandleReadPropertyMultipleAck d apdu n)"
    by (simp add: HandleReadPropertyMultipleAck_def Let_def)
qed

lemma HandleReplyFromPeer_frame: "peer_frame d (HandleReplyFromPeer now d message n fromAddress fromPort)"
proof -
  define p where "p rp = (if rp then (g_peer d)\<lparr>readPropertyPending := False, lastAnswer := now\<rparr>
      else (g_peer d)\<lparr>readPropertyMultiplePending := False, lastAnswer := now\<rparr>)" for rp
  have "peer_frame d (d\<lparr>g_peer := p rp\<rparr>)" for rp by simp
  then have "peer_frame d (SetDiamondReliability (d\<lparr>g_peer := p rp\<rparr>) r)"
    "peer_frame d (HandleReadPropertyAck (d\<lparr>g_peer := p rp\<rparr>) a m)"
    "peer_frame d (HandleReadPropertyMultipleAck (d\<lparr>g_peer := p rp\<rparr>) a m)" for rp r a m
    using peer_frame_trans Diamond_frame(1) Ack_frame by blast+
  then show ?thesis
    unfolding HandleReplyFromPeer_def Let_def p_def [symmetric] by (simp split: option.split)
qed

lemma device_inv_frame:
  "device_inv d \<Longrightarrow> peer_inv p \<Longrightarrow> r \<in> {RELIABILITY_NO_FAULT_DETECTED, RELIABILITY_UNRELIABLE_OTHER,
     RELIABILITY_COMMUNICATION_FAILURE} \<Longrightarrow>
   device_inv (d\<lparr>g_analogValue1Value := v, g_diamondReliability := r, g_peer := p, stackCalls := c\<rparr>)"
  unfolding device_inv_def by simp

lemma device_ok_frame:
  assumes "device_inv d" "peer_frame d d'" "peer_ok d'"
  shows "device_ok d'"
proof -
  obtain v r p c where d': "d' = d\<lparr>g_analogValue1Value := v, g_diamondReliability := r, g_peer := p, stackCalls := c\<rparr>"
    using assms(2) unfolding peer_frame_def by blast
  then have "g_peer d' = p" "g_diamondReliability d' = r" by simp_all
  with assms(3) have "peer_inv p" "r \<in> {RELIABILITY_NO_FAULT_DETECTED, RELIABILITY_UNRELIABLE_OTHER,
      RELIABILITY_COMMUNICATION_FAILURE}" unfolding peer_ok_def by blast+
  then have "device_inv d'" unfolding d' by (rule device_inv_frame [OF assms(1)])
  with assms(3) show ?thesis by (simp add: device_ok_def)
qed

text \<open>Changes that leave the peer's bookkeeping alone.\<close>

lemma device_ok_elsewhere:
  "device_ok d \<Longrightarrow> device_inv d' \<Longrightarrow> g_peer d' = g_peer d \<Longrightarrow> g_diamondReliability d' = g_diamondReliability d \<Longrightarrow>
   device_ok d'"
  by (simp add: device_ok_def peer_ok_def)

lemma SetProperty_peer [simp]:
  "g_peer (fst (SetPropertyReal d di ot oi p v w)) = g_peer d \<and>
   g_diamondReliability (fst (SetPropertyReal d di ot oi p v w)) = g_diamondReliability d"
  "g_peer (fst (SetPropertyEnumerated d di ot oi p u w)) = g_peer d \<and>
   g_diamondReliability (fst (SetPropertyEnumerated d di ot oi p u w)) = g_diamondReliability d"
  "g_peer (fst (SetPropertyUnsignedInteger env d di ot oi p u w)) = g_peer d \<and>
   g_diamondReliability (fst (SetPropertyUnsignedInteger env d di ot oi p u w)) = g_diamondReliability d"
  "g_peer (fst (SetPropertyNull d di ot oi p w)) = g_peer d \<and>
   g_diamondReliability (fst (SetPropertyNull d di ot oi p w)) = g_diamondReliability d"
  "g_peer (fst (SetPropertyBool d di ot oi p b)) = g_peer d \<and>
   g_diamondReliability (fst (SetPropertyBool d di ot oi p b)) = g_diamondReliability d"
  by (simp_all add: SetPropertyReal_def SetPropertyEnumerated_def SetPropertyUnsignedInteger_def
      SetDataLinkPortUnsigned_def SetPropertyNull_def SetPropertyBool_def
      split: prod.split option.split commandable_ref.split)

lemma WriteFile_ok:
  assumes "device_ok d" "WriteFile env d di fi start data = Some (d', r)"
  shows "device_ok d'"
proof (cases "di = g_deviceInstance d \<and> IsScCertificateFile d OBJECT_TYPE_FILE fi")
  case True
  with assms(2) obtain n where "d' = d\<lparr>sc := n\<rparr>" by (auto simp: WriteFile_def split: prod.splits)
  with assms(1) show ?thesis by (intro device_ok_elsewhere [OF assms(1)]) (simp_all add: device_ok_def)
next
  case False
  have inv: "device_inv d" using assms(1) by (simp add: device_ok_def)
  define st where "st = (if start = -1 then g_fileDataLength d else start)"
  define e where "e = st + of_nat (length data)"
  define len where "len = (if g_fileDataLength d < e then e else g_fileDataLength d)"
  have W: "WriteFile env d di fi start data =
      (if di \<noteq> g_deviceInstance d \<or> fi \<noteq> FILE_INSTANCE then Some (d, Inl None)
       else if FILE_MAX_SIZE < e then Some (d, Inl None)
       else case mem_write (g_fileData d) (unat st) data of
           None \<Rightarrow> None | Some b \<Rightarrow> Some (d\<lparr>g_fileData := b, g_fileDataLength := len\<rparr>, Inr st))"
    unfolding len_def e_def st_def WriteFile_def Let_def if_not_P [OF False] ..
  show ?thesis
  proof (cases "d' = d")
    case False
    with assms(2) obtain b where b: "\<not> FILE_MAX_SIZE < e" "mem_write (g_fileData d) (unat st) data = Some b"
        "d' = d\<lparr>g_fileData := b, g_fileDataLength := len\<rparr>"
      unfolding W by (auto split: if_split_asm option.split_asm)
    have "length b = 4096" using b(2) device_inv_file(2) [OF inv] by (simp add: mem_write_length)
    moreover have "unat len \<le> 4096"
      using b(1) device_inv_file(1) [OF inv] by (auto simp: len_def word_less_nat_alt)
    ultimately have "device_inv d'" unfolding b(3) by (rule device_inv_file_update [OF inv])
    then show ?thesis by (rule device_ok_elsewhere [OF assms(1)]) (simp_all add: b(3))
  qed (use assms in simp)
qed

lemma received_ok:
  assumes "CallbackReceiveMessage now t maxLen maxConn queued = (t', port, r)" "device_ok (dev t)"
    and "\<And>data from scope fromPort. queued = Some (data, from, scope, fromPort) \<Longrightarrow>
       length from = unat (TransportAddressLength (dev t))"
  shows "device_ok (dev t')"
proof -
  have sc: "device_ok (d\<lparr>sc := n\<rparr>)" if "device_ok d" for d n
    by (rule device_ok_elsewhere [OF that]) (use that in \<open>simp_all add: device_ok_def\<close>)
  have udp: "device_ok (dev s)" if rec: "ReceiveFromUdp now t maxLen maxConn queued = (s, q)"
      "dataLink (g_options (dev t)) = IPv4 \<or> dataLink (g_options (dev t)) = IPv6" for s q
  proof -
    have reply: "device_ok (HandleReplyFromPeer now d1 m k a pt)" if "device_ok d1" for d1 m k a pt
      using that HandleReplyFromPeer_ok HandleReplyFromPeer_frame
      by (intro device_ok_frame) (auto simp: device_ok_def)
    have last: "device_ok ((dev t)\<lparr>g_lastPeerIp := take 4 a, g_lastPeerPort := pt, g_hasLastPeer := True\<rparr>)"
      if "length a = 4" for a pt
    proof (rule device_ok_elsewhere [OF assms(2)])
      have "device_inv (dev t)" using assms(2) by (simp add: device_ok_def)
      with that show "device_inv ((dev t)\<lparr>g_lastPeerIp := take 4 a, g_lastPeerPort := pt, g_hasLastPeer := True\<rparr>)"
        unfolding device_inv_def by simp
    qed simp_all
    show ?thesis
      using rec assms(2) reply last assms(3)
      by (auto simp: ReceiveFromUdp_def Let_def UdpReceive_def Receive6_def TransportAddressLength_def
          split: if_splits option.splits prod.splits)
  qed
  show ?thesis
    using assms(1,2) udp sc
    by (cases "dataLink (g_options (dev t))")
      (auto simp: CallbackReceiveMessage_def Let_def split: prod.splits if_splits)
qed

lemma callback_ok:
  assumes "callback d d'" "device_ok d"
  shows "device_ok d'"
  using assms
proof (induction rule: callback.induct)
  case (set_real d di ot oi p v w)
  then show ?case by (intro device_ok_elsewhere [OF set_real]) (simp_all add: device_ok_def SetProperty_inv)
next
  case (set_enumerated d di ot oi p u w)
  then show ?case by (intro device_ok_elsewhere [OF set_enumerated]) (simp_all add: device_ok_def SetProperty_inv)
next
  case (set_unsigned d env di ot oi p u w)
  then show ?case by (intro device_ok_elsewhere [OF set_unsigned]) (simp_all add: device_ok_def SetProperty_inv)
next
  case (set_null d di ot oi p w)
  then show ?case by (intro device_ok_elsewhere [OF set_null]) (simp_all add: device_ok_def SetProperty_inv)
next
  case (set_bool d di ot oi p b)
  then show ?case by (intro device_ok_elsewhere [OF set_bool]) (simp_all add: device_ok_def SetProperty_inv)
next
  case (write_file env d di fi start data d' r)
  then show ?case using WriteFile_ok by blast
next
  case (restart d now kind delay)
  then show ?case by (intro device_ok_elsewhere [OF restart]) (auto simp: device_ok_def RequestRestart_def Let_def split: option.split)
next
  case (node d n)
  then show ?case by (intro device_ok_elsewhere [OF node]) (simp_all add: device_ok_def)
next
  case (clock d cenv di year month day hour minute second)
  then show ?case by (intro device_ok_elsewhere [OF clock]) (auto simp: device_ok_def SetSystemTime_def Let_def)
next
  case (i_am connString len d now inst sourceNetwork)
  then show ?case using HookIAm_frame HookIAm_ok by (intro device_ok_frame [of d]) (auto simp: device_ok_def)
next
  case (received now t maxLen maxConn queued t' port r d)
  then show ?case using received_ok by metis
qed

lemma callbacks_ok: "callback\<^sup>*\<^sup>* d d' \<Longrightarrow> device_ok d \<Longrightarrow> device_ok d'"
  by (induction rule: rtranclp_induct) (auto intro: callback_ok)

section \<open>The loop\<close>

lemma device_ok_calls: "device_ok d \<Longrightarrow> device_ok (d\<lparr>stackCalls := cs\<rparr>)"
  by (rule device_ok_elsewhere) (simp_all add: device_ok_def)

lemma broadcast_ok: "device_ok d \<Longrightarrow> device_ok (SendIAmBroadcast d)" "device_ok d \<Longrightarrow> device_ok (SendWhoIsBroadcast d)"
  by (auto simp: SendIAmBroadcast_def SendWhoIsBroadcast_def device_ok_calls Let_def split: DataLink.split)

lemma node_ok: "device_ok d \<Longrightarrow> device_ok (d\<lparr>sc := n\<rparr>)"
  using callback_ok [OF node] .

lemma power_on_ok:
  assumes "device_ok d"
  shows "device_ok (power_on d)"
proof (rule device_ok_elsewhere [OF assms])
  have "device_inv d" using assms by (simp add: device_ok_def)
  then show "device_inv (power_on d)" unfolding device_inv_def by (simp add: power_on_def)
qed (simp_all add: power_on_def)

lemma RestartStep_ok:
  assumes "device_ok d"
  shows "device_ok (RestartStep now d)"
proof -
  have "device_ok (d\<lparr>g_restart := None\<rparr>)"
    by (rule device_ok_elsewhere [OF assms]) (use assms in \<open>simp_all add: device_ok_def\<close>)
  then show ?thesis
    using assms by (auto simp: RestartStep_def RestartDue_def power_on_ok broadcast_ok split: option.split)
qed

lemma PollPeer_device_ok: "device_ok d \<Longrightarrow> device_ok (PollPeer now sent d)"
  using PollPeer_frame PollPeer_ok by (intro device_ok_frame [of d]) (auto simp: device_ok_def)

lemma DataLinkStep_ok:
  "device_ok d \<Longrightarrow> DataLinkStep startTime i d pending = (d', pending', announced) \<Longrightarrow> device_ok d'"
  by (auto simp: DataLinkStep_def announce_def broadcast_ok node_ok split: if_splits prod.splits)

lemma KeyStep_ok: "device_ok (lp_device s) \<Longrightarrow> device_ok (lp_device (KeyStep clock key s))"
proof -
  assume ok: "device_ok (lp_device s)"
  then have inv: "device_inv (lp_device s)" by (simp add: device_ok_def)
  have "device_inv ((lp_device s)\<lparr>g_analogInput1Value := v\<rparr>)" for v
    using inv unfolding device_inv_def by simp
  then have "device_ok ((lp_device s)\<lparr>g_analogInput1Value := v\<rparr>)" for v
    by (rule device_ok_elsewhere [OF ok]) simp_all
  with ok show ?thesis by (simp add: KeyStep_def split: KeyCommand.split)
qed

definition link_world_ok :: "link_world \<Rightarrow> bool" where
  "link_world_ok w \<longleftrightarrow>
     (\<forall>ip netmask. localIPv4 w = Some (ip, netmask) \<longrightarrow> length ip = 4 \<and> length netmask = 4) \<and>
     (\<forall>a. localIPv6 w = Some a \<longrightarrow> length (address a) = 16 \<and> length (defaultGateway a) = 16 \<and> length (dnsServer a) = 16)"

lemma device_ok_link:
  assumes "device_ok d"
  shows "device_ok (d\<lparr>g_bacnetIpUdpPort := p\<rparr>)" "device_ok (d\<lparr>g_linkSpeedBitsPerSecond := f\<rparr>)"
    "length ip = 4 \<Longrightarrow> length netmask = 4 \<Longrightarrow> device_ok (d\<lparr>g_ipAddress := ip, g_ipSubnetMask := netmask\<rparr>)"
    "length (address a) = 16 \<Longrightarrow> length (defaultGateway a) = 16 \<Longrightarrow> length (dnsServer a) = 16 \<Longrightarrow>
     device_ok (d\<lparr>g_ipv6Address := a\<rparr>)"
proof -
  have inv: "device_inv d" using assms by (simp add: device_ok_def)
  note elsewhere = device_ok_elsewhere [OF assms]
  show "device_ok (d\<lparr>g_bacnetIpUdpPort := p\<rparr>)" "device_ok (d\<lparr>g_linkSpeedBitsPerSecond := f\<rparr>)"
    by (rule elsewhere; use inv in \<open>(unfold device_inv_def)?\<close>; simp)+
  show "device_ok (d\<lparr>g_ipAddress := ip, g_ipSubnetMask := netmask\<rparr>)" if "length ip = 4" "length netmask = 4"
    by (rule elsewhere; use inv that in \<open>(unfold device_inv_def)?\<close>; simp)
  show "device_ok (d\<lparr>g_ipv6Address := a\<rparr>)"
    if "length (address a) = 16" "length (defaultGateway a) = 16" "length (dnsServer a) = 16"
    by (rule elsewhere; use inv that in \<open>(unfold device_inv_def)?\<close>; simp)
qed

lemma OpenDataLink_ok:
  assumes "OpenDataLink w d = Some d'" "device_ok d" "link_world_ok w"
  shows "device_ok d'"
proof -
  let ?d = "d\<lparr>g_bacnetIpUdpPort := udpPort (g_options d)\<rparr>"
  have a: "device_ok ?d" by (rule device_ok_link(1) [OF assms(2)])
  have b: "device_ok (case localIPv4 w of None \<Rightarrow> ?d
      | Some (ip, netmask) \<Rightarrow> ?d\<lparr>g_ipAddress := ip, g_ipSubnetMask := netmask\<rparr>)"
    using a assms(3) device_ok_link(3) [OF a]
    by (cases "localIPv4 w") (simp_all add: link_world_ok_def split: prod.split)
  have c: "device_ok (?d\<lparr>g_ipv6Address := (case localIPv6 w of None \<Rightarrow> no_ipv6_address | Some x \<Rightarrow> x)\<rparr>)"
    using assms(3) by (intro device_ok_link(4) [OF a])
      (simp_all add: link_world_ok_def no_ipv6_address_def split: option.split)
  have d: "device_ok (case linkSpeed w of None \<Rightarrow> x | Some f \<Rightarrow> x\<lparr>g_linkSpeedBitsPerSecond := f\<rparr>)"
    if "device_ok x" for x
    using that device_ok_link(2) by (simp split: option.split)
  show ?thesis
    using assms(1) a d [OF b] d [OF c] unfolding OpenDataLink_def Let_def
    by (simp split: DataLink.split_asm if_split_asm)
qed

lemma start_device_ok:
  assumes "start_device lw w argv d0 = Started d cs pending" "device_ok d0" "link_world_ok lw"
  shows "device_ok d"
proof -
  have adopt: "device_ok (adopt_options argv d0)"
  proof (rule device_ok_elsewhere [OF assms(2)])
    have "device_inv d0" using assms(2) by (simp add: device_ok_def)
    then show "device_inv (adopt_options argv d0)" unfolding device_inv_def by (simp add: adopt_options_def)
  qed (simp_all add: adopt_options_def)
  obtain d2 where d2: "OpenDataLink lw (adopt_options argv d0) = Some d2"
    using assms(1) by (auto simp: start_device_def Let_def split: if_splits option.splits)
  have ok2: "device_ok d2" by (rule OpenDataLink_ok [OF d2 adopt assms(3)])
  have "d \<in> {d3, SendWhoIsBroadcast (SendIAmBroadcast d3)}"
    if "d3 = (if dataLink (g_options d2) = SC
       then d2\<lparr>sc := (sc d2)\<lparr>g_primaryHubUri := scPrimaryHubUri (g_options d2),
                             g_failoverHubUri := scFailoverHubUri (g_options d2)\<rparr>\<rparr>
       else d2)" for d3
    using assms(1) unfolding start_device_def Let_def d2 that
    by (auto split: if_split_asm prod.split_asm bool.split_asm)
  then show ?thesis using ok2 node_ok [OF ok2] broadcast_ok by (auto split: if_splits)
qed

text \<open>The states of the loop: any start, then passes whose tick is any sequence of callbacks.\<close>

inductive loop_reachable :: "device \<Rightarrow> loop_state \<Rightarrow> bool" where
  started: "start_device lw w argv (new_device withSc opts n) = Started d cs pending \<Longrightarrow> link_world_ok lw \<Longrightarrow>
    loop_reachable d (loop_start d pending)"
| pass: "loop_reachable d s \<Longrightarrow> lp_running s \<Longrightarrow> callback\<^sup>*\<^sup>* (lp_device s) (tick i (lp_device s)) \<Longrightarrow>
    loop_reachable d (fst (loop_pass startTime i s))"

text \<open>What no callback and no pass changes.\<close>

definition same_setup :: "device \<Rightarrow> device \<Rightarrow> bool" where
  "same_setup d d' \<longleftrightarrow> dataLink (g_options d') = dataLink (g_options d) \<and> udpPort (g_options d') = udpPort (g_options d) \<and>
     g_deviceInstance d' = g_deviceInstance d \<and> g_deviceName d' = g_deviceName d \<and>
     BBC_WITH_SC d' = BBC_WITH_SC d \<and> DCC_PASSWORD d' = DCC_PASSWORD d"

lemma same_setup_refl [simp]: "same_setup d d"
  by (simp add: same_setup_def)

lemma same_setup_trans: "same_setup a b \<Longrightarrow> same_setup b c \<Longrightarrow> same_setup a c"
  by (simp add: same_setup_def)

lemma peer_frame_setup: "peer_frame d d' \<Longrightarrow> same_setup d d'"
  unfolding peer_frame_def by (elim exE) (simp add: same_setup_def)

lemma WriteFile_setup:
  "WriteFile env d di fi start data = Some (d', r) \<Longrightarrow> same_setup d d'"
proof (cases "di = g_deviceInstance d \<and> IsScCertificateFile d OBJECT_TYPE_FILE fi")
  case True
  assume "WriteFile env d di fi start data = Some (d', r)"
  with True obtain n where "d' = d\<lparr>sc := n\<rparr>" by (auto simp: WriteFile_def split: prod.splits)
  then show ?thesis by (simp add: same_setup_def)
next
  case False
  assume w: "WriteFile env d di fi start data = Some (d', r)"
  have "d' = d \<or> (\<exists>b n. d' = d\<lparr>g_fileData := b, g_fileDataLength := n\<rparr>)"
    using w unfolding WriteFile_def if_not_P [OF False] Let_def
    by (simp only: split: if_split_asm option.split_asm) blast+
  then show ?thesis by (auto simp: same_setup_def)
qed

lemma received_setup: "CallbackReceiveMessage now t maxLen maxConn queued = (t', port, r) \<Longrightarrow> same_setup (dev t) (dev t')"
proof -
  have reply: "same_setup d (HandleReplyFromPeer now (d\<lparr>g_lastPeerIp := a, g_lastPeerPort := p, g_hasLastPeer := h\<rparr>) m k a' p')"
    for d a p h m k a' p'
    using peer_frame_setup [OF HandleReplyFromPeer_frame] by (rule same_setup_trans [rotated]) (simp add: same_setup_def)
  have udp: "same_setup (dev t) (dev s)" if "ReceiveFromUdp now t maxLen maxConn queued = (s, q)" for s q
    using that reply peer_frame_setup [OF HandleReplyFromPeer_frame]
    by (auto simp: ReceiveFromUdp_def Let_def UdpReceive_def Receive6_def split: if_splits option.splits prod.splits)
  assume "CallbackReceiveMessage now t maxLen maxConn queued = (t', port, r)"
  then show ?thesis
    using udp by (cases "dataLink (g_options (dev t))")
      (auto simp: CallbackReceiveMessage_def Let_def same_setup_def split: prod.splits if_splits)
qed

lemma callback_setup: "callback d d' \<Longrightarrow> same_setup d d'"
proof (induction rule: callback.induct)
  case (write_file env d di fi start data d' r)
  then show ?case by (rule WriteFile_setup)
next
  case (i_am connString len d now inst sourceNetwork)
  then show ?case using peer_frame_setup [OF HookIAm_frame] by blast
next
  case (received now t maxLen maxConn queued t' port r d)
  then show ?case using received_setup by blast
qed (auto simp: same_setup_def SetPropertyReal_def SetPropertyEnumerated_def SetPropertyUnsignedInteger_def
      SetDataLinkPortUnsigned_def SetPropertyNull_def SetPropertyBool_def RequestRestart_def SetSystemTime_def Let_def
      split: prod.split option.split commandable_ref.split)

lemma callbacks_setup: "callback\<^sup>*\<^sup>* d d' \<Longrightarrow> same_setup d d'"
  by (induction rule: rtranclp_induct) (auto intro: same_setup_trans callback_setup)

lemma broadcast_setup: "same_setup d (SendIAmBroadcast d)" "same_setup d (SendWhoIsBroadcast d)"
  by (simp_all add: SendIAmBroadcast_def SendWhoIsBroadcast_def same_setup_def Let_def split: DataLink.split)

lemma announce_setup: "same_setup d (announce d)"
  unfolding announce_def by (rule same_setup_trans [OF broadcast_setup])

lemma RestartStep_setup: "same_setup d (RestartStep now d)"
proof -
  have "same_setup d (d\<lparr>g_restart := None\<rparr>)" "same_setup d (power_on (d\<lparr>g_restart := None\<rparr>))"
    by (simp_all add: same_setup_def power_on_def)
  then show ?thesis
    using same_setup_trans [OF _ broadcast_setup(1)] by (auto simp: RestartStep_def RestartDue_def split: option.split)
qed

lemma DataLinkStep_setup:
  assumes "DataLinkStep startTime i d pending = (d', pending', announced)"
  shows "same_setup d d'"
proof -
  have "same_setup d (d\<lparr>sc := n\<rparr>)" for n by (simp add: same_setup_def)
  then show ?thesis
    using assms announce_setup same_setup_trans [OF _ announce_setup]
    by (auto simp: DataLinkStep_def split: if_splits prod.splits)
qed

lemma KeyStep_setup: "same_setup (lp_device s) (lp_device (KeyStep clock key s))"
  by (simp add: KeyStep_def same_setup_def split: KeyCommand.split)

lemma loop_pass_keeps:
  assumes "loop_pass startTime i s = (s', announced)" "callback\<^sup>*\<^sup>* (lp_device s) (tick i (lp_device s))"
  shows "same_setup (lp_device s) (lp_device s')"
    "device_ok (lp_device s) \<Longrightarrow> device_ok (lp_device s')"
proof -
  obtain d1 p1 a1 where d1: "DataLinkStep startTime i (tick i (lp_device s)) (lp_pending s) = (d1, p1, a1)"
    by (metis surj_pair)
  let ?d2 = "RestartStep (monotonicNow i) (PollPeer (steadyNow i) (pollSent i) d1)"
  have s': "s' = KeyStep (passClock i) (PollKey (keyOctets i)) (s\<lparr>lp_device := ?d2, lp_pending := p1\<rparr>)"
    using assms(1) by (simp add: loop_pass_def d1 Let_def)
  have "same_setup (lp_device s) ?d2"
    by (rule same_setup_trans [OF callbacks_setup [OF assms(2)]],
        rule same_setup_trans [OF DataLinkStep_setup [OF d1]],
        rule same_setup_trans [OF peer_frame_setup [OF PollPeer_frame] RestartStep_setup])
  then show "same_setup (lp_device s) (lp_device s')"
    unfolding s' using same_setup_trans [OF _ KeyStep_setup] by simp
  show "device_ok (lp_device s')" if ok: "device_ok (lp_device s)"
  proof -
    have "device_ok ?d2"
      by (intro RestartStep_ok PollPeer_device_ok DataLinkStep_ok [OF _ d1] callbacks_ok [OF assms(2) ok])
    then show ?thesis unfolding s' by (intro KeyStep_ok) simp
  qed
qed


text \<open>One pass after a start on BACnet/IP: the stack writes an output and the operator presses an arrow.\<close>

definition demo_link :: link_world where
  "demo_link = \<lparr>udpConnected = True, localIPv4 = Some ([10, 0, 0, 2], [255, 255, 255, 0]), localIPv6 = None,
     linkSpeed = None, serialOpened = True, certificatesReady = True\<rparr>"

definition demo_pass :: pass_input where
  "demo_pass = \<lparr>tick = (\<lambda>d. ao_write d 8 0x42960000), inTokenRing = False, steadyNow = 1000000, hubEvents = (\<lambda>n. n),
     statusReaction = (\<lambda>e n. n), hubUris = [], contextMade = True, pollSent = None, monotonicNow = 1,
     keyOctets = [CHR 0x1B, CHR ''['', CHR ''A''], passClock = demo_clock\<rparr>"

lemma obliging_start:
  assumes "dataLink (g_options d0) \<noteq> SC" "importCariZip (g_options d0) = ''''" "OpenDataLink lw (adopt_options argv d0) = Some d"
    "dataLink (g_options d) = dataLink (g_options d0)"
  shows "\<exists>cs. start_device lw obliging_stack argv d0 =
    (if IsIpDataLink d then Started (SendWhoIsBroadcast (SendIAmBroadcast d)) cs False else Started d cs True)"
proof -
  have "performs (stackAccepts obliging_stack) (configure_device obliging_stack d) [] (all_calls obliging_stack d)"
    using assms(1,4) by (intro configure_performs) auto
  then have "configure_device obliging_stack d [] = (all_calls obliging_stack d, True)"
    by (auto simp: performs_def obliging_stack_def)
  then show ?thesis
    using assms by (simp add: start_device_def Let_def adopt_options_def)
qed


end
