(* ===== verification/Main_Loop_Properties.thy ===== *)
theory Main_Loop_Properties
  imports Loop_Invariant
begin

text \<open>
  The correctness properties of the main loop: the effects of a deferred restart, and when the device
  announces itself.
\<close>

section \<open>The deferred restart\<close>

text \<open>The I-Am a broadcast sends: one, except on BACnet/SC without a hub.\<close>

definition can_announce :: "device \<Rightarrow> bool" where
  "can_announce d \<longleftrightarrow> dataLink (g_options d) \<noteq> SC \<or> BBC_WITH_SC d \<and> ConnectedHubUri (sc d) \<noteq> ''''"

definition is_i_am :: "device \<Rightarrow> stack_call \<Rightarrow> bool" where
  "is_i_am d c \<longleftrightarrow> (\<exists>a. c = SendIAm (g_deviceInstance d) a (ActiveNetworkPortInstance d) 0)"

lemma SendIAmBroadcast_call:
  "if can_announce d then \<exists>c. is_i_am d c \<and> SendIAmBroadcast d = d\<lparr>stackCalls := stackCalls d @ [c]\<rparr>
   else SendIAmBroadcast d = d"
  by (cases "dataLink (g_options d)")
    (auto simp: can_announce_def is_i_am_def SendIAmBroadcast_def ActiveNetworkPortInstance_def Let_def)


section \<open>Announcements\<close>

text \<open>When an MS/TP station may speak, or has waited long enough.\<close>

definition mstp_due :: "int \<Rightarrow> pass_input \<Rightarrow> bool" where
  "mstp_due startTime i \<longleftrightarrow> inTokenRing i \<or> 10000 < MillisecondsSince (steadyNow i) startTime"

lemma loop_pass_announces:
  assumes "loop_pass startTime i s = (s', a)" "callback\<^sup>*\<^sup>* (lp_device s) (tick i (lp_device s))"
  shows "dataLink (g_options (lp_device s)) = MSTP \<Longrightarrow>
      a = (lp_pending s \<and> mstp_due startTime i) \<and> lp_pending s' = (lp_pending s \<and> \<not> mstp_due startTime i)"
    "IsIpDataLink (lp_device s) \<Longrightarrow> \<not> a"
proof -
  have link: "dataLink (g_options (tick i (lp_device s))) = dataLink (g_options (lp_device s))"
    using callbacks_setup [OF assms(2)] by (simp add: same_setup_def)
  obtain d1 p1 a1 where d1: "DataLinkStep startTime i (tick i (lp_device s)) (lp_pending s) = (d1, p1, a1)"
    by (metis surj_pair)
  have pend: "lp_pending (KeyStep clock key x) = lp_pending x" for clock key x
    by (simp add: KeyStep_def split: KeyCommand.split)
  have s': "a = a1" "lp_pending s' = p1"
    using assms(1) by (auto simp: loop_pass_def d1 Let_def pend)
  show "dataLink (g_options (lp_device s)) = MSTP \<Longrightarrow>
      a = (lp_pending s \<and> mstp_due startTime i) \<and> lp_pending s' = (lp_pending s \<and> \<not> mstp_due startTime i)"
    using d1 unfolding s' by (auto simp: DataLinkStep_def link mstp_due_def split: if_splits)
  show "IsIpDataLink (lp_device s) \<Longrightarrow> \<not> a"
    using d1 unfolding s' by (auto simp: DataLinkStep_def link IsIpDataLink_def split: if_splits)
qed

lemma run_loop_announces:
  assumes "run_loop startTime is s = (s', as)" "\<forall>i \<in> set is. \<forall>x. callback\<^sup>*\<^sup>* x (tick i x)"
  shows "length as \<le> length is \<and>
    (dataLink (g_options (lp_device s)) = MSTP \<longrightarrow> (\<forall>k < length as. as ! k \<longleftrightarrow>
       lp_pending s \<and> mstp_due startTime (is ! k) \<and> (\<forall>j < k. \<not> mstp_due startTime (is ! j)))) \<and>
    (IsIpDataLink (lp_device s) \<longrightarrow> True \<notin> set as)"
  using assms
proof (induction "is" arbitrary: s as)
  case (Cons i "is")
  show ?case
  proof (cases "lp_running s")
    case True
    obtain s1 a where p: "loop_pass startTime i s = (s1, a)" by (metis surj_pair)
    obtain bs where bs: "run_loop startTime is s1 = (s', bs)" "as = a # bs"
      using Cons.prems(1) True by (auto simp: p split: prod.splits)
    have c: "callback\<^sup>*\<^sup>* (lp_device s) (tick i (lp_device s))" using Cons.prems(2) by simp
    note A = loop_pass_announces [OF p c]
    have link: "dataLink (g_options (lp_device s1)) = dataLink (g_options (lp_device s))"
      using loop_pass_keeps(1) [OF p c] by (simp add: same_setup_def)
    have ip: "IsIpDataLink (lp_device s1) = IsIpDataLink (lp_device s)" by (simp add: IsIpDataLink_def link)
    have IH: "length bs \<le> length is \<and>
        (dataLink (g_options (lp_device s)) = MSTP \<longrightarrow> (\<forall>k < length bs. bs ! k \<longleftrightarrow>
           lp_pending s1 \<and> mstp_due startTime (is ! k) \<and> (\<forall>j < k. \<not> mstp_due startTime (is ! j)))) \<and>
        (IsIpDataLink (lp_device s) \<longrightarrow> True \<notin> set bs)"
      using Cons.IH [OF bs(1)] Cons.prems(2) unfolding link ip by simp
    show ?thesis
    proof (intro conjI impI allI)
      show "length as \<le> length (i # is)" using IH bs(2) by simp
      show "True \<notin> set as" if "IsIpDataLink (lp_device s)" using that A(2) IH bs(2) by auto
      fix k assume m: "dataLink (g_options (lp_device s)) = MSTP" and k: "k < length as"
      show "as ! k \<longleftrightarrow> lp_pending s \<and> mstp_due startTime ((i # is) ! k) \<and>
          (\<forall>j < k. \<not> mstp_due startTime ((i # is) ! j))"
      proof (cases k)
        case 0
        then show ?thesis using A(1) [OF m] bs(2) by simp
      next
        case (Suc k')
        then show ?thesis using A(1) [OF m] bs(2) IH m k by (auto simp: less_Suc_eq_0_disj)
      qed
    qed
  qed (use Cons.prems in auto)
qed simp

lemma run_loop_length:
  assumes "\<And>i x. i \<in> set is \<Longrightarrow> lp_running (fst (loop_pass startTime i x)) = lp_running x" "lp_running s"
  shows "length (snd (run_loop startTime is s)) = length is"
  using assms
proof (induction "is" arbitrary: s)
  case (Cons i "is")
  obtain s1 a where p: "loop_pass startTime i s = (s1, a)" by (metis surj_pair)
  have "lp_running s1" using Cons.prems(1) [of i s] Cons.prems(2) by (simp add: p)
  then have "length (snd (run_loop startTime is s1)) = length is"
    using Cons.IH Cons.prems(1) by simp
  moreover obtain s2 as where "run_loop startTime is s1 = (s2, as)" by (metis surj_pair)
  ultimately show ?case using Cons.prems(2) by (simp add: p)
qed simp

definition broadcast_address :: "device \<Rightarrow> bytes" where
  "broadcast_address d =
     (if dataLink (g_options d) = IPv6 then Ipv6MulticastConnectionString d else LocalBroadcastConnString d)"


text \<open>An MS/TP station that joins the token ring in its second pass.\<close>

definition ring_pass :: "bool \<Rightarrow> pass_input" where
  "ring_pass inRing = demo_pass\<lparr>tick := (\<lambda>d. d), inTokenRing := inRing, keyOctets := []\<rparr>"


end
