(* ===== verification/Spec2Isabelle.thy ===== *)
theory Spec2Isabelle
  imports Device_Properties Frame_Properties Command_Line_Properties Transport_Properties Socket_Properties
    Request_Properties Cari_Rules_Properties Cari_Disk_Properties Node_Start_Properties Startup_Properties Main_Loop_Properties
begin

text \<open>
  A BACnet building controller (the B-BC profile example), verified.
\<close>

end
